(* ===== verification/Prelude.thy ===== *)
theory Prelude
  imports "HOL-Library.State_Monad" "HOL-Library.Word" "HOL-Library.Sublist"
begin

text \<open>
  Shared vocabulary of the development: the sequential composition of effects (the state monad of
  the library, with the early-return combinator that Go's \<^verbatim>\<open>if err != nil { return ... }\<close>
  becomes), weakest preconditions of such programs, invariants of their state changes, and the
  generic list facts that the tables of the store rely on.
\<close>

named_theorems wp_simps "weakest preconditions of the effects"
named_theorems wp_err "effects that may fail, with one premise for each outcome"
named_theorems io_rel "introduction rules for relations kept by effects"

abbreviation return :: "'a \<Rightarrow> ('s, 'a) state" where
  "return \<equiv> State_Monad.return"

subsection \<open>Effects\<close>

definition gets :: "('s \<Rightarrow> 'a) \<Rightarrow> ('s, 'a) state" where
  "gets f = State (\<lambda>s. (f s, s))"

definition modify :: "('s \<Rightarrow> 's) \<Rightarrow> ('s, unit) state" where
  "modify f = State (\<lambda>s. ((), f s))"

text \<open>
  \<open>on_err m h f\<close> is \<^verbatim>\<open>x, err := m; if err != nil { h } ; f\<close>: run \<open>m\<close>, leave through \<open>h\<close> on
  an error, go on with \<open>f\<close> otherwise.
\<close>

definition on_err ::
    "('s, 'e + 'a) state \<Rightarrow> ('e \<Rightarrow> ('s, 'b) state) \<Rightarrow> ('a \<Rightarrow> ('s, 'b) state) \<Rightarrow> ('s, 'b) state" where
  "on_err m h f = do { r \<leftarrow> m; case r of Inl e \<Rightarrow> h e | Inr a \<Rightarrow> f a }"

text \<open>What an effect returns, and the state it leaves.\<close>

abbreviation returns :: "('s, 'a) state \<Rightarrow> 's \<Rightarrow> 'a" where
  "returns m s \<equiv> fst (run_state m s)"

abbreviation leaves :: "('s, 'a) state \<Rightarrow> 's \<Rightarrow> 's" where
  "leaves m s \<equiv> snd (run_state m s)"

text \<open>A result whose error is passed on to the caller, after a change of the error value.\<close>

definition map_err :: "('e \<Rightarrow> 'e) \<Rightarrow> ('s, 'e + 'a) state \<Rightarrow> ('s, 'e + 'a) state" where
  "map_err g m = do { r \<leftarrow> m; return (map_sum g id r) }"

lemma run_state_gets [simp]: "run_state (gets f) s = (f s, s)"
  by (simp add: gets_def)

lemma run_state_modify [simp]: "run_state (modify f) s = ((), f s)"
  by (simp add: modify_def)

lemma run_state_on_err:
  "run_state (on_err m h f) s =
     (case run_state m s of (r, s') \<Rightarrow>
        (case r of Inl e \<Rightarrow> run_state (h e) s' | Inr a \<Rightarrow> run_state (f a) s'))"
  by (simp add: on_err_def split: prod.splits sum.splits)

lemma run_state_map_err:
  "run_state (map_err g m) s = (case run_state m s of (r, s') \<Rightarrow> (map_sum g id r, s'))"
  by (simp add: map_err_def split: prod.splits)

subsection \<open>Weakest preconditions\<close>

definition wp :: "('s, 'a) state \<Rightarrow> ('a \<Rightarrow> 's \<Rightarrow> bool) \<Rightarrow> 's \<Rightarrow> bool" where
  "wp m Q s = (case run_state m s of (a, s') \<Rightarrow> Q a s')"

lemma wp_result: "wp m Q s \<longleftrightarrow> Q (returns m s) (leaves m s)"
  by (simp add: wp_def case_prod_beta)

lemma wp_any: "(\<And>a s'. Q a s') \<Longrightarrow> wp m Q s"
  by (simp add: wp_result)

lemma wp_return [wp_simps]: "wp (return a) Q s = Q a s"
  by (simp add: wp_def)

lemma wp_return_eta: "wp (return a) Q = Q a"
  by (simp add: wp_return fun_eq_iff)

lemma wp_bind [wp_simps]: "wp (State_Monad.bind m f) Q s = wp m (\<lambda>a. wp (f a) Q) s"
  by (simp add: wp_def split: prod.splits)

lemma wp_gets [wp_simps]: "wp (gets f) Q s = Q (f s) s"
  by (simp add: wp_def)

lemma wp_modify [wp_simps]: "wp (modify f) Q s = Q () (f s)"
  by (simp add: wp_def)

lemma wp_on_err [wp_simps]:
  "wp (on_err m h f) Q s = wp m (\<lambda>r. case r of Inl e \<Rightarrow> wp (h e) Q | Inr a \<Rightarrow> wp (f a) Q) s"
  by (simp add: wp_def run_state_on_err split: prod.splits sum.splits)

text \<open>
  The form in which a failing effect is dealt with by introduction rules: the two continuations of
  \<^const>\<open>on_err\<close> are the two arguments of \<^const>\<open>case_sum\<close>.
\<close>

lemma wp_on_errI:
  "wp m (case_sum (\<lambda>e. wp (h e) Q) (\<lambda>a. wp (f a) Q)) s \<Longrightarrow> wp (on_err m h f) Q s"
  by (simp add: wp_on_err)

lemma wp_map_err [wp_simps]:
  "wp (map_err g m) Q s = wp m (\<lambda>r. Q (map_sum g id r)) s"
  by (simp add: wp_def run_state_map_err split: prod.splits)

lemma wp_mono:
  assumes "wp m P s" and "\<And>a s'. P a s' \<Longrightarrow> Q a s'"
  shows "wp m Q s"
  using assms by (auto simp: wp_def split: prod.splits)

lemma wp_conj: "wp m P s \<Longrightarrow> wp m Q s \<Longrightarrow> wp m (\<lambda>a s'. P a s' \<and> Q a s') s"
  by (auto simp: wp_def split: prod.splits)

lemma wpD: "wp m Q s \<Longrightarrow> run_state m s = (a, s') \<Longrightarrow> Q a s'"
  by (simp add: wp_def)

lemma wpI: "(\<And>a s'. run_state m s = (a, s') \<Longrightarrow> Q a s') \<Longrightarrow> wp m Q s"
  by (auto simp: wp_def split: prod.splits)

subsection \<open>Relations between the state before and after an effect\<close>

text \<open>
  \<^const>\<open>state_io_rel\<close> of the library says that an effect moves the state along a relation. For a
  preorder this is closed under everything programs are built from; the locale collects the rules,
  so that a handler is dealt with by \<open>intro io_rel\<close> once its store operations are.
\<close>

locale history =
  fixes R :: "'s \<Rightarrow> 's \<Rightarrow> bool"
  assumes refl: "R s s"
    and trans: "R s t \<Longrightarrow> R t u \<Longrightarrow> R s u"
begin

lemma io_rel_return [io_rel]: "state_io_rel R (return a)"
  by (auto simp: refl)

lemma io_rel_gets [io_rel]: "state_io_rel R (gets f)"
  by (auto simp: refl)

lemma io_rel_bind [io_rel]:
  "state_io_rel R m \<Longrightarrow> (\<And>a. state_io_rel R (f a)) \<Longrightarrow> state_io_rel R (State_Monad.bind m f)"
  by (fastforce simp: state_io_rel_def intro: trans split: prod.splits)

lemma io_rel_on_err [io_rel]:
  assumes "state_io_rel R m" "\<And>e. state_io_rel R (h e)" "\<And>a. state_io_rel R (f a)"
  shows "state_io_rel R (on_err m h f)"
  unfolding on_err_def
  by (rule io_rel_bind) (auto simp: assms split: sum.splits)

lemma io_rel_map_err [io_rel]: "state_io_rel R m \<Longrightarrow> state_io_rel R (map_err g m)"
  unfolding map_err_def by (intro io_rel_bind io_rel_return)

lemma io_rel_if [io_rel]:
  "(b \<Longrightarrow> state_io_rel R m) \<Longrightarrow> (\<not> b \<Longrightarrow> state_io_rel R n) \<Longrightarrow> state_io_rel R (if b then m else n)"
  by simp

lemma io_rel_option [io_rel]:
  "(x = None \<Longrightarrow> state_io_rel R m) \<Longrightarrow> (\<And>a. x = Some a \<Longrightarrow> state_io_rel R (f a)) \<Longrightarrow>
     state_io_rel R (case x of None \<Rightarrow> m | Some a \<Rightarrow> f a)"
  by (cases x) simp_all

lemma io_rel_sum [io_rel]:
  "(\<And>a. x = Inl a \<Longrightarrow> state_io_rel R (g a)) \<Longrightarrow> (\<And>a. x = Inr a \<Longrightarrow> state_io_rel R (f a)) \<Longrightarrow>
     state_io_rel R (case x of Inl a \<Rightarrow> g a | Inr a \<Rightarrow> f a)"
  by (cases x) simp_all

lemma io_rel_prod [io_rel]:
  "(\<And>a b. x = (a, b) \<Longrightarrow> state_io_rel R (f a b)) \<Longrightarrow> state_io_rel R (case x of (a, b) \<Rightarrow> f a b)"
  by (cases x) simp

lemma io_rel_let [io_rel]:
  "(\<And>a. a = x \<Longrightarrow> state_io_rel R (f a)) \<Longrightarrow> state_io_rel R (Let x f)"
  by simp

end

lemma state_io_rel_wp: "state_io_rel R m \<longleftrightarrow> (\<forall>s. wp m (\<lambda>_. R s) s)"
  by (simp add: state_io_rel_def wp_def case_prod_beta)

subsection \<open>Lists that only grow, their elements moving along a relation\<close>

text \<open>
  \<open>grows le xs ys\<close>: \<open>ys\<close> is \<open>xs\<close> with elements replaced by \<open>le\<close>-larger ones, and with new
  elements at the end. It is how a table evolves when rows are inserted and updated, not deleted.
\<close>

definition grows :: "('a \<Rightarrow> 'a \<Rightarrow> bool) \<Rightarrow> 'a list \<Rightarrow> 'a list \<Rightarrow> bool" where
  "grows le xs ys \<longleftrightarrow> (\<exists>zs ext. ys = zs @ ext \<and> list_all2 le xs zs)"

lemma grows_refl: "(\<And>x. le x x) \<Longrightarrow> grows le xs xs"
  unfolding grows_def by (metis append_Nil2 list_all2_refl)

lemma grows_trans:
  assumes "\<And>x y z. le x y \<Longrightarrow> le y z \<Longrightarrow> le x z" and "grows le xs ys" and "grows le ys zs"
  shows "grows le xs zs"
proof -
  obtain ys1 ys2 where ys: "ys = ys1 @ ys2" "list_all2 le xs ys1"
    using assms(2) by (auto simp: grows_def)
  obtain zs1 zs2 where zs: "zs = zs1 @ zs2" "list_all2 le ys zs1"
    using assms(3) by (auto simp: grows_def)
  obtain us vs where uv: "zs1 = us @ vs" "list_all2 le ys1 us"
    using zs(2) ys(1) by (auto simp: list_all2_append1)
  have "list_all2 le xs us"
    using ys(2) uv(2) list_all2_trans[of le le le xs ys1 us] assms(1) by blast
  then show ?thesis
    using zs(1) uv(1) by (auto simp: grows_def)
qed

lemma grows_append: "(\<And>x. le x x) \<Longrightarrow> grows le xs (xs @ ext)"
  unfolding grows_def by (blast intro: list_all2_refl)

lemma grows_map: "(\<And>x. x \<in> set xs \<Longrightarrow> le x (f x)) \<Longrightarrow> grows le xs (map f xs)"
  unfolding grows_def
  by (rule exI[of _ "map f xs"], rule exI[of _ "[]"]) (auto simp: list_all2_conv_all_nth)

lemma grows_in:
  assumes "grows le xs ys" and "x \<in> set xs"
  obtains y where "y \<in> set ys" and "le x y"
proof -
  obtain zs ext where "ys = zs @ ext" "list_all2 le xs zs"
    using assms(1) by (auto simp: grows_def)
  moreover obtain i where "i < length xs" "x = xs ! i"
    using assms(2) by (auto simp: in_set_conv_nth)
  ultimately have "zs ! i \<in> set ys" "le x (zs ! i)"
    by (auto simp: list_all2_conv_all_nth)
  then show thesis using that by blast
qed

lemma find_append: "find P (xs @ ys) = (case find P xs of None \<Rightarrow> find P ys | Some x \<Rightarrow> Some x)"
  by (induction xs) auto

lemma find_map_if:
  assumes "\<And>x. P (f x) = P x"
  shows "find P (map f xs) = map_option f (find P xs)"
  using assms by (induction xs) auto

lemma find_SomeD: "find P xs = Some x \<Longrightarrow> x \<in> set xs \<and> P x"
  by (induction xs) (auto split: if_splits)

lemma find_NoneD: "find P xs = None \<Longrightarrow> x \<in> set xs \<Longrightarrow> \<not> P x"
  by (induction xs) (auto split: if_splits)

end
