(* ===== verification/GoStd.thy ===== *)
theory GoStd
  imports Prelude
begin

text \<open>
  The parts of Go's language and standard library the broker uses, on byte strings: errors and their
  wrapping, 64-bit integers, times and durations, \<^verbatim>\<open>strings\<close>, \<^verbatim>\<open>strconv\<close>, \<^verbatim>\<open>net.SplitHostPort\<close>
  and \<^verbatim>\<open>encoding/hex\<close>. A Go string is a list of bytes, which is what \<^typ>\<open>string\<close> is.
\<close>

subsection \<open>Errors\<close>

text \<open>\<open>Err\<close> is \<^verbatim>\<open>errors.New\<close>, \<open>Wrap\<close> is \<^verbatim>\<open>fmt.Errorf("<text>: %w", err)\<close>.\<close>

datatype go_error = Err string | Wrap string go_error

primrec err_text :: "go_error \<Rightarrow> string" where
  "err_text (Err s) = s"
| "err_text (Wrap s e) = s @ '': '' @ err_text e"

subsection \<open>Integers and times\<close>

text \<open>
  \<^verbatim>\<open>int\<close> and \<^verbatim>\<open>int64\<close> are 64 bits wide: \<open>wrap64\<close> is what a result is reduced to. A \<^verbatim>\<open>time.Time\<close> is
  its number of nanoseconds since the Unix epoch, a \<^verbatim>\<open>time.Duration\<close> a number of nanoseconds.
\<close>

definition wrap64 :: "int \<Rightarrow> int" where
  "wrap64 x = (x + 2 ^ 63) mod 2 ^ 64 - 2 ^ 63"

lemma wrap64_bounds: "- (2 ^ 63) \<le> wrap64 x \<and> wrap64 x < 2 ^ 63"
  by (simp add: wrap64_def)

lemma wrap64_id: "- (2 ^ 63) \<le> x \<Longrightarrow> x < 2 ^ 63 \<Longrightarrow> wrap64 x = x"
  by (simp add: wrap64_def)

definition Second :: int where
  "Second = 1000000000"

definition unix_time :: "int \<Rightarrow> int" where
  "unix_time s = s * Second"

definition to_unix :: "int \<Rightarrow> int" where
  "to_unix t = t div Second"

lemma to_unix_unix_time [simp]: "to_unix (unix_time s) = s"
  by (simp add: to_unix_def unix_time_def Second_def)

lemma unix_time_to_unix_le: "unix_time (to_unix t) \<le> t"
  by (simp add: to_unix_def unix_time_def Second_def)

lemma unix_time_to_unix_close: "t < unix_time (to_unix t) + Second"
  by (simp add: to_unix_def unix_time_def Second_def)

lemma to_unix_mono: "s \<le> t \<Longrightarrow> to_unix s \<le> to_unix t"
  by (simp add: to_unix_def Second_def zdiv_mono1)

lemma unix_time_mono: "s \<le> t \<Longrightarrow> unix_time s \<le> unix_time t"
  by (simp add: unix_time_def Second_def)

definition after_time :: "int \<Rightarrow> int \<Rightarrow> bool" where
  "after_time t u \<longleftrightarrow> u < t"

subsection \<open>Bytes and strings\<close>

type_synonym byte = "8 word"

definition byte_of_char :: "char \<Rightarrow> byte" where
  "byte_of_char c = of_char c"

definition char_of_byte :: "byte \<Rightarrow> char" where
  "char_of_byte b = char_of (uint b)"

definition bytes_of_string :: "string \<Rightarrow> byte list" where
  "bytes_of_string s = map byte_of_char s"

definition string_of_bytes :: "byte list \<Rightarrow> string" where
  "string_of_bytes b = map char_of_byte b"

lemma char_of_byte_of_char [simp]: "char_of_byte (byte_of_char c) = c"
proof -
  have "(of_char c :: byte) = word_of_int (of_char c)"
    by (cases c) (simp add: horner_sum_simps of_char_Char)
  moreover have "(of_char c :: int) < 256" "0 \<le> (of_char c :: int)"
    by (cases c, simp add: of_char_Char horner_sum_simps)+
  ultimately show ?thesis by (simp add: char_of_byte_def byte_of_char_def uint_word_of_int)
qed

lemma string_of_bytes_of_string [simp]: "string_of_bytes (bytes_of_string s) = s"
  by (simp add: string_of_bytes_def bytes_of_string_def comp_def)

lemma length_bytes_of_string [simp]: "length (bytes_of_string s) = length s"
  by (simp add: bytes_of_string_def)

definition code_point :: "char \<Rightarrow> int" where
  "code_point c = of_char c"

text \<open>\<^verbatim>\<open>strings.HasPrefix\<close>, \<^verbatim>\<open>strings.TrimPrefix\<close>.\<close>

fun HasPrefix :: "string \<Rightarrow> string \<Rightarrow> bool" where
  "HasPrefix s [] = True"
| "HasPrefix [] (p # ps) = False"
| "HasPrefix (x # xs) (p # ps) = (x = p \<and> HasPrefix xs ps)"

definition TrimPrefix :: "string \<Rightarrow> string \<Rightarrow> string" where
  "TrimPrefix s p = (if HasPrefix s p then drop (length p) s else s)"

lemma HasPrefix_prefix: "HasPrefix s p \<longleftrightarrow> prefix p s"
  by (induction s p rule: HasPrefix.induct) auto

lemma HasPrefix_append [simp]: "HasPrefix (p @ s) p"
  by (simp add: HasPrefix_prefix)

lemma TrimPrefix_append [simp]: "TrimPrefix (p @ s) p = s"
  by (simp add: TrimPrefix_def)

text \<open>\<^verbatim>\<open>strings.IndexByte\<close> and \<^verbatim>\<open>strings.LastIndexByte\<close>, with \<open>None\<close> for -1.\<close>

fun IndexByte :: "string \<Rightarrow> char \<Rightarrow> nat option" where
  "IndexByte [] c = None"
| "IndexByte (x # xs) c = (if x = c then Some 0 else map_option Suc (IndexByte xs c))"

fun LastIndexByte :: "string \<Rightarrow> char \<Rightarrow> nat option" where
  "LastIndexByte [] c = None"
| "LastIndexByte (x # xs) c =
     (case LastIndexByte xs c of
        Some i \<Rightarrow> Some (Suc i)
      | None \<Rightarrow> if x = c then Some 0 else None)"

lemma IndexByte_None: "IndexByte s c = None \<longleftrightarrow> c \<notin> set s"
  by (induction s) auto

lemma IndexByte_Some:
  "IndexByte s c = Some i \<Longrightarrow> i < length s \<and> s ! i = c \<and> c \<notin> set (take i s)"
  by (induction s arbitrary: i) (auto split: if_splits)

lemma LastIndexByte_None: "LastIndexByte s c = None \<longleftrightarrow> c \<notin> set s"
  by (induction s) (auto split: option.splits)

text \<open>\<^verbatim>\<open>strings.Split\<close> with a one-byte separator: never empty, \<open>[s]\<close> when \<open>s\<close> has no separator.\<close>

fun Split :: "string \<Rightarrow> char \<Rightarrow> string list" where
  "Split [] c = [[]]"
| "Split (x # xs) c =
     (if x = c then [] # Split xs c
      else (case Split xs c of [] \<Rightarrow> [[x]] | p # ps \<Rightarrow> (x # p) # ps))"

lemma Split_nonempty [simp]: "Split s c \<noteq> []"
  by (induction s) (auto split: list.splits)

lemma Split_pieces: "p \<in> set (Split s c) \<Longrightarrow> c \<notin> set p"
  by (induction s arbitrary: p) (auto split: if_splits list.splits)

lemma Split_no_sep: "c \<notin> set s \<Longrightarrow> Split s c = [s]"
  by (induction s) auto

lemma Split_append:
  "c \<notin> set p \<Longrightarrow> Split (p @ c # s) c = p # Split s c"
  by (induction p) auto

lemma Split_two:
  "Split s c = [a, b] \<longleftrightarrow> s = a @ c # b \<and> c \<notin> set a \<and> c \<notin> set b"
proof
  show "s = a @ c # b \<and> c \<notin> set a \<and> c \<notin> set b" if "Split s c = [a, b]"
    using that
  proof (induction s arbitrary: a)
    case (Cons x xs)
    show ?case
    proof (cases "x = c")
      case True
      with Cons.prems have "a = []" "Split xs c = [b]" by auto
      moreover from this(2) have "xs = b \<and> c \<notin> set b"
      proof (induction xs arbitrary: b)
        case (Cons y ys)
        then show ?case by (auto split: if_splits list.splits)
      qed simp
      ultimately show ?thesis using True by auto
    next
      case False
      with Cons.prems obtain a' where "Split xs c = [a', b]" "a = x # a'"
        by (auto split: list.splits)
      with Cons.IH[of a'] False show ?thesis by auto
    qed
  qed simp
  show "Split s c = [a, b]" if "s = a @ c # b \<and> c \<notin> set a \<and> c \<notin> set b"
    using that by (simp add: Split_append Split_no_sep)
qed

text \<open>
  \<^verbatim>\<open>strings.TrimSpace\<close>: drops the encodings of the code points with Unicode's white-space property
  at both ends (six of them ASCII).
\<close>

definition space_seqs :: "string list" where
  "space_seqs =
     [[CHR 0x09], [CHR 0x0A], [CHR 0x0B], [CHR 0x0C], [CHR 0x0D], [CHR 0x20],
      [CHR 0xC2, CHR 0x85], [CHR 0xC2, CHR 0xA0], [CHR 0xE1, CHR 0x9A, CHR 0x80],
      [CHR 0xE2, CHR 0x80, CHR 0x80], [CHR 0xE2, CHR 0x80, CHR 0x81],
      [CHR 0xE2, CHR 0x80, CHR 0x82], [CHR 0xE2, CHR 0x80, CHR 0x83],
      [CHR 0xE2, CHR 0x80, CHR 0x84], [CHR 0xE2, CHR 0x80, CHR 0x85],
      [CHR 0xE2, CHR 0x80, CHR 0x86], [CHR 0xE2, CHR 0x80, CHR 0x87],
      [CHR 0xE2, CHR 0x80, CHR 0x88], [CHR 0xE2, CHR 0x80, CHR 0x89],
      [CHR 0xE2, CHR 0x80, CHR 0x8A], [CHR 0xE2, CHR 0x80, CHR 0xA8],
      [CHR 0xE2, CHR 0x80, CHR 0xA9], [CHR 0xE2, CHR 0x80, CHR 0xAF],
      [CHR 0xE2, CHR 0x81, CHR 0x9F], [CHR 0xE3, CHR 0x80, CHR 0x80]]"

function trim_seqs :: "string list \<Rightarrow> string \<Rightarrow> string" where
  "trim_seqs ps s =
     (case find (\<lambda>p. p \<noteq> [] \<and> HasPrefix s p) ps of
        None \<Rightarrow> s
      | Some p \<Rightarrow> trim_seqs ps (drop (length p) s))"
  by pat_completeness auto
termination
  by (relation "measure (\<lambda>(ps, s). length s)")
    (auto dest!: find_SomeD simp: HasPrefix_prefix prefix_def)

declare trim_seqs.simps [simp del]

definition TrimSpace :: "string \<Rightarrow> string" where
  "TrimSpace s = rev (trim_seqs (map rev space_seqs) (rev (trim_seqs space_seqs s)))"

lemma trim_seqs_done: "find (\<lambda>p. p \<noteq> [] \<and> HasPrefix (trim_seqs ps s) p) ps = None"
proof (induction ps s rule: trim_seqs.induct)
  case (1 ps s)
  show ?case
  proof (cases "find (\<lambda>p. p \<noteq> [] \<and> HasPrefix s p) ps")
    case None
    then show ?thesis by (simp add: trim_seqs.simps[of ps s])
  next
    case (Some p)
    with 1[OF Some] show ?thesis by (simp add: trim_seqs.simps[of ps s])
  qed
qed

lemma trim_seqs_suffix: "suffix (trim_seqs ps s) s"
proof (induction ps s rule: trim_seqs.induct)
  case (1 ps s)
  show ?case
  proof (cases "find (\<lambda>p. p \<noteq> [] \<and> HasPrefix s p) ps")
    case None
    then show ?thesis by (simp add: trim_seqs.simps[of ps s])
  next
    case (Some p)
    with 1[OF Some] show ?thesis
      by (simp add: trim_seqs.simps[of ps s]) (metis suffix_drop suffix_order.trans)
  qed
qed

text \<open>
  \<^verbatim>\<open>strings.ToLower\<close>: bytewise on an ASCII string, as in Go's fast path; on any other string it is
  the parameter \<open>uni\<close>, which stands for the case tables of the \<^verbatim>\<open>unicode\<close> package.
\<close>

definition is_ascii :: "string \<Rightarrow> bool" where
  "is_ascii s \<longleftrightarrow> list_all (\<lambda>c. code_point c < 128) s"

definition lower_char :: "char \<Rightarrow> char" where
  "lower_char c = (if 65 \<le> code_point c \<and> code_point c \<le> 90 then char_of (code_point c + 32) else c)"

definition ToLower :: "(string \<Rightarrow> string) \<Rightarrow> string \<Rightarrow> string" where
  "ToLower uni s = (if is_ascii s then map lower_char s else uni s)"

lemma code_point_char_of [simp]: "0 \<le> n \<Longrightarrow> n < 256 \<Longrightarrow> code_point (char_of n) = n"
  by (simp add: code_point_def)

lemma code_point_lower_char:
  "code_point (lower_char c) =
     (if 65 \<le> code_point c \<and> code_point c \<le> 90 then code_point c + 32 else code_point c)"
  by (simp add: lower_char_def)

lemma lower_char_idem [simp]: "lower_char (lower_char c) = lower_char c"
  by (simp add: lower_char_def)

lemma ToLower_ascii: "is_ascii s \<Longrightarrow> is_ascii (ToLower uni s)"
  by (auto simp: ToLower_def is_ascii_def list_all_iff code_point_lower_char)

lemma ToLower_idem: "is_ascii s \<Longrightarrow> ToLower uni (ToLower uni s) = ToLower uni s"
  using ToLower_ascii[of s uni] by (simp add: ToLower_def comp_def)

subsection \<open>Numbers in strings\<close>

definition digit_of :: "char \<Rightarrow> int option" where
  "digit_of c =
     (if 48 \<le> code_point c \<and> code_point c \<le> 57 then Some (code_point c - 48) else None)"

fun digits_value :: "int \<Rightarrow> string \<Rightarrow> int option" where
  "digits_value acc [] = Some acc"
| "digits_value acc (c # cs) =
     (case digit_of c of None \<Rightarrow> None | Some d \<Rightarrow> digits_value (10 * acc + d) cs)"

definition decimal :: "string \<Rightarrow> int option" where
  "decimal s = (if s = [] then None else digits_value 0 s)"

text \<open>
  \<^verbatim>\<open>strconv.ParseInt(s, 10, 64)\<close>, which \<^verbatim>\<open>strconv.Atoi\<close> agrees with where \<^verbatim>\<open>int\<close> has 64 bits: an
  optional sign, at least one digit, nothing else, and the value in range. \<open>None\<close> is the error.
\<close>

definition ParseInt :: "string \<Rightarrow> int option" where
  "ParseInt s =
     (case s of
        [] \<Rightarrow> None
      | c # cs \<Rightarrow>
          if c = CHR ''-'' then
            (case decimal cs of
               None \<Rightarrow> None
             | Some n \<Rightarrow> if n \<le> 2 ^ 63 then Some (- n) else None)
          else
            (case decimal (if c = CHR ''+'' then cs else s) of
               None \<Rightarrow> None
             | Some n \<Rightarrow> if n < 2 ^ 63 then Some n else None))"

definition Atoi :: "string \<Rightarrow> int option" where
  "Atoi s = ParseInt s"

text \<open>\<^verbatim>\<open>strconv.Itoa\<close>, and \<^verbatim>\<open>%d\<close>.\<close>

definition digit_char :: "int \<Rightarrow> char" where
  "digit_char d = char_of (48 + d)"

function digits_text :: "int \<Rightarrow> string" where
  "digits_text n =
     (if n < 10 then [digit_char n] else digits_text (n div 10) @ [digit_char (n mod 10)])"
  by pat_completeness auto
termination
  by (relation "measure nat") auto

declare digits_text.simps [simp del]

definition Itoa :: "int \<Rightarrow> string" where
  "Itoa i = (if i < 0 then CHR ''-'' # digits_text (- i) else digits_text i)"

lemma code_point_digit_char: "0 \<le> d \<Longrightarrow> d < 10 \<Longrightarrow> code_point (digit_char d) = 48 + d"
  by (simp add: digit_char_def)

lemma digit_of_digit_char [simp]: "0 \<le> d \<Longrightarrow> d < 10 \<Longrightarrow> digit_of (digit_char d) = Some d"
  by (simp add: digit_of_def code_point_digit_char)

lemma digits_value_append:
  "digits_value acc (xs @ ys) =
     (case digits_value acc xs of None \<Rightarrow> None | Some v \<Rightarrow> digits_value v ys)"
  by (induction xs arbitrary: acc) (auto split: option.splits)

lemma digits_value_digits_text: "0 \<le> n \<Longrightarrow> digits_value 0 (digits_text n) = Some n"
proof (induction n rule: digits_text.induct)
  case (1 n)
  then show ?case
    by (simp add: digits_text.simps[of n] digits_value_append)
qed

lemma digits_text_nonempty [simp]: "digits_text n \<noteq> []"
  by (simp add: digits_text.simps[of n])

lemma decimal_digits_text [simp]: "0 \<le> n \<Longrightarrow> decimal (digits_text n) = Some n"
  by (simp add: decimal_def digits_value_digits_text)

lemma digits_text_digits:
  "0 \<le> n \<Longrightarrow> c \<in> set (digits_text n) \<Longrightarrow> 48 \<le> code_point c \<and> code_point c \<le> 57"
proof (induction n rule: digits_text.induct)
  case (1 n)
  then show ?case
    by (cases "n < 10") (auto simp: digits_text.simps[of n] code_point_digit_char)
qed

lemma ParseInt_Itoa:
  assumes "- (2 ^ 63) \<le> i" and "i < 2 ^ 63"
  shows "ParseInt (Itoa i) = Some i"
proof (cases "i < 0")
  case True
  with assms(1) show ?thesis by (simp add: ParseInt_def Itoa_def)
next
  case False
  obtain c cs where t: "digits_text i = c # cs"
    by (cases "digits_text i") auto
  then have "48 \<le> code_point c" using digits_text_digits[of i c] False by simp
  then have "c \<noteq> CHR ''-''" "c \<noteq> CHR ''+''" by (auto simp: code_point_def)
  then show ?thesis
    using False assms(2) decimal_digits_text[of i] by (simp add: ParseInt_def Itoa_def t)
qed

lemma digits_value_nonneg: "0 \<le> acc \<Longrightarrow> digits_value acc s = Some v \<Longrightarrow> 0 \<le> v"
  by (induction acc s rule: digits_value.induct)
    (auto simp: digit_of_def split: option.splits if_splits)

lemma decimal_nonneg: "decimal s = Some v \<Longrightarrow> 0 \<le> v"
  by (auto simp: decimal_def split: if_splits intro: digits_value_nonneg[of 0])

lemma ParseInt_bounds: "ParseInt s = Some i \<Longrightarrow> - (2 ^ 63) \<le> i \<and> i < 2 ^ 63"
  by (auto simp: ParseInt_def split: list.splits if_splits option.splits dest!: decimal_nonneg)

subsection \<open>Host and port\<close>

text \<open>
  \<^verbatim>\<open>net.SplitHostPort\<close>: the port follows the last colon, a host with colons must be in brackets.
  \<open>None\<close> is any of its errors (the broker looks at no more than whether there is one).
\<close>

definition contains_from :: "nat \<Rightarrow> string \<Rightarrow> char \<Rightarrow> bool" where
  "contains_from j s c \<longleftrightarrow> IndexByte (drop j s) c \<noteq> None"

definition SplitHostPort :: "string \<Rightarrow> (string \<times> string) option" where
  "SplitHostPort hp =
     (case LastIndexByte hp CHR '':'' of
        None \<Rightarrow> None
      | Some i \<Rightarrow>
          if hp ! 0 = CHR ''['' then
            (case IndexByte hp CHR '']'' of
               None \<Rightarrow> None
             | Some end \<Rightarrow>
                 if end + 1 = i \<and> \<not> contains_from 1 hp CHR ''['' \<and> \<not> contains_from (end + 1) hp CHR '']''
                 then Some (drop 1 (take end hp), drop (i + 1) hp)
                 else None)
          else
            (if IndexByte (take i hp) CHR '':'' \<noteq> None then None
             else if contains_from 0 hp CHR ''['' \<or> contains_from 0 hp CHR '']'' then None
             else Some (take i hp, drop (i + 1) hp)))"

subsection \<open>Hexadecimal text\<close>

text \<open>\<^verbatim>\<open>hex.EncodeToString\<close> writes lower case, \<^verbatim>\<open>hex.DecodeString\<close> takes both cases.\<close>

definition hex_digit :: "int \<Rightarrow> char" where
  "hex_digit n = (if n < 10 then char_of (48 + n) else char_of (87 + n))"

definition hex_value :: "char \<Rightarrow> int option" where
  "hex_value c =
     (let n = code_point c in
      if 48 \<le> n \<and> n \<le> 57 then Some (n - 48)
      else if 97 \<le> n \<and> n \<le> 102 then Some (n - 87)
      else if 65 \<le> n \<and> n \<le> 70 then Some (n - 55)
      else None)"

fun hex_encode :: "byte list \<Rightarrow> string" where
  "hex_encode [] = []"
| "hex_encode (b # bs) = hex_digit (uint b div 16) # hex_digit (uint b mod 16) # hex_encode bs"

fun hex_decode :: "string \<Rightarrow> byte list option" where
  "hex_decode [] = Some []"
| "hex_decode [c] = None"
| "hex_decode (c # d # cs) =
     (case hex_value c of
        None \<Rightarrow> None
      | Some h \<Rightarrow>
          (case hex_value d of
             None \<Rightarrow> None
           | Some l \<Rightarrow>
               (case hex_decode cs of
                  None \<Rightarrow> None
                | Some bs \<Rightarrow> Some (word_of_int (16 * h + l) # bs))))"

lemma hex_value_digit [simp]: "0 \<le> n \<Longrightarrow> n < 16 \<Longrightarrow> hex_value (hex_digit n) = Some n"
  by (auto simp: hex_value_def hex_digit_def Let_def)

lemma uint_byte_less: "uint (b :: byte) < 256"
  using uint_lt2p[of b] by simp

lemma hex_decode_encode [simp]: "hex_decode (hex_encode bs) = Some bs"
proof (induction bs)
  case (Cons b bs)
  have "uint b div 16 < 16" "0 \<le> uint b div 16" "0 \<le> uint b mod 16" "uint b mod 16 < 16"
    using uint_byte_less[of b] by (simp_all add: pos_imp_zdiv_nonneg_iff)
  with Cons.IH show ?case by simp
qed simp

lemma length_hex_encode [simp]: "length (hex_encode bs) = 2 * length bs"
  by (induction bs) auto

lemma hex_decode_length: "hex_decode s = Some bs \<Longrightarrow> length s = 2 * length bs"
  by (induction s arbitrary: bs rule: hex_decode.induct) (auto split: option.splits)

end
