(* ===== verification/Sql.thy ===== *)
theory Sql
  imports GoStd
begin

text \<open>
  The SQL statements of \<^verbatim>\<open>internal/db\<close>, as operations on a table that is a list of rows in insertion
  order: \<^verbatim>\<open>INSERT\<close> into a table with a \<^verbatim>\<open>PRIMARY KEY\<close>, \<^verbatim>\<open>UPDATE ... WHERE\<close>, \<^verbatim>\<open>DELETE ... WHERE\<close>,
  \<^verbatim>\<open>SELECT ... WHERE\<close> read by \<^verbatim>\<open>QueryRow\<close> (the first row) or by \<^verbatim>\<open>Query\<close> (all rows). The locale
  \<open>primary_key_table\<close> states what such a table promises its callers.
\<close>

definition sql_insert :: "('r \<Rightarrow> string) \<Rightarrow> 'r \<Rightarrow> 'r list \<Rightarrow> go_error + 'r list" where
  "sql_insert key r t =
     (if list_ex (\<lambda>x. key x = key r) t then Inl (Err ''UNIQUE constraint failed'') else Inr (t @ [r]))"

definition sql_update :: "('r \<Rightarrow> bool) \<Rightarrow> ('r \<Rightarrow> 'r) \<Rightarrow> 'r list \<Rightarrow> 'r list" where
  "sql_update p f t = map (\<lambda>r. if p r then f r else r) t"

definition sql_delete :: "('r \<Rightarrow> bool) \<Rightarrow> 'r list \<Rightarrow> 'r list" where
  "sql_delete p t = filter (\<lambda>r. \<not> p r) t"

definition sql_first :: "('r \<Rightarrow> bool) \<Rightarrow> 'r list \<Rightarrow> 'r option" where
  "sql_first p t = find p t"

definition sql_all :: "('r \<Rightarrow> bool) \<Rightarrow> 'r list \<Rightarrow> 'r list" where
  "sql_all p t = filter p t"

lemma sql_insert_InrD: "sql_insert key r t = Inr t' \<Longrightarrow> t' = t @ [r] \<and> key r \<notin> key ` set t"
  by (auto simp: sql_insert_def list_ex_iff split: if_splits)

lemma set_sql_update: "set (sql_update p f t) = (\<lambda>r. if p r then f r else r) ` set t"
  by (simp add: sql_update_def)

lemma set_sql_delete: "set (sql_delete p t) = {r \<in> set t. \<not> p r}"
  by (auto simp: sql_delete_def)

lemma image_sql_update:
  assumes "\<And>r. key (f r) = key r"
  shows "key ` set (sql_update p f t) = key ` set t"
  unfolding set_sql_update image_image by (rule image_cong) (simp_all add: assms)

lemma image_sql_delete: "k \<in> key ` set (sql_delete p t) \<Longrightarrow> k \<in> key ` set t"
  by (auto simp: set_sql_delete)

lemma map_key_sql_update:
  "(\<And>r. key (f r) = key r) \<Longrightarrow> map key (sql_update p f t) = map key t"
  by (simp add: sql_update_def)

lemma sql_first_SomeD: "sql_first p t = Some r \<Longrightarrow> r \<in> set t \<and> p r"
  unfolding sql_first_def by (rule find_SomeD)

lemma sql_first_NoneD: "sql_first p t = None \<Longrightarrow> r \<in> set t \<Longrightarrow> \<not> p r"
  unfolding sql_first_def by (rule find_NoneD)

lemma sql_first_key_None: "sql_first (\<lambda>x. key x = k) t = None \<longleftrightarrow> k \<notin> key ` set t"
  by (auto simp: sql_first_def find_None_iff)

lemma sql_first_append:
  "sql_first p (t @ [r]) =
     (case sql_first p t of Some x \<Rightarrow> Some x | None \<Rightarrow> if p r then Some r else None)"
  by (simp add: sql_first_def find_append split: option.splits)

lemma sql_first_update:
  "(\<And>r. q (f r) = q r) \<Longrightarrow>
     sql_first q (sql_update p f t) = map_option (\<lambda>r. if p r then f r else r) (sql_first q t)"
  unfolding sql_first_def sql_update_def by (rule find_map_if) simp

lemma grows_sql_update:
  "(\<And>r. le r r) \<Longrightarrow> (\<And>r. le r (f r)) \<Longrightarrow> grows le t (sql_update p f t)"
  unfolding sql_update_def by (rule grows_map) simp

lemma grows_sql_insert:
  "(\<And>r. le r r) \<Longrightarrow> sql_insert key r t = Inr t' \<Longrightarrow> grows le t t'"
  by (auto dest!: sql_insert_InrD intro: grows_append)

lemma find_list_all2:
  "list_all2 le xs ys \<Longrightarrow> (\<And>x y. le x y \<Longrightarrow> p x = p y) \<Longrightarrow> rel_option le (find p xs) (find p ys)"
  by (induction rule: list_all2_induct) auto

text \<open>The first row found stays the first one when the table grows.\<close>

lemma grows_sql_first:
  assumes "grows le t t'" and "sql_first p t = Some x" and "\<And>x y. le x y \<Longrightarrow> p x = p y"
  obtains y where "sql_first p t' = Some y" and "le x y"
proof -
  obtain zs ext where "t' = zs @ ext" "list_all2 le t zs"
    using assms(1) by (auto simp: grows_def)
  moreover then obtain y where "find p zs = Some y" "le x y"
    using find_list_all2[of le t zs p] assms(2,3) by (auto simp: sql_first_def option_rel_Some1)
  ultimately show thesis using that[of y] by (simp add: sql_first_def find_append)
qed

subsection \<open>What a table with a primary key promises\<close>

locale primary_key_table =
  fixes key :: "'r \<Rightarrow> string"
    and insert :: "'r \<Rightarrow> 't \<Rightarrow> go_error + 't"
    and lookup :: "string \<Rightarrow> 't \<Rightarrow> 'r option"
    and update :: "('r \<Rightarrow> bool) \<Rightarrow> ('r \<Rightarrow> 'r) \<Rightarrow> 't \<Rightarrow> 't"
    and delete :: "('r \<Rightarrow> bool) \<Rightarrow> 't \<Rightarrow> 't"
    and invar :: "'t \<Rightarrow> bool"
  assumes invar_insert: "invar t \<Longrightarrow> insert r t = Inr t' \<Longrightarrow> invar t'"
    and invar_update: "(\<And>r. key (f r) = key r) \<Longrightarrow> invar t \<Longrightarrow> invar (update p f t)"
    and invar_delete: "invar t \<Longrightarrow> invar (delete p t)"
    and insert_taken: "(\<exists>e. insert r t = Inl e) \<longleftrightarrow> lookup (key r) t \<noteq> None"
    and lookup_insert:
      "insert r t = Inr t' \<Longrightarrow> lookup k t' = (if k = key r then Some r else lookup k t)"
    and lookup_update: "(\<And>r. key (f r) = key r) \<Longrightarrow>
      lookup k (update p f t) = map_option (\<lambda>r. if p r then f r else r) (lookup k t)"
    and lookup_delete: "invar t \<Longrightarrow>
      lookup k (delete p t) =
        (case lookup k t of None \<Rightarrow> None | Some r \<Rightarrow> if p r then None else Some r)"
    and lookup_key: "lookup k t = Some r \<Longrightarrow> key r = k"
begin

lemma insert_then_lookup: "insert r t = Inr t' \<Longrightarrow> lookup (key r) t' = Some r"
  by (simp add: lookup_insert)

lemma insert_keeps: "insert r t = Inr t' \<Longrightarrow> lookup k t = Some x \<Longrightarrow> lookup k t' = Some x"
proof -
  assume ins: "insert r t = Inr t'" and x: "lookup k t = Some x"
  have "lookup (key r) t = None" using insert_taken[of r t] ins by auto
  then have "k \<noteq> key r" using x by auto
  then show "lookup k t' = Some x" using lookup_insert[OF ins] x by simp
qed

lemma insert_twice: "insert r t = Inr t' \<Longrightarrow> key s = key r \<Longrightarrow> \<exists>e. insert s t' = Inl e"
  using insert_taken[of s t'] lookup_insert[of r t t' "key s"] by auto

lemma deleted_can_be_inserted:
  assumes "invar t" and "lookup (key r) t = Some x" and "p x"
  shows "\<exists>t'. insert r (delete p t) = Inr t'"
  using insert_taken[of r "delete p t"] assms lookup_delete[of t "key r" p]
  by (cases "insert r (delete p t)") auto

end

text \<open>Every table of rows with a key column keeps it.\<close>

definition keys_distinct :: "('r \<Rightarrow> string) \<Rightarrow> 'r list \<Rightarrow> bool" where
  "keys_distinct key t \<longleftrightarrow> distinct (map key t)"

lemma keys_distinct_insert:
  "keys_distinct key t \<Longrightarrow> sql_insert key r t = Inr t' \<Longrightarrow> keys_distinct key t'"
  by (auto dest!: sql_insert_InrD simp: keys_distinct_def)

lemma keys_distinct_update:
  "(\<And>r. key (f r) = key r) \<Longrightarrow> keys_distinct key (sql_update p f t) = keys_distinct key t"
  by (simp add: keys_distinct_def map_key_sql_update)

lemma keys_distinct_delete: "keys_distinct key t \<Longrightarrow> keys_distinct key (sql_delete p t)"
  by (simp add: keys_distinct_def sql_delete_def distinct_map_filter)

lemma keys_distinct_eq:
  "keys_distinct key t \<Longrightarrow> r \<in> set t \<Longrightarrow> s \<in> set t \<Longrightarrow> key r = key s \<Longrightarrow> r = s"
  by (auto simp: keys_distinct_def distinct_map inj_on_def)

lemma sql_first_key:
  "keys_distinct key t \<Longrightarrow> r \<in> set t \<Longrightarrow> sql_first (\<lambda>x. key x = key r) t = Some r"
proof (cases "sql_first (\<lambda>x. key x = key r) t")
  case (Some s)
  assume "keys_distinct key t" "r \<in> set t"
  with Some show ?thesis by (auto dest!: sql_first_SomeD intro: keys_distinct_eq)
qed (auto dest: sql_first_NoneD)

lemma sql_first_delete_key:
  assumes "keys_distinct key t"
  shows "sql_first (\<lambda>x. key x = k) (sql_delete p t) =
    (case sql_first (\<lambda>x. key x = k) t of None \<Rightarrow> None | Some r \<Rightarrow> if p r then None else Some r)"
proof (cases "sql_first (\<lambda>x. key x = k) (sql_delete p t)")
  case (Some s)
  then have s: "s \<in> set t" "\<not> p s" "key s = k"
    by (auto dest!: sql_first_SomeD simp: set_sql_delete)
  with assms have "sql_first (\<lambda>x. key x = k) t = Some s"
    using sql_first_key by fastforce
  with Some s(2) show ?thesis by simp
next
  case None
  show ?thesis
  proof (cases "sql_first (\<lambda>x. key x = k) t")
    case (Some r)
    then have "r \<in> set t" "key r = k" by (auto dest: sql_first_SomeD)
    with None have "p r" by (auto dest: sql_first_NoneD simp: set_sql_delete)
    with None Some show ?thesis by simp
  qed (simp add: None)
qed

lemma primary_key_rows:
  "primary_key_table key (sql_insert key) (\<lambda>k. sql_first (\<lambda>r. key r = k)) sql_update sql_delete
     (keys_distinct key)"
proof (unfold_locales, goal_cases)
  case 1
  then show ?case by (rule keys_distinct_insert)
next
  case 2
  then show ?case by (simp add: keys_distinct_update)
next
  case 3
  then show ?case by (rule keys_distinct_delete)
next
  case (4 r t)
  show ?case
    by (cases "sql_first (\<lambda>x. key x = key r) t")
      (auto simp: sql_insert_def list_ex_iff dest: sql_first_NoneD sql_first_SomeD)
next
  case (5 r t t' k)
  then have t': "t' = t @ [r]" "key r \<notin> key ` set t" by (auto dest: sql_insert_InrD)
  then have "sql_first (\<lambda>x. key x = key r) t = None"
    by (simp add: sql_first_key_None)
  with t'(1) show ?case
    by (auto simp: sql_first_append eq_commute split: option.splits)
next
  case (6 f k p t)
  then show ?case by (simp add: sql_first_update)
next
  case (7 t k p)
  then show ?case by (rule sql_first_delete_key)
next
  case 8
  then show ?case by (auto dest: sql_first_SomeD)
qed

end
