(* ===== verification/Json.thy ===== *)
theory Json
  imports GoStd
begin

text \<open>
  \<^verbatim>\<open>encoding/json\<close> as far as the broker relies on it: what a body's value tree becomes in a Go struct
  (field matching, types, \<^verbatim>\<open>null\<close>), and what a struct becomes (\<^verbatim>\<open>omitempty\<close>). The text syntax of JSON
  is not modelled: a body is the tree its text denotes, or \<open>NotJson\<close> where the decoder reports a
  syntax error, or \<open>Unreadable\<close> where reading the body fails. A number keeps its literal.
\<close>

datatype json = JNull | JBool bool | JNum string | JStr string
  | JArr "json list" | JObj "(string \<times> json) list"

datatype payload = Unreadable | NotJson | JsonValue json

text \<open>
  Names match exactly, or else up to case. The fold knows the two non-ASCII code points whose case
  partner is an ASCII letter (U+017F for s, U+212A for k), as \<^verbatim>\<open>foldName\<close> does.
\<close>

fun fold_name :: "string \<Rightarrow> string" where
  "fold_name [] = []"
| "fold_name [a] = [lower_char a]"
| "fold_name [a, b] =
     (if [a, b] = [CHR 0xC5, CHR 0xBF] then ''s'' else lower_char a # fold_name [b])"
| "fold_name (a # b # c # cs) =
     (if [a, b] = [CHR 0xC5, CHR 0xBF] then CHR ''s'' # fold_name (c # cs)
      else if [a, b, c] = [CHR 0xE2, CHR 0x84, CHR 0xAA] then CHR ''k'' # fold_name cs
      else lower_char a # fold_name (b # c # cs))"

type_synonym 'r json_field = "string \<times> (json \<Rightarrow> 'r \<Rightarrow> 'r option)"

definition find_field :: "'r json_field list \<Rightarrow> string \<Rightarrow> 'r json_field option" where
  "find_field fs n =
     (case find (\<lambda>f. fst f = n) fs of
        Some f \<Rightarrow> Some f
      | None \<Rightarrow> find (\<lambda>f. fold_name (fst f) = fold_name n) fs)"

definition string_field :: "(string \<Rightarrow> 'r \<Rightarrow> 'r) \<Rightarrow> json \<Rightarrow> 'r \<Rightarrow> 'r option" where
  "string_field upd v r = (case v of JStr s \<Rightarrow> Some (upd s r) | JNull \<Rightarrow> Some r | _ \<Rightarrow> None)"

definition int_field :: "(int \<Rightarrow> 'r \<Rightarrow> 'r) \<Rightarrow> json \<Rightarrow> 'r \<Rightarrow> 'r option" where
  "int_field upd v r =
     (case v of
        JNum lit \<Rightarrow> (case ParseInt lit of None \<Rightarrow> None | Some i \<Rightarrow> Some (upd i r))
      | JNull \<Rightarrow> Some r
      | _ \<Rightarrow> None)"

definition bool_field :: "(bool \<Rightarrow> 'r \<Rightarrow> 'r) \<Rightarrow> json \<Rightarrow> 'r \<Rightarrow> 'r option" where
  "bool_field upd v r = (case v of JBool b \<Rightarrow> Some (upd b r) | JNull \<Rightarrow> Some r | _ \<Rightarrow> None)"

text \<open>
  Members are stored in the order of the text, a later one over an earlier one; unknown names are
  skipped; a value of the wrong type makes the decoder return an error (\<open>None\<close>).
\<close>

fun bind_fields :: "'r json_field list \<Rightarrow> (string \<times> json) list \<Rightarrow> 'r \<Rightarrow> 'r option" where
  "bind_fields fs [] r = Some r"
| "bind_fields fs ((n, v) # kvs) r =
     (case find_field fs n of
        None \<Rightarrow> bind_fields fs kvs r
      | Some f \<Rightarrow> (case snd f v r of None \<Rightarrow> None | Some r' \<Rightarrow> bind_fields fs kvs r'))"

definition decode_object :: "'r json_field list \<Rightarrow> json \<Rightarrow> 'r \<Rightarrow> 'r option" where
  "decode_object fs v r =
     (case v of JObj kvs \<Rightarrow> bind_fields fs kvs r | JNull \<Rightarrow> Some r | _ \<Rightarrow> None)"

fun decode_list :: "(json \<Rightarrow> 'r option) \<Rightarrow> json list \<Rightarrow> 'r list option" where
  "decode_list dec [] = Some []"
| "decode_list dec (v # vs) =
     (case dec v of
        None \<Rightarrow> None
      | Some r \<Rightarrow> (case decode_list dec vs of None \<Rightarrow> None | Some rs \<Rightarrow> Some (r # rs)))"

text \<open>A slice: \<^verbatim>\<open>null\<close> leaves it nil, that is empty.\<close>

definition decode_slice :: "(json \<Rightarrow> 'r option) \<Rightarrow> json \<Rightarrow> 'r list option" where
  "decode_slice dec v = (case v of JArr vs \<Rightarrow> decode_list dec vs | JNull \<Rightarrow> Some [] | _ \<Rightarrow> None)"

definition unmarshal :: "(json \<Rightarrow> 'a option) \<Rightarrow> payload \<Rightarrow> 'a option" where
  "unmarshal dec p = (case p of JsonValue v \<Rightarrow> dec v | _ \<Rightarrow> None)"

text \<open>Members of an encoded struct.\<close>

definition str_member :: "string \<Rightarrow> string \<Rightarrow> (string \<times> json) list" where
  "str_member n s = [(n, JStr s)]"

definition str_member_omitempty :: "string \<Rightarrow> string \<Rightarrow> (string \<times> json) list" where
  "str_member_omitempty n s = (if s = [] then [] else [(n, JStr s)])"

definition int_member :: "string \<Rightarrow> int \<Rightarrow> (string \<times> json) list" where
  "int_member n i = [(n, JNum (Itoa i))]"

definition members :: "json \<Rightarrow> string \<rightharpoonup> json" where
  "members v = (case v of JObj kvs \<Rightarrow> map_of kvs | _ \<Rightarrow> Map.empty)"

lemma decode_list_length: "decode_list dec vs = Some rs \<Longrightarrow> length rs = length vs"
  by (induction vs arbitrary: rs) (auto split: option.splits)

lemma find_field_exact: "find (\<lambda>f. fst f = n) fs = Some f \<Longrightarrow> find_field fs n = Some f"
  by (simp add: find_field_def)

end
