(* ===== verification/World.thy ===== *)
theory World
  imports Sql Json
begin

text \<open>
  The world the broker's code runs in: the five tables of the database (\<^verbatim>\<open>internal/db/db.go\<close>), the
  single connection of its pool, the requests sent out, and the environment that answers each
  interaction. Every interaction (a reading of the clock, random bytes, a SQL statement, an HTTP
  request, a \<^verbatim>\<open>tailscale whois\<close>) takes the next number of \<open>tick\<close>, and the environment's answer is a
  function of that number, so that nothing is assumed about it: it may fail or change at any point.
\<close>

subsection \<open>Tables\<close>

record device_authorization_row =
  da_id :: string
  da_github_device_code_encrypted :: string
  da_github_poll_interval :: int
  da_created_at :: int
  da_status :: string
  da_approved_email :: "string option"
  da_consumed_at :: "int option"
  da_poll_after_seconds :: int
  da_user_code :: string
  da_verification_uri :: string
  da_expires_at :: int

record mobile_device_row =
  md_id :: string
  md_email :: string
  md_created_at :: int
  md_last_seen_at :: int
  md_revoked_at :: "int option"
  md_metadata :: "string option"

record refresh_session_row =
  rs_id :: string
  rs_device_id :: string
  rs_token_hash :: string
  rs_parent_token_hash :: "string option"
  rs_issued_at :: int
  rs_expires_at :: int
  rs_revoked_at :: "int option"
  rs_rotated_at :: "int option"

record access_session_row =
  as_id :: string
  as_device_id :: string
  as_token_hash :: string
  as_issued_at :: int
  as_expires_at :: int
  as_revoked_at :: "int option"

record audit_event_row =
  ae_id :: string
  ae_event_code :: string
  ae_device_id :: "string option"
  ae_session_id :: "string option"
  ae_email :: "string option"
  ae_timestamp :: int
  ae_outcome :: string
  ae_details :: "string option"

record tables =
  device_authorizations :: "device_authorization_row list"
  mobile_devices :: "mobile_device_row list"
  refresh_sessions :: "refresh_session_row list"
  access_sessions :: "access_session_row list"
  audit_events :: "audit_event_row list"

definition empty_tables :: tables where
  "empty_tables = \<lparr>device_authorizations = [], mobile_devices = [], refresh_sessions = [],
     access_sessions = [], audit_events = []\<rparr>"

subsection \<open>The environment and the world\<close>

record http_request =
  hq_method :: string
  hq_url :: string
  hq_header :: "(string \<times> string) list"
  hq_body :: string

record http_response =
  hr_status :: int
  hr_body :: payload

text \<open>
  The parameters of the model. \<open>uni_lower\<close>: \<^verbatim>\<open>strings.ToLower\<close> on strings that are not ASCII.
  \<open>rfc3339\<close>: \<^verbatim>\<open>Time.Format\<close> in the host's time zone. \<open>sha256\<close>, \<open>gcm_seal\<close>, \<open>gcm_open\<close>: the primitives
  of Go's \<^verbatim>\<open>crypto\<close> packages (key, nonce, text). \<open>LookupEnv\<close>: the process environment.
  \<open>url_fault\<close>: what \<^verbatim>\<open>http.NewRequest\<close> finds wrong with a URL. \<open>rows_cut\<close>: after how many rows the
  driver breaks off the result of a query, if it does.
  \<open>parse_float\<close> (the IEEE bits of the value) and \<open>float_part f unit scale\<close> (the 64-bit float product
  \<^verbatim>\<open>float64(f) * (float64(unit) / scale)\<close>, truncated): floating point. The others are indexed by the
  tick.
\<close>

record env =
  clock :: "nat \<Rightarrow> int"
  rand_fault :: "nat \<Rightarrow> go_error option"
  rand_byte :: "nat \<Rightarrow> nat \<Rightarrow> byte"
  db_fault :: "nat \<Rightarrow> go_error option"
  rows_cut :: "nat \<Rightarrow> nat option"
  os_fault :: "nat \<Rightarrow> go_error option"
  url_fault :: "string \<Rightarrow> go_error option"
  http_reply :: "nat \<Rightarrow> http_request \<Rightarrow> go_error + http_response"
  whois_ok :: "nat \<Rightarrow> string \<Rightarrow> string \<Rightarrow> bool"
  sha256 :: "byte list \<Rightarrow> byte list"
  gcm_seal :: "byte list \<Rightarrow> byte list \<Rightarrow> byte list \<Rightarrow> byte list"
  gcm_open :: "byte list \<Rightarrow> byte list \<Rightarrow> byte list \<Rightarrow> byte list option"
  uni_lower :: "string \<Rightarrow> string"
  rfc3339 :: "int \<Rightarrow> string"
  LookupEnv :: "string \<Rightarrow> string option"
  parse_float :: "string \<Rightarrow> 64 word option"
  float_part :: "int \<Rightarrow> int \<Rightarrow> int \<Rightarrow> int"

text \<open>
  \<open>conn_held\<close> says that the pool's only connection (\<^verbatim>\<open>SetMaxOpenConns(1)\<close>) is checked out by the code
  being run; \<open>stuck\<close> that it asked for the connection while holding it, a wait that never ends.
\<close>

record world =
  tick :: nat
  db :: tables
  conn_held :: bool
  stuck :: bool
  outbox :: "http_request list"

type_synonym 'a io = "(world, 'a) state"

definition next_tick :: "nat io" where
  "next_tick = State (\<lambda>w. (tick w, w\<lparr>tick := Suc (tick w)\<rparr>))"

subsection \<open>Clock, random bytes, outgoing requests\<close>

definition time_Now :: "env \<Rightarrow> int io" where
  "time_Now e = do { t \<leftarrow> next_tick; return (clock e t) }"

definition rand_Read :: "env \<Rightarrow> nat \<Rightarrow> (go_error + byte list) io" where
  "rand_Read e n = do {
     t \<leftarrow> next_tick;
     return (case rand_fault e t of
               Some err \<Rightarrow> Inl err
             | None \<Rightarrow> Inr (map (rand_byte e t) [0..<n])) }"

definition http_Do :: "env \<Rightarrow> http_request \<Rightarrow> (go_error + http_response) io" where
  "http_Do e q = do {
     t \<leftarrow> next_tick;
     modify (\<lambda>w. w\<lparr>outbox := outbox w @ [q]\<rparr>);
     return (http_reply e t q) }"

text \<open>A call into the operating system or a driver of which only success or failure matters.\<close>

definition os_Call :: "env \<Rightarrow> (go_error + unit) io" where
  "os_Call e = do {
     t \<leftarrow> next_tick;
     return (case os_fault e t of Some err \<Rightarrow> Inl err | None \<Rightarrow> Inr ()) }"

subsection \<open>Statements on the pool's connection\<close>

definition checkout :: "unit io" where
  "checkout = modify (\<lambda>w. if conn_held w then w\<lparr>stuck := True\<rparr> else w\<lparr>conn_held := True\<rparr>)"

definition release :: "unit io" where
  "release = modify (\<lambda>w. w\<lparr>conn_held := False\<rparr>)"

text \<open>One statement: it fails as a whole (the driver's error, or a constraint) or takes effect.\<close>

definition run_stmt :: "env \<Rightarrow> (tables \<Rightarrow> go_error + 'a \<times> tables) \<Rightarrow> (go_error + 'a) io" where
  "run_stmt e f = do {
     t \<leftarrow> next_tick;
     case db_fault e t of
       Some err \<Rightarrow> return (Inl err)
     | None \<Rightarrow> do {
         d \<leftarrow> gets db;
         case f d of
           Inl err \<Rightarrow> return (Inl err)
         | Inr (a, d') \<Rightarrow> do { modify (\<lambda>w. w\<lparr>db := d'\<rparr>); return (Inr a) } } }"

text \<open>\<^verbatim>\<open>DB.Exec\<close> and \<^verbatim>\<open>DB.Query\<close>/\<^verbatim>\<open>QueryRow\<close> hold the connection for the one statement.\<close>

definition db_Exec :: "env \<Rightarrow> (tables \<Rightarrow> go_error + tables) \<Rightarrow> (go_error + unit) io" where
  "db_Exec e f = do {
     checkout;
     r \<leftarrow> run_stmt e (\<lambda>d. map_sum id (Pair ()) (f d));
     release;
     return r }"

definition db_Query :: "env \<Rightarrow> (tables \<Rightarrow> go_error + 'a) \<Rightarrow> (go_error + 'a) io" where
  "db_Query e f = do {
     checkout;
     r \<leftarrow> run_stmt e (\<lambda>d. map_sum id (\<lambda>a. (a, d)) (f d));
     release;
     return r }"

text \<open>
  A query whose rows are read in a loop over \<^verbatim>\<open>rows.Next()\<close>. When the driver fails in between, \<^verbatim>\<open>Next\<close>
  returns false and the error waits in \<^verbatim>\<open>rows.Err()\<close>; the callers never ask for it, and so take the rows
  read until then for all of them.
\<close>

definition cut_rows :: "env \<Rightarrow> nat \<Rightarrow> 'a list \<Rightarrow> 'a list" where
  "cut_rows e t rows = (case rows_cut e t of None \<Rightarrow> rows | Some n \<Rightarrow> take n rows)"

definition db_QueryRows :: "env \<Rightarrow> (tables \<Rightarrow> 'a list) \<Rightarrow> (go_error + 'a list) io" where
  "db_QueryRows e f = do {
     t \<leftarrow> gets tick;
     db_Query e (\<lambda>d. Inr (cut_rows e t (f d))) }"

text \<open>
  A transaction is the connection checked out and the tables it started from. \<^verbatim>\<open>Rollback\<close> restores
  them; \<^verbatim>\<open>Commit\<close> ends it either way: on an error of the COMMIT the driver rolls back. After a
  \<^verbatim>\<open>Commit\<close> the deferred \<^verbatim>\<open>Rollback\<close> has no effect and is not written out.
\<close>

type_synonym tx = tables

definition db_Begin :: "env \<Rightarrow> (go_error + tx) io" where
  "db_Begin e = do {
     checkout;
     r \<leftarrow> run_stmt e (\<lambda>d. Inr (d, d));
     case r of
       Inl err \<Rightarrow> do { release; return (Inl err) }
     | Inr tx \<Rightarrow> return (Inr tx) }"

definition tx_Exec :: "env \<Rightarrow> (tables \<Rightarrow> go_error + tables) \<Rightarrow> (go_error + unit) io" where
  "tx_Exec e f = run_stmt e (\<lambda>d. map_sum id (Pair ()) (f d))"

definition tx_Rollback :: "tx \<Rightarrow> unit io" where
  "tx_Rollback tx = modify (\<lambda>w. w\<lparr>db := tx, conn_held := False\<rparr>)"

definition tx_Commit :: "env \<Rightarrow> tx \<Rightarrow> (go_error + unit) io" where
  "tx_Commit e tx = do {
     r \<leftarrow> run_stmt e (\<lambda>d. Inr ((), d));
     case r of
       Inl err \<Rightarrow> do { tx_Rollback tx; return (Inl err) }
     | Inr _ \<Rightarrow> do { release; return (Inr ()) } }"

subsection \<open>What they do to the world\<close>

text \<open>Updates of a world are written in the order of its fields.\<close>

lemma world_update_order [simp]:
  "(w :: world)\<lparr>db := d, tick := t\<rparr> = w\<lparr>tick := t, db := d\<rparr>"
  "w\<lparr>conn_held := c, tick := t\<rparr> = w\<lparr>tick := t, conn_held := c\<rparr>"
  "w\<lparr>stuck := b, tick := t\<rparr> = w\<lparr>tick := t, stuck := b\<rparr>"
  "w\<lparr>outbox := q, tick := t\<rparr> = w\<lparr>tick := t, outbox := q\<rparr>"
  "w\<lparr>conn_held := c, db := d\<rparr> = w\<lparr>db := d, conn_held := c\<rparr>"
  "w\<lparr>stuck := b, db := d\<rparr> = w\<lparr>db := d, stuck := b\<rparr>"
  "w\<lparr>outbox := q, db := d\<rparr> = w\<lparr>db := d, outbox := q\<rparr>"
  "w\<lparr>stuck := b, conn_held := c\<rparr> = w\<lparr>conn_held := c, stuck := b\<rparr>"
  "w\<lparr>outbox := q, conn_held := c\<rparr> = w\<lparr>conn_held := c, outbox := q\<rparr>"
  "w\<lparr>outbox := q, stuck := b\<rparr> = w\<lparr>stuck := b, outbox := q\<rparr>"
  by (cases w; simp)+

text \<open>The pool is idle between operations: nobody holds the connection, nobody waits for ever.\<close>

definition idle :: "world \<Rightarrow> bool" where
  "idle w \<longleftrightarrow> \<not> conn_held w \<and> \<not> stuck w"

text \<open>The driver never fails; what a statement itself refuses (a constraint) it still refuses.\<close>

definition no_db_faults :: "env \<Rightarrow> bool" where
  "no_db_faults e \<longleftrightarrow> (\<forall>t. db_fault e t = None)"

lemma no_db_faultsD [simp]: "no_db_faults e \<Longrightarrow> db_fault e t = None"
  by (simp add: no_db_faults_def)

abbreviation step_tick :: "world \<Rightarrow> world" where
  "step_tick w \<equiv> w\<lparr>tick := Suc (tick w)\<rparr>"

lemma wp_next_tick [wp_simps]: "wp next_tick Q w = Q (tick w) (step_tick w)"
  by (simp add: wp_def next_tick_def)

lemma wp_time_Now [wp_simps]: "wp (time_Now e) Q w = Q (clock e (tick w)) (step_tick w)"
  by (simp add: time_Now_def wp_simps)

lemma wp_rand_Read [wp_simps]:
  "wp (rand_Read e n) Q w =
     Q (case rand_fault e (tick w) of
          Some err \<Rightarrow> Inl err
        | None \<Rightarrow> Inr (map (rand_byte e (tick w)) [0..<n])) (step_tick w)"
  by (simp add: rand_Read_def wp_simps)

lemma wp_http_Do [wp_simps]:
  "wp (http_Do e q) Q w =
     Q (http_reply e (tick w) q) (w\<lparr>tick := Suc (tick w), outbox := outbox w @ [q]\<rparr>)"
  by (simp add: http_Do_def wp_simps)

lemma wp_os_Call [wp_simps]:
  "wp (os_Call e) Q w =
     Q (case os_fault e (tick w) of Some err \<Rightarrow> Inl err | None \<Rightarrow> Inr ()) (step_tick w)"
  by (simp add: os_Call_def wp_simps)

lemma wp_run_stmt [wp_simps]:
  "wp (run_stmt e f) Q w =
     (case db_fault e (tick w) of
        Some err \<Rightarrow> Q (Inl err) (step_tick w)
      | None \<Rightarrow>
          (case f (db w) of
             Inl err \<Rightarrow> Q (Inl err) (step_tick w)
           | Inr (a, d) \<Rightarrow> Q (Inr a) (w\<lparr>tick := Suc (tick w), db := d\<rparr>)))"
  by (simp add: run_stmt_def wp_simps split: option.splits sum.splits prod.splits)

lemma idle_update [simp]:
  "idle (w\<lparr>tick := t\<rparr>) = idle w" "idle (w\<lparr>db := d\<rparr>) = idle w" "idle (w\<lparr>outbox := q\<rparr>) = idle w"
  by (simp_all add: idle_def)

lemma idle_not_held: "idle w \<Longrightarrow> conn_held w = False"
  by (simp add: idle_def)

lemma idle_conn_held [simp]: "idle w \<Longrightarrow> w\<lparr>conn_held := False\<rparr> = w"
  by (cases w) (simp add: idle_def)

lemma wp_db_Exec [wp_simps]:
  assumes "idle w"
  shows "wp (db_Exec e f) Q w =
     (case db_fault e (tick w) of
        Some err \<Rightarrow> Q (Inl err) (step_tick w)
      | None \<Rightarrow>
          (case f (db w) of
             Inl err \<Rightarrow> Q (Inl err) (step_tick w)
           | Inr d \<Rightarrow> Q (Inr ()) (w\<lparr>tick := Suc (tick w), db := d\<rparr>)))"
  using assms
  by (simp add: db_Exec_def checkout_def release_def idle_not_held wp_simps
      split: option.splits sum.splits)

lemma db_update_same [simp]: "db w = d \<Longrightarrow> w\<lparr>db := d\<rparr> = w"
  by (cases w) simp

lemma wp_db_Query [wp_simps]:
  assumes "idle w"
  shows "wp (db_Query e f) Q w =
     (case db_fault e (tick w) of
        Some err \<Rightarrow> Q (Inl err) (step_tick w)
      | None \<Rightarrow> Q (f (db w)) (step_tick w))"
  using assms
  by (cases "f (db w)")
    (auto simp: db_Query_def checkout_def release_def idle_not_held wp_simps split: option.splits)

lemma wp_db_QueryRows [wp_simps]:
  "idle w \<Longrightarrow> wp (db_QueryRows e f) Q w =
     (case db_fault e (tick w) of
        Some err \<Rightarrow> Q (Inl err) (step_tick w)
      | None \<Rightarrow> Q (Inr (cut_rows e (tick w) (f (db w)))) (step_tick w))"
  by (simp add: db_QueryRows_def wp_simps)

lemma wp_db_Begin [wp_simps]:
  assumes "idle w"
  shows "wp (db_Begin e) Q w =
     (case db_fault e (tick w) of
        Some err \<Rightarrow> Q (Inl err) (step_tick w)
      | None \<Rightarrow> Q (Inr (db w)) (w\<lparr>tick := Suc (tick w), conn_held := True\<rparr>))"
  using assms
  by (simp add: db_Begin_def checkout_def release_def idle_not_held wp_simps split: option.splits)

lemma wp_tx_Exec [wp_simps]:
  "wp (tx_Exec e f) Q w =
     (case db_fault e (tick w) of
        Some err \<Rightarrow> Q (Inl err) (step_tick w)
      | None \<Rightarrow>
          (case f (db w) of
             Inl err \<Rightarrow> Q (Inl err) (step_tick w)
           | Inr d \<Rightarrow> Q (Inr ()) (w\<lparr>tick := Suc (tick w), db := d\<rparr>)))"
  by (simp add: tx_Exec_def wp_simps split: option.splits sum.splits)

lemma wp_tx_Rollback [wp_simps]: "wp (tx_Rollback tx) Q w = Q () (w\<lparr>db := tx, conn_held := False\<rparr>)"
  by (simp add: tx_Rollback_def wp_simps)

lemma wp_tx_Commit [wp_simps]:
  "wp (tx_Commit e tx) Q w =
     (case db_fault e (tick w) of
        Some err \<Rightarrow> Q (Inl err) (w\<lparr>tick := Suc (tick w), db := tx, conn_held := False\<rparr>)
      | None \<Rightarrow> Q (Inr ()) (w\<lparr>tick := Suc (tick w), conn_held := False\<rparr>))"
  by (simp add: tx_Commit_def release_def wp_simps split: option.splits)

end
