(* ===== verification/Models.thy ===== *)
theory Models
  imports World
begin

text \<open>
  The shared structs of \<^verbatim>\<open>internal/models/models.go\<close> with their JSON tags. Field names that several
  structs have carry a prefix. A \<^verbatim>\<open>*time.Time\<close> is an option.
\<close>

definition zero_time :: int where
  "zero_time = unix_time (- 62135596800)"

record DeviceAuthorization =
  auth_ID :: string
  GitHubDeviceCode :: string
  GitHubPollInterval :: int
  GitHubExpiresAt :: int
  auth_CreatedAt :: int
  auth_Status :: string
  ApprovedEmail :: string
  ConsumedAt :: "int option"
  PollAfterSeconds :: int
  UserCode :: string
  VerificationURI :: string
  auth_ExpiresAt :: int

record MobileDevice =
  dev_ID :: string
  dev_Email :: string
  dev_CreatedAt :: int
  LastSeenAt :: int
  dev_RevokedAt :: "int option"
  Metadata :: string

record RefreshSession =
  ref_ID :: string
  ref_DeviceID :: string
  ref_TokenHash :: string
  ParentHash :: string
  ref_IssuedAt :: int
  ref_ExpiresAt :: int
  ref_RevokedAt :: "int option"
  RotatedAt :: "int option"

record AccessSession =
  acc_ID :: string
  acc_DeviceID :: string
  acc_TokenHash :: string
  acc_IssuedAt :: int
  acc_ExpiresAt :: int
  acc_RevokedAt :: "int option"

record AuditEvent =
  ev_ID :: string
  EventCode :: string
  ev_DeviceID :: string
  ev_SessionID :: string
  ev_Email :: string
  Timestamp :: int
  Outcome :: string
  Details :: string

record TokenPair =
  pair_AccessToken :: string
  pair_AccessExpiresAt :: int
  pair_RefreshToken :: string
  pair_RefreshExpiresAt :: int
  pair_SubjectEmail :: string

record DeviceAuthResponse =
  TransactionID :: string
  resp_UserCode :: string
  resp_VerificationURI :: string
  resp_ExpiresAt :: string
  resp_PollAfterSeconds :: int

record DeviceAuthStatus =
  st_Status :: string
  st_AccessToken :: string
  st_AccessExpiresAt :: string
  st_RefreshToken :: string
  st_RefreshExpiresAt :: string
  st_SubjectEmail :: string
  st_Error :: string
  st_ErrorMessage :: string

record RefreshRequest =
  req_RefreshToken :: string

record RefreshResponse =
  new_AccessToken :: string
  new_AccessExpiresAt :: string
  new_RefreshToken :: string
  new_RefreshExpiresAt :: string

record GitHubDeviceAuth =
  gh_DeviceCode :: string
  gh_UserCode :: string
  gh_VerificationURI :: string
  gh_ExpiresIn :: int
  gh_Interval :: int
  gh_GrantType :: string

record GitHubToken =
  gt_AccessToken :: string
  gt_TokenType :: string
  gt_Scope :: string

record GitHubEmail =
  ge_Email :: string
  ge_Primary :: bool
  ge_Verified :: bool
  ge_Visibility :: string

subsection \<open>Responses as JSON\<close>

text \<open>\<^verbatim>\<open>models.DeviceAuthStatus{Status: s}\<close>: the other fields are empty.\<close>

definition status_only :: "string \<Rightarrow> DeviceAuthStatus" where
  "status_only s =
     \<lparr>st_Status = s, st_AccessToken = [], st_AccessExpiresAt = [], st_RefreshToken = [],
      st_RefreshExpiresAt = [], st_SubjectEmail = [], st_Error = [], st_ErrorMessage = []\<rparr>"

definition json_DeviceAuthResponse :: "DeviceAuthResponse \<Rightarrow> json" where
  "json_DeviceAuthResponse r =
     JObj (str_member ''transaction_id'' (TransactionID r) @
           str_member ''user_code'' (resp_UserCode r) @
           str_member ''verification_uri'' (resp_VerificationURI r) @
           str_member ''expires_at'' (resp_ExpiresAt r) @
           int_member ''poll_after_seconds'' (resp_PollAfterSeconds r))"

definition json_DeviceAuthStatus :: "DeviceAuthStatus \<Rightarrow> json" where
  "json_DeviceAuthStatus r =
     JObj (str_member ''status'' (st_Status r) @
           str_member_omitempty ''access_token'' (st_AccessToken r) @
           str_member_omitempty ''access_expires_at'' (st_AccessExpiresAt r) @
           str_member_omitempty ''refresh_token'' (st_RefreshToken r) @
           str_member_omitempty ''refresh_expires_at'' (st_RefreshExpiresAt r) @
           str_member_omitempty ''subject_email'' (st_SubjectEmail r) @
           str_member_omitempty ''error'' (st_Error r) @
           str_member_omitempty ''error_message'' (st_ErrorMessage r))"

definition json_RefreshResponse :: "RefreshResponse \<Rightarrow> json" where
  "json_RefreshResponse r =
     JObj (str_member ''access_token'' (new_AccessToken r) @
           str_member ''access_expires_at'' (new_AccessExpiresAt r) @
           str_member ''refresh_token'' (new_RefreshToken r) @
           str_member ''refresh_expires_at'' (new_RefreshExpiresAt r))"

subsection \<open>JSON as requests\<close>

definition RefreshRequest_fields :: "RefreshRequest json_field list" where
  "RefreshRequest_fields =
     [(''refresh_token'', string_field (\<lambda>s r. r\<lparr>req_RefreshToken := s\<rparr>))]"

definition decode_RefreshRequest :: "json \<Rightarrow> RefreshRequest option" where
  "decode_RefreshRequest v = decode_object RefreshRequest_fields v \<lparr>req_RefreshToken = []\<rparr>"

definition GitHubDeviceAuth_fields :: "GitHubDeviceAuth json_field list" where
  "GitHubDeviceAuth_fields =
     [(''device_code'', string_field (\<lambda>s r. r\<lparr>gh_DeviceCode := s\<rparr>)),
      (''user_code'', string_field (\<lambda>s r. r\<lparr>gh_UserCode := s\<rparr>)),
      (''verification_uri'', string_field (\<lambda>s r. r\<lparr>gh_VerificationURI := s\<rparr>)),
      (''expires_in'', int_field (\<lambda>i r. r\<lparr>gh_ExpiresIn := i\<rparr>)),
      (''interval'', int_field (\<lambda>i r. r\<lparr>gh_Interval := i\<rparr>)),
      (''grant_type'', string_field (\<lambda>s r. r\<lparr>gh_GrantType := s\<rparr>))]"

definition zero_GitHubDeviceAuth :: GitHubDeviceAuth where
  "zero_GitHubDeviceAuth =
     \<lparr>gh_DeviceCode = [], gh_UserCode = [], gh_VerificationURI = [], gh_ExpiresIn = 0,
      gh_Interval = 0, gh_GrantType = []\<rparr>"

definition decode_GitHubDeviceAuth :: "json \<Rightarrow> GitHubDeviceAuth option" where
  "decode_GitHubDeviceAuth v = decode_object GitHubDeviceAuth_fields v zero_GitHubDeviceAuth"

definition GitHubEmail_fields :: "GitHubEmail json_field list" where
  "GitHubEmail_fields =
     [(''email'', string_field (\<lambda>s r. r\<lparr>ge_Email := s\<rparr>)),
      (''primary'', bool_field (\<lambda>b r. r\<lparr>ge_Primary := b\<rparr>)),
      (''verified'', bool_field (\<lambda>b r. r\<lparr>ge_Verified := b\<rparr>)),
      (''visibility'', string_field (\<lambda>s r. r\<lparr>ge_Visibility := s\<rparr>))]"

definition decode_GitHubEmail :: "json \<Rightarrow> GitHubEmail option" where
  "decode_GitHubEmail v =
     decode_object GitHubEmail_fields v
       \<lparr>ge_Email = [], ge_Primary = False, ge_Verified = False, ge_Visibility = []\<rparr>"

lemma status_only_members:
  "json_DeviceAuthStatus (status_only s) = JObj [(''status'', JStr s)]"
  by (simp add: json_DeviceAuthStatus_def status_only_def str_member_def str_member_omitempty_def)

end
