(* ===== verification/DbTables.thy ===== *)
theory DbTables
  imports Models
begin

text \<open>
  What the statements of \<^verbatim>\<open>internal/db\<close> do to the five tables, and how a row becomes a struct of
  \<^verbatim>\<open>models\<close> (\<^verbatim>\<open>Scan\<close> and the conversions after it). Each table is an interpretation of
  \<open>primary_key_table\<close>. The \<^verbatim>\<open>FOREIGN KEY\<close> clauses of the schema have no effect: SQLite enforces
  them only after \<^verbatim>\<open>PRAGMA foreign_keys = ON\<close>, which \<^verbatim>\<open>NewDB\<close> does not issue.
\<close>

subsection \<open>Inserts\<close>

definition insert_device_authorization ::
    "device_authorization_row \<Rightarrow> tables \<Rightarrow> go_error + tables" where
  "insert_device_authorization r d =
     map_sum id (\<lambda>t. d\<lparr>device_authorizations := t\<rparr>) (sql_insert da_id r (device_authorizations d))"

definition insert_mobile_device :: "mobile_device_row \<Rightarrow> tables \<Rightarrow> go_error + tables" where
  "insert_mobile_device r d =
     map_sum id (\<lambda>t. d\<lparr>mobile_devices := t\<rparr>) (sql_insert md_id r (mobile_devices d))"

definition insert_refresh_session :: "refresh_session_row \<Rightarrow> tables \<Rightarrow> go_error + tables" where
  "insert_refresh_session r d =
     map_sum id (\<lambda>t. d\<lparr>refresh_sessions := t\<rparr>) (sql_insert rs_id r (refresh_sessions d))"

definition insert_access_session :: "access_session_row \<Rightarrow> tables \<Rightarrow> go_error + tables" where
  "insert_access_session r d =
     map_sum id (\<lambda>t. d\<lparr>access_sessions := t\<rparr>) (sql_insert as_id r (access_sessions d))"

definition insert_audit_event :: "audit_event_row \<Rightarrow> tables \<Rightarrow> go_error + tables" where
  "insert_audit_event r d =
     map_sum id (\<lambda>t. d\<lparr>audit_events := t\<rparr>) (sql_insert ae_id r (audit_events d))"

subsection \<open>Updates and deletes\<close>

definition update_device_authorizations ::
    "(device_authorization_row \<Rightarrow> bool) \<Rightarrow> (device_authorization_row \<Rightarrow> device_authorization_row) \<Rightarrow>
     tables \<Rightarrow> tables" where
  "update_device_authorizations p f d =
     d\<lparr>device_authorizations := sql_update p f (device_authorizations d)\<rparr>"

text \<open>What the updates of \<^verbatim>\<open>device_auth.go\<close> set in the row of a transaction.\<close>

definition status_row ::
    "string \<Rightarrow> string \<Rightarrow> int \<Rightarrow> device_authorization_row \<Rightarrow> device_authorization_row" where
  "status_row status approvedEmail now r =
     (if status = ''approved'' then
        r\<lparr>da_status := status, da_approved_email := Some approvedEmail, da_consumed_at := Some now\<rparr>
      else r\<lparr>da_status := status\<rparr>)"

definition interval_row :: "int \<Rightarrow> device_authorization_row \<Rightarrow> device_authorization_row" where
  "interval_row newInterval r = r\<lparr>da_poll_after_seconds := newInterval, da_status := ''slow_down''\<rparr>"

definition consumed_row :: "int \<Rightarrow> device_authorization_row \<Rightarrow> device_authorization_row" where
  "consumed_row now r = r\<lparr>da_consumed_at := Some now\<rparr>"

lemmas auth_row_defs = status_row_def interval_row_def consumed_row_def

definition update_mobile_devices ::
    "(mobile_device_row \<Rightarrow> bool) \<Rightarrow> (mobile_device_row \<Rightarrow> mobile_device_row) \<Rightarrow> tables \<Rightarrow> tables" where
  "update_mobile_devices p f d = d\<lparr>mobile_devices := sql_update p f (mobile_devices d)\<rparr>"

definition update_refresh_sessions ::
    "(refresh_session_row \<Rightarrow> bool) \<Rightarrow> (refresh_session_row \<Rightarrow> refresh_session_row) \<Rightarrow>
     tables \<Rightarrow> tables" where
  "update_refresh_sessions p f d = d\<lparr>refresh_sessions := sql_update p f (refresh_sessions d)\<rparr>"

definition update_access_sessions ::
    "(access_session_row \<Rightarrow> bool) \<Rightarrow> (access_session_row \<Rightarrow> access_session_row) \<Rightarrow>
     tables \<Rightarrow> tables" where
  "update_access_sessions p f d = d\<lparr>access_sessions := sql_update p f (access_sessions d)\<rparr>"

definition delete_device_authorizations ::
    "(device_authorization_row \<Rightarrow> bool) \<Rightarrow> tables \<Rightarrow> tables" where
  "delete_device_authorizations p d =
     d\<lparr>device_authorizations := sql_delete p (device_authorizations d)\<rparr>"

definition delete_refresh_sessions :: "(refresh_session_row \<Rightarrow> bool) \<Rightarrow> tables \<Rightarrow> tables" where
  "delete_refresh_sessions p d = d\<lparr>refresh_sessions := sql_delete p (refresh_sessions d)\<rparr>"

definition delete_access_sessions :: "(access_session_row \<Rightarrow> bool) \<Rightarrow> tables \<Rightarrow> tables" where
  "delete_access_sessions p d = d\<lparr>access_sessions := sql_delete p (access_sessions d)\<rparr>"

lemmas table_defs =
  insert_device_authorization_def insert_mobile_device_def insert_refresh_session_def
  insert_access_session_def insert_audit_event_def update_device_authorizations_def
  update_mobile_devices_def update_refresh_sessions_def update_access_sessions_def
  delete_device_authorizations_def delete_refresh_sessions_def delete_access_sessions_def

subsection \<open>The tables have primary keys\<close>

interpretation device_authorization_table:
  primary_key_table da_id "sql_insert da_id" "\<lambda>k. sql_first (\<lambda>r. da_id r = k)" sql_update sql_delete
    "keys_distinct da_id"
  by (rule primary_key_rows)

interpretation mobile_device_table:
  primary_key_table md_id "sql_insert md_id" "\<lambda>k. sql_first (\<lambda>r. md_id r = k)" sql_update sql_delete
    "keys_distinct md_id"
  by (rule primary_key_rows)

interpretation refresh_session_table:
  primary_key_table rs_id "sql_insert rs_id" "\<lambda>k. sql_first (\<lambda>r. rs_id r = k)" sql_update sql_delete
    "keys_distinct rs_id"
  by (rule primary_key_rows)

interpretation access_session_table:
  primary_key_table as_id "sql_insert as_id" "\<lambda>k. sql_first (\<lambda>r. as_id r = k)" sql_update sql_delete
    "keys_distinct as_id"
  by (rule primary_key_rows)

interpretation audit_event_table:
  primary_key_table ae_id "sql_insert ae_id" "\<lambda>k. sql_first (\<lambda>r. ae_id r = k)" sql_update sql_delete
    "keys_distinct ae_id"
  by (rule primary_key_rows)

definition tables_ok :: "tables \<Rightarrow> bool" where
  "tables_ok d \<longleftrightarrow>
     keys_distinct da_id (device_authorizations d) \<and> keys_distinct md_id (mobile_devices d) \<and>
     keys_distinct rs_id (refresh_sessions d) \<and> keys_distinct as_id (access_sessions d) \<and>
     keys_distinct ae_id (audit_events d)"

lemma tables_ok_empty: "tables_ok empty_tables"
  by (simp add: tables_ok_def empty_tables_def keys_distinct_def)

lemma tables_ok_inserts:
  "tables_ok d \<Longrightarrow> insert_device_authorization r1 d = Inr d' \<Longrightarrow> tables_ok d'"
  "tables_ok d \<Longrightarrow> insert_mobile_device r2 d = Inr d' \<Longrightarrow> tables_ok d'"
  "tables_ok d \<Longrightarrow> insert_refresh_session r3 d = Inr d' \<Longrightarrow> tables_ok d'"
  "tables_ok d \<Longrightarrow> insert_access_session r4 d = Inr d' \<Longrightarrow> tables_ok d'"
  "tables_ok d \<Longrightarrow> insert_audit_event r5 d = Inr d' \<Longrightarrow> tables_ok d'"
  by (auto simp: table_defs tables_ok_def map_sum_def split: sum.splits
      intro: keys_distinct_insert)

lemma tables_ok_updates:
  "(\<And>r. da_id (f1 r) = da_id r) \<Longrightarrow> tables_ok (update_device_authorizations p1 f1 d) = tables_ok d"
  "(\<And>r. md_id (f2 r) = md_id r) \<Longrightarrow> tables_ok (update_mobile_devices p2 f2 d) = tables_ok d"
  "(\<And>r. rs_id (f3 r) = rs_id r) \<Longrightarrow> tables_ok (update_refresh_sessions p3 f3 d) = tables_ok d"
  "(\<And>r. as_id (f4 r) = as_id r) \<Longrightarrow> tables_ok (update_access_sessions p4 f4 d) = tables_ok d"
  by (simp_all add: table_defs tables_ok_def keys_distinct_update)

lemma tables_ok_deletes:
  "tables_ok d \<Longrightarrow> tables_ok (delete_device_authorizations p1 d)"
  "tables_ok d \<Longrightarrow> tables_ok (delete_refresh_sessions p2 d)"
  "tables_ok d \<Longrightarrow> tables_ok (delete_access_sessions p3 d)"
  by (simp_all add: table_defs tables_ok_def keys_distinct_delete)

subsection \<open>Rows as structs\<close>

text \<open>\<^verbatim>\<open>Scan\<close> into a Go string refuses NULL; into \<^verbatim>\<open>sql.NullString\<close> or \<^verbatim>\<open>sql.NullInt64\<close> it does not.\<close>

definition scan_text :: "string option \<Rightarrow> go_error + string" where
  "scan_text c =
     (case c of None \<Rightarrow> Inl (Err ''converting NULL to string is unsupported'') | Some s \<Rightarrow> Inr s)"

definition scan_device_authorization :: "device_authorization_row \<Rightarrow> DeviceAuthorization" where
  "scan_device_authorization r =
     \<lparr>auth_ID = da_id r,
      GitHubDeviceCode = da_github_device_code_encrypted r,
      GitHubPollInterval = da_github_poll_interval r,
      GitHubExpiresAt = unix_time (da_expires_at r),
      auth_CreatedAt = unix_time (da_created_at r),
      auth_Status = da_status r,
      ApprovedEmail = (case da_approved_email r of None \<Rightarrow> [] | Some s \<Rightarrow> s),
      ConsumedAt = map_option unix_time (da_consumed_at r),
      PollAfterSeconds = da_poll_after_seconds r,
      UserCode = da_user_code r,
      VerificationURI = da_verification_uri r,
      auth_ExpiresAt = unix_time (da_expires_at r)\<rparr>"

definition scan_mobile_device :: "mobile_device_row \<Rightarrow> go_error + MobileDevice" where
  "scan_mobile_device r =
     map_sum id (\<lambda>metadata.
       \<lparr>dev_ID = md_id r, dev_Email = md_email r, dev_CreatedAt = unix_time (md_created_at r),
        LastSeenAt = unix_time (md_last_seen_at r),
        dev_RevokedAt = map_option unix_time (md_revoked_at r), Metadata = metadata\<rparr>)
       (scan_text (md_metadata r))"

definition scan_refresh_session :: "refresh_session_row \<Rightarrow> go_error + RefreshSession" where
  "scan_refresh_session r =
     map_sum id (\<lambda>parent.
       \<lparr>ref_ID = rs_id r, ref_DeviceID = rs_device_id r, ref_TokenHash = rs_token_hash r,
        ParentHash = parent, ref_IssuedAt = unix_time (rs_issued_at r),
        ref_ExpiresAt = unix_time (rs_expires_at r),
        ref_RevokedAt = map_option unix_time (rs_revoked_at r),
        RotatedAt = map_option unix_time (rs_rotated_at r)\<rparr>)
       (scan_text (rs_parent_token_hash r))"

definition scan_access_session :: "access_session_row \<Rightarrow> AccessSession" where
  "scan_access_session r =
     \<lparr>acc_ID = as_id r, acc_DeviceID = as_device_id r, acc_TokenHash = as_token_hash r,
      acc_IssuedAt = unix_time (as_issued_at r), acc_ExpiresAt = unix_time (as_expires_at r),
      acc_RevokedAt = map_option unix_time (as_revoked_at r)\<rparr>"

definition scan_audit_event :: "audit_event_row \<Rightarrow> go_error + AuditEvent" where
  "scan_audit_event r =
     (case (scan_text (ae_device_id r), scan_text (ae_session_id r), scan_text (ae_email r),
            scan_text (ae_details r)) of
        (Inr dev, Inr sess, Inr email, Inr details) \<Rightarrow>
          Inr \<lparr>ev_ID = ae_id r, EventCode = ae_event_code r, ev_DeviceID = dev,
               ev_SessionID = sess, ev_Email = email, Timestamp = unix_time (ae_timestamp r),
               Outcome = ae_outcome r, Details = details\<rparr>
      | _ \<Rightarrow> Inl (Err ''converting NULL to string is unsupported''))"

text \<open>\<^verbatim>\<open>QueryRow(...).Scan(...)\<close> with \<^verbatim>\<open>sql.ErrNoRows\<close> turned into nil.\<close>

definition first_row :: "('r \<Rightarrow> bool) \<Rightarrow> ('r \<Rightarrow> go_error + 'a) \<Rightarrow> 'r list \<Rightarrow> go_error + 'a option" where
  "first_row p scan t =
     (case sql_first p t of None \<Rightarrow> Inr None | Some r \<Rightarrow> map_sum id Some (scan r))"

text \<open>\<^verbatim>\<open>for rows.Next() { rows.Scan(...) }\<close>: stops at the first row that cannot be read.\<close>

fun scan_rows :: "('r \<Rightarrow> go_error + 'a) \<Rightarrow> 'r list \<Rightarrow> go_error + 'a list" where
  "scan_rows scan [] = Inr []"
| "scan_rows scan (r # rs) =
     (case scan r of
        Inl err \<Rightarrow> Inl err
      | Inr a \<Rightarrow> (case scan_rows scan rs of Inl err \<Rightarrow> Inl err | Inr as \<Rightarrow> Inr (a # as)))"

lemma scan_access_session_simps [simp]:
  "acc_ID (scan_access_session r) = as_id r"
  "acc_DeviceID (scan_access_session r) = as_device_id r"
  "acc_TokenHash (scan_access_session r) = as_token_hash r"
  "acc_ExpiresAt (scan_access_session r) = unix_time (as_expires_at r)"
  "acc_RevokedAt (scan_access_session r) = map_option unix_time (as_revoked_at r)"
  by (simp_all add: scan_access_session_def)

lemma scan_device_authorization_simps [simp]:
  "auth_ID (scan_device_authorization r) = da_id r"
  "auth_Status (scan_device_authorization r) = da_status r"
  "GitHubDeviceCode (scan_device_authorization r) = da_github_device_code_encrypted r"
  "GitHubExpiresAt (scan_device_authorization r) = unix_time (da_expires_at r)"
  "ConsumedAt (scan_device_authorization r) = map_option unix_time (da_consumed_at r)"
  "PollAfterSeconds (scan_device_authorization r) = da_poll_after_seconds r"
  by (simp_all add: scan_device_authorization_def)

lemma scan_mobile_device_InrD:
  "scan_mobile_device r = Inr m \<Longrightarrow>
     dev_ID m = md_id r \<and> dev_Email m = md_email r \<and>
     dev_RevokedAt m = map_option unix_time (md_revoked_at r)"
  by (auto simp: scan_mobile_device_def scan_text_def split: option.splits)

lemma scan_refresh_session_InrD:
  "scan_refresh_session r = Inr s \<Longrightarrow>
     ref_ID s = rs_id r \<and> ref_DeviceID s = rs_device_id r \<and> ref_TokenHash s = rs_token_hash r \<and>
     ref_ExpiresAt s = unix_time (rs_expires_at r) \<and>
     ref_RevokedAt s = map_option unix_time (rs_revoked_at r) \<and>
     RotatedAt s = map_option unix_time (rs_rotated_at r)"
  by (auto simp: scan_refresh_session_def scan_text_def split: option.splits)

lemma scan_rows_total:
  "(\<And>r. r \<in> set rs \<Longrightarrow> scan r = Inr (f r)) \<Longrightarrow> scan_rows scan rs = Inr (map f rs)"
  by (induction rs) auto

lemma first_row_SomeD:
  "first_row p scan t = Inr (Some a) \<Longrightarrow> \<exists>r. sql_first p t = Some r \<and> scan r = Inr a"
  by (auto simp: first_row_def map_sum_def split: option.splits sum.splits)

end
