(* ===== verification/DbDeviceAuth.thy ===== *)
theory DbDeviceAuth
  imports DbTables
begin

text \<open>\<^verbatim>\<open>internal/db/device_auth.go\<close>: the records of pending GitHub device-flow transactions.\<close>

definition CreateDeviceAuthorization ::
    "env \<Rightarrow> string \<Rightarrow> string \<Rightarrow> string \<Rightarrow> string \<Rightarrow> int \<Rightarrow> int \<Rightarrow> int \<Rightarrow> (go_error + unit) io" where
  "CreateDeviceAuthorization e transactionID githubDeviceCodeEncrypted userCode verificationURI
     githubPollInterval githubExpiresAt pollAfterSeconds = do {
     t \<leftarrow> time_Now e;
     let now = to_unix t;
     db_Exec e (insert_device_authorization
       \<lparr>da_id = transactionID,
        da_github_device_code_encrypted = githubDeviceCodeEncrypted,
        da_github_poll_interval = githubPollInterval,
        da_created_at = now,
        da_status = ''pending'',
        da_approved_email = None,
        da_consumed_at = None,
        da_poll_after_seconds = pollAfterSeconds,
        da_user_code = userCode,
        da_verification_uri = verificationURI,
        da_expires_at = githubExpiresAt\<rparr>) }"

definition GetDeviceAuthorization ::
    "env \<Rightarrow> string \<Rightarrow> (go_error + DeviceAuthorization option) io" where
  "GetDeviceAuthorization e transactionID =
     map_err (Wrap ''failed to get device authorization'')
       (db_Query e (\<lambda>d. first_row (\<lambda>r. da_id r = transactionID)
          (\<lambda>r. Inr (scan_device_authorization r)) (device_authorizations d)))"

definition UpdateDeviceAuthorizationStatus ::
    "env \<Rightarrow> string \<Rightarrow> string \<Rightarrow> string \<Rightarrow> (go_error + unit) io" where
  "UpdateDeviceAuthorizationStatus e transactionID status approvedEmail = do {
     t \<leftarrow> time_Now e;
     let now = to_unix t;
     db_Exec e (\<lambda>d. Inr (update_device_authorizations (\<lambda>r. da_id r = transactionID)
       (status_row status approvedEmail now) d)) }"

definition UpdateDeviceAuthorizationPollInterval ::
    "env \<Rightarrow> string \<Rightarrow> int \<Rightarrow> (go_error + unit) io" where
  "UpdateDeviceAuthorizationPollInterval e transactionID newInterval =
     db_Exec e (\<lambda>d. Inr (update_device_authorizations (\<lambda>r. da_id r = transactionID)
       (interval_row newInterval) d))"

definition MarkDeviceAuthorizationConsumed :: "env \<Rightarrow> string \<Rightarrow> (go_error + unit) io" where
  "MarkDeviceAuthorizationConsumed e transactionID = do {
     t \<leftarrow> time_Now e;
     let now = to_unix t;
     db_Exec e (\<lambda>d. Inr (update_device_authorizations (\<lambda>r. da_id r = transactionID)
       (consumed_row now) d)) }"

definition ListPendingDeviceAuthorizations :: "env \<Rightarrow> (go_error + DeviceAuthorization list) io" where
  "ListPendingDeviceAuthorizations e = do {
     t \<leftarrow> time_Now e;
     let now = to_unix t;
     map_err (Wrap ''failed to list pending device authorizations'')
       (db_QueryRows e (\<lambda>d. map scan_device_authorization
          (sql_all (\<lambda>r. da_status r \<in> {''pending'', ''slow_down''} \<and> da_expires_at r > now)
             (device_authorizations d)))) }"

subsection \<open>Their weakest preconditions\<close>

lemma wp_CreateDeviceAuthorization [wp_simps]:
  "idle w \<Longrightarrow> wp (CreateDeviceAuthorization e tid enc uc uri pi ex pa) Q w =
     (case db_fault e (Suc (tick w)) of
        Some err \<Rightarrow> Q (Inl err) (w\<lparr>tick := Suc (Suc (tick w))\<rparr>)
      | None \<Rightarrow>
          (case insert_device_authorization
             \<lparr>da_id = tid, da_github_device_code_encrypted = enc, da_github_poll_interval = pi,
              da_created_at = to_unix (clock e (tick w)), da_status = ''pending'',
              da_approved_email = None, da_consumed_at = None, da_poll_after_seconds = pa,
              da_user_code = uc, da_verification_uri = uri, da_expires_at = ex\<rparr> (db w) of
             Inl err \<Rightarrow> Q (Inl err) (w\<lparr>tick := Suc (Suc (tick w))\<rparr>)
           | Inr d \<Rightarrow> Q (Inr ()) (w\<lparr>tick := Suc (Suc (tick w)), db := d\<rparr>)))"
  by (simp add: CreateDeviceAuthorization_def wp_simps Let_def split: option.splits sum.splits)

lemma wp_GetDeviceAuthorization [wp_simps]:
  "idle w \<Longrightarrow> wp (GetDeviceAuthorization e tid) Q w =
     (case db_fault e (tick w) of
        Some err \<Rightarrow> Q (Inl (Wrap ''failed to get device authorization'' err)) (step_tick w)
      | None \<Rightarrow> Q (Inr (map_option scan_device_authorization
          (sql_first (\<lambda>r. da_id r = tid) (device_authorizations (db w))))) (step_tick w))"
  by (simp add: GetDeviceAuthorization_def wp_simps first_row_def split: option.splits)

lemma wp_UpdateDeviceAuthorizationStatus [wp_simps]:
  "idle w \<Longrightarrow> wp (UpdateDeviceAuthorizationStatus e tid st email) Q w =
     (case db_fault e (Suc (tick w)) of
        Some err \<Rightarrow> Q (Inl err) (w\<lparr>tick := Suc (Suc (tick w))\<rparr>)
      | None \<Rightarrow> Q (Inr ()) (w\<lparr>tick := Suc (Suc (tick w)),
          db := update_device_authorizations (\<lambda>r. da_id r = tid)
            (status_row st email (to_unix (clock e (tick w)))) (db w)\<rparr>))"
  by (simp add: UpdateDeviceAuthorizationStatus_def wp_simps Let_def split: option.splits)

lemma wp_UpdateDeviceAuthorizationPollInterval [wp_simps]:
  "idle w \<Longrightarrow> wp (UpdateDeviceAuthorizationPollInterval e tid n) Q w =
     (case db_fault e (tick w) of
        Some err \<Rightarrow> Q (Inl err) (step_tick w)
      | None \<Rightarrow> Q (Inr ()) (w\<lparr>tick := Suc (tick w),
          db := update_device_authorizations (\<lambda>r. da_id r = tid)
            (interval_row n) (db w)\<rparr>))"
  by (simp add: UpdateDeviceAuthorizationPollInterval_def wp_simps split: option.splits)

lemma wp_MarkDeviceAuthorizationConsumed [wp_simps]:
  "idle w \<Longrightarrow> wp (MarkDeviceAuthorizationConsumed e tid) Q w =
     (case db_fault e (Suc (tick w)) of
        Some err \<Rightarrow> Q (Inl err) (w\<lparr>tick := Suc (Suc (tick w))\<rparr>)
      | None \<Rightarrow> Q (Inr ()) (w\<lparr>tick := Suc (Suc (tick w)),
          db := update_device_authorizations (\<lambda>r. da_id r = tid)
            (consumed_row (to_unix (clock e (tick w)))) (db w)\<rparr>))"
  by (simp add: MarkDeviceAuthorizationConsumed_def wp_simps Let_def split: option.splits)

end
