(* ===== verification/DbSessions.thy ===== *)
theory DbSessions
  imports DbTables
begin

text \<open>
  \<^verbatim>\<open>internal/db/sessions.go\<close>: paired devices, refresh and access sessions. Operations of more than one
  statement run in a transaction, with the deferred \<^verbatim>\<open>tx.Rollback()\<close> written at each early return.
\<close>

subsection \<open>Devices\<close>

definition CreateMobileDevice :: "env \<Rightarrow> string \<Rightarrow> string \<Rightarrow> string \<Rightarrow> (go_error + unit) io" where
  "CreateMobileDevice e deviceID email metadata = do {
     t \<leftarrow> time_Now e;
     let now = to_unix t;
     db_Exec e (insert_mobile_device
       \<lparr>md_id = deviceID, md_email = email, md_created_at = now, md_last_seen_at = now,
        md_revoked_at = None, md_metadata = Some metadata\<rparr>) }"

definition GetMobileDevice :: "env \<Rightarrow> string \<Rightarrow> (go_error + MobileDevice option) io" where
  "GetMobileDevice e deviceID =
     map_err (Wrap ''failed to get mobile device'')
       (db_Query e (\<lambda>d. first_row (\<lambda>r. md_id r = deviceID) scan_mobile_device (mobile_devices d)))"

definition UpdateMobileDeviceLastSeen :: "env \<Rightarrow> string \<Rightarrow> (go_error + unit) io" where
  "UpdateMobileDeviceLastSeen e deviceID = do {
     t \<leftarrow> time_Now e;
     let now = to_unix t;
     db_Exec e (\<lambda>d. Inr (update_mobile_devices (\<lambda>r. md_id r = deviceID)
       (\<lambda>r. r\<lparr>md_last_seen_at := now\<rparr>) d)) }"

text \<open>\<^verbatim>\<open>UPDATE ... SET revoked_at = ? WHERE device_id = ?\<close> on both session tables.\<close>

definition revoke_refresh_rows :: "int \<Rightarrow> string \<Rightarrow> tables \<Rightarrow> tables" where
  "revoke_refresh_rows now deviceID =
     update_refresh_sessions (\<lambda>r. rs_device_id r = deviceID) (\<lambda>r. r\<lparr>rs_revoked_at := Some now\<rparr>)"

definition revoke_access_rows :: "int \<Rightarrow> string \<Rightarrow> tables \<Rightarrow> tables" where
  "revoke_access_rows now deviceID =
     update_access_sessions (\<lambda>r. as_device_id r = deviceID) (\<lambda>r. r\<lparr>as_revoked_at := Some now\<rparr>)"

definition revoke_device_row :: "int \<Rightarrow> string \<Rightarrow> tables \<Rightarrow> tables" where
  "revoke_device_row now deviceID =
     update_mobile_devices (\<lambda>r. md_id r = deviceID) (\<lambda>r. r\<lparr>md_revoked_at := Some now\<rparr>)"

definition RevokeMobileDevice :: "env \<Rightarrow> string \<Rightarrow> (go_error + unit) io" where
  "RevokeMobileDevice e deviceID = do {
     t \<leftarrow> time_Now e;
     let now = to_unix t;
     on_err (db_Begin e) (\<lambda>err. return (Inl (Wrap ''failed to begin transaction'' err))) (\<lambda>tx.
     on_err (tx_Exec e (\<lambda>d. Inr (revoke_device_row now deviceID d)))
       (\<lambda>err. do { tx_Rollback tx; return (Inl (Wrap ''failed to revoke mobile device'' err)) }) (\<lambda>_.
     on_err (tx_Exec e (\<lambda>d. Inr (revoke_refresh_rows now deviceID d)))
       (\<lambda>err. do { tx_Rollback tx; return (Inl (Wrap ''failed to revoke refresh sessions'' err)) }) (\<lambda>_.
     on_err (tx_Exec e (\<lambda>d. Inr (revoke_access_rows now deviceID d)))
       (\<lambda>err. do { tx_Rollback tx; return (Inl (Wrap ''failed to revoke access sessions'' err)) }) (\<lambda>_.
     tx_Commit e tx)))) }"

subsection \<open>Refresh sessions\<close>

definition CreateRefreshSession ::
    "env \<Rightarrow> string \<Rightarrow> string \<Rightarrow> string \<Rightarrow> string \<Rightarrow> int \<Rightarrow> int \<Rightarrow> (go_error + unit) io" where
  "CreateRefreshSession e sessionID deviceID tokenHash parentHash issuedAt expiresAt =
     db_Exec e (insert_refresh_session
       \<lparr>rs_id = sessionID, rs_device_id = deviceID, rs_token_hash = tokenHash,
        rs_parent_token_hash = Some parentHash, rs_issued_at = to_unix issuedAt,
        rs_expires_at = to_unix expiresAt, rs_revoked_at = None, rs_rotated_at = None\<rparr>)"

definition GetRefreshSession :: "env \<Rightarrow> string \<Rightarrow> (go_error + RefreshSession option) io" where
  "GetRefreshSession e tokenHash =
     map_err (Wrap ''failed to get refresh session'')
       (db_Query e (\<lambda>d. first_row (\<lambda>r. rs_token_hash r = tokenHash) scan_refresh_session
          (refresh_sessions d)))"

text \<open>
  The device of the new row is a subselect on the old token's hash; without a row it is NULL, which
  the \<^verbatim>\<open>NOT NULL\<close> of the column refuses.
\<close>

definition mark_rotated :: "int \<Rightarrow> string \<Rightarrow> tables \<Rightarrow> tables" where
  "mark_rotated now oldSessionID =
     update_refresh_sessions (\<lambda>r. rs_id r = oldSessionID) (\<lambda>r. r\<lparr>rs_rotated_at := Some now\<rparr>)"

definition insert_successor ::
    "string \<Rightarrow> string \<Rightarrow> string \<Rightarrow> int \<Rightarrow> int \<Rightarrow> tables \<Rightarrow> go_error + tables" where
  "insert_successor newSessionID oldTokenHash newTokenHash now newExpires d =
     (case sql_first (\<lambda>r. rs_token_hash r = oldTokenHash) (refresh_sessions d) of
        None \<Rightarrow> Inl (Err ''NOT NULL constraint failed: refresh_sessions.device_id'')
      | Some old \<Rightarrow>
          insert_refresh_session
            \<lparr>rs_id = newSessionID, rs_device_id = rs_device_id old, rs_token_hash = newTokenHash,
             rs_parent_token_hash = Some oldTokenHash, rs_issued_at = now,
             rs_expires_at = newExpires, rs_revoked_at = None, rs_rotated_at = None\<rparr> d)"

definition RotateRefreshSession ::
    "env \<Rightarrow> string \<Rightarrow> string \<Rightarrow> string \<Rightarrow> string \<Rightarrow> int \<Rightarrow> (go_error + unit) io" where
  "RotateRefreshSession e oldSessionID oldTokenHash newSessionID newTokenHash newExpiresAt = do {
     t \<leftarrow> time_Now e;
     let now = to_unix t;
     on_err (db_Begin e) (\<lambda>err. return (Inl (Wrap ''failed to begin transaction'' err))) (\<lambda>tx.
     on_err (tx_Exec e (\<lambda>d. Inr (mark_rotated now oldSessionID d)))
       (\<lambda>err. do { tx_Rollback tx; return (Inl (Wrap ''failed to mark old session as rotated'' err)) }) (\<lambda>_.
     on_err (tx_Exec e (insert_successor newSessionID oldTokenHash newTokenHash now (to_unix newExpiresAt)))
       (\<lambda>err. do { tx_Rollback tx; return (Inl (Wrap ''failed to create new refresh session'' err)) }) (\<lambda>_.
     tx_Commit e tx))) }"

definition RevokeRefreshSession :: "env \<Rightarrow> string \<Rightarrow> (go_error + unit) io" where
  "RevokeRefreshSession e sessionID = do {
     t \<leftarrow> time_Now e;
     let now = to_unix t;
     db_Exec e (\<lambda>d. Inr (update_refresh_sessions (\<lambda>r. rs_id r = sessionID)
       (\<lambda>r. r\<lparr>rs_revoked_at := Some now\<rparr>) d)) }"

subsection \<open>Access sessions\<close>

definition CreateAccessSession ::
    "env \<Rightarrow> string \<Rightarrow> string \<Rightarrow> string \<Rightarrow> int \<Rightarrow> int \<Rightarrow> (go_error + unit) io" where
  "CreateAccessSession e sessionID deviceID tokenHash issuedAt expiresAt =
     db_Exec e (insert_access_session
       \<lparr>as_id = sessionID, as_device_id = deviceID, as_token_hash = tokenHash,
        as_issued_at = to_unix issuedAt, as_expires_at = to_unix expiresAt,
        as_revoked_at = None\<rparr>)"

definition GetAccessSession :: "env \<Rightarrow> string \<Rightarrow> (go_error + AccessSession option) io" where
  "GetAccessSession e tokenHash =
     map_err (Wrap ''failed to get access session'')
       (db_Query e (\<lambda>d. first_row (\<lambda>r. as_token_hash r = tokenHash)
          (\<lambda>r. Inr (scan_access_session r)) (access_sessions d)))"

definition RevokeAccessSession :: "env \<Rightarrow> string \<Rightarrow> (go_error + unit) io" where
  "RevokeAccessSession e sessionID = do {
     t \<leftarrow> time_Now e;
     let now = to_unix t;
     db_Exec e (\<lambda>d. Inr (update_access_sessions (\<lambda>r. as_id r = sessionID)
       (\<lambda>r. r\<lparr>as_revoked_at := Some now\<rparr>) d)) }"

definition RevokeAllSessionsForDevice :: "env \<Rightarrow> string \<Rightarrow> (go_error + unit) io" where
  "RevokeAllSessionsForDevice e deviceID = do {
     t \<leftarrow> time_Now e;
     let now = to_unix t;
     on_err (db_Begin e) (\<lambda>err. return (Inl (Wrap ''failed to begin transaction'' err))) (\<lambda>tx.
     on_err (tx_Exec e (\<lambda>d. Inr (revoke_refresh_rows now deviceID d)))
       (\<lambda>err. do { tx_Rollback tx; return (Inl (Wrap ''failed to revoke refresh sessions'' err)) }) (\<lambda>_.
     on_err (tx_Exec e (\<lambda>d. Inr (revoke_access_rows now deviceID d)))
       (\<lambda>err. do { tx_Rollback tx; return (Inl (Wrap ''failed to revoke access sessions'' err)) }) (\<lambda>_.
     tx_Commit e tx))) }"

text \<open>
  The first query's rows are read to the end, which gives the connection back, before the second
  query asks for it.
\<close>

definition GetDeviceSessions ::
    "env \<Rightarrow> string \<Rightarrow> (go_error + AccessSession list \<times> RefreshSession list) io" where
  "GetDeviceSessions e deviceID = do {
     t \<leftarrow> time_Now e;
     on_err (db_QueryRows e (\<lambda>d. sql_all (\<lambda>r. as_device_id r = deviceID \<and>
         (case as_revoked_at r of None \<Rightarrow> True | Some x \<Rightarrow> x > to_unix t)) (access_sessions d)))
       (\<lambda>err. return (Inl (Wrap ''failed to query access sessions'' err))) (\<lambda>accessRows. do {
     let accessSessions = map scan_access_session accessRows;
     t2 \<leftarrow> time_Now e;
     on_err (db_QueryRows e (\<lambda>d. sql_all (\<lambda>r. rs_device_id r = deviceID \<and>
         (case rs_revoked_at r of None \<Rightarrow> True | Some x \<Rightarrow> x > to_unix t2)) (refresh_sessions d)))
       (\<lambda>err. return (Inl (Wrap ''failed to query refresh sessions'' err))) (\<lambda>refreshRows.
     return (case scan_rows scan_refresh_session refreshRows of
               Inl err \<Rightarrow> Inl (Wrap ''failed to scan refresh session'' err)
             | Inr refreshSessions \<Rightarrow> Inr (accessSessions, refreshSessions))) }) }"

subsection \<open>Their weakest preconditions\<close>

lemma wp_CreateMobileDevice [wp_simps]:
  "idle w \<Longrightarrow> wp (CreateMobileDevice e deviceID email metadata) Q w =
     (case db_fault e (Suc (tick w)) of
        Some err \<Rightarrow> Q (Inl err) (w\<lparr>tick := Suc (Suc (tick w))\<rparr>)
      | None \<Rightarrow>
          (case insert_mobile_device
             \<lparr>md_id = deviceID, md_email = email, md_created_at = to_unix (clock e (tick w)),
              md_last_seen_at = to_unix (clock e (tick w)), md_revoked_at = None,
              md_metadata = Some metadata\<rparr> (db w) of
             Inl err \<Rightarrow> Q (Inl err) (w\<lparr>tick := Suc (Suc (tick w))\<rparr>)
           | Inr d \<Rightarrow> Q (Inr ()) (w\<lparr>tick := Suc (Suc (tick w)), db := d\<rparr>)))"
  by (simp add: CreateMobileDevice_def wp_simps Let_def split: option.splits sum.splits)

lemma wp_GetMobileDevice [wp_simps]:
  "idle w \<Longrightarrow> wp (GetMobileDevice e deviceID) Q w =
     (case db_fault e (tick w) of
        Some err \<Rightarrow> Q (Inl (Wrap ''failed to get mobile device'' err)) (step_tick w)
      | None \<Rightarrow> Q (map_sum (Wrap ''failed to get mobile device'') id
          (first_row (\<lambda>r. md_id r = deviceID) scan_mobile_device (mobile_devices (db w))))
          (step_tick w))"
  by (simp add: GetMobileDevice_def wp_simps split: option.splits)

lemma wp_UpdateMobileDeviceLastSeen [wp_simps]:
  "idle w \<Longrightarrow> wp (UpdateMobileDeviceLastSeen e deviceID) Q w =
     (case db_fault e (Suc (tick w)) of
        Some err \<Rightarrow> Q (Inl err) (w\<lparr>tick := Suc (Suc (tick w))\<rparr>)
      | None \<Rightarrow> Q (Inr ()) (w\<lparr>tick := Suc (Suc (tick w)),
          db := update_mobile_devices (\<lambda>r. md_id r = deviceID)
            (\<lambda>r. r\<lparr>md_last_seen_at := to_unix (clock e (tick w))\<rparr>) (db w)\<rparr>))"
  by (simp add: UpdateMobileDeviceLastSeen_def wp_simps Let_def split: option.splits)

lemma wp_CreateRefreshSession [wp_simps]:
  "idle w \<Longrightarrow> wp (CreateRefreshSession e sid dev h parent issued expires) Q w =
     (case db_fault e (tick w) of
        Some err \<Rightarrow> Q (Inl err) (step_tick w)
      | None \<Rightarrow>
          (case insert_refresh_session
             \<lparr>rs_id = sid, rs_device_id = dev, rs_token_hash = h, rs_parent_token_hash = Some parent,
              rs_issued_at = to_unix issued, rs_expires_at = to_unix expires,
              rs_revoked_at = None, rs_rotated_at = None\<rparr> (db w) of
             Inl err \<Rightarrow> Q (Inl err) (step_tick w)
           | Inr d \<Rightarrow> Q (Inr ()) (w\<lparr>tick := Suc (tick w), db := d\<rparr>)))"
  by (simp add: CreateRefreshSession_def wp_simps)

lemma wp_GetRefreshSession [wp_simps]:
  "idle w \<Longrightarrow> wp (GetRefreshSession e h) Q w =
     (case db_fault e (tick w) of
        Some err \<Rightarrow> Q (Inl (Wrap ''failed to get refresh session'' err)) (step_tick w)
      | None \<Rightarrow> Q (map_sum (Wrap ''failed to get refresh session'') id
          (first_row (\<lambda>r. rs_token_hash r = h) scan_refresh_session (refresh_sessions (db w))))
          (step_tick w))"
  by (simp add: GetRefreshSession_def wp_simps split: option.splits)

lemma wp_CreateAccessSession [wp_simps]:
  "idle w \<Longrightarrow> wp (CreateAccessSession e sid dev h issued expires) Q w =
     (case db_fault e (tick w) of
        Some err \<Rightarrow> Q (Inl err) (step_tick w)
      | None \<Rightarrow>
          (case insert_access_session
             \<lparr>as_id = sid, as_device_id = dev, as_token_hash = h, as_issued_at = to_unix issued,
              as_expires_at = to_unix expires, as_revoked_at = None\<rparr> (db w) of
             Inl err \<Rightarrow> Q (Inl err) (step_tick w)
           | Inr d \<Rightarrow> Q (Inr ()) (w\<lparr>tick := Suc (tick w), db := d\<rparr>)))"
  by (simp add: CreateAccessSession_def wp_simps)

lemma wp_GetAccessSession [wp_simps]:
  "idle w \<Longrightarrow> wp (GetAccessSession e h) Q w =
     (case db_fault e (tick w) of
        Some err \<Rightarrow> Q (Inl (Wrap ''failed to get access session'' err)) (step_tick w)
      | None \<Rightarrow> Q (Inr (map_option scan_access_session
          (sql_first (\<lambda>r. as_token_hash r = h) (access_sessions (db w))))) (step_tick w))"
  by (simp add: GetAccessSession_def wp_simps first_row_def split: option.splits)

text \<open>
  A transaction succeeds with all of its statements or fails with none. The rules leave the tick
  open; the exact count is in the rule for a database without faults.
\<close>

lemma wp_RevokeAllSessionsForDevice:
  assumes "idle w"
    and "\<And>n. tick w \<le> n \<Longrightarrow> Q (Inr ()) (w\<lparr>tick := n,
      db := revoke_access_rows (to_unix (clock e (tick w))) dev
        (revoke_refresh_rows (to_unix (clock e (tick w))) dev (db w))\<rparr>)"
    and "\<And>err n. tick w \<le> n \<Longrightarrow> Q (Inl err) (w\<lparr>tick := n\<rparr>)"
  shows "wp (RevokeAllSessionsForDevice e dev) Q w"
  using assms
  by (simp add: RevokeAllSessionsForDevice_def wp_simps Let_def split: option.splits)

lemma wp_RevokeMobileDevice:
  assumes "idle w"
    and "\<And>n. tick w \<le> n \<Longrightarrow> Q (Inr ()) (w\<lparr>tick := n,
      db := revoke_access_rows (to_unix (clock e (tick w))) dev
        (revoke_refresh_rows (to_unix (clock e (tick w))) dev
          (revoke_device_row (to_unix (clock e (tick w))) dev (db w)))\<rparr>)"
    and "\<And>err n. tick w \<le> n \<Longrightarrow> Q (Inl err) (w\<lparr>tick := n\<rparr>)"
  shows "wp (RevokeMobileDevice e dev) Q w"
  using assms
  by (simp add: RevokeMobileDevice_def wp_simps Let_def split: option.splits)

lemma wp_RotateRefreshSession:
  assumes "idle w"
    and "\<And>n d. insert_successor newID oldHash newHash (to_unix (clock e (tick w))) (to_unix expires)
        (mark_rotated (to_unix (clock e (tick w))) oldID (db w)) = Inr d \<Longrightarrow> tick w \<le> n \<Longrightarrow>
      Q (Inr ()) (w\<lparr>tick := n, db := d\<rparr>)"
    and "\<And>err n. tick w \<le> n \<Longrightarrow> Q (Inl err) (w\<lparr>tick := n\<rparr>)"
  shows "wp (RotateRefreshSession e oldID oldHash newID newHash expires) Q w"
  using assms
  by (simp add: RotateRefreshSession_def wp_simps Let_def split: option.splits sum.splits)


text \<open>Without faults they succeed, with an exact count of the interactions.\<close>

lemma wp_RevokeAllSessionsForDevice_ok:
  "idle w \<Longrightarrow> no_db_faults e \<Longrightarrow> wp (RevokeAllSessionsForDevice e dev) Q w =
     Q (Inr ()) (w\<lparr>tick := tick w + 5,
       db := revoke_access_rows (to_unix (clock e (tick w))) dev
         (revoke_refresh_rows (to_unix (clock e (tick w))) dev (db w))\<rparr>)"
  by (simp add: RevokeAllSessionsForDevice_def wp_simps Let_def eval_nat_numeral)

text \<open>No session of a device is left unrevoked.\<close>

definition cut_off :: "tables \<Rightarrow> string \<Rightarrow> bool" where
  "cut_off d k \<longleftrightarrow>
     (\<forall>s \<in> set (access_sessions d). as_device_id s = k \<longrightarrow> as_revoked_at s \<noteq> None) \<and>
     (\<forall>s \<in> set (refresh_sessions d). rs_device_id s = k \<longrightarrow> rs_revoked_at s \<noteq> None)"

lemma cut_off_revoked: "cut_off (revoke_access_rows now k (revoke_refresh_rows now k d)) k"
  by (simp add: cut_off_def revoke_access_rows_def revoke_refresh_rows_def table_defs
      sql_update_def ball_Un)

lemma cut_off_audit [simp]: "cut_off (d\<lparr>audit_events := evs\<rparr>) k = cut_off d k"
  by (simp add: cut_off_def)

text \<open>The outcomes of the inserts.\<close>

lemma wp_err_CreateMobileDevice [wp_err]:
  assumes "idle w"
    and "\<And>err n. tick w \<le> n \<Longrightarrow> E err (w\<lparr>tick := n\<rparr>)"
    and "\<And>m d n. tick w \<le> n \<Longrightarrow> insert_mobile_device m (db w) = Inr d \<Longrightarrow> md_id m = deviceID \<Longrightarrow>
      md_email m = email \<Longrightarrow> md_revoked_at m = None \<Longrightarrow> md_metadata m = Some metadata \<Longrightarrow>
      A () (w\<lparr>tick := n, db := d\<rparr>)"
  shows "wp (CreateMobileDevice e deviceID email metadata) (case_sum E A) w"
  using assms(1) by (auto simp: wp_simps intro!: assms(2,3) split: option.splits sum.splits)

lemma wp_err_CreateAccessSession [wp_err]:
  assumes "idle w"
    and "\<And>err n. tick w \<le> n \<Longrightarrow> E err (w\<lparr>tick := n\<rparr>)"
    and "\<And>s d n. tick w \<le> n \<Longrightarrow> insert_access_session s (db w) = Inr d \<Longrightarrow> as_id s = sid \<Longrightarrow>
      as_device_id s = dev \<Longrightarrow> as_token_hash s = h \<Longrightarrow> as_revoked_at s = None \<Longrightarrow>
      as_expires_at s = to_unix expires \<Longrightarrow> A () (w\<lparr>tick := n, db := d\<rparr>)"
  shows "wp (CreateAccessSession e sid dev h issued expires) (case_sum E A) w"
  using assms(1) by (auto simp: wp_simps intro!: assms(2,3) split: option.splits sum.splits)

lemma wp_err_CreateRefreshSession [wp_err]:
  assumes "idle w"
    and "\<And>err n. tick w \<le> n \<Longrightarrow> E err (w\<lparr>tick := n\<rparr>)"
    and "\<And>s d n. tick w \<le> n \<Longrightarrow> insert_refresh_session s (db w) = Inr d \<Longrightarrow> rs_id s = sid \<Longrightarrow>
      rs_device_id s = dev \<Longrightarrow> rs_token_hash s = h \<Longrightarrow> rs_revoked_at s = None \<Longrightarrow>
      rs_rotated_at s = None \<Longrightarrow> rs_parent_token_hash s = Some parent \<Longrightarrow>
      rs_expires_at s = to_unix expires \<Longrightarrow> A () (w\<lparr>tick := n, db := d\<rparr>)"
  shows "wp (CreateRefreshSession e sid dev h parent issued expires) (case_sum E A) w"
  using assms(1) by (auto simp: wp_simps intro!: assms(2,3) split: option.splits sum.splits)

end
