(* ===== verification/Crypto.thy ===== *)
theory Crypto
  imports Models
begin

text \<open>
  \<^verbatim>\<open>internal/utils/crypto.go\<close> and \<^verbatim>\<open>time.go\<close>: sealing of the GitHub device codes at rest, the random
  strings that identify transactions, devices, sessions and serve as tokens.
\<close>

subsection \<open>Sealing and opening\<close>

definition aes_NewCipher :: "byte list \<Rightarrow> go_error + byte list" where
  "aes_NewCipher key =
     (if length key \<in> {16, 24, 32} then Inr key else Inl (Err ''crypto/aes: invalid key size''))"

definition NonceSize :: nat where
  "NonceSize = 12"

definition Encrypt :: "env \<Rightarrow> string \<Rightarrow> string \<Rightarrow> (go_error + string) io" where
  "Encrypt e plaintext key =
     (let keyBytes = sha256 e (bytes_of_string key) in
      case aes_NewCipher keyBytes of
        Inl err \<Rightarrow> return (Inl err)
      | Inr block \<Rightarrow>
          on_err (rand_Read e NonceSize) (\<lambda>err. return (Inl err)) (\<lambda>nonce.
          return (Inr (hex_encode (nonce @ gcm_seal e block nonce (bytes_of_string plaintext))))))"

definition Decrypt :: "env \<Rightarrow> string \<Rightarrow> string \<Rightarrow> go_error + string" where
  "Decrypt e ciphertextHex key =
     (let keyBytes = sha256 e (bytes_of_string key) in
      case hex_decode ciphertextHex of
        None \<Rightarrow> Inl (Err ''encoding/hex: invalid input'')
      | Some ciphertext \<Rightarrow>
          (case aes_NewCipher keyBytes of
             Inl err \<Rightarrow> Inl err
           | Inr block \<Rightarrow>
               if length ciphertext < NonceSize then Inl (Err ''ciphertext too short'')
               else
                 (let nonce = take NonceSize ciphertext;
                      rest = drop NonceSize ciphertext
                  in case gcm_open e block nonce rest of
                       None \<Rightarrow> Inl (Err ''cipher: message authentication failed'')
                     | Some plaintext \<Rightarrow> Inr (string_of_bytes plaintext))))"

text \<open>The documented laws of the primitives: digests of 32 bytes, and opening what was sealed.\<close>

definition crypto_laws :: "env \<Rightarrow> bool" where
  "crypto_laws e \<longleftrightarrow>
     (\<forall>x. length (sha256 e x) = 32) \<and>
     (\<forall>k n p. length k = 32 \<longrightarrow> length n = NonceSize \<longrightarrow> gcm_open e k n (gcm_seal e k n p) = Some p)"

lemma wp_Encrypt [wp_simps]:
  assumes "crypto_laws e"
  shows "wp (Encrypt e p key) Q w =
    Q (case rand_fault e (tick w) of
         Some err \<Rightarrow> Inl err
       | None \<Rightarrow> Inr (let nonce = map (rand_byte e (tick w)) [0..<NonceSize] in
           hex_encode (nonce @ gcm_seal e (sha256 e (bytes_of_string key)) nonce (bytes_of_string p))))
      (step_tick w)"
  using assms
  by (simp add: Encrypt_def crypto_laws_def aes_NewCipher_def Let_def wp_simps split: option.splits)

lemma Decrypt_sealed:
  assumes "crypto_laws e" and "length nonce = NonceSize"
  shows "Decrypt e (hex_encode (nonce @ gcm_seal e (sha256 e (bytes_of_string key)) nonce
           (bytes_of_string p))) key = Inr p"
  using assms by (simp add: Decrypt_def crypto_laws_def aes_NewCipher_def Let_def)

subsection \<open>Random strings\<close>

definition charset :: string where
  "charset = ''abcdefghijklmnopqrstuvwxyzABCDEFGHIJKLMNOPQRSTUVWXYZ0123456789''"

definition charset_at :: "byte \<Rightarrow> char" where
  "charset_at b = charset ! unat (b mod word_of_nat (length charset))"

definition GenerateRandomString :: "env \<Rightarrow> nat \<Rightarrow> (go_error + string) io" where
  "GenerateRandomString e n =
     on_err (rand_Read e n) (\<lambda>err. return (Inl err)) (\<lambda>b. return (Inr (map charset_at b)))"

definition GenerateTokenPair :: "env \<Rightarrow> (go_error + string \<times> string) io" where
  "GenerateTokenPair e =
     on_err (GenerateRandomString e 32) (\<lambda>err. return (Inl err)) (\<lambda>accessToken.
     on_err (GenerateRandomString e 48) (\<lambda>err. return (Inl err)) (\<lambda>refreshToken.
     return (Inr (accessToken, refreshToken))))"

text \<open>The string made from the random bytes of a tick.\<close>

definition random_text :: "env \<Rightarrow> nat \<Rightarrow> nat \<Rightarrow> string" where
  "random_text e t n = map (charset_at \<circ> rand_byte e t) [0..<n]"

lemma length_charset: "length charset = 62"
  by (simp add: charset_def)

lemma charset_at_code [code]: "charset_at b = charset ! unat (b mod 62)"
  by (simp add: charset_at_def length_charset)

lemma length_random_text [simp]: "length (random_text e t n) = n"
  by (simp add: random_text_def)

lemma random_text_nonempty [simp]: "0 < n \<Longrightarrow> random_text e t n \<noteq> []"
  by (metis length_random_text less_numeral_extra(3) list.size(3))

lemma charset_at_in: "charset_at b \<in> set charset"
proof -
  have "unat (b mod 62) < 62" by (simp add: unat_mod)
  then show ?thesis by (simp add: charset_at_def length_charset)
qed

lemma set_random_text: "set (random_text e t n) \<subseteq> set charset"
  by (auto simp: random_text_def charset_at_in)

lemma wp_GenerateRandomString [wp_simps]:
  "wp (GenerateRandomString e n) Q w =
     Q (case rand_fault e (tick w) of Some err \<Rightarrow> Inl err | None \<Rightarrow> Inr (random_text e (tick w) n))
       (step_tick w)"
  by (simp add: GenerateRandomString_def random_text_def wp_simps split: option.splits)

lemma wp_GenerateTokenPair [wp_simps]:
  "wp (GenerateTokenPair e) Q w =
     (case rand_fault e (tick w) of
        Some err \<Rightarrow> Q (Inl err) (step_tick w)
      | None \<Rightarrow>
          Q (case rand_fault e (Suc (tick w)) of
               Some err \<Rightarrow> Inl err
             | None \<Rightarrow> Inr (random_text e (tick w) 32, random_text e (Suc (tick w)) 48))
            (w\<lparr>tick := Suc (Suc (tick w))\<rparr>))"
  by (simp add: GenerateTokenPair_def wp_simps split: option.splits)

subsection \<open>Time\<close>

definition NowUnix :: "env \<Rightarrow> int io" where
  "NowUnix e = do { t \<leftarrow> time_Now e; return (to_unix t) }"

definition Now :: "env \<Rightarrow> int io" where
  "Now e = time_Now e"

definition TimeFromUnix :: "int \<Rightarrow> int" where
  "TimeFromUnix ts = unix_time ts"

definition UnixFromTime :: "int \<Rightarrow> int" where
  "UnixFromTime t = to_unix t"

subsection \<open>Their outcomes\<close>

lemma wp_err_GenerateRandomString [wp_err]:
  assumes "\<And>err. E err (step_tick w)"
    and "\<And>s. length s = n \<Longrightarrow> set s \<subseteq> set charset \<Longrightarrow> A s (step_tick w)"
  shows "wp (GenerateRandomString e n) (case_sum E A) w"
  using assms set_random_text by (simp add: wp_simps split: option.splits)

lemma wp_err_GenerateTokenPair [wp_err]:
  assumes "\<And>err n. tick w \<le> n \<Longrightarrow> E err (w\<lparr>tick := n\<rparr>)"
    and "\<And>a r n. tick w \<le> n \<Longrightarrow> length a = 32 \<Longrightarrow> length r = 48 \<Longrightarrow> set a \<subseteq> set charset \<Longrightarrow>
      set r \<subseteq> set charset \<Longrightarrow> A (a, r) (w\<lparr>tick := n\<rparr>)"
  shows "wp (GenerateTokenPair e) (case_sum E A) w"
  using assms set_random_text by (simp add: wp_simps split: option.splits)

end
