(* ===== verification/DbAudit.thy ===== *)
theory DbAudit
  imports DbTables Crypto
begin

text \<open>\<^verbatim>\<open>internal/db/audit.go\<close>: the audit log, which is only ever appended to.\<close>

definition CreateAuditEvent ::
    "env \<Rightarrow> string \<Rightarrow> string \<Rightarrow> string \<Rightarrow> string \<Rightarrow> string \<Rightarrow> string \<Rightarrow> (go_error + unit) io" where
  "CreateAuditEvent e eventCode deviceID sessionID email outcome details =
     on_err (GenerateRandomString e 16)
       (\<lambda>err. return (Inl (Wrap ''failed to generate audit event ID'' err))) (\<lambda>id. do {
     t \<leftarrow> time_Now e;
     let now = to_unix t;
     db_Exec e (insert_audit_event
       \<lparr>ae_id = id, ae_event_code = eventCode, ae_device_id = Some deviceID,
        ae_session_id = Some sessionID, ae_email = Some email, ae_timestamp = now,
        ae_outcome = outcome, ae_details = Some details\<rparr>) })"

definition joinConditions :: "string list \<Rightarrow> string" where
  "joinConditions conditions =
     (case conditions of
        [] \<Rightarrow> []
      | [c] \<Rightarrow> c
      | c # cs \<Rightarrow> foldl (\<lambda>result cond. result @ '' AND '' @ cond) c cs)"

text \<open>
  The conditions of the query, each with the argument bound to its placeholder and with what it
  means for a row (a column that is NULL equals nothing).
\<close>

definition audit_conditions ::
    "string \<Rightarrow> string \<Rightarrow> string \<Rightarrow> (string \<times> string \<times> (audit_event_row \<Rightarrow> bool)) list" where
  "audit_conditions eventCode deviceID email =
     (if eventCode \<noteq> [] then [(''event_code = ?'', eventCode, \<lambda>r. ae_event_code r = eventCode)] else []) @
     (if deviceID \<noteq> [] then [(''device_id = ?'', deviceID, \<lambda>r. ae_device_id r = Some deviceID)] else []) @
     (if email \<noteq> [] then [(''email = ?'', email, \<lambda>r. ae_email r = Some email)] else [])"

definition newline :: "nat \<Rightarrow> string" where
  "newline tabs = CHR 0x0A # replicate tabs (CHR 0x09)"

definition audit_query_text :: "string \<Rightarrow> string \<Rightarrow> string \<Rightarrow> string" where
  "audit_query_text eventCode deviceID email =
     (let conditions = map fst (audit_conditions eventCode deviceID email) in
      newline 2 @ ''SELECT id, event_code, device_id, session_id, email, timestamp, outcome, details'' @
      newline 2 @ ''FROM audit_events'' @ newline 1 @
      (if conditions \<noteq> [] then '' WHERE '' @ joinConditions conditions else []) @
      '' ORDER BY timestamp DESC LIMIT ?'')"

text \<open>The arguments in the order of the placeholders, the limit last.\<close>

definition audit_query_args :: "int \<Rightarrow> string \<Rightarrow> string \<Rightarrow> string \<Rightarrow> string list" where
  "audit_query_args limit eventCode deviceID email =
     map (fst \<circ> snd) (audit_conditions eventCode deviceID email) @ [Itoa limit]"

text \<open>\<^verbatim>\<open>ORDER BY timestamp DESC LIMIT n\<close>; a negative limit is none. SQL does not order equal timestamps.\<close>

definition newest_first :: "int \<Rightarrow> audit_event_row list \<Rightarrow> audit_event_row list" where
  "newest_first limit rows =
     (let sorted = sort_key (\<lambda>r. - ae_timestamp r) rows
      in if limit < 0 then sorted else take (nat limit) sorted)"

definition GetAuditEvents ::
    "env \<Rightarrow> int \<Rightarrow> string \<Rightarrow> string \<Rightarrow> string \<Rightarrow> (go_error + AuditEvent list) io" where
  "GetAuditEvents e limit eventCode deviceID email =
     on_err (db_QueryRows e (\<lambda>d. newest_first limit
         (sql_all (\<lambda>r. list_all (\<lambda>(_, _, holds). holds r) (audit_conditions eventCode deviceID email))
            (audit_events d))))
       (\<lambda>err. return (Inl (Wrap ''failed to query audit events'' err))) (\<lambda>rows.
     return (case scan_rows scan_audit_event rows of
               Inl err \<Rightarrow> Inl (Wrap ''failed to scan audit event'' err)
             | Inr events \<Rightarrow> Inr events))"


text \<open>Whatever comes of it, an audit event changes nothing but the log, at its end.\<close>

lemma wp_CreateAuditEvent:
  assumes "idle w"
    and "\<And>r n evs. tick w \<le> n \<Longrightarrow> prefix (audit_events (db w)) evs \<Longrightarrow>
      Q r (w\<lparr>tick := n, db := (db w)\<lparr>audit_events := evs\<rparr>\<rparr>)"
  shows "wp (CreateAuditEvent e code dev sess email outcome details) Q w"
proof -
  have same: "Q r (w\<lparr>tick := n\<rparr>)" if "tick w \<le> n" for r n
    using assms(2)[of n "audit_events (db w)" r] that by (cases w) simp
  show ?thesis
    unfolding CreateAuditEvent_def Let_def
    using assms(1) same assms(2)
    by (auto simp: wp_simps insert_audit_event_def map_sum_def split: option.splits sum.splits
        dest!: sql_insert_InrD)
qed

end
