(* ===== verification/Database.thy ===== *)
theory Database
  imports DbDeviceAuth DbSessions DbAudit
begin

text \<open>
  \<^verbatim>\<open>internal/db/db.go\<close>: opening the database, the schema, and the removal of what has expired.
\<close>

text \<open>
  The names of the objects the migrations create, one migration per line; every statement is
  \<^verbatim>\<open>CREATE ... IF NOT EXISTS\<close>, so that it leaves the rows of an existing table alone.
\<close>

definition migrations :: "string list list" where
  "migrations =
     [[''device_authorizations''],
      [''mobile_devices''],
      [''refresh_sessions''],
      [''access_sessions''],
      [''audit_events''],
      [''idx_device_authorizations_status'', ''idx_device_authorizations_expires'',
       ''idx_refresh_sessions_token_hash'', ''idx_refresh_sessions_expires'',
       ''idx_access_sessions_token_hash'', ''idx_access_sessions_expires'',
       ''idx_mobile_devices_email'', ''idx_audit_events_timestamp'']]"

fun exec_migrations :: "env \<Rightarrow> string list list \<Rightarrow> (go_error + unit) io" where
  "exec_migrations e [] = return (Inr ())"
| "exec_migrations e (m # ms) =
     on_err (db_Exec e (\<lambda>d. Inr d)) (\<lambda>err. return (Inl (Wrap ''failed to execute migration'' err)))
       (\<lambda>_. exec_migrations e ms)"

definition runMigrations :: "env \<Rightarrow> (go_error + unit) io" where
  "runMigrations e = exec_migrations e migrations"

text \<open>
  \<^verbatim>\<open>os.MkdirAll\<close> of the file's directory, \<^verbatim>\<open>sql.Open\<close>, two pragmas on the first connection, then the
  migrations.
\<close>

definition NewDB :: "env \<Rightarrow> (go_error + unit) io" where
  "NewDB e =
     on_err (os_Call e) (\<lambda>err. return (Inl (Wrap ''failed to create db directory'' err))) (\<lambda>_.
     on_err (os_Call e) (\<lambda>err. return (Inl (Wrap ''failed to open database'' err))) (\<lambda>_.
     on_err (db_Exec e (\<lambda>d. Inr d)) (\<lambda>err. return (Inl (Wrap ''failed to set busy timeout'' err))) (\<lambda>_.
     on_err (db_Exec e (\<lambda>d. Inr d)) (\<lambda>err. return (Inl (Wrap ''failed to set WAL mode'' err))) (\<lambda>_.
     on_err (runMigrations e) (\<lambda>err. return (Inl (Wrap ''failed to run migrations'' err))) (\<lambda>_.
     return (Inr ()))))))"

definition BeginTx :: "env \<Rightarrow> (go_error + tx) io" where
  "BeginTx e = db_Begin e"

definition CleanupExpired :: "env \<Rightarrow> (go_error + unit) io" where
  "CleanupExpired e = do {
     t \<leftarrow> time_Now e;
     let now = to_unix t;
     on_err (db_Exec e (\<lambda>d. Inr (delete_device_authorizations
         (\<lambda>r. da_expires_at r < now \<and> da_status r \<noteq> ''approved'') d)))
       (\<lambda>err. return (Inl (Wrap ''failed to cleanup device authorizations'' err))) (\<lambda>_.
     on_err (db_Exec e (\<lambda>d. Inr (delete_refresh_sessions (\<lambda>r. rs_expires_at r < now) d)))
       (\<lambda>err. return (Inl (Wrap ''failed to cleanup refresh sessions'' err))) (\<lambda>_.
     on_err (db_Exec e (\<lambda>d. Inr (delete_access_sessions (\<lambda>r. as_expires_at r < now) d)))
       (\<lambda>err. return (Inl (Wrap ''failed to cleanup access sessions'' err))) (\<lambda>_.
     return (Inr ())))) }"

subsection \<open>A run that nothing disturbs\<close>

definition nothing_fails :: "env \<Rightarrow> bool" where
  "nothing_fails e \<longleftrightarrow>
     no_db_faults e \<and> (\<forall>t. rand_fault e t = None) \<and> (\<forall>u. url_fault e u = None)"

text \<open>No random identifier is in use already.\<close>

definition ids_available :: "env \<Rightarrow> tables \<Rightarrow> bool" where
  "ids_available e d \<longleftrightarrow> (\<forall>t. random_text e t 32 \<notin>
     md_id ` set (mobile_devices d) \<union> as_id ` set (access_sessions d) \<union> rs_id ` set (refresh_sessions d))"

text \<open>Nor will one that is drawn in the next forty interactions be drawn again in them.\<close>

definition ids_fresh :: "env \<Rightarrow> nat \<Rightarrow> tables \<Rightarrow> bool" where
  "ids_fresh e t d \<longleftrightarrow> ids_available e d \<and> distinct (map (\<lambda>n. random_text e (t + n) 32) [0..<40])"

lemma ids_fresh_distinct:
  assumes "ids_fresh e t d" and "i < 40" and "j < 40" and "i \<noteq> j"
  shows "random_text e (t + i) 32 \<noteq> random_text e (t + j) 32"
  using assms nth_eq_iff_index_eq[of "map (\<lambda>n. random_text e (t + n) 32) [0..<40]" i j]
  by (simp add: ids_fresh_def)

lemma sql_insert_new: "key r \<notin> key ` set t \<Longrightarrow> sql_insert key r t = Inr (t @ [r])"
  by (auto simp: sql_insert_def list_ex_iff) (metis image_eqI)

lemma insert_available:
  "md_id m \<notin> md_id ` set (mobile_devices d) \<Longrightarrow>
     insert_mobile_device m d = Inr (d\<lparr>mobile_devices := mobile_devices d @ [m]\<rparr>)"
  "as_id a \<notin> as_id ` set (access_sessions d) \<Longrightarrow>
     insert_access_session a d = Inr (d\<lparr>access_sessions := access_sessions d @ [a]\<rparr>)"
  "rs_id s \<notin> rs_id ` set (refresh_sessions d) \<Longrightarrow>
     insert_refresh_session s d = Inr (d\<lparr>refresh_sessions := refresh_sessions d @ [s]\<rparr>)"
  by (simp_all add: table_defs sql_insert_new)

end
