(* ===== verification/Store.thy ===== *)
theory Store
  imports Database
begin

text \<open>
  The contract between the store and its clients. A relation on the tables that every statement of
  \<^verbatim>\<open>internal/db\<close> moves along is one that every operation, and then every handler, moves along; the
  relation of worlds says besides that the pool is idle again afterwards. The contract has parts, for
  relations that not every statement keeps: \<open>core_contract\<close> is what all have in common,
  \<open>transaction_contract\<close> adds the transactions, \<open>session_contract\<close> the insertion of sessions,
  \<open>cleanup_contract\<close> the deletions. Four relations are shown to be such: nothing at all (which leaves
  the pool's part), primary keys stay unique, rows evolve without being lost or un-revoked, and the audit
  log is appended to.
\<close>

definition lift_rel :: "(tables \<Rightarrow> tables \<Rightarrow> bool) \<Rightarrow> world \<Rightarrow> world \<Rightarrow> bool" where
  "lift_rel T w w' \<longleftrightarrow> (idle w \<longrightarrow> idle w' \<and> tick w \<le> tick w' \<and> T (db w) (db w'))"

lemma io_relI:
  "(\<And>w. idle w \<Longrightarrow> wp m (\<lambda>_ w'. idle w' \<and> tick w \<le> tick w' \<and> T (db w) (db w')) w) \<Longrightarrow>
     state_io_rel (lift_rel T) m"
  unfolding state_io_rel_wp lift_rel_def wp_def by (simp add: case_prod_beta)

lemma io_relD:
  "state_io_rel (lift_rel T) m \<Longrightarrow> idle w \<Longrightarrow> run_state m w = (a, w') \<Longrightarrow>
     idle w' \<and> tick w \<le> tick w' \<and> T (db w) (db w')"
  by (auto simp: lift_rel_def dest: state_io_relD)

locale core_contract =
  fixes T :: "tables \<Rightarrow> tables \<Rightarrow> bool"
  assumes T_refl: "T d d"
    and T_trans: "T d1 d2 \<Longrightarrow> T d2 d3 \<Longrightarrow> T d1 d3"
    and T_insert_mobile_device: "md_revoked_at device_row = None \<Longrightarrow>
      insert_mobile_device device_row d = Inr d' \<Longrightarrow> T d d'"
    and T_insert_audit_event: "insert_audit_event event_row d = Inr d' \<Longrightarrow> T d d'"
    and T_last_seen: "T d (update_mobile_devices (\<lambda>r. md_id r = k)
      (\<lambda>r. r\<lparr>md_last_seen_at := now\<rparr>) d)"
    and T_revoke_refresh: "T d (update_refresh_sessions (\<lambda>r. rs_id r = k)
      (\<lambda>r. r\<lparr>rs_revoked_at := Some now\<rparr>) d)"
    and T_revoke_access: "T d (update_access_sessions (\<lambda>r. as_id r = k)
      (\<lambda>r. r\<lparr>as_revoked_at := Some now\<rparr>) d)"
    and T_revoke_sessions: "T d (revoke_access_rows now k (revoke_refresh_rows now k d))"
    and T_revoke_device:
      "T d (revoke_access_rows now k (revoke_refresh_rows now k (revoke_device_row now k d)))"
begin

lemma lift_history: "history (lift_rel T)"
  by unfold_locales (auto simp: lift_rel_def T_refl intro: T_trans le_trans)

sublocale history "lift_rel T"
  by (rule lift_history)

lemmas rel_everything [io_rel] = UNIV_I

lemma rel_time_Now [io_rel]: "state_io_rel (lift_rel T) (time_Now e)"
  by (rule io_relI) (simp add: wp_simps T_refl)

lemma rel_http_Do [io_rel]: "state_io_rel (lift_rel T) (http_Do e q)"
  by (rule io_relI) (simp add: wp_simps T_refl)

lemma rel_next_tick [io_rel]: "state_io_rel (lift_rel T) next_tick"
  by (rule io_relI) (simp add: wp_simps T_refl)

lemma rel_os_Call [io_rel]: "state_io_rel (lift_rel T) (os_Call e)"
  by (rule io_relI) (simp add: wp_simps T_refl)

lemma rel_rand_Read [io_rel]: "state_io_rel (lift_rel T) (rand_Read e n)"
  by (rule io_relI) (simp add: wp_simps T_refl)

lemma rel_db_Exec [io_rel]:
  "(\<And>d d'. f d = Inr d' \<Longrightarrow> T d d') \<Longrightarrow> state_io_rel (lift_rel T) (db_Exec e f)"
  by (rule io_relI) (simp add: wp_simps T_refl split: option.splits sum.splits)

lemma rel_db_Query [io_rel]: "state_io_rel (lift_rel T) (db_Query e f)"
  by (rule io_relI) (simp add: wp_simps T_refl split: option.splits)

lemma rel_db_QueryRows [io_rel]: "state_io_rel (lift_rel T) (db_QueryRows e f)"
  by (rule io_relI) (simp add: wp_simps T_refl split: option.splits)

lemma rel_GenerateRandomString [io_rel]: "state_io_rel (lift_rel T) (GenerateRandomString e n)"
  unfolding GenerateRandomString_def by (intro io_rel)

lemma rel_GenerateTokenPair [io_rel]: "state_io_rel (lift_rel T) (GenerateTokenPair e)"
  unfolding GenerateTokenPair_def by (intro io_rel)

lemma rel_Encrypt [io_rel]: "state_io_rel (lift_rel T) (Encrypt e p k)"
  unfolding Encrypt_def by (intro io_rel)

text \<open>The operations of the store.\<close>

lemma rel_GetDeviceAuthorization [io_rel]:
  "state_io_rel (lift_rel T) (GetDeviceAuthorization e a)"
  unfolding GetDeviceAuthorization_def by (intro io_rel)

lemma rel_ListPendingDeviceAuthorizations [io_rel]:
  "state_io_rel (lift_rel T) (ListPendingDeviceAuthorizations e)"
  unfolding ListPendingDeviceAuthorizations_def Let_def by (intro io_rel)

lemma rel_CreateMobileDevice [io_rel]:
  "state_io_rel (lift_rel T) (CreateMobileDevice e a b c)"
  unfolding CreateMobileDevice_def Let_def by (intro io_rel) (rule T_insert_mobile_device[rotated], assumption, simp)

lemma rel_GetMobileDevice [io_rel]: "state_io_rel (lift_rel T) (GetMobileDevice e a)"
  unfolding GetMobileDevice_def by (intro io_rel)

lemma rel_UpdateMobileDeviceLastSeen [io_rel]:
  "state_io_rel (lift_rel T) (UpdateMobileDeviceLastSeen e k)"
  by (rule io_relI) (simp add: wp_simps T_refl T_last_seen split: option.splits)

lemma rel_RevokeMobileDevice [io_rel]: "state_io_rel (lift_rel T) (RevokeMobileDevice e k)"
  by (rule io_relI, rule wp_RevokeMobileDevice)
    (auto simp: T_refl T_revoke_device)

lemma rel_RevokeAllSessionsForDevice [io_rel]:
  "state_io_rel (lift_rel T) (RevokeAllSessionsForDevice e k)"
  by (rule io_relI, rule wp_RevokeAllSessionsForDevice)
    (auto simp: T_refl T_revoke_sessions)

lemma rel_GetRefreshSession [io_rel]: "state_io_rel (lift_rel T) (GetRefreshSession e h)"
  unfolding GetRefreshSession_def by (intro io_rel)

lemma rel_RevokeRefreshSession [io_rel]:
  "state_io_rel (lift_rel T) (RevokeRefreshSession e k)"
  unfolding RevokeRefreshSession_def Let_def by (intro io_rel) (auto intro: T_revoke_refresh)

lemma rel_GetAccessSession [io_rel]: "state_io_rel (lift_rel T) (GetAccessSession e h)"
  unfolding GetAccessSession_def by (intro io_rel)

lemma rel_RevokeAccessSession [io_rel]:
  "state_io_rel (lift_rel T) (RevokeAccessSession e k)"
  unfolding RevokeAccessSession_def Let_def by (intro io_rel) (auto intro: T_revoke_access)

lemma rel_GetDeviceSessions [io_rel]: "state_io_rel (lift_rel T) (GetDeviceSessions e k)"
  unfolding GetDeviceSessions_def Let_def by (intro io_rel)

lemma rel_CreateAuditEvent [io_rel]:
  "state_io_rel (lift_rel T) (CreateAuditEvent e a b c f g h)"
  unfolding CreateAuditEvent_def Let_def by (intro io_rel) (rule T_insert_audit_event)

lemma rel_GetAuditEvents [io_rel]: "state_io_rel (lift_rel T) (GetAuditEvents e n a b c)"
  unfolding GetAuditEvents_def by (intro io_rel)

lemma rel_exec_migrations [io_rel]: "state_io_rel (lift_rel T) (exec_migrations e ms)"
  by (induction ms) (auto intro!: io_rel simp: T_refl)

lemma rel_NewDB [io_rel]: "state_io_rel (lift_rel T) (NewDB e)"
  unfolding NewDB_def runMigrations_def by (intro io_rel) (auto simp: T_refl)

end

text \<open>
  The transactions whose identifiers are in \<open>K\<close> may be inserted and updated. A relation that says
  something of the other transactions keeps this contract for a \<open>K\<close> of its own.
\<close>

locale transaction_contract = core_contract +
  fixes K :: "string set"
  assumes T_insert_device_authorization:
      "da_id auth_row \<in> K \<Longrightarrow> da_status auth_row = ''pending'' \<Longrightarrow> da_consumed_at auth_row = None \<Longrightarrow>
      insert_device_authorization auth_row d = Inr d' \<Longrightarrow> T d d'"
    and T_status: "k \<in> K \<Longrightarrow> T d (update_device_authorizations (\<lambda>r. da_id r = k)
      (status_row st email now) d)"
    and T_poll_interval: "k \<in> K \<Longrightarrow> T d (update_device_authorizations (\<lambda>r. da_id r = k)
      (interval_row n) d)"
    and T_consumed: "k \<in> K \<Longrightarrow> T d (update_device_authorizations (\<lambda>r. da_id r = k)
      (consumed_row now) d)"
begin

lemma rel_CreateDeviceAuthorization [io_rel]:
  "k \<in> K \<Longrightarrow> state_io_rel (lift_rel T) (CreateDeviceAuthorization e k b c d i j n)"
  unfolding CreateDeviceAuthorization_def Let_def
  by (intro io_rel) (rule T_insert_device_authorization[rotated -1], assumption, simp_all)

lemma rel_UpdateDeviceAuthorizationStatus [io_rel]:
  "k \<in> K \<Longrightarrow> state_io_rel (lift_rel T) (UpdateDeviceAuthorizationStatus e k st email)"
  by (rule io_relI)
    (simp add: wp_simps T_refl T_status split: option.splits)

lemma rel_UpdateDeviceAuthorizationPollInterval [io_rel]:
  "k \<in> K \<Longrightarrow> state_io_rel (lift_rel T) (UpdateDeviceAuthorizationPollInterval e k n)"
  by (rule io_relI) (simp add: wp_simps T_refl T_poll_interval split: option.splits)

lemma rel_MarkDeviceAuthorizationConsumed [io_rel]:
  "k \<in> K \<Longrightarrow> state_io_rel (lift_rel T) (MarkDeviceAuthorizationConsumed e k)"
  by (rule io_relI) (simp add: wp_simps T_refl T_consumed split: option.splits)

end

locale statement_contract = transaction_contract T UNIV for T

text \<open>
  Sessions may be inserted for the devices in \<open>D\<close>. The rotation of a refresh token, a transaction, is
  one statement.
\<close>

locale session_contract = core_contract +
  fixes D :: "string set"
  assumes T_insert_refresh_session: "rs_device_id refresh_row \<in> D \<Longrightarrow>
      rs_revoked_at refresh_row = None \<Longrightarrow> rs_rotated_at refresh_row = None \<Longrightarrow>
      insert_refresh_session refresh_row d = Inr d' \<Longrightarrow> T d d'"
    and T_insert_access_session: "as_device_id access_row \<in> D \<Longrightarrow> as_revoked_at access_row = None \<Longrightarrow>
      insert_access_session access_row d = Inr d' \<Longrightarrow> T d d'"
    and T_rotation: "insert_successor newID oldHash newHash now expires (mark_rotated now oldID d) = Inr d' \<Longrightarrow>
      T d d'"
begin

lemma rel_CreateRefreshSession [io_rel]:
  "dev \<in> D \<Longrightarrow> state_io_rel (lift_rel T) (CreateRefreshSession e sid dev h parent issued expires)"
  unfolding CreateRefreshSession_def
  by (intro io_rel) (rule T_insert_refresh_session[rotated -1], assumption, simp_all)

lemma rel_RotateRefreshSession [io_rel]:
  "state_io_rel (lift_rel T) (RotateRefreshSession e oldID oldHash newID newHash expires)"
  by (rule io_relI, rule wp_RotateRefreshSession) (auto simp: T_refl intro: T_rotation)

lemma rel_CreateAccessSession [io_rel]:
  "dev \<in> D \<Longrightarrow> state_io_rel (lift_rel T) (CreateAccessSession e sid dev h issued expires)"
  unfolding CreateAccessSession_def
  by (intro io_rel) (rule T_insert_access_session[rotated -1], assumption, simp_all)

end

text \<open>Both; the relation of all statements but deletions is the case in which \<open>K\<close> and \<open>D\<close> are everything.\<close>

locale insert_contract = transaction_contract T K + session_contract T D for T K D

locale flow_contract = insert_contract T K UNIV for T K

locale table_contract = flow_contract T UNIV for T

sublocale table_contract \<subseteq> statement_contract
  by unfold_locales

text \<open>The removal of expired rows deletes, which not every relation allows.\<close>

locale cleanup_contract = core_contract +
  assumes T_delete_device_authorizations: "T d (delete_device_authorizations p d)"
    and T_delete_refresh_sessions: "T d (delete_refresh_sessions q d)"
    and T_delete_access_sessions: "T d (delete_access_sessions r d)"
begin

lemma rel_CleanupExpired [io_rel]: "state_io_rel (lift_rel T) (CleanupExpired e)"
  unfolding CleanupExpired_def Let_def
  by (intro io_rel)
    (auto intro: T_delete_device_authorizations T_delete_refresh_sessions T_delete_access_sessions)

end

locale full_contract = table_contract + cleanup_contract

subsection \<open>First relation: none, which leaves what is said of the pool\<close>

interpretation pool: full_contract "\<lambda>_ _. True"
  by unfold_locales simp_all

subsection \<open>Second relation: primary keys stay unique\<close>

definition keeps_keys :: "tables \<Rightarrow> tables \<Rightarrow> bool" where
  "keeps_keys d d' \<longleftrightarrow> (tables_ok d \<longrightarrow> tables_ok d')"

lemma tables_ok_rotation:
  "tables_ok d \<Longrightarrow> insert_successor newID oldHash newHash now ex (mark_rotated now oldID d) = Inr d' \<Longrightarrow>
     tables_ok d'"
  by (auto simp: insert_successor_def mark_rotated_def tables_ok_updates split: option.splits
      dest!: tables_ok_inserts(3)[rotated])

interpretation keys: full_contract keeps_keys
  by unfold_locales
    (auto simp: keeps_keys_def auth_row_defs tables_ok_updates tables_ok_deletes revoke_device_row_def
      revoke_refresh_rows_def revoke_access_rows_def intro: tables_ok_inserts tables_ok_rotation)

subsection \<open>Third relation: rows evolve\<close>

text \<open>
  What identifies a row, and when it was issued and expires, never changes; a revocation, a rotation
  or a consumption is never undone.
\<close>

definition auth_le :: "device_authorization_row \<Rightarrow> device_authorization_row \<Rightarrow> bool" where
  "auth_le r s \<longleftrightarrow>
     da_id s = da_id r \<and>
     da_github_device_code_encrypted s = da_github_device_code_encrypted r \<and>
     da_created_at s = da_created_at r \<and> da_user_code s = da_user_code r \<and>
     da_expires_at s = da_expires_at r \<and>
     (da_consumed_at r \<noteq> None \<longrightarrow> da_consumed_at s \<noteq> None)"

definition device_le :: "mobile_device_row \<Rightarrow> mobile_device_row \<Rightarrow> bool" where
  "device_le r s \<longleftrightarrow>
     md_id s = md_id r \<and> md_email s = md_email r \<and> md_created_at s = md_created_at r \<and>
     md_metadata s = md_metadata r \<and> (md_revoked_at r \<noteq> None \<longrightarrow> md_revoked_at s \<noteq> None)"

definition refresh_le :: "refresh_session_row \<Rightarrow> refresh_session_row \<Rightarrow> bool" where
  "refresh_le r s \<longleftrightarrow>
     rs_id s = rs_id r \<and> rs_device_id s = rs_device_id r \<and> rs_token_hash s = rs_token_hash r \<and>
     rs_parent_token_hash s = rs_parent_token_hash r \<and> rs_issued_at s = rs_issued_at r \<and>
     rs_expires_at s = rs_expires_at r \<and>
     (rs_revoked_at r \<noteq> None \<longrightarrow> rs_revoked_at s \<noteq> None) \<and>
     (rs_rotated_at r \<noteq> None \<longrightarrow> rs_rotated_at s \<noteq> None)"

definition access_le :: "access_session_row \<Rightarrow> access_session_row \<Rightarrow> bool" where
  "access_le r s \<longleftrightarrow>
     as_id s = as_id r \<and> as_device_id s = as_device_id r \<and> as_token_hash s = as_token_hash r \<and>
     as_issued_at s = as_issued_at r \<and> as_expires_at s = as_expires_at r \<and>
     (as_revoked_at r \<noteq> None \<longrightarrow> as_revoked_at s \<noteq> None)"

definition tables_grow :: "tables \<Rightarrow> tables \<Rightarrow> bool" where
  "tables_grow d d' \<longleftrightarrow>
     grows auth_le (device_authorizations d) (device_authorizations d') \<and>
     grows device_le (mobile_devices d) (mobile_devices d') \<and>
     grows refresh_le (refresh_sessions d) (refresh_sessions d') \<and>
     grows access_le (access_sessions d) (access_sessions d') \<and>
     prefix (audit_events d) (audit_events d')"

lemma row_le_refl [simp]: "auth_le r1 r1" "device_le r2 r2" "refresh_le r3 r3" "access_le r4 r4"
  by (simp_all add: auth_le_def device_le_def refresh_le_def access_le_def)

lemma row_le_trans:
  "auth_le r1 s1 \<Longrightarrow> auth_le s1 t1 \<Longrightarrow> auth_le r1 t1"
  "device_le r2 s2 \<Longrightarrow> device_le s2 t2 \<Longrightarrow> device_le r2 t2"
  "refresh_le r3 s3 \<Longrightarrow> refresh_le s3 t3 \<Longrightarrow> refresh_le r3 t3"
  "access_le r4 s4 \<Longrightarrow> access_le s4 t4 \<Longrightarrow> access_le r4 t4"
  by (simp_all add: auth_le_def device_le_def refresh_le_def access_le_def)

lemma tables_grow_refl: "tables_grow d d"
  by (simp add: tables_grow_def grows_refl)

lemma tables_grow_trans: "tables_grow d1 d2 \<Longrightarrow> tables_grow d2 d3 \<Longrightarrow> tables_grow d1 d3"
  unfolding tables_grow_def
  by (blast intro: grows_trans row_le_trans prefix_order.trans)

lemma tables_grow_insert:
  "insert_device_authorization r1 d = Inr d' \<Longrightarrow> tables_grow d d'"
  "insert_mobile_device r2 d = Inr d' \<Longrightarrow> tables_grow d d'"
  "insert_refresh_session r3 d = Inr d' \<Longrightarrow> tables_grow d d'"
  "insert_access_session r4 d = Inr d' \<Longrightarrow> tables_grow d d'"
  "insert_audit_event r5 d = Inr d' \<Longrightarrow> tables_grow d d'"
  by (auto simp: table_defs tables_grow_def map_sum_def grows_refl split: sum.splits
      intro: grows_sql_insert dest: sql_insert_InrD)

lemma tables_grow_update:
  "(\<And>r. auth_le r (f1 r)) \<Longrightarrow> tables_grow d (update_device_authorizations p1 f1 d)"
  "(\<And>r. device_le r (f2 r)) \<Longrightarrow> tables_grow d (update_mobile_devices p2 f2 d)"
  "(\<And>r. refresh_le r (f3 r)) \<Longrightarrow> tables_grow d (update_refresh_sessions p3 f3 d)"
  "(\<And>r. access_le r (f4 r)) \<Longrightarrow> tables_grow d (update_access_sessions p4 f4 d)"
  by (simp_all add: tables_grow_def table_defs grows_refl grows_sql_update)

lemma tables_grow_sessions:
  "tables_grow d (revoke_device_row now k d)" "tables_grow d (revoke_refresh_rows now k d)"
  "tables_grow d (revoke_access_rows now k d)" "tables_grow d (mark_rotated now k d)"
  by (auto simp: revoke_device_row_def revoke_refresh_rows_def revoke_access_rows_def mark_rotated_def
      device_le_def refresh_le_def access_le_def intro!: tables_grow_update)

lemma tables_grow_rotation:
  "insert_successor newID oldHash newHash now ex (mark_rotated now oldID d) = Inr d' \<Longrightarrow> tables_grow d d'"
  by (auto simp: insert_successor_def split: option.splits
      intro: tables_grow_trans[OF tables_grow_sessions(4) tables_grow_insert(3)])

lemma tables_grow_device: "tables_grow d (revoke_access_rows now k (revoke_refresh_rows now k (revoke_device_row now k d)))"
  by (rule tables_grow_trans[OF tables_grow_sessions(1)],
      rule tables_grow_trans[OF tables_grow_sessions(2)], rule tables_grow_sessions(3))

lemma tables_grow_revoked: "tables_grow d (revoke_access_rows now k (revoke_refresh_rows now k d))"
  by (rule tables_grow_trans[OF tables_grow_sessions(2)], rule tables_grow_sessions(3))

interpretation growth: table_contract tables_grow
  by unfold_locales
    (rule tables_grow_refl, erule (1) tables_grow_trans,
     auto simp: auth_row_defs auth_le_def device_le_def refresh_le_def access_le_def
      intro: tables_grow_insert tables_grow_update tables_grow_device tables_grow_revoked tables_grow_rotation)

subsection \<open>Fourth relation: the audit log is appended to\<close>

definition audit_grows :: "tables \<Rightarrow> tables \<Rightarrow> bool" where
  "audit_grows d d' \<longleftrightarrow> prefix (audit_events d) (audit_events d')"

interpretation audit: full_contract audit_grows
  by unfold_locales
    (auto simp: audit_grows_def table_defs revoke_device_row_def revoke_refresh_rows_def
      revoke_access_rows_def mark_rotated_def insert_successor_def map_sum_def
      split: sum.splits option.splits dest!: sql_insert_InrD)

end
