(* ===== verification/Config.thy ===== *)
theory Config
  imports Crypto
begin

text \<open>
  \<^verbatim>\<open>internal/config/config.go\<close>: reading and validating the configuration, the allow list of e-mail
  addresses and the keyed hash under which tokens are stored; with \<^verbatim>\<open>time.ParseDuration\<close>, which it
  reads the token lifetimes with.
\<close>

subsection \<open>Durations\<close>

text \<open>
  \<^verbatim>\<open>leadingInt\<close>: the leading digits, \<open>None\<close> when they exceed \<^verbatim>\<open>1<<63\<close>. \<^verbatim>\<open>leadingFraction\<close>: the digits
  after a point and the power of ten they are over; digits past the overflow are skipped.
\<close>

definition is_digit :: "char \<Rightarrow> bool" where
  "is_digit c \<longleftrightarrow> digit_of c \<noteq> None"

fun leadingInt :: "int \<Rightarrow> string \<Rightarrow> (int \<times> string) option" where
  "leadingInt x [] = Some (x, [])"
| "leadingInt x (c # cs) =
     (case digit_of c of
        None \<Rightarrow> Some (x, c # cs)
      | Some d \<Rightarrow>
          if x > 2 ^ 63 div 10 then None
          else if x * 10 + d > 2 ^ 63 then None
          else leadingInt (x * 10 + d) cs)"

fun leadingFraction :: "int \<Rightarrow> int \<Rightarrow> bool \<Rightarrow> string \<Rightarrow> int \<times> int \<times> string" where
  "leadingFraction x scale overflow [] = (x, scale, [])"
| "leadingFraction x scale overflow (c # cs) =
     (case digit_of c of
        None \<Rightarrow> (x, scale, c # cs)
      | Some d \<Rightarrow>
          if overflow then leadingFraction x scale True cs
          else if x > (2 ^ 63 - 1) div 10 then leadingFraction x scale True cs
          else if x * 10 + d > 2 ^ 63 then leadingFraction x scale True cs
          else leadingFraction (x * 10 + d) (scale * 10) False cs)"

definition duration_unit :: "string \<Rightarrow> int option" where
  "duration_unit =
     map_of [(''ns'', 1), (''us'', 1000),
       ([CHR 0xC2, CHR 0xB5, CHR ''s''], 1000), ([CHR 0xCE, CHR 0xBC, CHR ''s''], 1000),
       (''ms'', 1000000), (''s'', 1000000000), (''m'', 60000000000), (''h'', 3600000000000)]"

text \<open>One group is a number, possibly with a fraction, and a unit: its parts and what follows.\<close>

definition duration_number :: "string \<Rightarrow> (int \<times> int \<times> int \<times> string) option" where
  "duration_number s =
     (case leadingInt 0 s of
        None \<Rightarrow> None
      | Some (v, s1) \<Rightarrow>
          (case s1 of
             c # t \<Rightarrow>
               if c = CHR ''.'' then
                 (case leadingFraction 0 1 False t of
                    (f, scale, s2) \<Rightarrow>
                      if length s1 = length s \<and> length s2 = length t then None
                      else Some (v, f, scale, s2))
               else if length s1 = length s then None
               else Some (v, 0, 1, s1)
           | [] \<Rightarrow> if length s1 = length s then None else Some (v, 0, 1, s1)))"

definition in_unit :: "char \<Rightarrow> bool" where
  "in_unit c \<longleftrightarrow> \<not> (c = CHR ''.'' \<or> is_digit c)"

definition duration_value :: "(int \<Rightarrow> int \<Rightarrow> int \<Rightarrow> int) \<Rightarrow> int \<Rightarrow> int \<Rightarrow> int \<Rightarrow> int \<Rightarrow> int option" where
  "duration_value fpart v f scale unit =
     (if v > 2 ^ 63 div unit then None
      else
        let v' = (if f > 0 then v * unit + fpart f unit scale else v * unit)
        in if v' > 2 ^ 63 then None else Some v')"

definition duration_group :: "(int \<Rightarrow> int \<Rightarrow> int \<Rightarrow> int) \<Rightarrow> string \<Rightarrow> (int \<times> string) option" where
  "duration_group fpart s =
     (if s = [] \<or> \<not> (hd s = CHR ''.'' \<or> is_digit (hd s)) then None
      else
        (case duration_number s of
           None \<Rightarrow> None
         | Some (v, f, scale, s2) \<Rightarrow>
             if takeWhile in_unit s2 = [] then None
             else
               (case duration_unit (takeWhile in_unit s2) of
                  None \<Rightarrow> None
                | Some unit \<Rightarrow>
                    (case duration_value fpart v f scale unit of
                       None \<Rightarrow> None
                     | Some v' \<Rightarrow> Some (v', dropWhile in_unit s2)))))"

text \<open>
  The loop over the groups; the fuel is the length of the string, each group is at least one
  character long.
\<close>

fun duration_groups :: "nat \<Rightarrow> (int \<Rightarrow> int \<Rightarrow> int \<Rightarrow> int) \<Rightarrow> int \<Rightarrow> string \<Rightarrow> int option" where
  "duration_groups 0 fpart d s = (if s = [] then Some d else None)"
| "duration_groups (Suc fuel) fpart d s =
     (if s = [] then Some d
      else
        (case duration_group fpart s of
           None \<Rightarrow> None
         | Some (v, rest) \<Rightarrow>
             if (d + v) mod 2 ^ 64 > 2 ^ 63 then None
             else duration_groups fuel fpart ((d + v) mod 2 ^ 64) rest))"

definition ParseDuration :: "(int \<Rightarrow> int \<Rightarrow> int \<Rightarrow> int) \<Rightarrow> string \<Rightarrow> int option" where
  "ParseDuration fpart s =
     (let neg = (s \<noteq> [] \<and> hd s = CHR ''-'');
          s1 = (if s \<noteq> [] \<and> (hd s = CHR ''-'' \<or> hd s = CHR ''+'') then tl s else s)
      in if s1 = ''0'' then Some 0
         else if s1 = [] then None
         else
           (case duration_groups (length s1) fpart 0 s1 of
              None \<Rightarrow> None
            | Some d \<Rightarrow>
                if neg then Some (- d)
                else if d > 2 ^ 63 - 1 then None
                else Some d))"

lemma leadingInt_length: "leadingInt x s = Some (v, s') \<Longrightarrow> length s' \<le> length s"
  by (induction x s rule: leadingInt.induct) (auto split: option.splits if_splits)

lemma leadingFraction_length:
  "leadingFraction x sc ov s = (f, sc', s') \<Longrightarrow> length s' \<le> length s"
  by (induction x sc ov s arbitrary: f sc' s' rule: leadingFraction.induct)
    (fastforce split: option.splits if_splits)+

lemma duration_number_length:
  "duration_number s = Some (v, f, sc, s2) \<Longrightarrow> length s2 \<le> length s"
  by (auto simp: duration_number_def split: option.splits list.splits if_splits prod.splits
      dest!: leadingInt_length leadingFraction_length)

lemma duration_group_shorter:
  assumes "duration_group fpart s = Some (v, s')"
  shows "length s' < length s"
proof -
  obtain v1 f sc s2 where n: "duration_number s = Some (v1, f, sc, s2)"
    using assms by (auto simp: duration_group_def split: if_splits option.splits)
  with assms have "takeWhile in_unit s2 \<noteq> []" "s' = dropWhile in_unit s2"
    by (auto simp: duration_group_def split: if_splits option.splits)
  then have "length s' < length s2"
    by (metis append_is_Nil_conv length_append length_greater_0_conv less_add_same_cancel2
        takeWhile_dropWhile_id)
  then show ?thesis using duration_number_length[OF n] by simp
qed

text \<open>The fuel is enough: more of it changes nothing.\<close>

lemma duration_groups_fuel:
  "length s \<le> n \<Longrightarrow> length s \<le> m \<Longrightarrow> duration_groups n fpart d s = duration_groups m fpart d s"
proof (induction n arbitrary: m d s)
  case 0
  then show ?case by (cases m) auto
next
  case (Suc n)
  show ?case
  proof (cases "s = []")
    case True
    then show ?thesis by (cases m) auto
  next
    case False
    with Suc.prems obtain m' where m: "m = Suc m'" by (cases m) auto
    have "duration_groups n fpart ((d + v) mod 2 ^ 64) s' =
        duration_groups m' fpart ((d + v) mod 2 ^ 64) s'"
      if "duration_group fpart s = Some (v, s')" for v s'
      using Suc.IH Suc.prems m duration_group_shorter[OF that] by auto
    then show ?thesis
      using False m by (auto split: option.splits prod.splits)
  qed
qed

subsection \<open>The configuration\<close>

record Config =
  Hostname :: string
  GitHubClientID :: string
  ServerSecret :: string
  GatewayServiceURL :: string
  AllowedEmails :: "string list"
  AccessTokenTTL :: int
  RefreshTokenTTL :: int
  ListenAddr :: string
  ListenPorts :: "int list"
  DatabasePath :: string
  GitHubAPIBaseURL :: string
  MaxMessageSize :: int
  PollIntervalScale :: "64 word"
  TailnetEnabled :: bool
  TailnetSocket :: string
  TailnetIdentity :: string
  TLSEnabled :: bool
  TLSPorts :: "int list"
  TLSDomain :: string
  TLSEmail :: string
  TLSCloudflareToken :: string
  TLSCertCacheDir :: string
  TLSACMEStaging :: bool

definition getEnv :: "env \<Rightarrow> string \<Rightarrow> string \<Rightarrow> string" where
  "getEnv e key defaultValue =
     (case LookupEnv e key of Some v \<Rightarrow> v | None \<Rightarrow> defaultValue)"

fun keep_emails :: "env \<Rightarrow> string list \<Rightarrow> string list" where
  "keep_emails e [] = []"
| "keep_emails e (email # emails) =
     (let trimmed = TrimSpace email in
      if trimmed \<noteq> [] then ToLower (uni_lower e) trimmed # keep_emails e emails
      else keep_emails e emails)"

definition parseEmails :: "env \<Rightarrow> string \<Rightarrow> string list" where
  "parseEmails e s = keep_emails e (Split s CHR '','')"

fun keep_ports :: "string list \<Rightarrow> int list" where
  "keep_ports [] = []"
| "keep_ports (p # ps) =
     (let p' = TrimSpace p in
      if p' = [] then keep_ports ps
      else (case Atoi p' of None \<Rightarrow> keep_ports ps | Some port \<Rightarrow> port # keep_ports ps))"

definition addr_port :: "string \<Rightarrow> int list" where
  "addr_port listenAddr =
     (case SplitHostPort listenAddr of
        None \<Rightarrow> [8080]
      | Some (_, portStr) \<Rightarrow> (case Atoi portStr of None \<Rightarrow> [8080] | Some port \<Rightarrow> [port]))"

definition parseListenPorts :: "string \<Rightarrow> string \<Rightarrow> int list" where
  "parseListenPorts listenPorts listenAddr =
     (let s = TrimSpace listenPorts in
      if s \<noteq> [] then
        (let ports = keep_ports (Split s CHR '','') in
         if ports \<noteq> [] then ports else addr_port listenAddr)
      else addr_port listenAddr)"

definition Hour :: int where
  "Hour = 3600 * Second"

definition parseDuration :: "env \<Rightarrow> string \<Rightarrow> int" where
  "parseDuration e s = (case ParseDuration (float_part e) s of None \<Rightarrow> Hour | Some d \<Rightarrow> d)"

definition parseInt :: "string \<Rightarrow> int \<Rightarrow> int" where
  "parseInt s defaultValue = (case ParseInt s of None \<Rightarrow> defaultValue | Some v \<Rightarrow> v)"

definition parseFloat :: "env \<Rightarrow> string \<Rightarrow> 64 word \<Rightarrow> 64 word" where
  "parseFloat e s defaultValue = (case parse_float e s of None \<Rightarrow> defaultValue | Some v \<Rightarrow> v)"

text \<open>The IEEE bits of 1.5.\<close>

definition float_1_5 :: "64 word" where
  "float_1_5 = 0x3FF8000000000000"

definition read_config :: "env \<Rightarrow> Config" where
  "read_config e =
     (let listenAddr = getEnv e ''LISTEN_ADDR'' '':8080'' in
      \<lparr>Hostname = getEnv e ''BROKER_HOSTNAME'' ''mobile.claw.example.org'',
       GitHubClientID = getEnv e ''GITHUB_CLIENT_ID'' [],
       ServerSecret = getEnv e ''SERVER_SECRET'' [],
       GatewayServiceURL = getEnv e ''GATEWAY_SERVICE_URL'' ''http://sctg-claw:18789'',
       AllowedEmails = parseEmails e (getEnv e ''ALLOWED_EMAILS'' []),
       AccessTokenTTL = parseDuration e (getEnv e ''ACCESS_TOKEN_TTL'' ''1h''),
       RefreshTokenTTL = parseDuration e (getEnv e ''REFRESH_TOKEN_TTL'' ''720h''),
       ListenAddr = listenAddr,
       ListenPorts = parseListenPorts (getEnv e ''LISTEN_PORTS'' []) listenAddr,
       DatabasePath = getEnv e ''DATABASE_PATH'' ''/data/broker.db'',
       GitHubAPIBaseURL = getEnv e ''GITHUB_API_BASE_URL'' ''https://api.github.com'',
       MaxMessageSize = parseInt (getEnv e ''MAX_MESSAGE_SIZE'' ''16777216'') 16777216,
       PollIntervalScale = parseFloat e (getEnv e ''POLL_INTERVAL_SCALE'' ''1.5'') float_1_5,
       TailnetEnabled = (getEnv e ''TAILNET_ENABLED'' ''false'' = ''true''),
       TailnetSocket = getEnv e ''TAILNET_SOCKET'' ''/run/tailscale/tailscaled.sock'',
       TailnetIdentity = getEnv e ''TAILNET_IDENTITY'' [],
       TLSEnabled = (getEnv e ''TLS_ENABLED'' ''false'' = ''true''),
       TLSPorts = parseListenPorts (getEnv e ''TLS_PORTS'' ''443'') '':443'',
       TLSDomain = getEnv e ''TLS_DOMAIN'' [],
       TLSEmail = getEnv e ''TLS_ACME_EMAIL'' [],
       TLSCloudflareToken = getEnv e ''TLS_CLOUDFLARE_API_TOKEN'' [],
       TLSCertCacheDir = getEnv e ''TLS_CERT_CACHE_DIR'' ''/data/certs'',
       TLSACMEStaging = (getEnv e ''TLS_ACME_STAGING'' ''false'' = ''true'')\<rparr>)"

definition LoadConfig :: "env \<Rightarrow> go_error + Config" where
  "LoadConfig e =
     (let cfg = read_config e in
      if GitHubClientID cfg = [] then Inl (Err ''GITHUB_CLIENT_ID is required'')
      else if ServerSecret cfg = [] then Inl (Err ''SERVER_SECRET is required'')
      else if length (ServerSecret cfg) < 32 then
        Inl (Err ''SERVER_SECRET must be at least 32 bytes'')
      else if length (AllowedEmails cfg) = 0 then
        Inl (Err ''ALLOWED_EMAILS must contain at least one email'')
      else if TailnetEnabled cfg \<and> TailnetIdentity cfg = [] then
        Inl (Err ''TAILNET_IDENTITY is required when TAILNET_ENABLED is true'')
      else if TLSEnabled cfg \<and> TLSDomain cfg = [] then
        Inl (Err ''TLS_DOMAIN is required when TLS_ENABLED is true'')
      else if TLSEnabled cfg \<and> TLSEmail cfg = [] then
        Inl (Err ''TLS_ACME_EMAIL is required when TLS_ENABLED is true'')
      else if TLSEnabled cfg \<and> TLSCloudflareToken cfg = [] then
        Inl (Err ''TLS_CLOUDFLARE_API_TOKEN is required when TLS_ENABLED is true'')
      else Inr cfg)"

subsection \<open>Hashing of secrets and the allow list\<close>

definition HashSecret :: "env \<Rightarrow> Config \<Rightarrow> string \<Rightarrow> string" where
  "HashSecret e c data =
     hex_encode (sha256 e (bytes_of_string (ServerSecret c) @ bytes_of_string data))"

fun any_allowed :: "string list \<Rightarrow> string \<Rightarrow> bool" where
  "any_allowed [] email = False"
| "any_allowed (allowed # rest) email = (if allowed = email then True else any_allowed rest email)"

definition IsEmailAllowed :: "env \<Rightarrow> Config \<Rightarrow> string \<Rightarrow> bool" where
  "IsEmailAllowed e c email = any_allowed (AllowedEmails c) (ToLower (uni_lower e) email)"

lemma any_allowed_iff: "any_allowed xs email \<longleftrightarrow> email \<in> set xs"
  by (induction xs) auto

lemma IsEmailAllowed_iff:
  "IsEmailAllowed e c email \<longleftrightarrow> ToLower (uni_lower e) email \<in> set (AllowedEmails c)"
  by (simp add: IsEmailAllowed_def any_allowed_iff)

lemma keep_emails_eq:
  "keep_emails e ss = map (ToLower (uni_lower e)) (filter (\<lambda>s. s \<noteq> []) (map TrimSpace ss))"
  by (induction ss) (auto simp: Let_def)

lemma addr_port_nonempty: "addr_port a \<noteq> []"
  by (simp add: addr_port_def split: option.splits)

lemma keep_ports_eq: "keep_ports ps = List.map_filter Atoi (map TrimSpace ps)"
  by (induction ps) (auto simp: Let_def map_filter_simps Atoi_def ParseInt_def split: option.splits)

end
