(* ===== verification/GitHub.thy ===== *)
theory GitHub
  imports Config
begin

text \<open>
  \<^verbatim>\<open>internal/github/github.go\<close>: the client of GitHub's device flow. The text of a response body that
  the Go code puts into an error message is left out of the message.
\<close>

definition defaultOAuthBaseURL :: string where
  "defaultOAuthBaseURL = ''https://github.com''"

record Client =
  clientID :: string
  baseURL :: string
  oauthBaseURL :: string

definition NewClient :: "string \<Rightarrow> string \<Rightarrow> Client" where
  "NewClient cid base = \<lparr>clientID = cid, baseURL = base, oauthBaseURL = defaultOAuthBaseURL\<rparr>"

definition SetOAuthBaseURL :: "Client \<Rightarrow> string \<Rightarrow> Client" where
  "SetOAuthBaseURL c url = c\<lparr>oauthBaseURL := url\<rparr>"

definition status_error :: "int \<Rightarrow> go_error" where
  "status_error code = Err (''github returned status '' @ Itoa code)"

definition form_request :: "string \<Rightarrow> string \<Rightarrow> http_request" where
  "form_request url data =
     \<lparr>hq_method = ''POST'', hq_url = url,
      hq_header = [(''Content-Type'', ''application/x-www-form-urlencoded''),
                   (''Accept'', ''application/json'')],
      hq_body = data\<rparr>"

definition postDeviceFlowForm :: "env \<Rightarrow> string \<Rightarrow> string \<Rightarrow> (go_error + payload \<times> int) io" where
  "postDeviceFlowForm e url data =
     (case url_fault e url of
        Some err \<Rightarrow> return (Inl (Wrap ''failed to create request'' err))
      | None \<Rightarrow>
          on_err (http_Do e (form_request url data))
            (\<lambda>err. return (Inl err)) (\<lambda>resp.
          return (if hr_body resp = Unreadable
                  then Inl (Wrap ''failed to read response body'' (Err ''unexpected EOF''))
                  else Inr (hr_body resp, hr_status resp))))"

definition RequestDeviceAuthorization ::
    "env \<Rightarrow> Client \<Rightarrow> string \<Rightarrow> (go_error + GitHubDeviceAuth) io" where
  "RequestDeviceAuthorization e c scope =
     on_err (postDeviceFlowForm e (oauthBaseURL c @ ''/login/device/code'')
         (''client_id='' @ clientID c @ ''&scope='' @ scope))
       (\<lambda>err. return (Inl (Wrap ''failed to request device code'' err))) (\<lambda>(body, statusCode).
     return
       (if statusCode \<noteq> 200 then Inl (status_error statusCode)
        else
          (case unmarshal decode_GitHubDeviceAuth body of
             None \<Rightarrow> Inl (Err ''failed to decode device auth response'')
           | Some auth \<Rightarrow>
               if gh_DeviceCode auth = [] \<or> gh_UserCode auth = [] \<or> gh_VerificationURI auth = []
               then Inl (Err ''invalid device auth response from GitHub'')
               else Inr auth)))"

text \<open>The anonymous struct the token endpoint's answer is decoded into.\<close>

record poll_result =
  pr_AccessToken :: string
  pr_TokenType :: string
  pr_Scope :: string
  pr_Error :: string
  pr_Interval :: int

definition poll_result_fields :: "poll_result json_field list" where
  "poll_result_fields =
     [(''access_token'', string_field (\<lambda>s r. r\<lparr>pr_AccessToken := s\<rparr>)),
      (''token_type'', string_field (\<lambda>s r. r\<lparr>pr_TokenType := s\<rparr>)),
      (''scope'', string_field (\<lambda>s r. r\<lparr>pr_Scope := s\<rparr>)),
      (''error'', string_field (\<lambda>s r. r\<lparr>pr_Error := s\<rparr>)),
      (''interval'', int_field (\<lambda>i r. r\<lparr>pr_Interval := i\<rparr>))]"

definition decode_poll_result :: "json \<Rightarrow> poll_result option" where
  "decode_poll_result v =
     decode_object poll_result_fields v
       \<lparr>pr_AccessToken = [], pr_TokenType = [], pr_Scope = [], pr_Error = [], pr_Interval = 0\<rparr>"

definition poll_outcome ::
    "poll_result \<Rightarrow> go_error + GitHubToken option \<times> GitHubDeviceAuth option" where
  "poll_outcome r =
     (if pr_Error r = [] then
        (if pr_AccessToken r = [] then Inl (Err ''empty access token from GitHub'')
         else Inr (Some \<lparr>gt_AccessToken = pr_AccessToken r, gt_TokenType = pr_TokenType r,
                         gt_Scope = pr_Scope r\<rparr>, None))
      else if pr_Error r = ''authorization_pending'' then Inr (None, None)
      else if pr_Error r = ''slow_down'' then
        (let interval = (if pr_Interval r \<le> 0 then 5 else pr_Interval r)
         in Inr (None, Some (zero_GitHubDeviceAuth\<lparr>gh_Interval := interval\<rparr>)))
      else Inl (Err (''github error: '' @ pr_Error r)))"

definition poll_form :: "Client \<Rightarrow> string \<Rightarrow> string" where
  "poll_form c deviceCode =
     ''client_id='' @ clientID c @ ''&device_code='' @ deviceCode @
     ''&grant_type=urn:ietf:params:oauth:grant-type:device_code''"

definition PollDeviceAuthorization ::
    "env \<Rightarrow> Client \<Rightarrow> string \<Rightarrow> (go_error + GitHubToken option \<times> GitHubDeviceAuth option) io" where
  "PollDeviceAuthorization e c deviceCode =
     on_err (postDeviceFlowForm e (oauthBaseURL c @ ''/login/oauth/access_token'')
         (poll_form c deviceCode))
       (\<lambda>err. return (Inl (Wrap ''failed to poll device code'' err))) (\<lambda>(body, statusCode).
     return
       (if statusCode \<noteq> 200 then Inl (status_error statusCode)
        else
          (case unmarshal decode_poll_result body of
             None \<Rightarrow> Inl (Err ''failed to decode token response'')
           | Some result \<Rightarrow> poll_outcome result)))"

text \<open>GitHub answers at \<open>t\<close> to a poll for the device code with this.\<close>

definition poll_answered :: "env \<Rightarrow> Client \<Rightarrow> string \<Rightarrow> nat \<Rightarrow> poll_result \<Rightarrow> bool" where
  "poll_answered e c deviceCode t answer \<longleftrightarrow>
     (\<exists>resp. http_reply e t (form_request (oauthBaseURL c @ ''/login/oauth/access_token'')
          (poll_form c deviceCode)) = Inr resp \<and> hr_status resp = 200 \<and>
        unmarshal decode_poll_result (hr_body resp) = Some answer)"

definition bearer_headers :: "string \<Rightarrow> (string \<times> string) list" where
  "bearer_headers accessToken =
     [(''Authorization'', ''Bearer '' @ accessToken), (''Accept'', ''application/vnd.github+json'')]"

definition emails_request :: "Client \<Rightarrow> string \<Rightarrow> http_request" where
  "emails_request c accessToken =
     \<lparr>hq_method = ''GET'', hq_url = baseURL c @ ''/user/emails'',
      hq_header = bearer_headers accessToken, hq_body = []\<rparr>"

definition GetUserEmails :: "env \<Rightarrow> Client \<Rightarrow> string \<Rightarrow> (go_error + GitHubEmail list) io" where
  "GetUserEmails e c accessToken =
     (case url_fault e (hq_url (emails_request c accessToken)) of
        Some err \<Rightarrow> return (Inl (Wrap ''failed to create request'' err))
      | None \<Rightarrow>
          on_err (http_Do e (emails_request c accessToken))
            (\<lambda>err. return (Inl (Wrap ''failed to get user emails'' err))) (\<lambda>resp.
          return
            (if hr_status resp \<noteq> 200 then Inl (status_error (hr_status resp))
             else
               (case unmarshal (decode_slice decode_GitHubEmail) (hr_body resp) of
                  None \<Rightarrow> Inl (Err ''failed to decode emails'')
                | Some emails \<Rightarrow> Inr emails))))"

text \<open>GitHub answers at \<open>t\<close> that these are the e-mail addresses of the token's owner.\<close>

definition emails_answered :: "env \<Rightarrow> Client \<Rightarrow> string \<Rightarrow> nat \<Rightarrow> GitHubEmail list \<Rightarrow> bool" where
  "emails_answered e c accessToken t emails \<longleftrightarrow>
     (\<exists>resp. http_reply e t (emails_request c accessToken) = Inr resp \<and> hr_status resp = 200 \<and>
        unmarshal (decode_slice decode_GitHubEmail) (hr_body resp) = Some emails)"

definition revoke_request :: "Client \<Rightarrow> string \<Rightarrow> http_request" where
  "revoke_request c accessToken =
     \<lparr>hq_method = ''DELETE'', hq_url = baseURL c @ ''/applications/'' @ clientID c @ ''/token'',
      hq_header = bearer_headers accessToken, hq_body = []\<rparr>"

definition RevokeToken :: "env \<Rightarrow> Client \<Rightarrow> string \<Rightarrow> (go_error + unit) io" where
  "RevokeToken e c accessToken =
     (case url_fault e (hq_url (revoke_request c accessToken)) of
        Some err \<Rightarrow> return (Inl (Wrap ''failed to create revoke request'' err))
      | None \<Rightarrow>
          on_err (http_Do e (revoke_request c accessToken))
            (\<lambda>err. return (Inl (Wrap ''failed to revoke token'' err))) (\<lambda>resp.
          return
            (if hr_status resp \<noteq> 204 \<and> hr_status resp \<noteq> 200
             then Inl (status_error (hr_status resp)) else Inr ())))"

subsection \<open>What the calls do to the world\<close>

text \<open>
  A call reads and sends, it never touches the store: afterwards only the tick and the outbox have
  changed. The rules say which answers are possible, not when.
\<close>

definition sent :: "world \<Rightarrow> nat \<Rightarrow> http_request list \<Rightarrow> world" where
  "sent w n qs = w\<lparr>tick := n, outbox := outbox w @ qs\<rparr>"

lemma sent_simps [simp]:
  "db (sent w n qs) = db w" "tick (sent w n qs) = n" "outbox (sent w n qs) = outbox w @ qs"
  "idle (sent w n qs) = idle w" "sent (sent w m ps) n qs = sent w n (ps @ qs)"
  by (simp_all add: sent_def idle_def)

lemma wp_postDeviceFlowForm:
  assumes "\<And>err. Q (Inl err) w"
    and "\<And>err. url_fault e url = None \<Longrightarrow> Q (Inl err) (sent w (Suc (tick w)) [form_request url data])"
    and "\<And>resp. url_fault e url = None \<Longrightarrow> http_reply e (tick w) (form_request url data) = Inr resp \<Longrightarrow>
      Q (Inr (hr_body resp, hr_status resp)) (sent w (Suc (tick w)) [form_request url data])"
  shows "wp (postDeviceFlowForm e url data) Q w"
  using assms
  by (auto simp: postDeviceFlowForm_def wp_simps sent_def split: option.splits sum.splits)

lemma sent_nil: "w\<lparr>tick := n\<rparr> = sent w n []"
  by (simp add: sent_def)

lemma sent_self [simp]: "sent w (tick w) [] = w"
  by (simp add: sent_def)

lemma wp_RequestDeviceAuthorization:
  assumes "\<And>err n qs. tick w \<le> n \<Longrightarrow> Q (Inl err) (sent w n qs)"
    and "\<And>auth n qs. tick w \<le> n \<Longrightarrow> gh_DeviceCode auth \<noteq> [] \<Longrightarrow> gh_UserCode auth \<noteq> [] \<Longrightarrow>
      gh_VerificationURI auth \<noteq> [] \<Longrightarrow> Q (Inr auth) (sent w n qs)"
  shows "wp (RequestDeviceAuthorization e c scope) Q w"
  unfolding RequestDeviceAuthorization_def wp_on_err
  by (rule wp_postDeviceFlowForm)
    (use assms assms(1)[of "tick w" _ "[]"] in
      \<open>auto simp: wp_simps split: sum.splits prod.splits option.splits\<close>)

lemma wp_PollDeviceAuthorization:
  assumes "\<And>err n qs. tick w \<le> n \<Longrightarrow> Q (Inl err) (sent w n qs)"
    and "\<And>n qs. tick w \<le> n \<Longrightarrow> Q (Inr (None, None)) (sent w n qs)"
    and "\<And>auth n qs. tick w \<le> n \<Longrightarrow> 0 < gh_Interval auth \<Longrightarrow> Q (Inr (None, Some auth)) (sent w n qs)"
    and "\<And>token answer n qs. tick w \<le> n \<Longrightarrow> poll_answered e c code (tick w) answer \<Longrightarrow>
      pr_Error answer = [] \<Longrightarrow> gt_AccessToken token = pr_AccessToken answer \<Longrightarrow>
      gt_AccessToken token \<noteq> [] \<Longrightarrow> Q (Inr (Some token, None)) (sent w n qs)"
  shows "wp (PollDeviceAuthorization e c code) Q w"
  unfolding PollDeviceAuthorization_def wp_on_err
  by (rule wp_postDeviceFlowForm)
    (use assms assms(1)[of "tick w" _ "[]"] in
      \<open>auto simp: wp_simps poll_answered_def poll_outcome_def Let_def
        split: sum.splits prod.splits option.splits\<close>)

lemma wp_GetUserEmails:
  assumes "\<And>err n qs. tick w \<le> n \<Longrightarrow> Q (Inl err) (sent w n qs)"
    and "\<And>emails. emails_answered e c token (tick w) emails \<Longrightarrow>
      Q (Inr emails) (sent w (Suc (tick w)) [emails_request c token])"
  shows "wp (GetUserEmails e c token) Q w"
  using assms assms(1)[of "tick w" _ "[]"]
  by (auto simp: GetUserEmails_def emails_answered_def wp_simps sent_def[symmetric]
      split: option.splits sum.splits)

text \<open>The request that goes out for a token, unless its URL cannot be parsed.\<close>

definition revocation :: "env \<Rightarrow> Client \<Rightarrow> string \<Rightarrow> http_request list" where
  "revocation e c token =
     (if url_fault e (hq_url (revoke_request c token)) = None then [revoke_request c token] else [])"

lemma wp_RevokeToken:
  assumes "\<And>r n. tick w \<le> n \<Longrightarrow> Q r (sent w n (revocation e c token))"
  shows "wp (RevokeToken e c token) Q w"
  using assms[of "tick w"] assms[of "Suc (tick w)"]
  by (auto simp: RevokeToken_def revocation_def wp_simps sent_def split: option.splits sum.splits)

end
