(* ===== verification/Http.thy ===== *)
theory Http
  imports Json "HOL-Library.AList_Mapping"
begin

text \<open>
  \<^verbatim>\<open>net/http\<close> as the handlers see it: a request, the header map of the response they may set, and the
  response they write. A handler gets the header map its callers have set so far and returns the
  response; \<^verbatim>\<open>http.Error\<close> and the JSON encoder are the two ways it writes one.
\<close>

type_synonym header_map = "(string, string list) mapping"

text \<open>Header names are kept in canonical form: a capital at the start and after each hyphen.\<close>

definition upper_char :: "char \<Rightarrow> char" where
  "upper_char c = (if 97 \<le> code_point c \<and> code_point c \<le> 122 then char_of (code_point c - 32) else c)"

fun canonical_from :: "bool \<Rightarrow> string \<Rightarrow> string" where
  "canonical_from start [] = []"
| "canonical_from start (c # cs) =
     (if start then upper_char c else lower_char c) # canonical_from (c = CHR ''-'') cs"

definition CanonicalKey :: "string \<Rightarrow> string" where
  "CanonicalKey k = canonical_from True k"

definition Header_Get :: "header_map \<Rightarrow> string \<Rightarrow> string" where
  "Header_Get h k =
     (case Mapping.lookup h (CanonicalKey k) of None \<Rightarrow> [] | Some [] \<Rightarrow> [] | Some (v # _) \<Rightarrow> v)"

definition Header_Set :: "header_map \<Rightarrow> string \<Rightarrow> string \<Rightarrow> header_map" where
  "Header_Set h k v = Mapping.update (CanonicalKey k) [v] h"

definition Header_Del :: "header_map \<Rightarrow> string \<Rightarrow> header_map" where
  "Header_Del h k = Mapping.delete (CanonicalKey k) h"

definition no_headers :: header_map where
  "no_headers = Mapping.empty"

lemma Header_Get_Set_same [simp]: "Header_Get (Header_Set h k v) k = v"
  by (simp add: Header_Get_def Header_Set_def)

lemma Header_Get_Set_other:
  "CanonicalKey k \<noteq> CanonicalKey k' \<Longrightarrow> Header_Get (Header_Set h k v) k' = Header_Get h k'"
  by (simp add: Header_Get_def Header_Set_def lookup_update')

record request =
  rq_Method :: string
  rq_Path :: string
  rq_Host :: string
  rq_RemoteAddr :: string
  rq_Header :: header_map
  rq_Body :: payload
  rq_Vars :: "(string, string) mapping"

datatype body = Empty | Text string | JsonBody json

record response =
  resp_Code :: int
  resp_Header :: header_map
  resp_Body :: body

definition http_Error :: "header_map \<Rightarrow> string \<Rightarrow> int \<Rightarrow> response" where
  "http_Error w msg code =
     \<lparr>resp_Code = code,
      resp_Header = Header_Set (Header_Set (Header_Del w ''Content-Length'') ''Content-Type''
        ''text/plain; charset=utf-8'') ''X-Content-Type-Options'' ''nosniff'',
      resp_Body = Text (msg @ [CHR 0x0A])\<rparr>"

definition write_json :: "header_map \<Rightarrow> json \<Rightarrow> response" where
  "write_json w v =
     \<lparr>resp_Code = 200, resp_Header = Header_Set w ''Content-Type'' ''application/json'',
      resp_Body = JsonBody v\<rparr>"

definition write_text :: "header_map \<Rightarrow> int \<Rightarrow> string \<Rightarrow> response" where
  "write_text w code s = \<lparr>resp_Code = code, resp_Header = w, resp_Body = Text s\<rparr>"

definition write_empty :: "header_map \<Rightarrow> int \<Rightarrow> response" where
  "write_empty w code = \<lparr>resp_Code = code, resp_Header = w, resp_Body = Empty\<rparr>"

text \<open>\<^verbatim>\<open>mux.Vars(r)[name]\<close>: a missing entry of a Go map of strings reads as the empty string.\<close>

definition mux_var :: "request \<Rightarrow> string \<Rightarrow> string" where
  "mux_var r name = (case Mapping.lookup (rq_Vars r) name of None \<Rightarrow> [] | Some v \<Rightarrow> v)"

text \<open>The error bodies, written out as text in the source: an error code and a message.\<close>

definition quoted :: "string \<Rightarrow> string" where
  "quoted s = [CHR 0x22] @ s @ [CHR 0x22]"

definition error_json :: "string \<Rightarrow> string \<Rightarrow> string" where
  "error_json code msg =
     ''{'' @ quoted ''error'' @ '': '' @ quoted code @ '', '' @ quoted ''error_message'' @ '': '' @
     quoted msg @ ''}''"

text \<open>A member of a JSON response.\<close>

definition json_member :: "response \<Rightarrow> string \<Rightarrow> json option" where
  "json_member resp k = (case resp_Body resp of JsonBody v \<Rightarrow> members v k | _ \<Rightarrow> None)"

lemma resp_Code_simps [simp]:
  "resp_Code (http_Error w msg code) = code"
  "resp_Code (write_json w v) = 200"
  "resp_Code (write_text w code s) = code"
  "resp_Code (write_empty w code) = code"
  by (simp_all add: http_Error_def write_json_def write_text_def write_empty_def)

lemma resp_Body_simps [simp]:
  "resp_Body (http_Error w msg code) = Text (msg @ [CHR 0x0A])"
  "resp_Body (write_json w v) = JsonBody v"
  "resp_Body (write_text w code s) = Text s"
  "resp_Body (write_empty w code) = Empty"
  by (simp_all add: http_Error_def write_json_def write_text_def write_empty_def)

lemma json_member_simps [simp]:
  "json_member (write_json w (JObj kvs)) k = map_of kvs k"
  "json_member (http_Error w msg code) k = None"
  by (simp_all add: json_member_def members_def)

end
