(* ===== verification/HandlerBase.thy ===== *)
theory HandlerBase
  imports Store GitHub Http
begin

text \<open>
  \<^verbatim>\<open>internal/handler\<close>, the parts all endpoints share: the handler's fields, the client's address, the
  rate limit, the health endpoints and the middleware of \<^verbatim>\<open>health.go\<close> and \<^verbatim>\<open>middleware.go\<close> (which
  \<^verbatim>\<open>cmd/main.go\<close> does not install).
\<close>

record Handler =
  h_config :: Config
  ghClient :: Client

definition NewHandler :: "Config \<Rightarrow> Handler" where
  "NewHandler cfg =
     \<lparr>h_config = cfg, ghClient = NewClient (GitHubClientID cfg) (GitHubAPIBaseURL cfg)\<rparr>"

definition getClientIP :: "request \<Rightarrow> string" where
  "getClientIP r =
     (let xff = Header_Get (rq_Header r) ''X-Forwarded-For'' in
      if xff \<noteq> [] then
        (case Split xff CHR '','' of [] \<Rightarrow> rq_RemoteAddr r | ip # _ \<Rightarrow> TrimSpace ip)
      else rq_RemoteAddr r)"

definition checkRateLimit :: "string \<Rightarrow> bool" where
  "checkRateLimit ip = True"

definition handleHealthz :: "header_map \<Rightarrow> request \<Rightarrow> response io" where
  "handleHealthz w r = return (write_text w 200 ''OK'')"

definition checkGatewayReachable :: "env \<Rightarrow> Handler \<Rightarrow> (go_error + unit) io" where
  "checkGatewayReachable e h =
     (let url = GatewayServiceURL (h_config h) @ ''/healthz'' in
      case url_fault e url of
        Some err \<Rightarrow> return (Inl err)
      | None \<Rightarrow>
          on_err (http_Do e \<lparr>hq_method = ''GET'', hq_url = url, hq_header = [], hq_body = []\<rparr>)
            (\<lambda>err. return (Inl err)) (\<lambda>resp.
          return
            (if hr_status resp \<noteq> 200
             then Inl (Err (''gateway returned status '' @ Itoa (hr_status resp)))
             else Inr ())))"

definition handleReadyz :: "env \<Rightarrow> Handler \<Rightarrow> header_map \<Rightarrow> request \<Rightarrow> response io" where
  "handleReadyz e h w r =
     on_err (CleanupExpired e)
       (\<lambda>err. return (http_Error w (''Database error: '' @ err_text err) 500)) (\<lambda>_.
     on_err (checkGatewayReachable e h)
       (\<lambda>err. return (http_Error w (''Gateway unreachable: '' @ err_text err) 500)) (\<lambda>_.
     return (write_text w 200 ''OK'')))"

definition HealthCheckHandler :: "header_map \<Rightarrow> request \<Rightarrow> response io" where
  "HealthCheckHandler w r =
     return (write_text (Header_Set w ''Content-Type'' ''application/json'') 200
       (''{'' @ quoted ''status'' @ '': '' @ quoted ''healthy'' @ ''}''))"

definition unhealthy :: "string \<Rightarrow> string" where
  "unhealthy why =
     ''{'' @ quoted ''status'' @ '': '' @ quoted ''unhealthy'' @ '', '' @ quoted ''error'' @ '': '' @
     quoted why @ ''}''"

definition ReadyCheckHandler :: "env \<Rightarrow> Handler \<Rightarrow> header_map \<Rightarrow> request \<Rightarrow> response io" where
  "ReadyCheckHandler e h w r =
     on_err (CleanupExpired e)
       (\<lambda>err. return (http_Error w (unhealthy ''database error'') 500)) (\<lambda>_.
     on_err (checkGatewayReachable e h)
       (\<lambda>err. return (http_Error w (unhealthy ''gateway unreachable'') 500)) (\<lambda>_.
     return (write_text (Header_Set w ''Content-Type'' ''application/json'') 200
       (''{'' @ quoted ''status'' @ '': '' @ quoted ''ready'' @ ''}''))))"

subsection \<open>Middleware\<close>

type_synonym handler_fun = "header_map \<Rightarrow> request \<Rightarrow> response io"

definition strip_port :: "string \<Rightarrow> string" where
  "strip_port host = (case IndexByte host CHR '':'' of None \<Rightarrow> host | Some idx \<Rightarrow> take idx host)"

definition HostValidationMiddleware :: "Handler \<Rightarrow> handler_fun \<Rightarrow> handler_fun" where
  "HostValidationMiddleware h next_handler w r =
     (if strip_port (rq_Host r) \<noteq> Hostname (h_config h)
      then return (http_Error w (error_json ''invalid_host'' ''Invalid hostname'') 403)
      else next_handler w r)"

text \<open>The log line is not modelled.\<close>

definition LoggingMiddleware :: "Handler \<Rightarrow> handler_fun \<Rightarrow> handler_fun" where
  "LoggingMiddleware h next_handler w r = next_handler w r"

definition secure_headers :: "header_map \<Rightarrow> header_map" where
  "secure_headers w =
     Header_Set (Header_Set (Header_Set (Header_Set (Header_Set w
       ''X-Content-Type-Options'' ''nosniff'')
       ''X-Frame-Options'' ''DENY'')
       ''X-XSS-Protection'' ''1; mode=block'')
       ''Content-Security-Policy'' (''default-src '' @ [CHR 0x27] @ ''self'' @ [CHR 0x27]))
       ''Referrer-Policy'' ''strict-origin-when-cross-origin''"

definition SecureHeadersMiddleware :: "Handler \<Rightarrow> handler_fun \<Rightarrow> handler_fun" where
  "SecureHeadersMiddleware h next_handler w r = next_handler (secure_headers w) r"

subsection \<open>Relations kept by the calls to GitHub and the Gateway\<close>

context core_contract
begin

lemma rel_postDeviceFlowForm [io_rel]: "state_io_rel (lift_rel T) (postDeviceFlowForm e url data)"
  unfolding postDeviceFlowForm_def by (intro io_rel)

lemma rel_RequestDeviceAuthorization [io_rel]:
  "state_io_rel (lift_rel T) (RequestDeviceAuthorization e c scope)"
  unfolding RequestDeviceAuthorization_def by (intro io_rel)

lemma rel_PollDeviceAuthorization [io_rel]:
  "state_io_rel (lift_rel T) (PollDeviceAuthorization e c code)"
  unfolding PollDeviceAuthorization_def by (intro io_rel)

lemma rel_GetUserEmails [io_rel]: "state_io_rel (lift_rel T) (GetUserEmails e c token)"
  unfolding GetUserEmails_def by (intro io_rel)

lemma rel_RevokeToken [io_rel]: "state_io_rel (lift_rel T) (RevokeToken e c token)"
  unfolding RevokeToken_def by (intro io_rel)

lemma rel_checkGatewayReachable [io_rel]: "state_io_rel (lift_rel T) (checkGatewayReachable e h)"
  unfolding checkGatewayReachable_def by (intro io_rel)

end

context cleanup_contract
begin

lemma rel_handleReadyz [io_rel]: "state_io_rel (lift_rel T) (handleReadyz e h w r)"
  unfolding handleReadyz_def by (intro io_rel)

lemma rel_ReadyCheckHandler [io_rel]: "state_io_rel (lift_rel T) (ReadyCheckHandler e h w r)"
  unfolding ReadyCheckHandler_def by (intro io_rel)

end

end
