(* ===== verification/Proxy.thy ===== *)
theory Proxy
  imports HandlerBase
begin

text \<open>
  \<^verbatim>\<open>internal/proxy/proxy.go\<close> and \<^verbatim>\<open>internal/tailnet/tailnet.go\<close>: who may pass to the Gateway, and the
  plain HTTP path through \<^verbatim>\<open>httputil.ReverseProxy\<close>.
\<close>

subsection \<open>Tailnet membership\<close>

text \<open>\<^verbatim>\<open>cmd.Run() == nil\<close> within the timeout is the environment's answer.\<close>

definition IsPeer :: "env \<Rightarrow> string \<Rightarrow> string \<Rightarrow> bool io" where
  "IsPeer e socket ip =
     (if socket = [] \<or> ip = [] then return False
      else do { t \<leftarrow> next_tick; return (whois_ok e t socket ip) })"

subsection \<open>The client's address\<close>

definition clientIP :: "request \<Rightarrow> string" where
  "clientIP r =
     (let xff = Header_Get (rq_Header r) ''X-Forwarded-For'';
          fallback = (case SplitHostPort (rq_RemoteAddr r) of
                        Some (host, _) \<Rightarrow> host
                      | None \<Rightarrow> rq_RemoteAddr r)
      in if xff \<noteq> [] then
           (case Split xff CHR '','' of [] \<Rightarrow> fallback | ip # _ \<Rightarrow> TrimSpace ip)
         else fallback)"

subsection \<open>Authentication\<close>

definition tailnetDeviceID :: string where
  "tailnetDeviceID = ''tailnet''"

definition tailnetSessionID :: string where
  "tailnetSessionID = ''tailnet''"

definition tailnet_device :: "string \<Rightarrow> MobileDevice" where
  "tailnet_device identity =
     \<lparr>dev_ID = tailnetDeviceID, dev_Email = identity, dev_CreatedAt = zero_time,
      LastSeenAt = zero_time, dev_RevokedAt = None, Metadata = []\<rparr>"

definition tailnet_session :: AccessSession where
  "tailnet_session =
     \<lparr>acc_ID = tailnetSessionID, acc_DeviceID = [], acc_TokenHash = [], acc_IssuedAt = zero_time,
      acc_ExpiresAt = zero_time, acc_RevokedAt = None\<rparr>"

definition http_unauthorized :: "header_map \<Rightarrow> string \<Rightarrow> response" where
  "http_unauthorized w why = http_Error w (''Unauthorized: '' @ why) 401"

definition internal_error :: "header_map \<Rightarrow> response" where
  "internal_error w = http_Error w ''Internal Server Error'' 500"

text \<open>\<open>Inl\<close> is the response written on a refusal (\<^verbatim>\<open>ok = false\<close>).\<close>

definition check_token ::
    "env \<Rightarrow> Config \<Rightarrow> header_map \<Rightarrow> string \<Rightarrow> (response + MobileDevice \<times> AccessSession) io" where
  "check_token e cfg w accessToken =
     (let tokenHash = HashSecret e cfg accessToken in
      on_err (GetAccessSession e tokenHash) (\<lambda>err. return (Inl (internal_error w))) (\<lambda>found.
      case found of
        None \<Rightarrow> return (Inl (http_unauthorized w ''Invalid access token''))
      | Some accessSession \<Rightarrow>
          if acc_RevokedAt accessSession \<noteq> None then
            return (Inl (http_unauthorized w ''Token revoked''))
          else do {
            now \<leftarrow> time_Now e;
            if after_time now (acc_ExpiresAt accessSession) then
              return (Inl (http_unauthorized w ''Token expired''))
            else
              on_err (GetMobileDevice e (acc_DeviceID accessSession))
                (\<lambda>err. return (Inl (internal_error w))) (\<lambda>found_device.
              case found_device of
                None \<Rightarrow> return (Inl (http_unauthorized w ''Device not found or revoked''))
              | Some device \<Rightarrow>
                  if dev_RevokedAt device \<noteq> None then
                    return (Inl (http_unauthorized w ''Device not found or revoked''))
                  else if \<not> IsEmailAllowed e cfg (dev_Email device) then do {
                    RevokeAllSessionsForDevice e (dev_ID device);
                    CreateAuditEvent e ''proxy_denied'' (dev_ID device) (acc_ID accessSession)
                      (dev_Email device) ''email_not_allowed'' ''Email no longer in allow list'';
                    return (Inl (http_unauthorized w ''Email not authorized'')) }
                  else do {
                    UpdateMobileDeviceLastSeen e (dev_ID device);
                    return (Inr (device, accessSession)) }) }))"

definition check_header ::
    "env \<Rightarrow> Config \<Rightarrow> header_map \<Rightarrow> request \<Rightarrow> (response + MobileDevice \<times> AccessSession) io" where
  "check_header e cfg w r =
     (let authHeader = Header_Get (rq_Header r) ''Authorization'';
          parts = Split authHeader CHR '' ''
      in if authHeader = [] then
           return (Inl (http_unauthorized w ''Missing Authorization header''))
         else if length parts \<noteq> 2 \<or> parts ! 0 \<noteq> ''Bearer'' then
           return (Inl (http_unauthorized w ''Invalid Authorization header''))
         else check_token e cfg w (parts ! 1))"

definition authenticateDevice ::
    "env \<Rightarrow> Config \<Rightarrow> header_map \<Rightarrow> request \<Rightarrow> string \<Rightarrow>
     (response + MobileDevice \<times> AccessSession) io" where
  "authenticateDevice e cfg w r remote = do {
     peer \<leftarrow> (if TailnetEnabled cfg then IsPeer e (TailnetSocket cfg) remote else return False);
     if peer then return (Inr (tailnet_device (TailnetIdentity cfg), tailnet_session))
     else check_header e cfg w r }"

subsection \<open>The plain HTTP path\<close>

definition httpProxyDeniedPathPrefixes :: "string list" where
  "httpProxyDeniedPathPrefixes = [''/api'', ''/v1'', ''/plugins'', ''/mcp'']"

fun path_denied :: "string list \<Rightarrow> string \<Rightarrow> bool" where
  "path_denied [] path = False"
| "path_denied (p # ps) path =
     (if path = p \<or> HasPrefix path (p @ ''/'') then True else path_denied ps path)"

definition http_NotFound :: "header_map \<Rightarrow> response" where
  "http_NotFound w = http_Error w ''404 page not found'' 404"

text \<open>
  What \<^verbatim>\<open>HandleHTTP\<close> ends in: a response of its own, or the request handed to the reverse proxy with
  the headers and the host it has then.
\<close>

datatype http_outcome = Answered response | Forwarded request

definition HandleHTTP :: "env \<Rightarrow> Config \<Rightarrow> header_map \<Rightarrow> request \<Rightarrow> http_outcome io" where
  "HandleHTTP e cfg w r =
     (let remote = clientIP r in
      if rq_Method r \<noteq> ''GET'' \<and> rq_Method r \<noteq> ''HEAD'' then return (Answered (http_NotFound w))
      else if path_denied httpProxyDeniedPathPrefixes (rq_Path r) then
        return (Answered (http_NotFound w))
      else
        on_err (authenticateDevice e cfg w r remote)
          (\<lambda>resp. return (Answered resp)) (\<lambda>(device, _).
        return (Forwarded (r\<lparr>rq_Header := Header_Set (rq_Header r) ''X-Forwarded-Email'' (dev_Email device),
                             rq_Host := Hostname cfg\<rparr>))))"

context core_contract
begin

lemma rel_IsPeer [io_rel]: "state_io_rel (lift_rel T) (IsPeer e socket ip)"
  unfolding IsPeer_def by (intro io_rel)

lemma rel_check_token [io_rel]: "state_io_rel (lift_rel T) (check_token e cfg w token)"
  unfolding check_token_def by (intro io_rel)

lemma rel_check_header [io_rel]: "state_io_rel (lift_rel T) (check_header e cfg w r)"
  unfolding check_header_def by (intro io_rel)

lemma rel_authenticateDevice [io_rel]:
  "state_io_rel (lift_rel T) (authenticateDevice e cfg w r remote)"
  unfolding authenticateDevice_def by (intro io_rel)

lemma rel_HandleHTTP [io_rel]: "state_io_rel (lift_rel T) (HandleHTTP e cfg w r)"
  unfolding HandleHTTP_def by (intro io_rel)

end

end
