(* ===== verification/HandlerDevice.thy ===== *)
theory HandlerDevice
  imports HandlerBase
begin

text \<open>
  \<^verbatim>\<open>internal/handler/handler.go\<close>, the two endpoints of the device flow: starting a transaction and
  polling it, with the pairing of a device when GitHub has confirmed.
\<close>

definition server_error :: "header_map \<Rightarrow> string \<Rightarrow> response" where
  "server_error w msg = http_Error w (error_json ''server_error'' msg) 500"

definition write_status :: "header_map \<Rightarrow> DeviceAuthStatus \<Rightarrow> response" where
  "write_status w st = write_json w (json_DeviceAuthStatus st)"

subsection \<open>Starting a transaction\<close>

definition handleCreateDeviceAuthorization ::
    "env \<Rightarrow> Handler \<Rightarrow> header_map \<Rightarrow> request \<Rightarrow> response io" where
  "handleCreateDeviceAuthorization e h w r =
     (if \<not> checkRateLimit (getClientIP r) then
        return (http_Error w (error_json ''rate_limit_exceeded'' ''Too many requests'') 429)
      else
        on_err (RequestDeviceAuthorization e (ghClient h) ''user:email'')
          (\<lambda>err. return (server_error w ''Failed to initiate device flow'')) (\<lambda>ghAuth.
        on_err (GenerateRandomString e 32)
          (\<lambda>err. return (server_error w ''Failed to create session'')) (\<lambda>transactionID.
        on_err (Encrypt e (gh_DeviceCode ghAuth) (ServerSecret (h_config h)))
          (\<lambda>err. return (server_error w ''Failed to secure session'')) (\<lambda>encryptedDeviceCode. do {
        now \<leftarrow> time_Now e;
        let expiresAt = now + wrap64 (gh_ExpiresIn ghAuth * Second);
        on_err (CreateDeviceAuthorization e transactionID encryptedDeviceCode (gh_UserCode ghAuth)
            (gh_VerificationURI ghAuth) (gh_Interval ghAuth) (to_unix expiresAt) (gh_Interval ghAuth))
          (\<lambda>err. return (server_error w ''Failed to store session'')) (\<lambda>_.
        return (write_json w (json_DeviceAuthResponse
          \<lparr>TransactionID = transactionID,
           resp_UserCode = gh_UserCode ghAuth,
           resp_VerificationURI = gh_VerificationURI ghAuth,
           resp_ExpiresAt = rfc3339 e expiresAt,
           resp_PollAfterSeconds = gh_Interval ghAuth\<rparr>))) }))))"

subsection \<open>Polling it\<close>

fun find_primary :: "GitHubEmail list \<Rightarrow> string" where
  "find_primary [] = []"
| "find_primary (email # emails) =
     (if ge_Primary email \<and> ge_Verified email then ge_Email email else find_primary emails)"

text \<open>A failure while pairing: revoke GitHub's token, answer with an internal error.\<close>

definition fail_pairing :: "env \<Rightarrow> Handler \<Rightarrow> string \<Rightarrow> header_map \<Rightarrow> string \<Rightarrow> response io" where
  "fail_pairing e h token w msg = do {
     RevokeToken e (ghClient h) token;
     return (server_error w msg) }"

text \<open>Everything is stored: close the transaction, give GitHub's token back, hand out the pair.\<close>

definition finish_pairing ::
    "env \<Rightarrow> Handler \<Rightarrow> header_map \<Rightarrow> string \<Rightarrow> string \<Rightarrow> string \<Rightarrow> string \<Rightarrow> string \<Rightarrow> int \<Rightarrow> string \<Rightarrow> int \<Rightarrow>
     response io" where
  "finish_pairing e h w transactionID token deviceID primaryEmail accessToken accessExpiresAt
     refreshToken refreshExpiresAt = do {
     UpdateDeviceAuthorizationStatus e transactionID ''approved'' primaryEmail;
     MarkDeviceAuthorizationConsumed e transactionID;
     CreateAuditEvent e ''device_flow_approved'' deviceID [] primaryEmail ''success''
       ''Device flow completed successfully'';
     RevokeToken e (ghClient h) token;
     return (write_status w
       \<lparr>st_Status = ''approved'',
        st_AccessToken = accessToken,
        st_AccessExpiresAt = rfc3339 e accessExpiresAt,
        st_RefreshToken = refreshToken,
        st_RefreshExpiresAt = rfc3339 e refreshExpiresAt,
        st_SubjectEmail = primaryEmail,
        st_Error = [], st_ErrorMessage = []\<rparr>) }"

text \<open>The e-mail address is allowed: create the device and its two sessions (lines 316 to 411).\<close>

definition pair_device ::
    "env \<Rightarrow> Handler \<Rightarrow> header_map \<Rightarrow> string \<Rightarrow> string \<Rightarrow> string \<Rightarrow> response io" where
  "pair_device e h w transactionID token primaryEmail =
     on_err (GenerateRandomString e 32)
       (\<lambda>err. fail_pairing e h token w ''Failed to create device'') (\<lambda>deviceID.
     on_err (CreateMobileDevice e deviceID primaryEmail [])
       (\<lambda>err. fail_pairing e h token w ''Failed to create device'') (\<lambda>_.
     on_err (GenerateTokenPair e)
       (\<lambda>err. fail_pairing e h token w ''Failed to generate tokens'') (\<lambda>(accessToken, refreshToken). do {
     let accessTokenHash = HashSecret e (h_config h) accessToken;
     let refreshTokenHash = HashSecret e (h_config h) refreshToken;
     now \<leftarrow> time_Now e;
     let accessExpiresAt = now + AccessTokenTTL (h_config h);
     let refreshExpiresAt = now + RefreshTokenTTL (h_config h);
     on_err (GenerateRandomString e 32)
       (\<lambda>err. fail_pairing e h token w ''Failed to create session'') (\<lambda>accessSessionID.
     on_err (CreateAccessSession e accessSessionID deviceID accessTokenHash now accessExpiresAt)
       (\<lambda>err. fail_pairing e h token w ''Failed to create session'') (\<lambda>_.
     on_err (GenerateRandomString e 32)
       (\<lambda>err. fail_pairing e h token w ''Failed to create session'') (\<lambda>refreshSessionID.
     on_err (CreateRefreshSession e refreshSessionID deviceID refreshTokenHash [] now refreshExpiresAt)
       (\<lambda>err. fail_pairing e h token w ''Failed to create session'') (\<lambda>_.
     finish_pairing e h w transactionID token deviceID primaryEmail accessToken accessExpiresAt
       refreshToken refreshExpiresAt)))) })))"

text \<open>GitHub has issued a token: fetch the e-mail addresses and decide (lines 241 to 314).\<close>

definition complete_flow ::
    "env \<Rightarrow> Handler \<Rightarrow> header_map \<Rightarrow> string \<Rightarrow> GitHubToken \<Rightarrow> response io" where
  "complete_flow e h w transactionID token =
     on_err (GetUserEmails e (ghClient h) (gt_AccessToken token))
       (\<lambda>err. do {
          RevokeToken e (ghClient h) (gt_AccessToken token);
          UpdateDeviceAuthorizationStatus e transactionID ''denied'' [];
          return (write_status w
            ((status_only ''denied'')\<lparr>st_Error := ''email_retrieval_failed'',
               st_ErrorMessage := ''Failed to retrieve user email''\<rparr>)) }) (\<lambda>emails. do {
     let primaryEmail = find_primary emails;
     if primaryEmail = [] then do {
       RevokeToken e (ghClient h) (gt_AccessToken token);
       UpdateDeviceAuthorizationStatus e transactionID ''denied'' [];
       CreateAuditEvent e ''device_flow_denied'' [] [] [] ''no_primary_verified_email''
         ''No primary verified email found'';
       return (write_status w
         ((status_only ''denied'')\<lparr>st_Error := ''no_primary_email'',
            st_ErrorMessage := ''No primary verified email found''\<rparr>)) }
     else if \<not> IsEmailAllowed e (h_config h) primaryEmail then do {
       RevokeToken e (ghClient h) (gt_AccessToken token);
       UpdateDeviceAuthorizationStatus e transactionID ''forbidden'' primaryEmail;
       CreateAuditEvent e ''device_flow_forbidden'' [] [] primaryEmail ''email_not_allowed''
         ''Email not in allow list'';
       return (write_status w
         ((status_only ''forbidden'')\<lparr>st_Error := ''email_not_allowed'',
            st_ErrorMessage := ''Email not authorized for this Gateway''\<rparr>)) }
     else pair_device e h w transactionID (gt_AccessToken token) primaryEmail })"

text \<open>The transaction is pending: ask GitHub (lines 206 to 413, and 415 to 420 when nothing is new).\<close>

definition poll_github ::
    "env \<Rightarrow> Handler \<Rightarrow> header_map \<Rightarrow> string \<Rightarrow> DeviceAuthorization \<Rightarrow> response io" where
  "poll_github e h w transactionID auth =
     (case Decrypt e (GitHubDeviceCode auth) (ServerSecret (h_config h)) of
        Inl err \<Rightarrow> return (server_error w ''Failed to process session'')
      | Inr deviceCode \<Rightarrow>
          on_err (PollDeviceAuthorization e (ghClient h) deviceCode)
            (\<lambda>err. return (write_status w (status_only (auth_Status auth)))) (\<lambda>(token, newAuth).
          case newAuth of
            Some na \<Rightarrow> do {
              (if gh_Interval na > PollAfterSeconds auth
               then do { UpdateDeviceAuthorizationPollInterval e transactionID (gh_Interval na);
                         return () }
               else return ());
              return (write_status w (status_only ''slow_down'')) }
          | None \<Rightarrow>
              (case token of
                 Some tok \<Rightarrow> complete_flow e h w transactionID tok
               | None \<Rightarrow> return (write_status w (status_only (auth_Status auth))))))"

definition handleGetDeviceAuthorization ::
    "env \<Rightarrow> Handler \<Rightarrow> header_map \<Rightarrow> request \<Rightarrow> response io" where
  "handleGetDeviceAuthorization e h w r =
     (let transactionID = mux_var r ''transaction_id'' in
      if transactionID = [] then
        return (http_Error w (error_json ''invalid_request'' ''Missing transaction ID'') 400)
      else
        on_err (GetDeviceAuthorization e transactionID)
          (\<lambda>err. return (server_error w ''Failed to retrieve session'')) (\<lambda>found.
        case found of
          None \<Rightarrow> return (http_Error w (error_json ''not_found'' ''Transaction not found'') 404)
        | Some auth \<Rightarrow>
            if ConsumedAt auth \<noteq> None then
              return (write_status w ((status_only ''forbidden'')\<lparr>st_Error := ''already_consumed''\<rparr>))
            else do {
              now \<leftarrow> time_Now e;
              if after_time now (GitHubExpiresAt auth) then do {
                UpdateDeviceAuthorizationStatus e transactionID ''expired'' [];
                return (write_status w (status_only ''expired'')) }
              else if auth_Status auth = ''denied'' \<or> auth_Status auth = ''forbidden'' then
                return (write_status w (status_only (auth_Status auth)))
              else if auth_Status auth = ''pending'' \<or> auth_Status auth = ''slow_down'' then
                poll_github e h w transactionID auth
              else return (write_status w (status_only (auth_Status auth))) }))"

subsection \<open>Relations kept\<close>

context core_contract
begin

lemma rel_fail_pairing [io_rel]: "state_io_rel (lift_rel T) (fail_pairing e h token w msg)"
  unfolding fail_pairing_def by (intro io_rel)

end

context transaction_contract
begin

lemma rel_finish_pairing [io_rel]:
  "tid \<in> K \<Longrightarrow> state_io_rel (lift_rel T) (finish_pairing e h w tid token dev email acc ax ref rx)"
  unfolding finish_pairing_def by (intro io_rel)

end

context statement_contract
begin

lemma rel_handleCreateDeviceAuthorization [io_rel]:
  "state_io_rel (lift_rel T) (handleCreateDeviceAuthorization e h w r)"
  unfolding handleCreateDeviceAuthorization_def by (intro io_rel)

end

text \<open>
  Pairing is the only part of the device flow that inserts sessions. A poll touches no transaction but
  its own.
\<close>

locale polling_contract = transaction_contract +
  assumes T_pair_device: "tid \<in> K \<Longrightarrow> state_io_rel (lift_rel T) (pair_device e h w tid token email)"
begin

lemma rel_complete_flow [io_rel]: "tid \<in> K \<Longrightarrow> state_io_rel (lift_rel T) (complete_flow e h w tid token)"
  unfolding complete_flow_def by (intro io_rel T_pair_device)

lemma rel_poll_github [io_rel]: "tid \<in> K \<Longrightarrow> state_io_rel (lift_rel T) (poll_github e h w tid auth)"
  unfolding poll_github_def by (intro io_rel)

lemma rel_handleGetDeviceAuthorization [io_rel]:
  "mux_var r ''transaction_id'' \<in> K \<Longrightarrow>
     state_io_rel (lift_rel T) (handleGetDeviceAuthorization e h w r)"
  unfolding handleGetDeviceAuthorization_def by (intro io_rel) simp_all

end

sublocale flow_contract \<subseteq> polling_contract
  by unfold_locales (unfold pair_device_def, intro io_rel)

locale pairing_contract = polling_contract T UNIV for T

sublocale pairing_contract \<subseteq> statement_contract
  by unfold_locales

sublocale table_contract \<subseteq> pairing_contract
  by unfold_locales

end
