(* ===== verification/HandlerSession.thy ===== *)
theory HandlerSession
  imports HandlerBase
begin

text \<open>
  \<^verbatim>\<open>internal/handler/handler.go\<close>, the session endpoints: rotating a refresh token and revoking the
  sessions of the device an access token belongs to.
\<close>

subsection \<open>Rotating a refresh token\<close>

text \<open>
  The handler is its checks (lines 424 to 478), which only read, followed by the issue of the new
  pair (lines 480 to 553), which writes. The parts are named because another request can be served
  between them.
\<close>

definition process_error :: "header_map \<Rightarrow> response" where
  "process_error w = http_Error w (error_json ''server_error'' ''Failed to process request'') 500"

definition invalid_grant :: "header_map \<Rightarrow> string \<Rightarrow> response" where
  "invalid_grant w msg = http_Error w (error_json ''invalid_grant'' msg) 401"

definition check_refresh ::
    "env \<Rightarrow> Handler \<Rightarrow> header_map \<Rightarrow> request \<Rightarrow>
     (response + string \<times> RefreshSession \<times> MobileDevice) io" where
  "check_refresh e h w r =
     (case unmarshal decode_RefreshRequest (rq_Body r) of
        None \<Rightarrow> return (Inl (http_Error w (error_json ''invalid_request'' ''Invalid JSON'') 400))
      | Some req \<Rightarrow>
          if req_RefreshToken req = [] then
            return (Inl (http_Error w (error_json ''invalid_request'' ''Missing refresh token'') 400))
          else
            (let tokenHash = HashSecret e (h_config h) (req_RefreshToken req) in
             on_err (GetRefreshSession e tokenHash)
               (\<lambda>err. return (Inl (process_error w))) (\<lambda>found.
             case found of
               None \<Rightarrow> return (Inl (invalid_grant w ''Invalid refresh token''))
             | Some session \<Rightarrow>
                 if ref_RevokedAt session \<noteq> None then
                   return (Inl (invalid_grant w ''Refresh token revoked''))
                 else do {
                   now \<leftarrow> time_Now e;
                   if after_time now (ref_ExpiresAt session) then
                     return (Inl (invalid_grant w ''Refresh token expired''))
                   else if RotatedAt session \<noteq> None then
                     return (Inl (invalid_grant w ''Refresh token already used''))
                   else
                     on_err (GetMobileDevice e (ref_DeviceID session))
                       (\<lambda>err. return (Inl (process_error w))) (\<lambda>device.
                     return
                       (case device of
                          None \<Rightarrow> Inl (invalid_grant w ''Device not found or revoked'')
                        | Some dev \<Rightarrow>
                            if dev_RevokedAt dev \<noteq> None
                            then Inl (invalid_grant w ''Device not found or revoked'')
                            else Inr (tokenHash, session, dev))) })))"

definition issue_refresh ::
    "env \<Rightarrow> Handler \<Rightarrow> header_map \<Rightarrow> string \<Rightarrow> RefreshSession \<Rightarrow> MobileDevice \<Rightarrow> response io" where
  "issue_refresh e h w tokenHash session device =
     on_err (GenerateTokenPair e)
       (\<lambda>err. return (http_Error w (error_json ''server_error'' ''Failed to generate tokens'') 500))
       (\<lambda>(newAccessToken, newRefreshToken). do {
     let newAccessTokenHash = HashSecret e (h_config h) newAccessToken;
     let newRefreshTokenHash = HashSecret e (h_config h) newRefreshToken;
     now \<leftarrow> time_Now e;
     let newAccessExpiresAt = now + AccessTokenTTL (h_config h);
     let newRefreshExpiresAt = now + RefreshTokenTTL (h_config h);
     on_err (GenerateRandomString e 32)
       (\<lambda>err. return (http_Error w (error_json ''server_error'' ''Failed to create session'') 500))
       (\<lambda>newAccessSessionID.
     on_err (GenerateRandomString e 32)
       (\<lambda>err. return (http_Error w (error_json ''server_error'' ''Failed to create session'') 500))
       (\<lambda>newRefreshSessionID.
     on_err (CreateAccessSession e newAccessSessionID (dev_ID device) newAccessTokenHash now
         newAccessExpiresAt)
       (\<lambda>err. return (http_Error w (error_json ''server_error'' ''Failed to create session'') 500))
       (\<lambda>_.
     on_err (RotateRefreshSession e (ref_ID session) tokenHash newRefreshSessionID
         newRefreshTokenHash newRefreshExpiresAt)
       (\<lambda>err. return (process_error w)) (\<lambda>_. do {
     CreateAuditEvent e ''token_refreshed'' (dev_ID device) newRefreshSessionID (dev_Email device)
       ''success'' ''Token refresh successful'';
     return (write_json w (json_RefreshResponse
       \<lparr>new_AccessToken = newAccessToken,
        new_AccessExpiresAt = rfc3339 e newAccessExpiresAt,
        new_RefreshToken = newRefreshToken,
        new_RefreshExpiresAt = rfc3339 e newRefreshExpiresAt\<rparr>)) })))) })"

definition handleRefreshSession ::
    "env \<Rightarrow> Handler \<Rightarrow> header_map \<Rightarrow> request \<Rightarrow> response io" where
  "handleRefreshSession e h w r =
     on_err (check_refresh e h w r) return
       (\<lambda>(tokenHash, session, device). issue_refresh e h w tokenHash session device)"

subsection \<open>Revoking the current session\<close>

definition unauthorized :: "header_map \<Rightarrow> string \<Rightarrow> response" where
  "unauthorized w msg = http_Error w (error_json ''unauthorized'' msg) 401"

definition handleRevokeCurrentSession ::
    "env \<Rightarrow> Handler \<Rightarrow> header_map \<Rightarrow> request \<Rightarrow> response io" where
  "handleRevokeCurrentSession e h w r =
     (let authHeader = Header_Get (rq_Header r) ''Authorization'';
          parts = Split authHeader CHR '' ''
      in if authHeader = [] then return (unauthorized w ''Missing Authorization header'')
         else if length parts \<noteq> 2 \<or> parts ! 0 \<noteq> ''Bearer'' then
           return (unauthorized w ''Invalid Authorization header'')
         else
           (let accessToken = parts ! 1;
                tokenHash = HashSecret e (h_config h) accessToken
            in on_err (GetAccessSession e tokenHash)
                 (\<lambda>err. return (process_error w)) (\<lambda>found.
               case found of
                 None \<Rightarrow> return (write_empty w 204)
               | Some session \<Rightarrow>
                   on_err (RevokeAllSessionsForDevice e (acc_DeviceID session))
                     (\<lambda>err. return (http_Error w
                        (error_json ''server_error'' ''Failed to revoke session'') 500)) (\<lambda>_. do {
                   CreateAuditEvent e ''session_revoked'' (acc_DeviceID session) (acc_ID session) []
                     ''success'' ''Session revoked by user'';
                   return (write_empty w 204) }))))"

subsection \<open>Relations kept\<close>

context core_contract
begin

lemma rel_check_refresh [io_rel]: "state_io_rel (lift_rel T) (check_refresh e h w r)"
  unfolding check_refresh_def by (intro io_rel)

lemma rel_handleRevokeCurrentSession [io_rel]:
  "state_io_rel (lift_rel T) (handleRevokeCurrentSession e h w r)"
  unfolding handleRevokeCurrentSession_def by (intro io_rel)

end

context session_contract
begin

lemma rel_issue_refresh [io_rel]:
  "dev_ID d \<in> D \<Longrightarrow> state_io_rel (lift_rel T) (issue_refresh e h w th s d)"
  unfolding issue_refresh_def by (intro io_rel)

lemma rel_handleRefreshSession [io_rel]:
  "D = UNIV \<Longrightarrow> state_io_rel (lift_rel T) (handleRefreshSession e h w r)"
  unfolding handleRefreshSession_def by (intro io_rel) simp

end

end
