(* ===== verification/Samples.thy ===== *)
theory Samples
  imports Proxy HandlerDevice HandlerSession
begin

text \<open>
  Concrete inputs: an environment without faults, a configuration, tables with one paired device, and
  a request that carries its access token. The properties are applied to them.
\<close>

definition plain_digest :: "byte list \<Rightarrow> byte list" where
  "plain_digest x = take 4 (rev x @ replicate 4 0)"

definition sample_reply :: "nat \<Rightarrow> http_request \<Rightarrow> go_error + http_response" where
  "sample_reply t q = Inr \<lparr>hr_status = 200, hr_body = JsonValue (JObj [])\<rparr>"

definition sample_env :: env where
  "sample_env =
     \<lparr>clock = (\<lambda>t. unix_time 1000),
      rand_fault = (\<lambda>t. None),
      rand_byte = (\<lambda>t i. word_of_nat (t + i)),
      db_fault = (\<lambda>t. None),
      rows_cut = (\<lambda>t. None),
      os_fault = (\<lambda>t. None),
      url_fault = (\<lambda>u. None),
      http_reply = sample_reply,
      whois_ok = (\<lambda>t socket ip. ip = ''100.64.0.7''),
      sha256 = plain_digest,
      gcm_seal = (\<lambda>k n p. rev p),
      gcm_open = (\<lambda>k n c. Some (rev c)),
      uni_lower = (\<lambda>s. s),
      rfc3339 = (\<lambda>t. Itoa (to_unix t)),
      LookupEnv = (\<lambda>k. None),
      parse_float = (\<lambda>s. None),
      float_part = (\<lambda>f u sc. f * u div sc)\<rparr>"

definition sample_config :: Config where
  "sample_config =
     \<lparr>Hostname = ''mobile.claw.example.org'', GitHubClientID = ''client'',
      ServerSecret = ''s3cret'',
      GatewayServiceURL = ''http://gateway:18789'', AllowedEmails = [''a@b.org''],
      AccessTokenTTL = Hour, RefreshTokenTTL = 720 * Hour, ListenAddr = '':8080'',
      ListenPorts = [8080], DatabasePath = ''/data/broker.db'',
      GitHubAPIBaseURL = ''https://api.github.com'', MaxMessageSize = 16777216,
      PollIntervalScale = float_1_5, TailnetEnabled = False, TailnetSocket = ''/run/ts.sock'',
      TailnetIdentity = ''tail@b.org'', TLSEnabled = False, TLSPorts = [443], TLSDomain = [],
      TLSEmail = [], TLSCloudflareToken = [], TLSCertCacheDir = ''/data/certs'',
      TLSACMEStaging = False\<rparr>"

definition sample_device :: mobile_device_row where
  "sample_device =
     \<lparr>md_id = ''dev1'', md_email = ''A@b.org'', md_created_at = 900, md_last_seen_at = 900,
      md_revoked_at = None, md_metadata = Some []\<rparr>"

definition sample_access :: access_session_row where
  "sample_access =
     \<lparr>as_id = ''acc1'', as_device_id = ''dev1'',
      as_token_hash = HashSecret sample_env sample_config ''tok'', as_issued_at = 900,
      as_expires_at = 4500, as_revoked_at = None\<rparr>"

definition sample_refresh :: refresh_session_row where
  "sample_refresh =
     \<lparr>rs_id = ''ref1'', rs_device_id = ''dev1'',
      rs_token_hash = HashSecret sample_env sample_config ''ref'', rs_parent_token_hash = Some [],
      rs_issued_at = 900, rs_expires_at = 4500, rs_revoked_at = None, rs_rotated_at = None\<rparr>"

definition sample_auth :: device_authorization_row where
  "sample_auth =
     \<lparr>da_id = ''tx1'',
      da_github_device_code_encrypted =
        hex_encode (replicate 12 0 @ rev (bytes_of_string ''code'')),
      da_github_poll_interval = 5, da_created_at = 900, da_status = ''pending'',
      da_approved_email = None, da_consumed_at = None, da_poll_after_seconds = 5,
      da_user_code = ''ABCD'', da_verification_uri = ''https://github.com/login/device'',
      da_expires_at = 1800\<rparr>"

definition sample_tables :: tables where
  "sample_tables =
     \<lparr>device_authorizations = [sample_auth], mobile_devices = [sample_device],
      refresh_sessions = [sample_refresh], access_sessions = [sample_access], audit_events = []\<rparr>"

definition sample_world :: world where
  "sample_world =
     \<lparr>tick = 0, db = sample_tables, conn_held = False, stuck = False, outbox = []\<rparr>"

definition sample_request :: request where
  "sample_request =
     \<lparr>rq_Method = ''GET'', rq_Path = ''/dashboard'', rq_Host = ''mobile.claw.example.org'',
      rq_RemoteAddr = ''203.0.113.9:4711'',
      rq_Header = Header_Set no_headers ''Authorization'' ''Bearer tok'',
      rq_Body = JsonValue (JObj [(''refresh_token'', JStr ''ref'')]),
      rq_Vars = Mapping.update ''transaction_id'' ''tx1'' Mapping.empty\<rparr>"

text \<open>A GitHub that has confirmed the transaction, and one whose user has refused it.\<close>

definition github_reply :: "payload \<Rightarrow> nat \<Rightarrow> http_request \<Rightarrow> go_error + http_response" where
  "github_reply answer t q =
     (if hq_url q = ''https://github.com/login/oauth/access_token'' then
        Inr \<lparr>hr_status = 200, hr_body = answer\<rparr>
      else if hq_url q = ''https://api.github.com/user/emails'' then
        Inr \<lparr>hr_status = 200, hr_body = JsonValue (JArr [JObj [(''email'', JStr ''a@b.org''),
          (''primary'', JBool True), (''verified'', JBool True)]])\<rparr>
      else Inr \<lparr>hr_status = 200, hr_body = JsonValue (JObj [(''device_code'', JStr ''dc''),
          (''user_code'', JStr ''ABCD''), (''verification_uri'', JStr ''https://github.com''),
          (''expires_in'', JNum ''900''), (''interval'', JNum ''5'')])\<rparr>)"

definition flow_env :: "payload \<Rightarrow> env" where
  "flow_env answer = sample_env
     \<lparr>sha256 := (\<lambda>x. take 32 (rev x @ replicate 32 0)), http_reply := github_reply answer\<rparr>"

definition granted :: payload where
  "granted = JsonValue (JObj [(''access_token'', JStr ''gho''), (''token_type'', JStr ''bearer'')])"

definition denied :: payload where
  "denied = JsonValue (JObj [(''error'', JStr ''access_denied'')])"

lemmas sample_defs =
  sample_env_def sample_config_def sample_device_def sample_access_def sample_refresh_def
  sample_auth_def sample_tables_def sample_world_def sample_request_def

lemma sample_ids: "ids_available e (db sample_world)"
  by (auto simp: ids_available_def sample_world_def sample_tables_def sample_device_def
      sample_access_def sample_refresh_def dest!: arg_cong[where f = length])

lemma idle_sample [simp]: "idle sample_world"
  by (simp add: idle_def sample_world_def)

end
