(* ===== verification/RefreshRotation.thy ===== *)
theory RefreshRotation
  imports Samples
begin

text \<open>
  The rotation of refresh tokens: what a success means for the database, that a failure leaves the old
  token usable, that a rotated token is not accepted again, and the interleaving in which it is.
\<close>

subsection \<open>The two halves of the handler\<close>

definition presents :: "request \<Rightarrow> string \<Rightarrow> bool" where
  "presents r token \<longleftrightarrow>
     map_option req_RefreshToken (unmarshal decode_RefreshRequest (rq_Body r)) = Some token \<and> token \<noteq> []"

text \<open>The stored session of a token that may be exchanged at \<open>now\<close>, and its device.\<close>

definition refreshable ::
    "env \<Rightarrow> Config \<Rightarrow> tables \<Rightarrow> int \<Rightarrow> string \<Rightarrow> refresh_session_row \<Rightarrow> mobile_device_row \<Rightarrow> bool" where
  "refreshable e cfg d now token s m \<longleftrightarrow>
     sql_first (\<lambda>r. rs_token_hash r = HashSecret e cfg token) (refresh_sessions d) = Some s \<and>
     rs_revoked_at s = None \<and> rs_rotated_at s = None \<and> now \<le> unix_time (rs_expires_at s) \<and>
     m \<in> set (mobile_devices d) \<and> md_id m = rs_device_id s \<and> md_revoked_at m = None"

lemma refreshable_found:
  assumes "sql_first (\<lambda>r. rs_token_hash r = HashSecret e cfg token) (refresh_sessions d) = Some s"
    and "scan_refresh_session s = Inr sess"
    and "sql_first (\<lambda>r. md_id r = ref_DeviceID sess) (mobile_devices d) = Some m"
    and "scan_mobile_device m = Inr dev"
    and "ref_RevokedAt sess = None" "RotatedAt sess = None"
    and "\<not> after_time now (ref_ExpiresAt sess)" "dev_RevokedAt dev = None"
  shows "refreshable e cfg d now token s m"
  using assms by (auto simp: refreshable_def after_time_def dest!: sql_first_SomeD
      scan_refresh_session_InrD scan_mobile_device_InrD)

lemma map_sum_InrD: "map_sum g f x = Inr b \<Longrightarrow> \<exists>a. x = Inr a \<and> b = f a"
  by (cases x) auto

lemma first_row_found:
  "map_sum g id (first_row p scan t) = Inr (Some a) \<Longrightarrow> \<exists>r. sql_first p t = Some r \<and> scan r = Inr a"
  by (auto dest!: map_sum_InrD first_row_SomeD)

lemma wp_check_refresh:
  assumes "idle w"
    and "\<And>resp n. resp_Code resp \<in> {400, 401, 500} \<Longrightarrow> tick w \<le> n \<Longrightarrow> Q (Inl resp) (w\<lparr>tick := n\<rparr>)"
    and "\<And>token s sess m dev n. presents r token \<Longrightarrow> Suc (tick w) < n \<Longrightarrow>
      refreshable e (h_config h) (db w) (clock e (Suc (tick w))) token s m \<Longrightarrow>
      scan_refresh_session s = Inr sess \<Longrightarrow> scan_mobile_device m = Inr dev \<Longrightarrow>
      Q (Inr (HashSecret e (h_config h) token, sess, dev)) (w\<lparr>tick := n\<rparr>)"
  shows "wp (check_refresh e h hw r) Q w"
proof -
  have same: "Q (Inl resp) w" if "resp_Code resp \<in> {400, 401, 500}" for resp
    using assms(2)[OF that, of "tick w"] by (cases w) simp
  have inr: "Q (Inr (HashSecret e (h_config h) token, sess, dev)) (w\<lparr>tick := n\<rparr>)"
    if "presents r token" "Suc (tick w) < n"
      "sql_first (\<lambda>r. rs_token_hash r = HashSecret e (h_config h) token) (refresh_sessions (db w)) = Some s"
      "scan_refresh_session s = Inr sess"
      "sql_first (\<lambda>r. md_id r = ref_DeviceID sess) (mobile_devices (db w)) = Some m"
      "scan_mobile_device m = Inr dev" "ref_RevokedAt sess = None" "RotatedAt sess = None"
      "\<not> after_time (clock e (Suc (tick w))) (ref_ExpiresAt sess)" "dev_RevokedAt dev = None"
    for token s sess m dev n
    using assms(3)[OF that(1,2) refreshable_found[OF that(3-10)] that(4,6)] .
  show ?thesis
    unfolding check_refresh_def Let_def process_error_def invalid_grant_def
    using assms(1) same assms(2)
    by (auto simp: wp_simps presents_def split: option.splits sum.splits dest!: first_row_found intro!: inr)
qed

lemma wp_issue_refresh:
  assumes "idle w"
    and "\<And>resp n d. resp_Code resp = 500 \<Longrightarrow> tick w \<le> n \<Longrightarrow>
      d = db w \<or> (\<exists>row. as_device_id row = dev_ID dev \<and> insert_access_session row (db w) = Inr d) \<Longrightarrow>
      Q resp (w\<lparr>tick := n, db := d\<rparr>)"
    and "\<And>acc ref row d1 d2 newID t ex ax rx evs n. insert_access_session row (db w) = Inr d1 \<Longrightarrow>
      insert_successor newID tokenHash (HashSecret e (h_config h) ref) t ex
        (mark_rotated t (ref_ID sess) d1) = Inr d2 \<Longrightarrow>
      as_device_id row = dev_ID dev \<Longrightarrow> as_token_hash row = HashSecret e (h_config h) acc \<Longrightarrow>
      as_revoked_at row = None \<Longrightarrow> tick w \<le> n \<Longrightarrow> acc \<noteq> [] \<Longrightarrow> ref \<noteq> [] \<Longrightarrow>
      Q (write_json hw (json_RefreshResponse
          \<lparr>new_AccessToken = acc, new_AccessExpiresAt = ax, new_RefreshToken = ref,
           new_RefreshExpiresAt = rx\<rparr>)) (w\<lparr>tick := n, db := d2\<lparr>audit_events := evs\<rparr>\<rparr>)"
  shows "wp (issue_refresh e h hw tokenHash sess dev) Q w"
proof -
  have same: "Q resp (w\<lparr>tick := n\<rparr>)" if "resp_Code resp = 500" "tick w \<le> n" for resp n
    using assms(2)[OF that, of "db w"] by (cases w) simp
  have fail: "Q (http_Error hw msg 500) (w\<lparr>tick := n, db := d\<rparr>)"
    if "insert_access_session row (db w) = Inr d" "as_device_id row = dev_ID dev" "tick w \<le> n"
    for row d n msg
    using assms(2)[of "http_Error hw msg 500" n d] that by auto
  show ?thesis
    unfolding issue_refresh_def Let_def process_error_def
    using assms(1)
    by (auto simp: wp_simps same split: option.splits sum.splits
        intro!: wp_RotateRefreshSession wp_CreateAuditEvent fail)
      (rule assms(3), assumption+, simp_all)+
qed

lemma insert_successor_InrD:
  assumes "insert_successor newID oldHash newHash now ex d = Inr d'"
  obtains old row where "sql_first (\<lambda>r. rs_token_hash r = oldHash) (refresh_sessions d) = Some old"
    and "d' = d\<lparr>refresh_sessions := refresh_sessions d @ [row]\<rparr>"
    and "rs_id row = newID" "rs_device_id row = rs_device_id old" "rs_token_hash row = newHash"
      "rs_parent_token_hash row = Some oldHash" "rs_revoked_at row = None" "rs_rotated_at row = None"
  using assms
  by (auto simp: insert_successor_def insert_refresh_session_def split: option.splits
      dest!: map_sum_InrD sql_insert_InrD)

lemma insert_access_InrD:
  "insert_access_session row d = Inr d' \<Longrightarrow> d' = d\<lparr>access_sessions := access_sessions d @ [row]\<rparr>"
  by (auto simp: insert_access_session_def dest!: map_sum_InrD sql_insert_InrD)

subsection \<open>A success, a failure\<close>

text \<open>
  The tables after an exchange: the old row is marked as rotated, one refresh row (its successor) and
  one access row are added, for the same device and with the hashes of the tokens handed out.
\<close>

definition pair_issued ::
    "env \<Rightarrow> Config \<Rightarrow> tables \<Rightarrow> tables \<Rightarrow> refresh_session_row \<Rightarrow> string \<Rightarrow> string \<Rightarrow> bool" where
  "pair_issued e cfg d d' old acc ref \<longleftrightarrow>
     (\<exists>t new a.
       refresh_sessions d' = sql_update (\<lambda>r. rs_id r = rs_id old) (\<lambda>r. r\<lparr>rs_rotated_at := Some t\<rparr>)
         (refresh_sessions d) @ [new] \<and>
       rs_token_hash new = HashSecret e cfg ref \<and> rs_device_id new = rs_device_id old \<and>
       rs_parent_token_hash new = Some (rs_token_hash old) \<and>
       rs_revoked_at new = None \<and> rs_rotated_at new = None \<and>
       access_sessions d' = access_sessions d @ [a] \<and>
       as_token_hash a = HashSecret e cfg acc \<and> as_device_id a = rs_device_id old \<and>
       as_revoked_at a = None) \<and>
     mobile_devices d' = mobile_devices d \<and> device_authorizations d' = device_authorizations d"

lemma pair_issuedI:
  assumes "sql_first (\<lambda>r. rs_token_hash r = hash) (refresh_sessions d) = Some old"
    and "insert_access_session a d = Inr d1"
    and "insert_successor newID hash (HashSecret e cfg ref) t ex (mark_rotated t (rs_id old) d1) = Inr d2"
    and "as_device_id a = rs_device_id old" "as_token_hash a = HashSecret e cfg acc"
    and "as_revoked_at a = None"
  shows "pair_issued e cfg d (d2\<lparr>audit_events := evs\<rparr>) old acc ref"
proof -
  note d1 = insert_access_InrD[OF assms(2)]
  obtain old' row where
    "sql_first (\<lambda>r. rs_token_hash r = hash) (refresh_sessions (mark_rotated t (rs_id old) d1)) = Some old'"
    and row: "d2 = (mark_rotated t (rs_id old) d1)
      \<lparr>refresh_sessions := refresh_sessions (mark_rotated t (rs_id old) d1) @ [row]\<rparr>"
      "rs_id row = newID" "rs_device_id row = rs_device_id old'"
      "rs_token_hash row = HashSecret e cfg ref"
      "rs_parent_token_hash row = Some hash" "rs_revoked_at row = None" "rs_rotated_at row = None"
    using assms(3) by (rule insert_successor_InrD)
  moreover have "rs_token_hash old = hash" using sql_first_SomeD[OF assms(1)] by simp
  ultimately show ?thesis
    using assms(1,4-6)
    by (auto simp: pair_issued_def d1 mark_rotated_def update_refresh_sessions_def sql_first_update)
qed

lemma wp_handleRefreshSession:
  assumes "idle w"
    and "\<And>resp n d. resp_Code resp \<in> {400, 401, 500} \<Longrightarrow> tick w \<le> n \<Longrightarrow>
      d = db w \<or> (\<exists>row. insert_access_session row (db w) = Inr d) \<Longrightarrow> Q resp (w\<lparr>tick := n, db := d\<rparr>)"
    and "\<And>token old m acc ref ax rx d n. presents r token \<Longrightarrow> tick w \<le> n \<Longrightarrow>
      refreshable e (h_config h) (db w) (clock e (Suc (tick w))) token old m \<Longrightarrow>
      pair_issued e (h_config h) (db w) d old acc ref \<Longrightarrow>
      Q (write_json hw (json_RefreshResponse
          \<lparr>new_AccessToken = acc, new_AccessExpiresAt = ax, new_RefreshToken = ref,
           new_RefreshExpiresAt = rx\<rparr>)) (w\<lparr>tick := n, db := d\<rparr>)"
  shows "wp (handleRefreshSession e h hw r) Q w"
  unfolding handleRefreshSession_def wp_on_err
proof (rule wp_check_refresh[OF assms(1)], goal_cases)
  case (1 resp n)
  then show ?case using assms(2)[of resp n "db w"] by (cases w) (simp add: wp_return)
next
  case (2 token s sess m dev n)
  then have found: "ref_ID sess = rs_id s" "dev_ID dev = rs_device_id s"
    "sql_first (\<lambda>r. rs_token_hash r = HashSecret e (h_config h) token) (refresh_sessions (db w)) = Some s"
    by (auto simp: refreshable_def dest!: scan_refresh_session_InrD scan_mobile_device_InrD)
  have "wp (issue_refresh e h hw (HashSecret e (h_config h) token) sess dev) Q (w\<lparr>tick := n\<rparr>)"
  proof (rule wp_issue_refresh, goal_cases)
    case 1
    then show ?case using assms(1) by simp
  next
    case (2 resp n' d)
    then show ?case using \<open>Suc (tick w) < n\<close> assms(2)[of resp n' d] by auto
  next
    case (3 acc ref row d1 d2 newID t ex ax rx evs n')
    then have "pair_issued e (h_config h) (db w) (d2\<lparr>audit_events := evs\<rparr>) s acc ref"
      by (intro pair_issuedI) (use found in \<open>simp_all\<close>)
    then show ?case
      using 3 \<open>Suc (tick w) < n\<close> assms(3)[OF \<open>presents r token\<close> _ \<open>refreshable _ _ _ _ _ _ _\<close>]
      by simp
  qed
  then show ?case by simp
qed

text \<open>
  C14. A refresh that answers 200 was asked for with a token that is stored, not revoked, not rotated
  and not expired, of an unrevoked device; it rotates that token and stores the pair it hands out for
  the same device.
\<close>

theorem refresh_success:
  assumes "idle w"
  shows "wp (handleRefreshSession e h hw r) (\<lambda>resp w'. resp_Code resp = 200 \<longrightarrow>
    (\<exists>token old m acc ref. presents r token \<and>
       refreshable e (h_config h) (db w) (clock e (Suc (tick w))) token old m \<and>
       json_member resp ''access_token'' = Some (JStr acc) \<and>
       json_member resp ''refresh_token'' = Some (JStr ref) \<and>
       pair_issued e (h_config h) (db w) (db w') old acc ref)) w"
  by (rule wp_handleRefreshSession[OF assms])
    (auto simp: json_RefreshResponse_def str_member_def)

lemma sample_refresh_200:
  "resp_Code (returns (handleRefreshSession sample_env (NewHandler sample_config) no_headers
     sample_request) sample_world) = 200"
  by code_simp

theorem refresh_success_witness:
  "\<exists>token old acc ref. presents sample_request token \<and>
     pair_issued sample_env sample_config (db sample_world)
       (db (leaves (handleRefreshSession sample_env (NewHandler sample_config) no_headers
         sample_request) sample_world)) old acc ref"
  using refresh_success[OF idle_sample, of sample_env "NewHandler sample_config" no_headers sample_request]
    sample_refresh_200
  by (auto simp: wp_result NewHandler_def)

text \<open>
  C23. A refresh that does not answer 200 has changed no refresh session and no device: the old token
  remains usable.
\<close>

theorem refresh_failure_keeps_token:
  assumes "idle w"
  shows "wp (handleRefreshSession e h hw r) (\<lambda>resp w'. resp_Code resp \<noteq> 200 \<longrightarrow>
    refresh_sessions (db w') = refresh_sessions (db w) \<and> mobile_devices (db w') = mobile_devices (db w)) w"
  by (rule wp_handleRefreshSession[OF assms]) (auto dest!: insert_access_InrD)

text \<open>A request whose token is not the stored one.\<close>

definition stray_request :: request where
  "stray_request = sample_request\<lparr>rq_Body := JsonValue (JObj [(''refresh_token'', JStr ''stray'')])\<rparr>"

theorem refresh_failure_keeps_token_witness:
  "refresh_sessions (db (leaves (handleRefreshSession sample_env (NewHandler sample_config) no_headers
     stray_request) sample_world)) = refresh_sessions (db sample_world)"
proof -
  have "resp_Code (returns (handleRefreshSession sample_env (NewHandler sample_config) no_headers
      stray_request) sample_world) = 401"
    by code_simp
  with refresh_failure_keeps_token[OF idle_sample, of sample_env "NewHandler sample_config" no_headers
      stray_request]
  show ?thesis by (simp add: wp_result)
qed

subsection \<open>Replays\<close>








text \<open>
  Two requests whose checks are both served before either of them writes: nothing in the code keeps
  the pool from serving them in this order, the transaction begins after the checks.
\<close>

definition finish_refresh ::
    "env \<Rightarrow> Handler \<Rightarrow> header_map \<Rightarrow> response + string \<times> RefreshSession \<times> MobileDevice \<Rightarrow> response io" where
  "finish_refresh e h hw c =
     (case c of
        Inl resp \<Rightarrow> return resp
      | Inr (tokenHash, session, device) \<Rightarrow> issue_refresh e h hw tokenHash session device)"

definition overlapping_refreshes ::
    "env \<Rightarrow> Handler \<Rightarrow> header_map \<Rightarrow> request \<Rightarrow> request \<Rightarrow> (response \<times> response) io" where
  "overlapping_refreshes e h hw r1 r2 = do {
     a \<leftarrow> check_refresh e h hw r1;
     b \<leftarrow> check_refresh e h hw r2;
     resp_a \<leftarrow> finish_refresh e h hw a;
     resp_b \<leftarrow> finish_refresh e h hw b;
     return (resp_a, resp_b) }"

lemma handleRefreshSession_halves:
  "handleRefreshSession e h hw r = State_Monad.bind (check_refresh e h hw r) (finish_refresh e h hw)"
  unfolding handleRefreshSession_def on_err_def finish_refresh_def
  by (rule refl)

text \<open>A refresh session that is neither revoked nor rotated; at most one of each device.\<close>

definition live_refresh :: "refresh_session_row \<Rightarrow> bool" where
  "live_refresh s \<longleftrightarrow> rs_revoked_at s = None \<and> rs_rotated_at s = None"

definition one_live :: "tables \<Rightarrow> bool" where
  "one_live d \<longleftrightarrow> (\<forall>s \<in> set (refresh_sessions d). \<forall>s' \<in> set (refresh_sessions d).
     live_refresh s \<longrightarrow> live_refresh s' \<longrightarrow> rs_device_id s' = rs_device_id s \<longrightarrow> s' = s)"

text \<open>The two halves when nothing fails, with an exact count of their interactions.\<close>

lemma check_refresh_passes:
  assumes "idle w" and "no_db_faults e" and "tables_ok (db w)" and "presents r token"
    and "refreshable e (h_config h) (db w) (clock e (Suc (tick w))) token s m"
    and "scan_refresh_session s = Inr sess" and "scan_mobile_device m = Inr dev"
  shows "wp (check_refresh e h hw r) Q w =
    Q (Inr (HashSecret e (h_config h) token, sess, dev)) (w\<lparr>tick := tick w + 3\<rparr>)"
proof -
  obtain req where req: "unmarshal decode_RefreshRequest (rq_Body r) = Some req" "req_RefreshToken req = token"
    "token \<noteq> []"
    using assms(4) by (auto simp: presents_def)
  have s: "sql_first (\<lambda>r. rs_token_hash r = HashSecret e (h_config h) token) (refresh_sessions (db w)) = Some s"
    "rs_revoked_at s = None" "rs_rotated_at s = None" "clock e (Suc (tick w)) \<le> unix_time (rs_expires_at s)"
    "md_revoked_at m = None"
    using assms(5) by (simp_all add: refreshable_def)
  have "sql_first (\<lambda>r. md_id r = rs_device_id s) (mobile_devices (db w)) = Some m"
    using assms(3,5) sql_first_key[of md_id "mobile_devices (db w)" m] by (auto simp: refreshable_def tables_ok_def)
  then show ?thesis
    using assms(1,2,6,7) req s scan_refresh_session_InrD[OF assms(6)] scan_mobile_device_InrD[OF assms(7)]
    by (simp add: check_refresh_def Let_def wp_simps first_row_def after_time_def not_less eval_nat_numeral)
qed

text \<open>What a second half adds to the tables, under the identifiers that are drawn at \<open>t + 3\<close> and \<open>t + 4\<close>.\<close>

definition successor_added ::
    "env \<Rightarrow> nat \<Rightarrow> tables \<Rightarrow> tables \<Rightarrow> refresh_session_row \<Rightarrow> refresh_session_row \<Rightarrow> bool" where
  "successor_added e t d d' old new \<longleftrightarrow>
     (\<exists>now. refresh_sessions d' = sql_update (\<lambda>r. rs_id r = rs_id old) (\<lambda>r. r\<lparr>rs_rotated_at := Some now\<rparr>)
        (refresh_sessions d) @ [new]) \<and>
     (\<exists>a. access_sessions d' = access_sessions d @ [a] \<and> as_id a = random_text e (t + 3) 32) \<and>
     rs_id new = random_text e (t + 4) 32 \<and> rs_device_id new = rs_device_id old \<and>
     rs_parent_token_hash new = Some (rs_token_hash old) \<and> live_refresh new"

lemma successor_added_cong:
  "refresh_sessions d2 = refresh_sessions d1 \<Longrightarrow> access_sessions d2 = access_sessions d1 \<Longrightarrow>
     successor_added e t d d2 old new = successor_added e t d d1 old new"
  by (simp add: successor_added_def)

lemma insert_successor_free:
  assumes "sql_first (\<lambda>r. rs_token_hash r = hash) (refresh_sessions d) = Some old"
    and "newID \<notin> rs_id ` set (refresh_sessions d)"
  shows "insert_successor newID hash newHash now ex (mark_rotated now k d) = Inr (d\<lparr>refresh_sessions :=
    sql_update (\<lambda>r. rs_id r = k) (\<lambda>r. r\<lparr>rs_rotated_at := Some now\<rparr>) (refresh_sessions d) @
      [\<lparr>rs_id = newID, rs_device_id = rs_device_id old, rs_token_hash = newHash,
        rs_parent_token_hash = Some hash, rs_issued_at = now, rs_expires_at = ex,
        rs_revoked_at = None, rs_rotated_at = None\<rparr>]\<rparr>)"
proof -
  let ?t = "sql_update (\<lambda>r. rs_id r = k) (\<lambda>r. r\<lparr>rs_rotated_at := Some now\<rparr>) (refresh_sessions d)"
  have "newID \<notin> rs_id ` set ?t"
    using assms(2) by (auto simp: set_sql_update)
  moreover have "sql_first (\<lambda>r. rs_token_hash r = hash) ?t =
      Some (if rs_id old = k then old\<lparr>rs_rotated_at := Some now\<rparr> else old)"
    using assms(1) by (simp add: sql_first_update)
  ultimately show ?thesis
    by (simp add: insert_successor_def mark_rotated_def update_refresh_sessions_def insert_available)
qed

lemma issue_refresh_complete:
  assumes "idle w" and "nothing_fails e"
    and "sql_first (\<lambda>r. rs_token_hash r = hash) (refresh_sessions (db w)) = Some old" and "ref_ID sess = rs_id old"
    and "random_text e (tick w + 3) 32 \<notin> as_id ` set (access_sessions (db w))"
    and "random_text e (tick w + 4) 32 \<notin> rs_id ` set (refresh_sessions (db w))"
  shows "wp (issue_refresh e h hw hash sess dev) (\<lambda>resp w'. resp_Code resp = 200 \<and> idle w' \<and>
    tick w' = tick w + 14 \<and> (\<exists>new. successor_added e (tick w) (db w) (db w') old new)) w"
proof -
  have "rs_token_hash old = hash" using sql_first_SomeD[OF assms(3)] by simp
  moreover have event: "wp (CreateAuditEvent e code d s m outc det) (\<lambda>_ w'. idle w' \<and> tick w' = tick w1 + 3 \<and>
      refresh_sessions (db w') = refresh_sessions (db w1) \<and> access_sessions (db w') = access_sessions (db w1)) w1"
    if "idle w1" for w1 code d s m outc det
    using that assms(2)
    by (auto simp: CreateAuditEvent_def wp_simps nothing_fails_def Let_def insert_audit_event_def map_sum_def
        eval_nat_numeral split: sum.splits)
  have audit: "wp (do { CreateAuditEvent e code d s m outc det; return resp }) (\<lambda>resp' w'.
      resp_Code resp' = 200 \<and> idle w' \<and> tick w' = tick w + 14 \<and>
      (\<exists>new. successor_added e (tick w) (db w) (db w') old new)) w1"
    if "idle w1" "tick w1 = tick w + 11" "resp_Code resp = 200"
      "\<exists>new. successor_added e (tick w) (db w) (db w1) old new" for w1 code d s m outc det resp
    unfolding wp_bind wp_return
  proof (rule wp_mono[OF event[OF that(1)]])
    fix r w'
    assume w': "idle w' \<and> tick w' = tick w1 + 3 \<and> refresh_sessions (db w') = refresh_sessions (db w1) \<and>
      access_sessions (db w') = access_sessions (db w1)"
    then have "\<exists>new. successor_added e (tick w) (db w) (db w') old new"
      using that(4) by (simp add: successor_added_cong[of "db w'" "db w1"])
    then show "resp_Code resp = 200 \<and> idle w' \<and> tick w' = tick w + 14 \<and>
        (\<exists>new. successor_added e (tick w) (db w) (db w') old new)"
      using w' that by simp
  qed
  moreover have ticks: "tick w + 3 = Suc (Suc (Suc (tick w)))" "tick w + 4 = Suc (Suc (Suc (Suc (tick w))))"
    "tick w + 11 = Suc (Suc (Suc (Suc (Suc (Suc (Suc (Suc (Suc (Suc (Suc (tick w)))))))))))"
    by simp_all
  ultimately show ?thesis
    using assms
    unfolding issue_refresh_def RotateRefreshSession_def Let_def ticks(1,2)
    by (simp add: wp_simps nothing_fails_def insert_available insert_successor_free)
      (rule audit[unfolded wp_bind], simp_all add: successor_added_def live_refresh_def ticks, rule exI, rule refl)
qed

lemma successor_added_found:
  assumes "successor_added e t d d' old new"
    and "sql_first (\<lambda>r. rs_token_hash r = hash) (refresh_sessions d) = Some old"
  obtains old' where "sql_first (\<lambda>r. rs_token_hash r = hash) (refresh_sessions d') = Some old'"
    and "rs_id old' = rs_id old" and "rs_token_hash old' = rs_token_hash old" and "rs_device_id old' = rs_device_id old"
  using assms by (auto simp: successor_added_def sql_first_append sql_first_update)

lemma successor_added_stays:
  assumes "successor_added e t d d' old' new'" and "new \<in> set (refresh_sessions d)" and "rs_id new \<noteq> rs_id old'"
  shows "new \<in> set (refresh_sessions d')"
  using assms by (auto simp: successor_added_def set_sql_update image_iff)

text \<open>Two live sessions of one device, successors of the same session.\<close>

definition forked :: "refresh_session_row \<Rightarrow> tables \<Rightarrow> bool" where
  "forked old d \<longleftrightarrow> (\<exists>a b. a \<in> set (refresh_sessions d) \<and> b \<in> set (refresh_sessions d) \<and> rs_id a \<noteq> rs_id b \<and>
     live_refresh a \<and> live_refresh b \<and> rs_device_id a = rs_device_id old \<and> rs_device_id b = rs_device_id old \<and>
     rs_parent_token_hash a = Some (rs_token_hash old) \<and> rs_parent_token_hash b = Some (rs_token_hash old))"

lemma forked_not_one_live: "forked old d \<Longrightarrow> \<not> one_live d"
  unfolding forked_def one_live_def by metis

text \<open>The second of two second halves; \<open>w1\<close> is what the first has left.\<close>

lemma issue_refresh_forks:
  assumes "idle w1" and "nothing_fails e" and "tick w1 = t + 20" and "ids_fresh e t d"
    and "sql_first (\<lambda>r. rs_token_hash r = hash) (refresh_sessions d) = Some old" and "ref_ID sess = rs_id old"
    and new1: "successor_added e (t + 6) d (db w1) old new1"
  shows "wp (issue_refresh e h hw hash sess dev) (\<lambda>resp w2. resp_Code resp = 200 \<and> forked old (db w2)) w1"
proof -
  obtain old1 where old1: "sql_first (\<lambda>r. rs_token_hash r = hash) (refresh_sessions (db w1)) = Some old1"
    "rs_id old1 = rs_id old" "rs_token_hash old1 = rs_token_hash old" "rs_device_id old1 = rs_device_id old"
    by (rule successor_added_found[OF new1 assms(5)])
  have fresh: "random_text e n 32 \<notin> as_id ` set (access_sessions d) \<union> rs_id ` set (refresh_sessions d)" for n
    using assms(4) by (auto simp: ids_fresh_def ids_available_def)
  have apart: "random_text e (t + 23) 32 \<noteq> random_text e (t + 9) 32" "random_text e (t + 24) 32 \<noteq> random_text e (t + 10) 32"
    using ids_fresh_distinct[OF assms(4)] by simp_all
  have id1: "rs_id new1 = random_text e (t + 10) 32" "new1 \<in> set (refresh_sessions (db w1))"
    using new1 by (auto simp: successor_added_def add.commute)
  obtain now where "refresh_sessions (db w1) =
      sql_update (\<lambda>r. rs_id r = rs_id old) (\<lambda>r. r\<lparr>rs_rotated_at := Some now\<rparr>) (refresh_sessions d) @ [new1]"
    using new1 by (auto simp: successor_added_def)
  then have ids: "rs_id ` set (refresh_sessions (db w1)) = insert (rs_id new1) (rs_id ` set (refresh_sessions d))"
    by (simp add: image_sql_update)
  have new1_id: "rs_id new1 \<noteq> rs_id old1"
    using id1 fresh[of "t + 10"] sql_first_SomeD[OF assms(5)] old1(2) by auto
  show ?thesis
  proof (rule wp_mono[OF issue_refresh_complete[OF assms(1,2) old1(1)]], goal_cases)
    case 2
    then show ?case using new1 fresh[of "t + 23"] apart(1) assms(3) by (auto simp: successor_added_def add.commute)
  next
    case 3
    then show ?case using ids fresh[of "t + 24"] apart(2) id1(1) assms(3) by (simp add: add.commute)
  next
    case (4 resp w2)
    then obtain new2 where new2: "successor_added e (tick w1) (db w1) (db w2) old1 new2" by auto
    have "new1 \<in> set (refresh_sessions (db w2))"
      by (rule successor_added_stays[OF new2 id1(2) new1_id])
    then show ?case
      using 4 new1 new2 old1 apart(2) assms(3) unfolding forked_def
      by (intro conjI exI[of _ new1] exI[of _ new2]) (auto simp: successor_added_def add.commute)
  qed (use assms(6) old1(2) in simp)
qed

text \<open>
  C39. The single use rests on the requests being served one after the other: when the checks of two
  requests that present the same good token come before the writes of both, and nothing fails, both answer
  200, and the device ends up with two refresh sessions that are neither rotated nor revoked, successors of
  the same session.
\<close>

theorem overlapping_refreshes_both_succeed:
  assumes "idle w" and "nothing_fails e" and "tables_ok (db w)" and "ids_fresh e (tick w) (db w)"
    and "presents r1 token" and "presents r2 token"
    and "refreshable e (h_config h) (db w) (clock e (Suc (tick w))) token old m"
    and "clock e (tick w + 4) \<le> unix_time (rs_expires_at old)"
    and "scan_refresh_session old = Inr sess" and "scan_mobile_device m = Inr dev"
  shows "wp (overlapping_refreshes e h hw r1 r2) (\<lambda>(resp1, resp2) w'.
    resp_Code resp1 = 200 \<and> resp_Code resp2 = 200 \<and> forked old (db w') \<and> \<not> one_live (db w')) w"
proof -
  let ?hash = "HashSecret e (h_config h) token" and ?issue = "issue_refresh e h hw" and ?w6 = "w\<lparr>tick := tick w + 6\<rparr>"
  have db: "no_db_faults e" using assms(2) by (simp add: nothing_fails_def)
  have old: "sql_first (\<lambda>r. rs_token_hash r = ?hash) (refresh_sessions (db w)) = Some old" "ref_ID sess = rs_id old"
    using assms(7,9) scan_refresh_session_InrD by (auto simp: refreshable_def)
  have "Suc (tick w + 3) = tick w + 4" by simp
  then have again: "refreshable e (h_config h) (db w) (clock e (Suc (tick w + 3))) token old m"
    using assms(7,8) unfolding refreshable_def by presburger
  have fresh: "random_text e n 32 \<notin> as_id ` set (access_sessions (db w)) \<union> rs_id ` set (refresh_sessions (db w))" for n
    using assms(4) by (auto simp: ids_fresh_def ids_available_def)
  have "wp (?issue ?hash sess dev) (\<lambda>resp1. wp (?issue ?hash sess dev) (\<lambda>resp2 w'. resp_Code resp1 = 200 \<and>
      resp_Code resp2 = 200 \<and> forked old (db w') \<and> \<not> one_live (db w'))) ?w6"
  proof (rule wp_mono[OF issue_refresh_complete[OF _ assms(2) _ old(2), of ?w6]], goal_cases)
    case (5 resp1 w1)
    then obtain new1 where "successor_added e (tick w + 6) (db w) (db w1) old new1" by auto
    then show ?case
      using 5 forked_not_one_live
      by (intro wp_mono[OF issue_refresh_forks[OF _ assms(2) _ assms(4) old]]) auto
  qed (use assms(1) old(1) fresh in simp_all)
  then show ?thesis
    using assms(1,3,5-7,9,10) db again
    unfolding overlapping_refreshes_def wp_bind wp_return
    by (simp add: check_refresh_passes[where sess = sess and dev = dev and m = m and s = old and token = token]
        finish_refresh_def add.commute)
qed

lemma sample_draws: "distinct (map (\<lambda>n. random_text sample_env n 32) [0..<40])"
  by code_simp

lemma sample_presents: "presents sample_request ''ref''"
  unfolding presents_def by code_simp

lemma sample_refreshable:
  "refreshable sample_env sample_config sample_tables (unix_time 1000) ''ref'' sample_refresh sample_device"
  by (simp add: refreshable_def sample_tables_def sql_first_def sample_refresh_def sample_device_def unix_time_def
      Second_def)

theorem overlapping_refreshes_both_succeed_witness:
  "\<exists>resp1 resp2 w'. run_state (overlapping_refreshes sample_env (NewHandler sample_config) no_headers sample_request
     sample_request) sample_world = ((resp1, resp2), w') \<and> resp_Code resp1 = 200 \<and> resp_Code resp2 = 200 \<and>
     forked sample_refresh (db w')"
proof -
  have "ids_fresh sample_env 0 sample_tables"
    using sample_ids[of sample_env] sample_draws by (simp add: ids_fresh_def sample_world_def)
  moreover have "nothing_fails sample_env" "tables_ok sample_tables"
    by (simp_all add: nothing_fails_def no_db_faults_def sample_env_def tables_ok_def sample_tables_def keys_distinct_def)
  moreover obtain sess dev where "scan_refresh_session sample_refresh = Inr sess" "scan_mobile_device sample_device = Inr dev"
    by (simp add: scan_refresh_session_def scan_mobile_device_def sample_refresh_def sample_device_def scan_text_def)
  moreover have "clock sample_env t \<le> unix_time (rs_expires_at sample_refresh)" "clock sample_env t = unix_time 1000" for t
    by (simp_all add: sample_env_def sample_refresh_def unix_time_def Second_def)
  ultimately show ?thesis
    using overlapping_refreshes_both_succeed[OF idle_sample, of sample_env sample_request "''ref''" sample_request
        "NewHandler sample_config" sample_refresh sample_device sess dev no_headers] sample_presents sample_refreshable
    by (auto simp: wp_def NewHandler_def sample_world_def split: prod.splits)
qed

subsection \<open>Revoking the current session\<close>



text \<open>
  The same gap lets a session outlive a revocation: when all sessions of the device are revoked between the
  checks of a refresh and its writes, the refresh succeeds all the same, and its new session is not revoked.
\<close>

lemma refresh_outlives_revocation:
  assumes "idle w" and "nothing_fails e" and "ids_available e (db w)" and "cut_off (db w) (rs_device_id old)"
    and "sql_first (\<lambda>r. rs_token_hash r = hash) (refresh_sessions (db w)) = Some old" and "ref_ID sess = rs_id old"
  shows "wp (issue_refresh e h hw hash sess dev) (\<lambda>resp w'. resp_Code resp = 200 \<and>
    \<not> cut_off (db w') (rs_device_id old)) w"
proof (rule wp_mono[OF issue_refresh_complete[OF assms(1,2,5,6)]], goal_cases)
  case (3 resp w')
  then show ?case by (auto simp: successor_added_def live_refresh_def cut_off_def)
qed (use assms(3) in \<open>auto simp: ids_available_def\<close>)

end
