(* ===== verification/DevicePairing.thy ===== *)
theory DevicePairing
  imports Samples
begin

text \<open>
  The device flow as a whole: who is paired, what is stored, that GitHub's token is given back on every
  path, which states of a transaction are final.
\<close>

subsection \<open>What a pairing stores\<close>

text \<open>
  One device with this e-mail address, one access and one refresh session of it; the tokens are
  characters of the random alphabet, and the access token expires when its lifetime is over.
\<close>

definition paired ::
    "env \<Rightarrow> Config \<Rightarrow> string \<Rightarrow> string \<Rightarrow> string \<Rightarrow> tables \<Rightarrow> tables \<Rightarrow> bool" where
  "paired e cfg email acc ref d d' \<longleftrightarrow>
     (\<exists>m a s.
       mobile_devices d' = mobile_devices d @ [m] \<and> md_email m = email \<and> md_revoked_at m = None \<and>
       md_metadata m = Some [] \<and> set acc \<subseteq> set charset \<and> set ref \<subseteq> set charset \<and>
       access_sessions d' = access_sessions d @ [a] \<and> as_device_id a = md_id m \<and>
       as_token_hash a = HashSecret e cfg acc \<and> as_revoked_at a = None \<and>
       (\<exists>t. as_expires_at a = to_unix (clock e t + AccessTokenTTL cfg)) \<and>
       refresh_sessions d' = refresh_sessions d @ [s] \<and> rs_device_id s = md_id m \<and>
       rs_token_hash s = HashSecret e cfg ref \<and> rs_revoked_at s = None \<and> rs_rotated_at s = None)"

definition approved_and_consumed :: "string \<Rightarrow> string \<Rightarrow> tables \<Rightarrow> bool" where
  "approved_and_consumed tid email d \<longleftrightarrow>
     (\<forall>x \<in> set (device_authorizations d). da_id x = tid \<longrightarrow>
        da_status x = ''approved'' \<and> da_approved_email x = Some email \<and> da_consumed_at x \<noteq> None)"

definition approved_response ::
    "env \<Rightarrow> header_map \<Rightarrow> string \<Rightarrow> int \<Rightarrow> string \<Rightarrow> int \<Rightarrow> string \<Rightarrow> response" where
  "approved_response e w acc ax ref rx email =
     write_status w
       \<lparr>st_Status = ''approved'', st_AccessToken = acc, st_AccessExpiresAt = rfc3339 e ax,
        st_RefreshToken = ref, st_RefreshExpiresAt = rfc3339 e rx, st_SubjectEmail = email,
        st_Error = [], st_ErrorMessage = []\<rparr>"

lemma insert_InrD:
  "insert_mobile_device m d = Inr d' \<Longrightarrow> d' = d\<lparr>mobile_devices := mobile_devices d @ [m]\<rparr>"
  "insert_access_session a d = Inr d' \<Longrightarrow> d' = d\<lparr>access_sessions := access_sessions d @ [a]\<rparr>"
  "insert_refresh_session r d = Inr d' \<Longrightarrow> d' = d\<lparr>refresh_sessions := refresh_sessions d @ [r]\<rparr>"
  "insert_device_authorization x d = Inr d' \<Longrightarrow>
     d' = d\<lparr>device_authorizations := device_authorizations d @ [x]\<rparr>"
  by (auto simp: table_defs map_sum_def split: sum.splits dest!: sql_insert_InrD)

definition same_flows :: "tables \<Rightarrow> tables \<Rightarrow> bool" where
  "same_flows d d' \<longleftrightarrow>
     device_authorizations d' = device_authorizations d \<and> refresh_sessions d' = refresh_sessions d"

lemma wp_fail_pairing:
  assumes "\<And>n. tick w \<le> n \<Longrightarrow>
    Q (http_Error hw (error_json ''server_error'' msg) 500) (sent w n (revocation e (ghClient h) token))"
  shows "wp (fail_pairing e h token hw msg) Q w"
  unfolding fail_pairing_def wp_bind wp_return server_error_def
  by (rule wp_RevokeToken) (rule assms)

lemma update_auth_simps [simp]:
  "mobile_devices (update_device_authorizations p f d) = mobile_devices d"
  "refresh_sessions (update_device_authorizations p f d) = refresh_sessions d"
  "access_sessions (update_device_authorizations p f d) = access_sessions d"
  "device_authorizations (update_device_authorizations p f d) =
     sql_update p f (device_authorizations d)"
  by (simp_all add: update_device_authorizations_def)

lemma approved_and_consumed_audit [simp]:
  "approved_and_consumed tid email (d\<lparr>audit_events := evs\<rparr>) = approved_and_consumed tid email d"
  by (simp add: approved_and_consumed_def)

lemma approved_and_consumed_updates:
  "approved_and_consumed tid email
     (update_device_authorizations (\<lambda>r. da_id r = tid) (consumed_row t2)
        (update_device_authorizations (\<lambda>r. da_id r = tid) (status_row ''approved'' email t1) d))"
  by (simp add: approved_and_consumed_def sql_update_def auth_row_defs ball_Un)

lemma wp_finish_pairing:
  assumes "idle w"
    and "\<And>n d. tick w \<le> n \<Longrightarrow>
      mobile_devices d = mobile_devices (db w) \<Longrightarrow> refresh_sessions d = refresh_sessions (db w) \<Longrightarrow>
      access_sessions d = access_sessions (db w) \<Longrightarrow>
      (no_db_faults e \<Longrightarrow> approved_and_consumed tid email d) \<Longrightarrow>
      Q (approved_response e hw acc ax ref rx email)
        (w\<lparr>tick := n, db := d, outbox := outbox w @ revocation e (ghClient h) token\<rparr>)"
  shows "wp (finish_pairing e h hw tid token dev email acc ax ref rx) Q w"
proof -
  have tail: "wp (do { CreateAuditEvent e ''device_flow_approved'' dev [] email ''success''
        ''Device flow completed successfully'';
      RevokeToken e (ghClient h) token;
      return (approved_response e hw acc ax ref rx email) }) Q (w\<lparr>tick := n, db := d\<rparr>)"
    if "tick w \<le> n" "mobile_devices d = mobile_devices (db w)"
      "refresh_sessions d = refresh_sessions (db w)" "access_sessions d = access_sessions (db w)"
      "no_db_faults e \<Longrightarrow> approved_and_consumed tid email d" for n d
    unfolding wp_bind wp_return
    by (intro wp_CreateAuditEvent wp_RevokeToken)
      (use assms(1) that in \<open>auto simp: sent_def intro!: assms(2)\<close>)
  have tail0: "wp (do { CreateAuditEvent e ''device_flow_approved'' dev [] email ''success''
        ''Device flow completed successfully'';
      RevokeToken e (ghClient h) token;
      return (approved_response e hw acc ax ref rx email) }) Q (w\<lparr>tick := n\<rparr>)"
    if "tick w \<le> n" "\<not> no_db_faults e" for n
    using tail[of n "db w"] that by simp
  show ?thesis
    unfolding finish_pairing_def approved_response_def[symmetric]
    using assms(1)
    by (simp add: wp_bind[of "UpdateDeviceAuthorizationStatus _ _ _ _"]
        wp_bind[of "MarkDeviceAuthorizationConsumed _ _"] wp_UpdateDeviceAuthorizationStatus
        wp_MarkDeviceAuthorizationConsumed split: option.splits)
      (auto intro!: tail tail0 simp: approved_and_consumed_updates no_db_faults_def)
qed

lemma wp_pair_device:
  assumes "idle w"
    and fail: "\<And>resp n d. resp_Code resp = 500 \<Longrightarrow> json_member resp = Map.empty \<Longrightarrow> tick w \<le> n \<Longrightarrow>
      same_flows (db w) d \<Longrightarrow>
      Q resp (w\<lparr>tick := n, db := d, outbox := outbox w @ revocation e (ghClient h) token\<rparr>)"
    and ok: "\<And>acc ref ax rx n d. acc \<noteq> [] \<Longrightarrow> ref \<noteq> [] \<Longrightarrow> tick w \<le> n \<Longrightarrow>
      paired e (h_config h) email acc ref (db w) d \<Longrightarrow>
      (no_db_faults e \<Longrightarrow> approved_and_consumed tid email d) \<Longrightarrow>
      Q (approved_response e hw acc ax ref rx email)
        (w\<lparr>tick := n, db := d, outbox := outbox w @ revocation e (ghClient h) token\<rparr>)"
  shows "wp (pair_device e h hw tid token email) Q w"
proof -
  have failed: "Q (http_Error hw msg 500)
      (w\<lparr>tick := n, db := d, outbox := outbox w @ revocation e (ghClient h) token\<rparr>)"
    if "tick w \<le> n" "same_flows (db w) d" for msg n d
    using fail[OF _ _ that] by (simp add: fun_eq_iff)
  have failed0: "Q (http_Error hw msg 500)
      (w\<lparr>tick := n, outbox := outbox w @ revocation e (ghClient h) token\<rparr>)"
    if "tick w \<le> n" for msg n
    using failed[OF that, of "db w"] by (cases w) (simp add: same_flows_def)
  have paired: "Q (approved_response e hw acc ax ref rx (md_email m))
      (w\<lparr>tick := n, db := d, outbox := outbox w @ revocation e (ghClient h) token\<rparr>)"
    if "email = md_email m" "acc \<noteq> []" "ref \<noteq> []" "tick w \<le> n"
      "mobile_devices d = mobile_devices (db w) @ [m]" "md_revoked_at m = None" "md_metadata m = Some []"
      "set acc \<subseteq> set charset" "set ref \<subseteq> set charset" "as_expires_at a = to_unix (clock e t + AccessTokenTTL (h_config h))"
      "access_sessions d = access_sessions (db w) @ [a]" "as_device_id a = md_id m"
      "as_token_hash a = HashSecret e (h_config h) acc" "as_revoked_at a = None"
      "refresh_sessions d = refresh_sessions (db w) @ [s]" "rs_device_id s = md_id m"
      "rs_token_hash s = HashSecret e (h_config h) ref" "rs_revoked_at s = None"
      "rs_rotated_at s = None" "no_db_faults e \<Longrightarrow> approved_and_consumed tid (md_email m) d"
    for acc ref ax rx m a s d n t
    using ok[of acc ref n d ax rx] that by (auto simp: paired_def)
  show ?thesis
    unfolding pair_device_def Let_def wp_bind wp_return wp_time_Now prod.case
    by (intro wp_on_errI wp_err wp_fail_pairing;
        (auto simp: assms(1) sent_def failed0 wp_bind wp_time_Now same_flows_def
          intro!: failed dest!: insert_InrD)?;
        (intro wp_on_errI wp_err wp_fail_pairing wp_finish_pairing)?;
        (auto simp: assms(1) sent_def same_flows_def intro!: failed dest!: insert_InrD)?;
        (rule paired, assumption+; force)?)
qed

text \<open>
  Every outcome of a flow that GitHub has confirmed: refused, with no token of the broker's handed out
  and no refresh session added; or paired, for the first primary and verified address GitHub lists,
  which is allowed. On both, the last request sent out gives GitHub's token back.
\<close>

lemma wp_complete_flow:
  assumes "idle w"
    and refused: "\<And>resp n d qs. json_member resp ''access_token'' = None \<Longrightarrow> tick w \<le> n \<Longrightarrow>
      refresh_sessions d = refresh_sessions (db w) \<Longrightarrow>
      Q resp (w\<lparr>tick := n, db := d,
        outbox := outbox w @ qs @ revocation e (ghClient h) (gt_AccessToken token)\<rparr>)"
    and ok: "\<And>acc ref ax rx emails n d qs. acc \<noteq> [] \<Longrightarrow> ref \<noteq> [] \<Longrightarrow> tick w \<le> n \<Longrightarrow>
      emails_answered e (ghClient h) (gt_AccessToken token) (tick w) emails \<Longrightarrow>
      find_primary emails \<noteq> [] \<Longrightarrow> IsEmailAllowed e (h_config h) (find_primary emails) \<Longrightarrow>
      paired e (h_config h) (find_primary emails) acc ref (db w) d \<Longrightarrow>
      (no_db_faults e \<Longrightarrow> approved_and_consumed tid (find_primary emails) d) \<Longrightarrow>
      Q (approved_response e hw acc ax ref rx (find_primary emails)) (w\<lparr>tick := n, db := d,
        outbox := outbox w @ qs @ revocation e (ghClient h) (gt_AccessToken token)\<rparr>)"
  shows "wp (complete_flow e h hw tid token) Q w"
proof -
  let ?rev = "revocation e (ghClient h) (gt_AccessToken token)"
  have status: "wp (UpdateDeviceAuthorizationStatus e tid st email) P w'"
    if "idle w'" "\<And>r n d. tick w' \<le> n \<Longrightarrow> refresh_sessions d = refresh_sessions (db w') \<Longrightarrow>
      P r (w'\<lparr>tick := n, db := d\<rparr>)" for st email P w'
    using that(1) that(2)[of _ "db w'"] that(2)
    by (simp add: wp_UpdateDeviceAuthorizationStatus split: option.splits)
  show ?thesis
    unfolding complete_flow_def wp_on_err
  proof (rule wp_GetUserEmails, goal_cases)
    case (1 err n qs)
    then show ?case
      using assms(1)
      by (auto simp: wp_bind wp_return sent_def write_status_def json_DeviceAuthStatus_def
          status_only_def str_member_def str_member_omitempty_def
          intro!: wp_RevokeToken status refused)
  next
    case (2 emails)
    let ?q = "emails_request (ghClient h) (gt_AccessToken token)"
    note refused1 = refused[where qs = "[?q]", simplified]
    note ok1 = ok[where qs = "[?q]", simplified]
    let ?w = "sent w (Suc (tick w)) [emails_request (ghClient h) (gt_AccessToken token)]"
    have "wp (pair_device e h hw tid (gt_AccessToken token) (find_primary emails)) Q ?w"
      if "find_primary emails \<noteq> []" "IsEmailAllowed e (h_config h) (find_primary emails)"
    proof (rule wp_pair_device, goal_cases)
      case 1
      then show ?case using assms(1) by simp
    next
      case 2
      then show ?case by (auto simp: sent_def same_flows_def intro!: refused1)
    next
      case 3
      then show ?case using that \<open>emails_answered _ _ _ _ _\<close>
        by (auto simp: sent_def intro!: ok1)
    qed
    then show ?case
      using assms(1)
      by (auto simp: wp_bind wp_return Let_def sent_def write_status_def json_DeviceAuthStatus_def
          status_only_def str_member_def str_member_omitempty_def
          intro!: wp_RevokeToken status wp_CreateAuditEvent refused1)
  qed
qed

subsection \<open>Polling a transaction\<close>

text \<open>The transaction is stored, not consumed, not expired at \<open>now\<close> and still open.\<close>

definition pollable :: "tables \<Rightarrow> int \<Rightarrow> string \<Rightarrow> device_authorization_row \<Rightarrow> bool" where
  "pollable d now tid x \<longleftrightarrow>
     sql_first (\<lambda>r. da_id r = tid) (device_authorizations d) = Some x \<and> da_consumed_at x = None \<and>
     now \<le> unix_time (da_expires_at x) \<and> da_status x \<in> {''pending'', ''slow_down''}"

definition confirmed_by_github ::
    "env \<Rightarrow> Handler \<Rightarrow> device_authorization_row \<Rightarrow> string \<Rightarrow> bool" where
  "confirmed_by_github e h x email \<longleftrightarrow>
     (\<exists>code t answer t' emails g.
        Decrypt e (da_github_device_code_encrypted x) (ServerSecret (h_config h)) = Inr code \<and>
        poll_answered e (ghClient h) code t answer \<and> pr_Error answer = [] \<and>
        emails_answered e (ghClient h) (pr_AccessToken answer) t' emails \<and>
        g \<in> set emails \<and> ge_Primary g \<and> ge_Verified g \<and> ge_Email g = email)"

lemma find_primary_in:
  "find_primary emails \<noteq> [] \<Longrightarrow>
     \<exists>g \<in> set emails. ge_Primary g \<and> ge_Verified g \<and> ge_Email g = find_primary emails"
  by (induction emails) (auto split: if_splits)

lemma no_token_in_status [simp]:
  "json_member (write_status hw (status_only st)) ''access_token'' = None"
  by (simp add: write_status_def status_only_members)

lemma wp_poll_github:
  assumes "idle w"
    and other: "\<And>resp n d qs. json_member resp ''access_token'' = None \<Longrightarrow> tick w \<le> n \<Longrightarrow>
      refresh_sessions d = refresh_sessions (db w) \<Longrightarrow>
      Q resp (w\<lparr>tick := n, db := d, outbox := outbox w @ qs\<rparr>)"
    and ok: "\<And>acc ref ax rx email n d qs. acc \<noteq> [] \<Longrightarrow> ref \<noteq> [] \<Longrightarrow> tick w \<le> n \<Longrightarrow>
      confirmed_by_github e h x email \<Longrightarrow> IsEmailAllowed e (h_config h) email \<Longrightarrow>
      paired e (h_config h) email acc ref (db w) d \<Longrightarrow>
      (no_db_faults e \<Longrightarrow> approved_and_consumed tid email d) \<Longrightarrow>
      Q (approved_response e hw acc ax ref rx email) (w\<lparr>tick := n, db := d, outbox := outbox w @ qs\<rparr>)"
  shows "wp (poll_github e h hw tid (scan_device_authorization x)) Q w"
proof -
  have other0: "Q resp (w\<lparr>tick := n, outbox := outbox w @ qs\<rparr>)"
    if "json_member resp ''access_token'' = None" "tick w \<le> n" for resp n qs
    using other[OF that, of "db w" qs] by simp
  have other1: "Q resp w" if "json_member resp ''access_token'' = None" for resp
    using other0[OF that, of "tick w" "[]"] by simp
  show ?thesis
  proof (cases "Decrypt e (da_github_device_code_encrypted x) (ServerSecret (h_config h))")
    case (Inl err)
    then show ?thesis by (simp add: poll_github_def wp_return server_error_def other1)
  next
    case (Inr code)
    show ?thesis
      unfolding poll_github_def wp_on_err scan_device_authorization_simps Inr sum.case
    proof (rule wp_PollDeviceAuthorization, goal_cases)
      case (4 token answer n qs)
      have "wp (complete_flow e h hw tid token) Q (sent w n qs)"
      proof (rule wp_complete_flow, goal_cases)
        case 1
        then show ?case using assms(1) by simp
      next
        case 2
        then show ?case using 4 by (auto simp: sent_def intro!: other)
      next
        case (3 acc ref ax rx emails n' d qs')
        then have "confirmed_by_github e h x (find_primary emails)"
          using 4 Inr find_primary_in unfolding confirmed_by_github_def by fastforce
        then show ?case using 3 4 by (auto simp: sent_def intro!: ok)
      qed
      then show ?case by simp
    next
      case (3 auth n qs)
      then show ?case
        using assms(1)
        by (auto simp: wp_simps sent_def split: option.splits intro!: other other0)
    qed (auto simp: wp_return sent_def intro!: other0)
  qed
qed

lemma wp_handleGetDeviceAuthorization:
  assumes "idle w"
    and other: "\<And>resp n d qs. json_member resp ''access_token'' = None \<Longrightarrow> tick w \<le> n \<Longrightarrow>
      refresh_sessions d = refresh_sessions (db w) \<Longrightarrow>
      Q resp (w\<lparr>tick := n, db := d, outbox := outbox w @ qs\<rparr>)"
    and ok: "\<And>x acc ref ax rx email n d qs. acc \<noteq> [] \<Longrightarrow> ref \<noteq> [] \<Longrightarrow> tick w \<le> n \<Longrightarrow>
      mux_var r ''transaction_id'' \<noteq> [] \<Longrightarrow>
      pollable (db w) (clock e (Suc (tick w))) (mux_var r ''transaction_id'') x \<Longrightarrow>
      confirmed_by_github e h x email \<Longrightarrow> IsEmailAllowed e (h_config h) email \<Longrightarrow>
      paired e (h_config h) email acc ref (db w) d \<Longrightarrow>
      (no_db_faults e \<Longrightarrow> approved_and_consumed (mux_var r ''transaction_id'') email d) \<Longrightarrow>
      Q (approved_response e hw acc ax ref rx email) (w\<lparr>tick := n, db := d, outbox := outbox w @ qs\<rparr>)"
  shows "wp (handleGetDeviceAuthorization e h hw r) Q w"
proof -
  let ?tid = "mux_var r ''transaction_id''"
  have other0: "Q resp (w\<lparr>tick := n\<rparr>)"
    if "json_member resp ''access_token'' = None" "tick w \<le> n" for resp n
    using other[OF that, of "db w" "[]"] by (cases w) simp
  have other1: "Q resp w" if "json_member resp ''access_token'' = None" for resp
    using other0[OF that, of "tick w"] by simp
  have other2: "Q resp (w\<lparr>tick := n, db := d\<rparr>)"
    if "json_member resp ''access_token'' = None" "tick w \<le> n"
      "refresh_sessions d = refresh_sessions (db w)" for resp n d
    using other[OF that, of "[]"] by (cases w) simp
  have poll: "wp (poll_github e h hw ?tid (scan_device_authorization x)) Q (w\<lparr>tick := Suc (Suc (tick w))\<rparr>)"
    if "?tid \<noteq> []" "pollable (db w) (clock e (Suc (tick w))) ?tid x" for x
  proof (rule wp_poll_github, goal_cases)
    case 1
    then show ?case using assms(1) by simp
  next
    case 2
    then show ?case by (auto intro!: other)
  next
    case 3
    then show ?case using that by (auto intro!: ok)
  qed
  have status: "json_member (write_status hw ((status_only st)\<lparr>st_Error := err\<rparr>)) ''access_token'' = None"
    for st err
    by (simp add: write_status_def json_DeviceAuthStatus_def status_only_def str_member_def
        str_member_omitempty_def)
  show ?thesis
  proof (cases "sql_first (\<lambda>x. da_id x = ?tid) (device_authorizations (db w))")
    case None
    then show ?thesis
      unfolding handleGetDeviceAuthorization_def Let_def
      using assms(1)
      by (simp add: wp_simps server_error_def other0 other1 split: option.splits)
  next
    case (Some x)
    have open_tx: "wp (poll_github e h hw ?tid (scan_device_authorization x)) Q
        (w\<lparr>tick := Suc (Suc (tick w))\<rparr>)"
      if "?tid \<noteq> []" "da_consumed_at x = None" "\<not> after_time (clock e (Suc (tick w))) (unix_time (da_expires_at x))"
        "da_status x = ''pending'' \<or> da_status x = ''slow_down''"
      by (rule poll) (use Some that in \<open>auto simp: pollable_def after_time_def not_less\<close>)
    show ?thesis
      unfolding handleGetDeviceAuthorization_def Let_def
      using assms(1) Some
      by (simp add: wp_simps server_error_def status other0 other1 other2 open_tx split: option.splits)
  qed
qed

lemma approved_response_members [simp]:
  "acc \<noteq> [] \<Longrightarrow> json_member (approved_response e hw acc ax ref rx email) ''access_token'' = Some (JStr acc)"
  "ref \<noteq> [] \<Longrightarrow> json_member (approved_response e hw acc ax ref rx email) ''refresh_token'' = Some (JStr ref)"
  by (simp_all add: approved_response_def write_status_def json_DeviceAuthStatus_def str_member_def
      str_member_omitempty_def)

text \<open>
  C2. An access token is handed out only for a stored transaction that was open and not expired, whose
  device code GitHub has confirmed, for an address that GitHub lists as primary and verified and that
  is allowed; and exactly one device with that address and the two sessions of the pair are stored.
\<close>

theorem pairing_sound:
  assumes "idle w"
  shows "wp (handleGetDeviceAuthorization e h hw r) (\<lambda>resp w'. \<forall>acc.
    json_member resp ''access_token'' = Some (JStr acc) \<longrightarrow>
    (\<exists>x email ref.
       pollable (db w) (clock e (Suc (tick w))) (mux_var r ''transaction_id'') x \<and>
       confirmed_by_github e h x email \<and> IsEmailAllowed e (h_config h) email \<and>
       json_member resp ''refresh_token'' = Some (JStr ref) \<and>
       paired e (h_config h) email acc ref (db w) (db w'))) w"
  by (rule wp_handleGetDeviceAuthorization[OF assms]) auto

subsection \<open>A flow that nothing disturbs is completed\<close>

definition hands_out_tokens :: "response \<Rightarrow> bool" where
  "hands_out_tokens resp \<longleftrightarrow> resp_Code resp = 200 \<and>
     (\<exists>acc ref. json_member resp ''access_token'' = Some (JStr acc) \<and>
        json_member resp ''refresh_token'' = Some (JStr ref))"

lemma pair_device_complete:
  assumes "idle w" and "nothing_fails e" and "ids_available e (db w)"
  shows "wp (pair_device e h hw tid token email) (\<lambda>resp w'. hands_out_tokens resp) w"
proof -
  have free: "random_text e t 32 \<notin> md_id ` set (mobile_devices (db w))"
    "random_text e t 32 \<notin> as_id ` set (access_sessions (db w))"
    "random_text e t 32 \<notin> rs_id ` set (refresh_sessions (db w))" for t
    using assms(3) by (auto simp: ids_available_def)
  have finish: "wp (finish_pairing e h hw tid token dev email (random_text e t 32) ax
      (random_text e t' 48) rx) (\<lambda>resp w'. hands_out_tokens resp) w'" if "idle w'" for dev t ax t' rx w'
    by (rule wp_finish_pairing[OF that]) (simp add: hands_out_tokens_def, simp add: approved_response_def write_status_def)
  show ?thesis
    using assms(1,2) free
    by (simp add: pair_device_def Let_def wp_simps insert_available finish nothing_fails_def)
qed

lemma complete_flow_complete:
  assumes "idle w" and "nothing_fails e" and "ids_available e (db w)"
    and "emails_answered e (ghClient h) (gt_AccessToken token) (tick w) emails"
    and "find_primary emails \<noteq> []" and "IsEmailAllowed e (h_config h) (find_primary emails)"
  shows "wp (complete_flow e h hw tid token) (\<lambda>resp w'. hands_out_tokens resp) w"
proof -
  obtain resp where "http_reply e (tick w) (emails_request (ghClient h) (gt_AccessToken token)) = Inr resp"
    "hr_status resp = 200" "unmarshal (decode_slice decode_GitHubEmail) (hr_body resp) = Some emails"
    using assms(4) by (auto simp: emails_answered_def)
  then show ?thesis
    using assms(1-3,5,6)
    by (simp add: complete_flow_def GetUserEmails_def wp_simps nothing_fails_def pair_device_complete
        Let_def)
qed

lemma poll_github_complete:
  assumes "idle w" and "nothing_fails e" and "ids_available e (db w)"
    and "Decrypt e (da_github_device_code_encrypted x) (ServerSecret (h_config h)) = Inr code"
    and "poll_answered e (ghClient h) code (tick w) answer"
    and "pr_Error answer = []" and "pr_AccessToken answer \<noteq> []"
    and "emails_answered e (ghClient h) (pr_AccessToken answer) (Suc (tick w)) emails"
    and "find_primary emails \<noteq> []" and "IsEmailAllowed e (h_config h) (find_primary emails)"
  shows "wp (poll_github e h hw tid (scan_device_authorization x)) (\<lambda>resp w'. hands_out_tokens resp) w"
proof -
  obtain resp where resp: "http_reply e (tick w)
      (form_request (oauthBaseURL (ghClient h) @ ''/login/oauth/access_token'') (poll_form (ghClient h) code)) =
        Inr resp"
    "hr_status resp = 200" "unmarshal decode_poll_result (hr_body resp) = Some answer"
    using assms(5) by (auto simp: poll_answered_def)
  then have "hr_body resp \<noteq> Unreadable" by (auto simp: unmarshal_def)
  moreover have "wp (complete_flow e h hw tid \<lparr>gt_AccessToken = pr_AccessToken answer,
      gt_TokenType = pr_TokenType answer, gt_Scope = pr_Scope answer\<rparr>)
      (\<lambda>resp w'. hands_out_tokens resp) (sent w (Suc (tick w)) [q])" for q
    by (rule complete_flow_complete) (use assms in simp_all)
  ultimately show ?thesis
    using resp assms(2,4,6,7)
    by (simp add: poll_github_def wp_on_err PollDeviceAuthorization_def postDeviceFlowForm_def wp_simps
        nothing_fails_def poll_outcome_def sent_def)
qed

text \<open>A transaction that is stored and open is polled, two interactions later.\<close>

lemma open_transaction_polled:
  assumes "idle w" and "no_db_faults e" and "mux_var r ''transaction_id'' \<noteq> []"
    and "pollable (db w) (clock e (Suc (tick w))) (mux_var r ''transaction_id'') x"
  shows "wp (handleGetDeviceAuthorization e h hw r) Q w =
    wp (poll_github e h hw (mux_var r ''transaction_id'') (scan_device_authorization x)) Q
      (w\<lparr>tick := Suc (Suc (tick w))\<rparr>)"
  using assms
  by (auto simp: handleGetDeviceAuthorization_def Let_def wp_simps pollable_def after_time_def)

text \<open>
  C20. Nobody who is allowed is turned away: when GitHub confirms an open transaction and lists an
  allowed address as primary and verified, and nothing fails on the way, the poll hands out a pair of
  tokens.
\<close>

theorem pairing_complete:
  assumes "idle w" and "nothing_fails e" and "ids_available e (db w)"
    and "mux_var r ''transaction_id'' \<noteq> []"
    and "pollable (db w) (clock e (Suc (tick w))) (mux_var r ''transaction_id'') x"
    and "Decrypt e (da_github_device_code_encrypted x) (ServerSecret (h_config h)) = Inr code"
    and "poll_answered e (ghClient h) code (Suc (Suc (tick w))) answer"
    and "pr_Error answer = []" and "pr_AccessToken answer \<noteq> []"
    and "emails_answered e (ghClient h) (pr_AccessToken answer) (Suc (Suc (Suc (tick w)))) emails"
    and "find_primary emails \<noteq> []" and "IsEmailAllowed e (h_config h) (find_primary emails)"
  shows "wp (handleGetDeviceAuthorization e h hw r) (\<lambda>resp w'. hands_out_tokens resp) w"
  using assms
  by (simp add: open_transaction_polled nothing_fails_def)
    (rule poll_github_complete, simp_all add: nothing_fails_def)

subsection \<open>The sample flow\<close>

definition sample_answer :: "string \<Rightarrow> string \<Rightarrow> poll_result" where
  "sample_answer token err = \<lparr>pr_AccessToken = token, pr_TokenType = (if err = [] then ''bearer'' else []),
     pr_Scope = [], pr_Error = err, pr_Interval = 0\<rparr>"

definition sample_email :: GitHubEmail where
  "sample_email = \<lparr>ge_Email = ''a@b.org'', ge_Primary = True, ge_Verified = True, ge_Visibility = []\<rparr>"

lemma flow_env_works: "nothing_fails (flow_env answer)"
  by (simp add: nothing_fails_def no_db_faults_def flow_env_def sample_env_def)

lemma flow_env_clock: "clock (flow_env answer) t = unix_time 1000"
  by (simp add: flow_env_def sample_env_def)

lemma sample_var: "mux_var sample_request ''transaction_id'' = ''tx1''"
  by code_simp

lemma sample_pollable: "pollable (db sample_world) (unix_time 1000) ''tx1'' sample_auth"
  by (simp add: pollable_def sample_world_def sample_tables_def sample_auth_def sql_first_def
      unix_time_def Second_def)

lemma sample_decrypt:
  "Decrypt (flow_env answer) (da_github_device_code_encrypted sample_auth)
     (ServerSecret (h_config (NewHandler sample_config))) = Inr ''code''"
  by code_simp

lemma sample_poll_answered:
  "unmarshal decode_poll_result answer = Some a \<Longrightarrow>
     poll_answered (flow_env answer) (ghClient (NewHandler sample_config)) code t a"
  by (simp add: poll_answered_def flow_env_def github_reply_def form_request_def NewHandler_def
      NewClient_def defaultOAuthBaseURL_def)

lemma sample_answers:
  "unmarshal decode_poll_result granted = Some (sample_answer ''gho'' [])"
  "unmarshal decode_poll_result denied = Some (sample_answer [] ''access_denied'')"
  by code_simp+

lemma sample_emails_answered:
  "emails_answered (flow_env answer) (ghClient (NewHandler sample_config)) token t [sample_email]"
proof -
  have "unmarshal (decode_slice decode_GitHubEmail)
      (JsonValue (JArr [JObj [(''email'', JStr ''a@b.org''), (''primary'', JBool True),
        (''verified'', JBool True)]])) = Some [sample_email]"
    by code_simp
  then show ?thesis
    by (simp add: emails_answered_def flow_env_def github_reply_def emails_request_def NewHandler_def
        NewClient_def sample_config_def)
qed

lemma sample_allowed:
  "ge_Email sample_email = ''a@b.org''" "ge_Primary sample_email" "ge_Verified sample_email"
  "IsEmailAllowed (flow_env answer) (h_config (NewHandler sample_config)) ''a@b.org''"
  by code_simp+

lemmas sample_flow =
  idle_sample flow_env_works flow_env_clock sample_ids sample_var sample_pollable sample_decrypt
  sample_emails_answered sample_allowed

theorem pairing_complete_witness:
  "wp (handleGetDeviceAuthorization (flow_env granted) (NewHandler sample_config) no_headers sample_request)
     (\<lambda>resp w'. hands_out_tokens resp) sample_world"
  by (rule pairing_complete[where answer = "sample_answer ''gho'' []" and emails = "[sample_email]"
        and x = sample_auth and code = "''code''"])
    (simp_all add: sample_flow sample_poll_answered sample_answers, simp_all add: sample_answer_def)

lemma sample_pairing:
  "json_member (returns (handleGetDeviceAuthorization (flow_env granted) (NewHandler sample_config)
     no_headers sample_request) sample_world) ''access_token'' \<noteq> None"
proof -
  have "wp (poll_github (flow_env granted) (NewHandler sample_config) no_headers ''tx1''
      (scan_device_authorization sample_auth)) (\<lambda>resp w'. hands_out_tokens resp)
      (sample_world\<lparr>tick := Suc (Suc (tick sample_world))\<rparr>)"
    by (rule poll_github_complete[where answer = "sample_answer ''gho'' []" and emails = "[sample_email]"
          and code = "''code''"])
      (simp_all add: sample_flow sample_poll_answered sample_answers, simp_all add: sample_answer_def)
  then have "wp (handleGetDeviceAuthorization (flow_env granted) (NewHandler sample_config)
      no_headers sample_request) (\<lambda>resp w'. hands_out_tokens resp) sample_world"
    using flow_env_works[of granted]
    by (simp add: open_transaction_polled[where x = sample_auth] sample_flow nothing_fails_def)
  then show ?thesis
    by (auto simp: wp_result hands_out_tokens_def)
qed

lemma access_token_is_string:
  assumes "idle w"
  shows "wp (handleGetDeviceAuthorization e h hw r) (\<lambda>resp w'.
    json_member resp ''access_token'' \<noteq> None \<longrightarrow>
    (\<exists>v. json_member resp ''access_token'' = Some (JStr v))) w"
  by (rule wp_handleGetDeviceAuthorization[OF assms]) auto

lemma sample_pairing_token:
  obtains v where "json_member (returns (handleGetDeviceAuthorization (flow_env granted)
    (NewHandler sample_config) no_headers sample_request) sample_world) ''access_token'' = Some (JStr v)"
  using access_token_is_string[OF idle_sample, unfolded wp_result, rule_format, OF sample_pairing]
  by (elim exE)

theorem pairing_sound_witness:
  "\<exists>x email acc ref. pollable (db sample_world) (unix_time 1000) ''tx1'' x \<and>
     confirmed_by_github (flow_env granted) (NewHandler sample_config) x email \<and>
     paired (flow_env granted) sample_config email acc ref (db sample_world)
       (db (leaves (handleGetDeviceAuthorization (flow_env granted) (NewHandler sample_config)
         no_headers sample_request) sample_world))"
proof -
  obtain v where "json_member (returns (handleGetDeviceAuthorization (flow_env granted)
      (NewHandler sample_config) no_headers sample_request) sample_world) ''access_token'' = Some (JStr v)"
    by (rule sample_pairing_token)
  then have "\<exists>x email ref.
      pollable (db sample_world) (clock (flow_env granted) (Suc (tick sample_world))) ''tx1'' x \<and>
      confirmed_by_github (flow_env granted) (NewHandler sample_config) x email \<and>
      paired (flow_env granted) (h_config (NewHandler sample_config)) email v ref (db sample_world)
        (db (leaves (handleGetDeviceAuthorization (flow_env granted) (NewHandler sample_config)
          no_headers sample_request) sample_world))"
    using pairing_sound[OF idle_sample, of "flow_env granted" "NewHandler sample_config" no_headers
      sample_request] unfolding wp_result sample_var by blast
  moreover have "h_config (NewHandler sample_config) = sample_config"
    by (simp add: NewHandler_def)
  ultimately show ?thesis
    unfolding flow_env_clock by metis
qed

text \<open>
  C16. Once GitHub has issued a token, whatever happens next, the last request the handler sends asks
  GitHub to revoke that very token.
\<close>

theorem github_token_given_back:
  assumes "idle w" and "url_fault e (hq_url (revoke_request (ghClient h) (gt_AccessToken token))) = None"
  shows "wp (complete_flow e h hw tid token)
    (\<lambda>resp w'. \<exists>qs. outbox w' =
       outbox w @ qs @ [revoke_request (ghClient h) (gt_AccessToken token)]) w"
  by (rule wp_complete_flow[OF assms(1)]) (use assms(2) in \<open>auto simp: revocation_def\<close>)

theorem github_token_given_back_witness:
  "wp (complete_flow (flow_env granted) (NewHandler sample_config) no_headers ''tx1''
      \<lparr>gt_AccessToken = ''gho'', gt_TokenType = ''bearer'', gt_Scope = []\<rparr>)
     (\<lambda>resp w'. outbox w' \<noteq> [] \<and> hq_method (last (outbox w')) = ''DELETE'') sample_world"
proof -
  have "url_fault (flow_env granted) u = None" for u
    by (simp add: flow_env_def sample_env_def)
  from github_token_given_back[OF idle_sample this] show ?thesis
    by (rule wp_mono) (auto simp: revoke_request_def)
qed

subsection \<open>Final states\<close>

lemma tables_grow_authD:
  assumes "tables_grow d d'" and "sql_first (\<lambda>r. da_id r = k) (device_authorizations d) = Some x"
  obtains y where "sql_first (\<lambda>r. da_id r = k) (device_authorizations d') = Some y" and "auth_le x y"
proof -
  have "grows auth_le (device_authorizations d) (device_authorizations d')"
    using assms(1) by (simp add: tables_grow_def)
  then show thesis
    using assms(2) by (rule grows_sql_first) (auto simp: auth_le_def intro: that)
qed

lemma wp_consumed:
  assumes "idle w" and "no_db_faults e" and "mux_var r ''transaction_id'' = tid" and "tid \<noteq> []"
    and "sql_first (\<lambda>x. da_id x = tid) (device_authorizations (db w)) = Some x"
    and "da_consumed_at x \<noteq> None"
  shows "wp (handleGetDeviceAuthorization e h hw r) (\<lambda>resp w'.
    resp = write_status hw ((status_only ''forbidden'')\<lparr>st_Error := ''already_consumed''\<rparr>) \<and>
    db w' = db w \<and> outbox w' = outbox w) w"
  using assms by (simp add: handleGetDeviceAuthorization_def Let_def wp_simps)

text \<open>
  C15. A pairing happens once, when the database works: after it, every poll of the same transaction, in
  whatever state the database has reached meanwhile without deletions, answers that it has been consumed,
  asks GitHub nothing and changes nothing. (The code ignores the errors of the two updates that close the
  transaction: when both fail, the transaction of a pairing that was answered stays open.)
\<close>

theorem pairing_happens_once:
  assumes "idle w" and "no_db_faults e"
    and "json_member (returns (handleGetDeviceAuthorization e h hw r) w) ''access_token'' \<noteq> None"
    and "tables_grow (db (leaves (handleGetDeviceAuthorization e h hw r) w)) (db w2)"
    and "idle w2" and "mux_var r2 ''transaction_id'' = mux_var r ''transaction_id''"
  shows "wp (handleGetDeviceAuthorization e h hw2 r2) (\<lambda>resp w'.
    resp = write_status hw2 ((status_only ''forbidden'')\<lparr>st_Error := ''already_consumed''\<rparr>) \<and>
    db w' = db w2 \<and> outbox w' = outbox w2) w2"
proof -
  let ?tid = "mux_var r ''transaction_id''" and ?w' = "leaves (handleGetDeviceAuthorization e h hw r) w"
  have "wp (handleGetDeviceAuthorization e h hw r) (\<lambda>resp w'.
      json_member resp ''access_token'' \<noteq> None \<longrightarrow> ?tid \<noteq> [] \<and>
      (\<exists>x. sql_first (\<lambda>r. da_id r = ?tid) (device_authorizations (db w)) = Some x) \<and>
      (\<exists>email. approved_and_consumed ?tid email (db w'))) w"
    by (rule wp_handleGetDeviceAuthorization[OF assms(1)]) (use assms(2) in \<open>auto simp: pollable_def\<close>)
  then obtain x email where tid: "?tid \<noteq> []"
    and x: "sql_first (\<lambda>r. da_id r = ?tid) (device_authorizations (db w)) = Some x"
    and consumed: "approved_and_consumed ?tid email (db ?w')"
    using assms(3) by (auto simp: wp_result)
  have "tables_grow (db w) (db ?w')"
    using io_relD[OF growth.rel_handleGetDeviceAuthorization assms(1) prod.collapse[symmetric]] by blast
  then obtain x' where x': "sql_first (\<lambda>r. da_id r = ?tid) (device_authorizations (db ?w')) = Some x'"
    using x by (elim tables_grow_authD)
  then have "da_consumed_at x' \<noteq> None"
    using consumed by (auto simp: approved_and_consumed_def dest!: sql_first_SomeD)
  moreover obtain x2 where "sql_first (\<lambda>r. da_id r = ?tid) (device_authorizations (db w2)) = Some x2"
    "auth_le x' x2"
    using assms(4) x' by (elim tables_grow_authD)
  ultimately show ?thesis
    using assms(2,5,6) tid by (intro wp_consumed[where x = x2]) (auto simp: auth_le_def)
qed

theorem pairing_happens_once_witness:
  "wp (handleGetDeviceAuthorization (flow_env granted) (NewHandler sample_config) no_headers sample_request)
     (\<lambda>resp w'. resp = write_status no_headers
        ((status_only ''forbidden'')\<lparr>st_Error := ''already_consumed''\<rparr>))
     (leaves (handleGetDeviceAuthorization (flow_env granted) (NewHandler sample_config) no_headers
       sample_request) sample_world)"
proof -
  have "no_db_faults (flow_env granted)" using flow_env_works by (simp add: nothing_fails_def)
  moreover have "idle (leaves (handleGetDeviceAuthorization (flow_env granted) (NewHandler sample_config)
      no_headers sample_request) sample_world)"
    using io_relD[OF pool.rel_handleGetDeviceAuthorization idle_sample prod.collapse[symmetric]] by blast
  ultimately show ?thesis
    by (intro wp_mono[OF pairing_happens_once[OF idle_sample _ sample_pairing tables_grow_refl _ refl]])
      simp_all
qed

text \<open>
  A transaction that was denied or forbidden stays so: until it expires every poll answers with
  that status, asks GitHub nothing and changes nothing. An expired one is stored and answered as
  expired, whatever its status, unless it was consumed, and GitHub is not asked either.
\<close>

lemma closed_transactions:
  assumes "idle w" and "no_db_faults e" and "mux_var r ''transaction_id'' \<noteq> []"
    and "sql_first (\<lambda>x. da_id x = mux_var r ''transaction_id'') (device_authorizations (db w)) = Some x"
    and "da_consumed_at x = None"
    and "da_status x \<in> {''denied'', ''forbidden''} \<or>
      after_time (clock e (Suc (tick w))) (unix_time (da_expires_at x))"
  shows "wp (handleGetDeviceAuthorization e h hw r) (\<lambda>resp w'. outbox w' = outbox w \<and>
    (if after_time (clock e (Suc (tick w))) (unix_time (da_expires_at x))
     then resp = write_status hw (status_only ''expired'') \<and>
       db w' = update_device_authorizations (\<lambda>y. da_id y = mux_var r ''transaction_id'')
         (\<lambda>y. y\<lparr>da_status := ''expired''\<rparr>) (db w)
     else resp = write_status hw (status_only (da_status x)) \<and> db w' = db w)) w"
  using assms by (simp add: handleGetDeviceAuthorization_def Let_def wp_simps status_row_def[abs_def]) auto

lemma wp_poll_answered:
  assumes "poll_answered e c code (tick w) answer"
    and "\<And>err. Q (Inl err) w"
    and "\<And>q. Q (poll_outcome answer) (sent w (Suc (tick w)) [q])"
  shows "wp (PollDeviceAuthorization e c code) Q w"
proof -
  obtain resp where resp: "http_reply e (tick w)
      (form_request (oauthBaseURL c @ ''/login/oauth/access_token'') (poll_form c code)) = Inr resp"
    "hr_status resp = 200" "unmarshal decode_poll_result (hr_body resp) = Some answer"
    using assms(1) by (auto simp: poll_answered_def)
  then have "hr_body resp \<noteq> Unreadable" by (auto simp: unmarshal_def)
  then show ?thesis
    using resp assms(2,3)
    by (auto simp: PollDeviceAuthorization_def postDeviceFlowForm_def wp_simps sent_def
        split: option.splits)
qed

text \<open>
  C40. When the user refuses at GitHub (or GitHub reports any other final error), the broker does not
  record it: the poll answers with the stored status and changes nothing, so that the transaction is
  reported as pending until it expires.
\<close>

theorem refusal_stays_pending:
  assumes "idle w" and "no_db_faults e" and "mux_var r ''transaction_id'' \<noteq> []"
    and "pollable (db w) (clock e (Suc (tick w))) (mux_var r ''transaction_id'') x"
    and "Decrypt e (da_github_device_code_encrypted x) (ServerSecret (h_config h)) = Inr code"
    and "poll_answered e (ghClient h) code (Suc (Suc (tick w))) answer"
    and "pr_Error answer \<notin> {[], ''authorization_pending'', ''slow_down''}"
  shows "wp (handleGetDeviceAuthorization e h hw r) (\<lambda>resp w'.
    resp = write_status hw (status_only (da_status x)) \<and> db w' = db w) w"
proof -
  obtain err where err: "poll_outcome answer = Inl err"
    using assms(7) by (auto simp: poll_outcome_def)
  show ?thesis
    unfolding open_transaction_polled[OF assms(1-4)] poll_github_def wp_on_err scan_device_authorization_simps assms(5) sum.case
    by (rule wp_poll_answered[where answer = answer]) (use assms(6) in \<open>simp_all add: err wp_return\<close>)
qed

theorem refusal_stays_pending_witness:
  "wp (handleGetDeviceAuthorization (flow_env denied) (NewHandler sample_config) no_headers sample_request)
     (\<lambda>resp w'. resp = write_status no_headers (status_only ''pending'') \<and> db w' = db sample_world) sample_world"
  using refusal_stays_pending[OF idle_sample, of "flow_env denied" sample_request sample_auth
      "NewHandler sample_config" "''code''" "sample_answer [] ''access_denied''" no_headers]
    flow_env_works[of denied]
  by (simp add: sample_flow sample_poll_answered sample_answers nothing_fails_def)
    (simp add: sample_answer_def sample_auth_def)

subsection \<open>Starting a transaction\<close>

definition device_code_answered :: "env \<Rightarrow> Client \<Rightarrow> nat \<Rightarrow> GitHubDeviceAuth \<Rightarrow> bool" where
  "device_code_answered e c t auth \<longleftrightarrow>
     (\<exists>resp. http_reply e t (form_request (oauthBaseURL c @ ''/login/device/code'')
          (''client_id='' @ clientID c @ ''&scope='' @ ''user:email'')) = Inr resp \<and>
        hr_status resp = 200 \<and> unmarshal decode_GitHubDeviceAuth (hr_body resp) = Some auth)"

lemma wp_device_code:
  assumes "\<And>err n qs. tick w \<le> n \<Longrightarrow> E err (sent w n qs)"
    and "\<And>auth q. device_code_answered e c (tick w) auth \<Longrightarrow> gh_DeviceCode auth \<noteq> [] \<Longrightarrow>
      A auth (sent w (Suc (tick w)) [q])"
  shows "wp (RequestDeviceAuthorization e c ''user:email'') (case_sum E A) w"
  unfolding RequestDeviceAuthorization_def wp_on_err
proof (rule wp_postDeviceFlowForm, goal_cases)
  case (1 err)
  then show ?case using assms(1)[of "tick w" _ "[]"] by (simp add: wp_return)
next
  case (3 resp)
  then have "device_code_answered e c (tick w) auth"
    if "hr_status resp = 200" "unmarshal decode_GitHubDeviceAuth (hr_body resp) = Some auth" for auth
    using that by (auto simp: device_code_answered_def)
  then show ?case using assms by (auto simp: wp_return split: option.splits)
qed (simp add: wp_return assms(1))

text \<open>
  C22. A transaction that is answered with 200 is stored as the only change: open, under the
  transaction id of the answer (32 random characters), with GitHub's device code sealed in such a way
  that the poll will recover it.
\<close>

theorem created_transaction:
  assumes "idle w" and "crypto_laws e"
  shows "wp (handleCreateDeviceAuthorization e h hw r) (\<lambda>resp w'. resp_Code resp = 200 \<longrightarrow>
    (\<exists>x auth. db w' = (db w)\<lparr>device_authorizations := device_authorizations (db w) @ [x]\<rparr> \<and>
       device_code_answered e (ghClient h) (tick w) auth \<and>
       Decrypt e (da_github_device_code_encrypted x) (ServerSecret (h_config h)) = Inr (gh_DeviceCode auth) \<and>
       da_status x = ''pending'' \<and> da_consumed_at x = None \<and> length (da_id x) = 32 \<and>
       json_member resp ''transaction_id'' = Some (JStr (da_id x)) \<and>
       json_member resp ''user_code'' = Some (JStr (gh_UserCode auth)))) w"
proof -
  let ?key = "ServerSecret (h_config h)"
  have sealed: "Decrypt e (let nonce = map (rand_byte e t) [0..<NonceSize] in
      hex_encode (nonce @ gcm_seal e (sha256 e (bytes_of_string ?key)) nonce (bytes_of_string p))) ?key =
    Inr p" for t p
    using Decrypt_sealed[OF assms(2), of "map (rand_byte e t) [0..<NonceSize]" ?key p]
    by (simp add: Let_def)
  show ?thesis
    unfolding handleCreateDeviceAuthorization_def checkRateLimit_def if_False simp_thms
    by (rule wp_on_errI, rule wp_device_code)
      (use assms sealed in \<open>auto simp: Let_def wp_simps server_error_def sent_def json_DeviceAuthResponse_def
        str_member_def int_member_def dest!: insert_InrD split: option.splits sum.splits\<close>,
       intro exI conjI, rule refl, assumption, simp_all)
qed

theorem created_transaction_witness:
  "length (device_authorizations (db (leaves (handleCreateDeviceAuthorization (flow_env granted)
     (NewHandler sample_config) no_headers sample_request) sample_world))) = 2"
proof -
  have "crypto_laws (flow_env granted)"
    by (auto simp: crypto_laws_def flow_env_def sample_env_def min_def)
  moreover have "resp_Code (returns (handleCreateDeviceAuthorization (flow_env granted)
      (NewHandler sample_config) no_headers sample_request) sample_world) = 200"
    by code_simp
  ultimately show ?thesis
    using created_transaction[OF idle_sample, of "flow_env granted" "NewHandler sample_config"
        no_headers sample_request]
    by (auto simp: wp_result sample_world_def sample_tables_def)
qed

end
