(* ===== verification/WebSocket.thy ===== *)
theory WebSocket
  imports Proxy
begin

text \<open>
  The WebSocket path of \<^verbatim>\<open>internal/proxy/proxy.go\<close>: authentication, the upgrade, the connection to the
  Gateway, and the two goroutines that relay messages until one of them ends. The relay is a
  transition system: the goroutines interleave freely, and every read or write may fail at any point.
\<close>

subsection \<open>The proxy\<close>

record Upgrader =
  ReadBufferSize :: int
  WriteBufferSize :: int
  CheckOrigin :: "request \<Rightarrow> bool"

record WebSocketProxy =
  px_config :: Config
  px_upgrader :: Upgrader
  gatewayHTTP :: string

text \<open>\<^verbatim>\<open>log.Fatalf\<close>, which ends the process, is \<open>Inl\<close>. The reverse proxy is named by its target.\<close>

definition NewWebSocketProxy :: "env \<Rightarrow> Config \<Rightarrow> go_error + WebSocketProxy" where
  "NewWebSocketProxy e cfg =
     (case url_fault e (GatewayServiceURL cfg) of
        Some err \<Rightarrow> Inl err
      | None \<Rightarrow> Inr
          \<lparr>px_config = cfg,
           px_upgrader = \<lparr>ReadBufferSize = 1024, WriteBufferSize = 1024, CheckOrigin = (\<lambda>r. True)\<rparr>,
           gatewayHTTP = GatewayServiceURL cfg\<rparr>)"

subsection \<open>Opening a session\<close>

text \<open>
  The WebSocket library: what the upgrade of a request and the dialling of a URL with headers come to
  at a tick.
\<close>

record websocket_lib =
  upgrade_fault :: "nat \<Rightarrow> Upgrader \<Rightarrow> request \<Rightarrow> go_error option"
  dial_fault :: "nat \<Rightarrow> string \<Rightarrow> header_map \<Rightarrow> go_error option"

definition gateway_ws_url :: "string \<Rightarrow> string" where
  "gateway_ws_url url =
     (if HasPrefix url ''http://'' then ''ws://'' @ TrimPrefix url ''http://''
      else if HasPrefix url ''https://'' then ''wss://'' @ TrimPrefix url ''https://''
      else url)"

definition copy_header :: "header_map \<Rightarrow> string \<Rightarrow> header_map \<Rightarrow> header_map" where
  "copy_header src k dst =
     (let v = Header_Get src k in if v \<noteq> [] then Header_Set dst k v else dst)"

definition gateway_headers :: "Config \<Rightarrow> MobileDevice \<Rightarrow> string \<Rightarrow> request \<Rightarrow> header_map" where
  "gateway_headers cfg device remote r =
     (let h0 = no_headers;
          h1 = Header_Set h0 ''X-Forwarded-Email'' (dev_Email device);
          h2 = Header_Set h1 ''X-Forwarded-For'' remote;
          h3 = Header_Set h2 ''X-Forwarded-Proto'' ''https'';
          h4 = Header_Set h3 ''X-Forwarded-Host'' (Hostname cfg);
          h5 = Header_Set h4 ''Host'' (Hostname cfg);
          h6 = copy_header (rq_Header r) ''Origin'' h5
      in copy_header (rq_Header r) ''User-Agent'' h6)"

text \<open>How far the handler gets before it relays.\<close>

datatype ws_outcome =
    Refused response
  | Upgrade_failed go_error
  | Dial_failed string header_map go_error
  | Connected string header_map MobileDevice AccessSession

definition open_session ::
    "env \<Rightarrow> websocket_lib \<Rightarrow> WebSocketProxy \<Rightarrow> header_map \<Rightarrow> request \<Rightarrow> ws_outcome io" where
  "open_session e lib p w r =
     (let remote = clientIP r in
      on_err (authenticateDevice e (px_config p) w r remote)
        (\<lambda>resp. return (Refused resp)) (\<lambda>(device, accessSession). do {
      CreateAuditEvent e ''websocket_connection'' (dev_ID device) (acc_ID accessSession)
        (dev_Email device) ''started'' ''WebSocket connection initiated'';
      t \<leftarrow> next_tick;
      case upgrade_fault lib t (px_upgrader p) r of
        Some err \<Rightarrow> return (Upgrade_failed err)
      | None \<Rightarrow> do {
          let gatewayURL = gateway_ws_url (GatewayServiceURL (px_config p));
          let gatewayHeaders = gateway_headers (px_config p) device remote r;
          t \<leftarrow> next_tick;
          return
            (case dial_fault lib t gatewayURL gatewayHeaders of
               Some err \<Rightarrow> Dial_failed gatewayURL gatewayHeaders err
             | None \<Rightarrow> Connected gatewayURL gatewayHeaders device accessSession) } }))"

definition close_session :: "env \<Rightarrow> MobileDevice \<Rightarrow> AccessSession \<Rightarrow> (go_error + unit) io" where
  "close_session e device accessSession =
     CreateAuditEvent e ''websocket_disconnection'' (dev_ID device) (acc_ID accessSession)
       (dev_Email device) ''completed'' ''WebSocket connection closed''"

subsection \<open>The relay\<close>

type_synonym ws_message = "int \<times> byte list"

datatype read_error = CloseError int string | OtherError go_error

datatype control = Pong "byte list" | Close int string

text \<open>
  One of the two connections: the messages and errors its reads have returned, the messages written to
  it, the control frames the handler asked for, whether it is still open. The first two are history.
\<close>

record ws_conn =
  got :: "ws_message list"
  errs :: "read_error list"
  put :: "ws_message list"
  controls :: "control list"
  conn_open :: bool

definition dialled :: ws_conn where
  "dialled = \<lparr>got = [], errs = [], put = [], controls = [], conn_open = True\<rparr>"

text \<open>The library formats code and text of the close frame.\<close>

definition forwardCloseCode :: "ws_conn \<Rightarrow> read_error \<Rightarrow> ws_conn" where
  "forwardCloseCode dst readErr =
     (case readErr of
        CloseError code reason \<Rightarrow> dst\<lparr>controls := controls dst @ [Close code reason]\<rparr>
      | OtherError _ \<Rightarrow> dst)"

text \<open>Where a goroutine is: in \<^verbatim>\<open>ReadMessage\<close>, in \<^verbatim>\<open>WriteMessage\<close>, at its deferred \<^verbatim>\<open>closeDone\<close>, gone.\<close>

datatype pump = Reading | Writing ws_message | Leaving | Gone

text \<open>
  A step of a goroutine, from the connection it reads to the one it writes. A read returns no message
  above the limit that was set. A ping is answered, by its handler, from within the read; when that
  fails, so does the read. A closed connection can no longer be written to; what the library had
  buffered of it may still be read.
\<close>

inductive pump_step :: "int \<Rightarrow> pump \<times> ws_conn \<times> ws_conn \<Rightarrow> pump \<times> ws_conn \<times> ws_conn \<Rightarrow> bool"
  for limit :: int where
  receives: "(0 < limit \<longrightarrow> int (length (snd m)) \<le> limit) \<Longrightarrow>
    pump_step limit (Reading, src, dst) (Writing m, src\<lparr>got := got src @ [m]\<rparr>, dst)"
| ping: "conn_open src \<Longrightarrow>
    pump_step limit (Reading, src, dst)
      (Reading, src\<lparr>controls := controls src @ [Pong appData]\<rparr>, dst)"
| ping_failed:
    "pump_step limit (Reading, src, dst)
      (Leaving, src\<lparr>controls := controls src @ [Pong appData], errs := errs src @ [OtherError err]\<rparr>, dst)"
| receive_failed:
    "pump_step limit (Reading, src, dst)
      (Leaving, src\<lparr>errs := errs src @ [readErr]\<rparr>, forwardCloseCode dst readErr)"
| sends: "conn_open dst \<Longrightarrow>
    pump_step limit (Writing m, src, dst) (Reading, src, dst\<lparr>put := put dst @ [m]\<rparr>)"
| send_failed: "pump_step limit (Writing m, src, dst) (Leaving, src, dst)"

text \<open>
  The handler's goroutine waits for \<open>done\<close>. \<open>done_closes\<close> counts the calls of \<^verbatim>\<open>close(done)\<close>: the second
  would panic. \<open>once\<close> is the state of \<^verbatim>\<open>closeDoneOnce\<close>.
\<close>

record relay =
  client :: ws_conn
  gateway :: ws_conn
  upward :: pump
  downward :: pump
  once :: bool
  done_closes :: nat
  returned :: bool

definition relay_start :: relay where
  "relay_start =
     \<lparr>client = dialled, gateway = dialled, upward = Reading, downward = Reading, once = False,
      done_closes = 0, returned = False\<rparr>"

definition closeDone :: "relay \<Rightarrow> relay" where
  "closeDone s = (if once s then s else s\<lparr>once := True, done_closes := Suc (done_closes s)\<rparr>)"

text \<open>
  \<^verbatim>\<open><-done\<close> returns, and the two deferred \<^verbatim>\<open>Close\<close> calls run on the way out. (Before them the handler writes
  the audit event of the disconnection, \<open>close_session\<close>. It touches no connection and the relay no table, so
  the order is not kept here.)
\<close>

definition hang_up :: "ws_conn \<Rightarrow> ws_conn" where
  "hang_up c = c\<lparr>conn_open := False\<rparr>"

inductive relay_step :: "int \<Rightarrow> relay \<Rightarrow> relay \<Rightarrow> bool" for limit :: int where
  up: "pump_step limit (upward s, client s, gateway s) (p, c, g) \<Longrightarrow>
    relay_step limit s (s\<lparr>upward := p, client := c, gateway := g\<rparr>)"
| down: "pump_step limit (downward s, gateway s, client s) (p, g, c) \<Longrightarrow>
    relay_step limit s (s\<lparr>downward := p, client := c, gateway := g\<rparr>)"
| up_leaves: "upward s = Leaving \<Longrightarrow> relay_step limit s (closeDone (s\<lparr>upward := Gone\<rparr>))"
| down_leaves: "downward s = Leaving \<Longrightarrow> relay_step limit s (closeDone (s\<lparr>downward := Gone\<rparr>))"
| returns: "0 < done_closes s \<Longrightarrow> \<not> returned s \<Longrightarrow>
    relay_step limit s (s\<lparr>returned := True, client := hang_up (client s), gateway := hang_up (gateway s)\<rparr>)"

inductive_cases pump_stepE: "pump_step limit (p, src, dst) (p', src', dst')"
inductive_cases relay_stepE: "relay_step limit s s'"

inductive_simps pump_step_simps [simp]:
  "pump_step limit (Reading, src, dst) t"
  "pump_step limit (Writing m, src, dst) t"
  "pump_step limit (Leaving, src, dst) t"
  "pump_step limit (Gone, src, dst) t"

inductive_set relay_reachable :: "int \<Rightarrow> relay set" for limit :: int where
  start: "relay_start \<in> relay_reachable limit"
| step: "s \<in> relay_reachable limit \<Longrightarrow> relay_step limit s s' \<Longrightarrow> s' \<in> relay_reachable limit"

text \<open>
  The whole handler, from the world at the request to the world when it has returned: it ends before
  the relay, or it relays, with others changing the world from \<open>w1\<close> to \<open>w2\<close> meanwhile.
\<close>

inductive HandleWebSocket ::
    "env \<Rightarrow> websocket_lib \<Rightarrow> WebSocketProxy \<Rightarrow> header_map \<Rightarrow> request \<Rightarrow> (world \<Rightarrow> world \<Rightarrow> bool) \<Rightarrow>
     world \<Rightarrow> ws_outcome \<times> relay option \<Rightarrow> world \<Rightarrow> bool"
  for e lib p hw r meanwhile where
  ended: "run_state (open_session e lib p hw r) w = (out, w') \<Longrightarrow> (\<nexists>url hs dev sess. out = Connected url hs dev sess) \<Longrightarrow>
    HandleWebSocket e lib p hw r meanwhile w (out, None) w'"
| relayed: "run_state (open_session e lib p hw r) w = (Connected url hs dev sess, w1) \<Longrightarrow>
    s \<in> relay_reachable (MaxMessageSize (px_config p)) \<Longrightarrow> returned s \<Longrightarrow> meanwhile w1 w2 \<Longrightarrow>
    run_state (close_session e dev sess) w2 = (res, w') \<Longrightarrow>
    HandleWebSocket e lib p hw r meanwhile w (Connected url hs dev sess, Some s) w'"

subsection \<open>What holds of every relay\<close>

text \<open>
  One direction: everything read has been written on, in order, except possibly the last message,
  which is being written or was lost with the connection.
\<close>

fun in_flight :: "pump \<Rightarrow> ws_message list \<Rightarrow> ws_message list \<Rightarrow> bool" where
  "in_flight Reading xs ys \<longleftrightarrow> xs = ys"
| "in_flight (Writing m) xs ys \<longleftrightarrow> xs = ys @ [m]"
| "in_flight _ xs ys \<longleftrightarrow> prefix ys xs \<and> length xs \<le> Suc (length ys)"

primrec close_of :: "read_error \<Rightarrow> (int \<times> string) list" where
  "close_of (CloseError code reason) = [(code, reason)]"
| "close_of (OtherError err) = []"

primrec is_close :: "control \<Rightarrow> (int \<times> string) list" where
  "is_close (Close code reason) = [(code, reason)]"
| "is_close (Pong appData) = []"

definition closes_asked :: "ws_conn \<Rightarrow> (int \<times> string) list" where
  "closes_asked c = concat (map is_close (controls c))"

definition closes_read :: "ws_conn \<Rightarrow> (int \<times> string) list" where
  "closes_read c = concat (map close_of (errs c))"

definition direction_ok :: "int \<Rightarrow> pump \<Rightarrow> ws_conn \<Rightarrow> ws_conn \<Rightarrow> bool" where
  "direction_ok limit p src dst \<longleftrightarrow>
     in_flight p (got src) (put dst) \<and> closes_asked dst = closes_read src \<and>
     (if p = Leaving \<or> p = Gone then length (errs src) \<le> 1 else errs src = []) \<and>
     (0 < limit \<longrightarrow> (\<forall>m \<in> set (got src). int (length (snd m)) \<le> limit))"

fun_cases in_flightE: "in_flight p xs ys"

lemma direction_in_order:
  assumes "direction_ok limit p src dst"
  shows "prefix (put dst) (got src) \<and> length (got src) \<le> Suc (length (put dst)) \<and>
    (limit \<le> 0 \<or> (\<forall>m \<in> set (put dst). int (length (snd m)) \<le> limit))"
proof -
  have "in_flight p (got src) (put dst)" using assms by (simp add: direction_ok_def)
  then have "prefix (put dst) (got src) \<and> length (got src) \<le> Suc (length (put dst))"
    by (elim in_flightE) auto
  then show ?thesis
    using assms set_mono_prefix unfolding direction_ok_def by (meson not_le subsetD)
qed

definition gone :: "pump \<Rightarrow> nat" where
  "gone p = (if p = Gone then 1 else 0)"

definition relay_ok :: "int \<Rightarrow> relay \<Rightarrow> bool" where
  "relay_ok limit s \<longleftrightarrow>
     direction_ok limit (upward s) (client s) (gateway s) \<and>
     direction_ok limit (downward s) (gateway s) (client s) \<and>
     done_closes s = min 1 (gone (upward s) + gone (downward s)) \<and>
     (once s \<longleftrightarrow> 0 < done_closes s) \<and> (returned s \<longrightarrow> 0 < done_closes s) \<and>
     (conn_open (client s) \<longleftrightarrow> \<not> returned s) \<and> (conn_open (gateway s) \<longleftrightarrow> \<not> returned s)"

lemma closes_simps [simp]:
  "closes_asked (c\<lparr>got := xs\<rparr>) = closes_asked c" "closes_asked (c\<lparr>put := xs\<rparr>) = closes_asked c"
  "closes_asked (c\<lparr>errs := es\<rparr>) = closes_asked c" "closes_asked (c\<lparr>conn_open := b\<rparr>) = closes_asked c"
  "closes_asked (c\<lparr>controls := controls c @ [k]\<rparr>) = closes_asked c @ is_close k"
  "closes_read (c\<lparr>got := xs\<rparr>) = closes_read c" "closes_read (c\<lparr>put := xs\<rparr>) = closes_read c"
  "closes_read (c\<lparr>controls := ks\<rparr>) = closes_read c" "closes_read (c\<lparr>conn_open := b\<rparr>) = closes_read c"
  "closes_read (c\<lparr>errs := errs c @ [err]\<rparr>) = closes_read c @ close_of err"
  by (simp_all add: closes_asked_def closes_read_def)

lemma forwardCloseCode_simps [simp]:
  "got (forwardCloseCode c err) = got c" "put (forwardCloseCode c err) = put c"
  "errs (forwardCloseCode c err) = errs c" "conn_open (forwardCloseCode c err) = conn_open c"
  "closes_read (forwardCloseCode c err) = closes_read c"
  "closes_asked (forwardCloseCode c err) = closes_asked c @ close_of err"
  by (cases err; simp add: forwardCloseCode_def)+

text \<open>A step keeps its own direction, and does not touch the other.\<close>

lemma pump_step_keeps:
  assumes "pump_step limit (p, src, dst) (p', src', dst')" and "direction_ok limit p src dst"
  shows "direction_ok limit p' src' dst'"
  using assms by (elim pump_stepE) (auto simp: direction_ok_def closes_read_def)

lemma pump_step_other:
  assumes "pump_step limit (p, src, dst) (p', src', dst')"
  shows "direction_ok limit q dst' src' = direction_ok limit q dst src"
    and "conn_open src' = conn_open src" and "conn_open dst' = conn_open dst"
    and "gone p' = gone p"
  using assms by (elim pump_stepE; simp add: direction_ok_def gone_def)+

lemma direction_ok_hang_up [simp]:
  "direction_ok limit p (hang_up src) (hang_up dst) = direction_ok limit p src dst"
  by (simp add: direction_ok_def hang_up_def)

lemma direction_ok_leaves: "direction_ok limit Leaving src dst \<Longrightarrow> direction_ok limit Gone src dst"
  by (simp add: direction_ok_def)

lemma relay_ok_start: "relay_ok limit relay_start"
  by (simp add: relay_ok_def relay_start_def direction_ok_def dialled_def closes_asked_def
      closes_read_def gone_def)

lemma relay_ok_step:
  assumes "relay_step limit s s'" and "relay_ok limit s"
  shows "relay_ok limit s'"
  using assms
proof (cases rule: relay_step.cases)
  case (up p c g)
  then show ?thesis
    using assms(2) pump_step_keeps[OF up(2)] pump_step_other[OF up(2)] by (auto simp: relay_ok_def)
next
  case (down p g c)
  then show ?thesis
    using assms(2) pump_step_keeps[OF down(2)] pump_step_other[OF down(2)] by (auto simp: relay_ok_def)
next
  case up_leaves
  then show ?thesis
    using assms(2) by (auto simp: relay_ok_def closeDone_def gone_def direction_ok_leaves)
next
  case down_leaves
  then show ?thesis
    using assms(2) by (auto simp: relay_ok_def closeDone_def gone_def direction_ok_leaves)
next
  case returns
  then show ?thesis
    using assms(2) by (auto simp: relay_ok_def, simp_all add: hang_up_def)
qed

lemma relay_ok_steps: "(relay_step limit)\<^sup>*\<^sup>* s t \<Longrightarrow> relay_ok limit s \<Longrightarrow> relay_ok limit t"
  by (induction rule: rtranclp_induct) (auto intro: relay_ok_step)

lemma relay_ok_reachable: "s \<in> relay_reachable limit \<Longrightarrow> relay_ok limit s"
  by (induction rule: relay_reachable.induct) (auto intro: relay_ok_start relay_ok_step)

subsection \<open>The relay as a pair of channels\<close>

text \<open>
  What a client of the broker may rely on, without the goroutines: each direction is a channel that
  accepts messages and delivers them one at a time in the order they came, until it is shut.
\<close>

record channel =
  accepted :: "ws_message list"
  delivered :: "ws_message list"
  shut :: bool

definition open_channel :: channel where
  "open_channel = \<lparr>accepted = [], delivered = [], shut = False\<rparr>"

inductive channel_step :: "channel \<Rightarrow> channel \<Rightarrow> bool" where
  accept: "\<not> shut ch \<Longrightarrow> accepted ch = delivered ch \<Longrightarrow>
    channel_step ch (ch\<lparr>accepted := accepted ch @ [m]\<rparr>)"
| deliver: "\<not> shut ch \<Longrightarrow> accepted ch = delivered ch @ [m] \<Longrightarrow>
    channel_step ch (ch\<lparr>delivered := delivered ch @ [m]\<rparr>)"
| shuts: "channel_step ch (ch\<lparr>shut := True\<rparr>)"

definition channel_of :: "pump \<Rightarrow> ws_conn \<Rightarrow> ws_conn \<Rightarrow> channel" where
  "channel_of p src dst =
     \<lparr>accepted = got src, delivered = put dst, shut = (p = Leaving \<or> p = Gone)\<rparr>"

lemma channel_shuts: "channel_step \<lparr>accepted = xs, delivered = ys, shut = b\<rparr> \<lparr>accepted = xs, delivered = ys, shut = True\<rparr>"
  using channel_step.shuts[of "\<lparr>accepted = xs, delivered = ys, shut = b\<rparr>"] by simp

lemma channel_accepts: "channel_step \<lparr>accepted = xs, delivered = xs, shut = False\<rparr> \<lparr>accepted = xs @ [m], delivered = xs, shut = False\<rparr>"
  using channel_step.accept[of "\<lparr>accepted = xs, delivered = xs, shut = False\<rparr>" m] by simp

lemma channel_delivers: "channel_step \<lparr>accepted = xs @ [m], delivered = xs, shut = False\<rparr> \<lparr>accepted = xs @ [m], delivered = xs @ [m], shut = False\<rparr>"
  using channel_step.deliver[of "\<lparr>accepted = xs @ [m], delivered = xs, shut = False\<rparr>" m] by simp

lemma pump_step_channel:
  assumes "pump_step limit (p, src, dst) (p', src', dst')" and "direction_ok limit p src dst"
  shows "channel_step\<^sup>=\<^sup>= (channel_of p src dst) (channel_of p' src' dst')"
  using assms
  by (elim pump_stepE) (auto simp: channel_of_def direction_ok_def intro: channel_shuts channel_accepts
      channel_delivers)

lemma pump_step_channel_other:
  assumes "pump_step limit (p, src, dst) (p', src', dst')"
  shows "channel_of q dst' src' = channel_of q dst src"
  using assms by (elim pump_stepE) (auto simp: channel_of_def)

lemma channel_of_hang_up [simp]: "channel_of p (hang_up src) (hang_up dst) = channel_of p src dst"
  by (simp add: channel_of_def hang_up_def)

lemma channel_of_leaves: "channel_of Gone src dst = channel_of Leaving src dst"
  by (simp add: channel_of_def)

definition channels :: "relay \<Rightarrow> channel \<times> channel" where
  "channels s =
     (channel_of (upward s) (client s) (gateway s), channel_of (downward s) (gateway s) (client s))"

inductive channels_step :: "channel \<times> channel \<Rightarrow> channel \<times> channel \<Rightarrow> bool" where
  first: "channel_step u u' \<Longrightarrow> channels_step (u, d) (u', d)"
| second: "channel_step d d' \<Longrightarrow> channels_step (u, d) (u, d')"

lemma closeDone_simps [simp]:
  "client (closeDone s) = client s" "gateway (closeDone s) = gateway s"
  "upward (closeDone s) = upward s" "downward (closeDone s) = downward s"
  by (simp_all add: closeDone_def)

subsection \<open>The relay winds down\<close>

definition pump_rank :: "pump \<Rightarrow> nat" where
  "pump_rank p = (case p of Reading \<Rightarrow> 3 | Writing _ \<Rightarrow> 2 | Leaving \<Rightarrow> 1 | Gone \<Rightarrow> 0)"

definition relay_rank :: "relay \<Rightarrow> nat" where
  "relay_rank s = pump_rank (upward s) + pump_rank (downward s)"

lemma pump_step_rank:
  assumes "pump_step limit (p, src, dst) (p', src', dst')" and "\<not> conn_open src" "\<not> conn_open dst"
  shows "pump_rank p' < pump_rank p"
  using assms by (elim pump_stepE) (auto simp: pump_rank_def)

lemma relay_step_rank:
  assumes "relay_step limit s s'" and "returned s" and "relay_ok limit s"
  shows "relay_rank s' < relay_rank s \<and> returned s'"
  using assms
proof (cases rule: relay_step.cases)
  case (up p c g)
  then show ?thesis
    using pump_step_rank[OF up(2)] assms by (simp add: relay_rank_def relay_ok_def)
next
  case (down p g c)
  then show ?thesis
    using pump_step_rank[OF down(2)] assms by (simp add: relay_rank_def relay_ok_def)
qed (simp_all add: relay_rank_def pump_rank_def closeDone_def)

lemma relay_steps_rank:
  assumes "(relay_step limit ^^ n) s s'" and "returned s" and "relay_ok limit s"
  shows "n + relay_rank s' \<le> relay_rank s \<and> returned s'"
  using assms(1)
proof (induction n arbitrary: s')
  case (Suc n)
  then obtain t where t: "(relay_step limit ^^ n) s t" "relay_step limit t s'" by auto
  have "relay_ok limit t"
    using relay_ok_steps[OF relpowp_imp_rtranclp[OF t(1)] assms(3)] .
  then show ?case using relay_step_rank[OF t(2)] Suc.IH[OF t(1)] by auto
qed (use assms(2) in simp)

end
