(* ===== verification/TlsCert.thy ===== *)
theory TlsCert
  imports Config
begin

text \<open>
  \<^verbatim>\<open>internal/tlscert/tlscert.go\<close>: the manager of the broker's TLS certificate. Its world is the files
  of the cache directory, the certificate the listeners use, and the orders sent to the ACME server.
\<close>

subsection \<open>Paths\<close>

text \<open>\<^verbatim>\<open>filepath.Clean\<close> works on the components: the stack holds what is kept, last first.\<close>

fun clean_components :: "bool \<Rightarrow> string list \<Rightarrow> string list \<Rightarrow> string list" where
  "clean_components rooted stack [] = rev stack"
| "clean_components rooted stack (c # cs) =
     (if c = [] \<or> c = ''.'' then clean_components rooted stack cs
      else if c = ''..'' then
        (case stack of
           [] \<Rightarrow> clean_components rooted (if rooted then [] else [c]) cs
         | prev # rest \<Rightarrow>
             clean_components rooted (if prev = ''..'' then c # stack else rest) cs)
      else clean_components rooted (c # stack) cs)"

fun join_slash :: "string list \<Rightarrow> string" where
  "join_slash [] = []"
| "join_slash [c] = c"
| "join_slash (c # cs) = c @ ''/'' @ join_slash cs"

definition filepath_Clean :: "string \<Rightarrow> string" where
  "filepath_Clean path =
     (let rooted = HasPrefix path ''/'';
          body = join_slash (clean_components rooted [] (Split path CHR ''/''));
          out = (if rooted then ''/'' @ body else body)
      in if out = [] then ''.'' else out)"

definition filepath_Join :: "string \<Rightarrow> string \<Rightarrow> string" where
  "filepath_Join a b =
     (if a = [] \<and> b = [] then []
      else filepath_Clean (if a = [] then b else if b = [] then a else a @ ''/'' @ b))"

subsection \<open>The manager and its world\<close>

record Manager =
  domain :: string
  mgr_email :: string
  cfAPIToken :: string
  cacheDir :: string
  staging :: bool

definition NewManager :: "string \<Rightarrow> string \<Rightarrow> string \<Rightarrow> string \<Rightarrow> bool \<Rightarrow> Manager" where
  "NewManager d email token dir stg =
     \<lparr>domain = d, mgr_email = email, cfAPIToken = token, cacheDir = dir, staging = stg\<rparr>"

definition certPath :: "Manager \<Rightarrow> string" where
  "certPath m = filepath_Join (cacheDir m) (domain m @ ''.crt'')"

definition keyPath :: "Manager \<Rightarrow> string" where
  "keyPath m = filepath_Join (cacheDir m) (domain m @ ''.key'')"

definition accountKeyPath :: "Manager \<Rightarrow> string" where
  "accountKeyPath m = filepath_Join (cacheDir m) ''account.key''"

text \<open>A certificate with its parsed leaf, of which only the expiry matters here.\<close>

record Certificate =
  Chain :: string
  NotAfter :: int

text \<open>What is asked of the ACME server, with everything the client is configured with.\<close>

record acme_order =
  or_email :: string
  or_account_key :: string
  or_staging :: bool
  or_key_type :: string
  or_api_token :: string
  or_nameservers :: "string list"
  or_terms_agreed :: bool
  or_domains :: "string list"
  or_bundle :: bool

text \<open>
  The parameters, most of them indexed by the tick. \<open>write_result\<close>: the error of a failing
  \<^verbatim>\<open>WriteFile\<close> and what it has left in the file, if it has touched it. \<open>X509KeyPair\<close>, \<open>leaf_expiry\<close>,
  \<open>pem_decode\<close>, \<open>pem_encode\<close>, \<open>parse_key\<close>, \<open>marshal_key\<close>: Go's \<^verbatim>\<open>crypto\<close> and \<^verbatim>\<open>encoding\<close> packages. \<open>client_fault\<close>,
  \<open>provider_fault\<close>, \<open>dns01_fault\<close>, \<open>register_fault\<close>, \<open>order_result\<close>: the ACME library (certificate and
  private key, both as PEM text).
\<close>

record tls_env =
  tls_clock :: "nat \<Rightarrow> int"
  mkdir_fault :: "nat \<Rightarrow> go_error option"
  read_fault :: "nat \<Rightarrow> string \<Rightarrow> go_error option"
  write_result :: "nat \<Rightarrow> string \<Rightarrow> (go_error \<times> string option) option"
  X509KeyPair :: "string \<Rightarrow> string \<Rightarrow> go_error + string"
  leaf_expiry :: "string \<Rightarrow> go_error + int"
  pem_decode :: "string \<Rightarrow> string option"
  pem_encode :: "string \<Rightarrow> string"
  parse_key :: "string \<Rightarrow> go_error + string"
  marshal_key :: "string \<Rightarrow> go_error + string"
  fresh_key :: "nat \<Rightarrow> go_error + string"
  client_fault :: "nat \<Rightarrow> go_error option"
  provider_fault :: "nat \<Rightarrow> go_error option"
  dns01_fault :: "nat \<Rightarrow> go_error option"
  register_fault :: "nat \<Rightarrow> go_error option"
  order_result :: "nat \<Rightarrow> acme_order \<Rightarrow> go_error + string \<times> string"

record tls_world =
  tls_tick :: nat
  files :: "string \<Rightarrow> string option"
  cert :: "Certificate option"
  orders :: "acme_order list"

type_synonym 'a tls_io = "(tls_world, 'a) state"

definition tls_next :: "nat tls_io" where
  "tls_next = State (\<lambda>w. (tls_tick w, w\<lparr>tls_tick := Suc (tls_tick w)\<rparr>))"

definition may_fail :: "(nat \<Rightarrow> go_error option) \<Rightarrow> (go_error + unit) tls_io" where
  "may_fail fault = do {
     t \<leftarrow> tls_next;
     return (case fault t of Some err \<Rightarrow> Inl err | None \<Rightarrow> Inr ()) }"

definition os_ReadFile :: "tls_env \<Rightarrow> string \<Rightarrow> (go_error + string) tls_io" where
  "os_ReadFile e path = do {
     t \<leftarrow> tls_next;
     fs \<leftarrow> gets files;
     return (case read_fault e t path of
               Some err \<Rightarrow> Inl err
             | None \<Rightarrow>
                 (case fs path of
                    None \<Rightarrow> Inl (Err ''no such file or directory'')
                  | Some data \<Rightarrow> Inr data)) }"

definition os_WriteFile :: "tls_env \<Rightarrow> string \<Rightarrow> string \<Rightarrow> (go_error + unit) tls_io" where
  "os_WriteFile e path data = do {
     t \<leftarrow> tls_next;
     case write_result e t path of
       None \<Rightarrow> do { modify (\<lambda>w. w\<lparr>files := (files w)(path \<mapsto> data)\<rparr>); return (Inr ()) }
     | Some (err, None) \<Rightarrow> return (Inl err)
     | Some (err, Some left) \<Rightarrow> do {
         modify (\<lambda>w. w\<lparr>files := (files w)(path \<mapsto> left)\<rparr>);
         return (Inl err) } }"

subsection \<open>Its operations\<close>

definition renewBefore :: int where
  "renewBefore = 30 * 24 * Hour"

definition checkInterval :: int where
  "checkInterval = 12 * Hour"

definition propagationNameservers :: "string list" where
  "propagationNameservers = [''1.1.1.1:53'', ''1.0.0.1:53'']"

definition needsRenewal :: "tls_env \<Rightarrow> Certificate \<Rightarrow> bool tls_io" where
  "needsRenewal e c = do {
     t \<leftarrow> tls_next;
     return (NotAfter c - tls_clock e t < renewBefore) }"

definition GetCertificate :: "Manager \<Rightarrow> (go_error + Certificate) tls_io" where
  "GetCertificate m = do {
     c \<leftarrow> gets cert;
     return (case c of
               None \<Rightarrow> Inl (Err (''no TLS certificate available yet for '' @ domain m))
             | Some c \<Rightarrow> Inr c) }"

text \<open>The pair parsed, with its leaf.\<close>

definition parse_pair :: "tls_env \<Rightarrow> (go_error \<Rightarrow> go_error) \<Rightarrow> (go_error \<Rightarrow> go_error) \<Rightarrow> string \<Rightarrow> string \<Rightarrow>
    go_error + Certificate" where
  "parse_pair e pair_err leaf_err certPEM keyPEM =
     (case X509KeyPair e certPEM keyPEM of
        Inl err \<Rightarrow> Inl (pair_err err)
      | Inr chain \<Rightarrow>
          (case leaf_expiry e chain of
             Inl err \<Rightarrow> Inl (leaf_err err)
           | Inr expiry \<Rightarrow> Inr \<lparr>Chain = chain, NotAfter = expiry\<rparr>))"

definition loadCached :: "tls_env \<Rightarrow> Manager \<Rightarrow> (go_error + Certificate) tls_io" where
  "loadCached e m =
     on_err (os_ReadFile e (certPath m)) (\<lambda>err. return (Inl err)) (\<lambda>certPEM.
     on_err (os_ReadFile e (keyPath m)) (\<lambda>err. return (Inl err)) (\<lambda>keyPEM.
     return (parse_pair e id id certPEM keyPEM)))"

definition stored_key :: "tls_env \<Rightarrow> string \<Rightarrow> string option" where
  "stored_key e data =
     (case pem_decode e data of
        None \<Rightarrow> None
      | Some block \<Rightarrow> (case parse_key e block of Inl _ \<Rightarrow> None | Inr key \<Rightarrow> Some key))"

definition create_account_key :: "tls_env \<Rightarrow> Manager \<Rightarrow> (go_error + string) tls_io" where
  "create_account_key e m = do {
     t \<leftarrow> tls_next;
     case fresh_key e t of
       Inl err \<Rightarrow> return (Inl (Wrap ''generating account key'' err))
     | Inr key \<Rightarrow>
         (case marshal_key e key of
            Inl err \<Rightarrow> return (Inl (Wrap ''encoding account key'' err))
          | Inr der \<Rightarrow>
              on_err (os_WriteFile e (accountKeyPath m) (pem_encode e der))
                (\<lambda>err. return (Inl (Wrap ''writing account key'' err))) (\<lambda>_.
              return (Inr key))) }"

definition loadOrCreateAccountKey :: "tls_env \<Rightarrow> Manager \<Rightarrow> (go_error + string) tls_io" where
  "loadOrCreateAccountKey e m = do {
     r \<leftarrow> os_ReadFile e (accountKeyPath m);
     case r of
       Inl err \<Rightarrow> create_account_key e m
     | Inr data \<Rightarrow>
         (case stored_key e data of
            Some key \<Rightarrow> return (Inr key)
          | None \<Rightarrow> create_account_key e m) }"

definition the_order :: "Manager \<Rightarrow> string \<Rightarrow> acme_order" where
  "the_order m accountKey =
     \<lparr>or_email = mgr_email m, or_account_key = accountKey, or_staging = staging m,
      or_key_type = ''RSA2048'', or_api_token = cfAPIToken m,
      or_nameservers = propagationNameservers, or_terms_agreed = True,
      or_domains = [domain m], or_bundle = True\<rparr>"

definition send_order :: "tls_env \<Rightarrow> acme_order \<Rightarrow> (go_error + string \<times> string) tls_io" where
  "send_order e ord = do {
     t \<leftarrow> tls_next;
     modify (\<lambda>w. w\<lparr>orders := orders w @ [ord]\<rparr>);
     return (order_result e t ord) }"

definition obtain_cert :: "tls_env \<Rightarrow> Manager \<Rightarrow> (go_error + unit) tls_io" where
  "obtain_cert e m =
     on_err (loadOrCreateAccountKey e m) (\<lambda>err. return (Inl err)) (\<lambda>accountKey.
     on_err (may_fail (client_fault e)) (\<lambda>err. return (Inl (Wrap ''creating ACME client'' err))) (\<lambda>_.
     on_err (may_fail (provider_fault e))
       (\<lambda>err. return (Inl (Wrap ''configuring Cloudflare DNS-01 provider'' err))) (\<lambda>_.
     on_err (may_fail (dns01_fault e))
       (\<lambda>err. return (Inl (Wrap ''registering DNS-01 provider'' err))) (\<lambda>_.
     on_err (may_fail (register_fault e))
       (\<lambda>err. return (Inl (Wrap ''registering ACME account'' err))) (\<lambda>_.
     on_err (send_order e (the_order m accountKey))
       (\<lambda>err. return (Inl (Wrap ''obtaining certificate'' err))) (\<lambda>(certPEM, keyPEM).
     on_err (os_WriteFile e (certPath m) certPEM)
       (\<lambda>err. return (Inl (Wrap ''writing certificate'' err))) (\<lambda>_.
     on_err (os_WriteFile e (keyPath m) keyPEM)
       (\<lambda>err. return (Inl (Wrap ''writing private key'' err))) (\<lambda>_.
     case parse_pair e (Wrap ''parsing obtained certificate'') (Wrap ''parsing certificate leaf'')
         certPEM keyPEM of
       Inl err \<Rightarrow> return (Inl err)
     | Inr c \<Rightarrow> do { modify (\<lambda>w. w\<lparr>cert := Some c\<rparr>); return (Inr ()) }))))))))"

text \<open>\<^verbatim>\<open>Start\<close>; the background loop it launches is \<open>renewLoop\<close>.\<close>

definition usable_cached :: "tls_env \<Rightarrow> Manager \<Rightarrow> Certificate option tls_io" where
  "usable_cached e m =
     on_err (loadCached e m) (\<lambda>err. return None) (\<lambda>c. do {
       due \<leftarrow> needsRenewal e c;
       return (if due then None else Some c) })"

definition Start :: "tls_env \<Rightarrow> Manager \<Rightarrow> (go_error + unit) tls_io" where
  "Start e m =
     on_err (may_fail (mkdir_fault e))
       (\<lambda>err. return (Inl (Wrap ''creating TLS cert cache dir'' err))) (\<lambda>_. do {
     cached \<leftarrow> usable_cached e m;
     case cached of
       Some c \<Rightarrow> do { modify (\<lambda>w. w\<lparr>cert := Some c\<rparr>); return (Inr ()) }
     | None \<Rightarrow>
         map_err (Wrap (''obtaining initial TLS certificate for '' @ domain m)) (obtain_cert e m) })"

text \<open>One tick of the renewal loop; an error is logged and the loop goes on.\<close>

definition renew_check :: "tls_env \<Rightarrow> Manager \<Rightarrow> unit tls_io" where
  "renew_check e m = do {
     c \<leftarrow> gets cert;
     due \<leftarrow> (case c of None \<Rightarrow> return True | Some c \<Rightarrow> needsRenewal e c);
     (if due then do { obtain_cert e m; return () } else return ()) }"

text \<open>The loop never ends; \<open>renewLoop e m n\<close> is its first \<open>n\<close> ticks.\<close>

fun renewLoop :: "tls_env \<Rightarrow> Manager \<Rightarrow> nat \<Rightarrow> unit tls_io" where
  "renewLoop e m 0 = return ()"
| "renewLoop e m (Suc n) = do { renew_check e m; renewLoop e m n }"

subsection \<open>The paths are different\<close>

definition plain_name :: "string \<Rightarrow> bool" where
  "plain_name s \<longleftrightarrow> s \<noteq> [] \<and> s \<noteq> ''.'' \<and> s \<noteq> ''..'' \<and> CHR ''/'' \<notin> set s"

lemma clean_components_snoc:
  "c \<noteq> [] \<Longrightarrow> c \<noteq> ''.'' \<Longrightarrow> c \<noteq> ''..'' \<Longrightarrow>
     clean_components rooted stack (cs @ [c]) = clean_components rooted stack cs @ [c]"
  by (induction rooted stack cs rule: clean_components.induct) (auto split: list.splits)

lemma join_slash_snoc:
  "join_slash (cs @ [c]) = (if cs = [] then c else join_slash cs @ ''/'' @ c)"
  by (induction cs rule: join_slash.induct) auto

lemma Split_snoc:
  "c \<notin> set s \<Longrightarrow> Split (d @ c # s) c = Split d c @ [s]"
  by (induction d) (auto simp: Split_no_sep split: list.splits)

lemma filepath_Join_plain:
  obtains P where "\<And>name. plain_name name \<Longrightarrow> filepath_Join dir name = P @ name"
proof (cases "dir = []")
  case True
  have "filepath_Join dir name = [] @ name" if "plain_name name" for name
    using that True
    by (cases name) (auto simp: filepath_Join_def filepath_Clean_def Let_def plain_name_def Split_no_sep)
  then show thesis by (rule that)
next
  case False
  let ?r = "HasPrefix dir ''/''"
  let ?cs = "clean_components ?r [] (Split dir CHR ''/'')"
  let ?P = "(if ?r then ''/'' else []) @ (if ?cs = [] then [] else join_slash ?cs @ ''/'')"
  have "filepath_Join dir name = ?P @ name" if "plain_name name" for name
  proof -
    have "HasPrefix (dir @ ''/'' @ name) ''/'' = ?r"
      using False by (cases dir) auto
    moreover have "Split (dir @ ''/'' @ name) CHR ''/'' = Split dir CHR ''/'' @ [name]"
      using Split_snoc that by (simp add: plain_name_def)
    ultimately show ?thesis
      using that False
      by (auto simp: filepath_Join_def filepath_Clean_def Let_def plain_name_def clean_components_snoc
          join_slash_snoc)
  qed
  then show thesis by (rule that)
qed

lemma filepath_Join_inj:
  "plain_name a \<Longrightarrow> plain_name b \<Longrightarrow> filepath_Join dir a = filepath_Join dir b \<longleftrightarrow> a = b"
  by (rule filepath_Join_plain[of dir]) simp

lemma plain_names:
  assumes "CHR ''/'' \<notin> set d"
  shows "plain_name (d @ ''.crt'')" "plain_name (d @ ''.key'')" "plain_name ''account.key''"
  using assms by (auto simp: plain_name_def dest: arg_cong[where f = length])

subsection \<open>What the operations do\<close>

lemma wp_tls_next [wp_simps]: "wp tls_next Q w = Q (tls_tick w) (w\<lparr>tls_tick := Suc (tls_tick w)\<rparr>)"
  by (simp add: wp_def tls_next_def)

lemma wp_may_fail [wp_simps]:
  "wp (may_fail fault) Q w =
     Q (case fault (tls_tick w) of Some err \<Rightarrow> Inl err | None \<Rightarrow> Inr ()) (w\<lparr>tls_tick := Suc (tls_tick w)\<rparr>)"
  by (simp add: may_fail_def wp_simps)

lemma wp_needsRenewal [wp_simps]:
  "wp (needsRenewal e c) Q w =
     Q (NotAfter c - tls_clock e (tls_tick w) < renewBefore) (w\<lparr>tls_tick := Suc (tls_tick w)\<rparr>)"
  by (simp add: needsRenewal_def wp_simps)

lemma wp_ReadFile [wp_simps]:
  "wp (os_ReadFile e path) Q w =
     Q (case read_fault e (tls_tick w) path of
          Some err \<Rightarrow> Inl err
        | None \<Rightarrow> (case files w path of None \<Rightarrow> Inl (Err ''no such file or directory'') | Some d \<Rightarrow> Inr d))
       (w\<lparr>tls_tick := Suc (tls_tick w)\<rparr>)"
  by (simp add: os_ReadFile_def wp_simps split: option.splits)

lemma wp_WriteFile [wp_simps]:
  "wp (os_WriteFile e path data) Q w =
     (case write_result e (tls_tick w) path of
        None \<Rightarrow> Q (Inr ()) (w\<lparr>tls_tick := Suc (tls_tick w), files := (files w)(path \<mapsto> data)\<rparr>)
      | Some (err, None) \<Rightarrow> Q (Inl err) (w\<lparr>tls_tick := Suc (tls_tick w)\<rparr>)
      | Some (err, Some left) \<Rightarrow>
          Q (Inl err) (w\<lparr>tls_tick := Suc (tls_tick w), files := (files w)(path \<mapsto> left)\<rparr>))"
  by (auto simp: os_WriteFile_def wp_simps split: option.splits)

lemma wp_send_order [wp_simps]:
  "wp (send_order e ord) Q w =
     Q (order_result e (tls_tick w) ord)
       (w\<lparr>tls_tick := Suc (tls_tick w), orders := orders w @ [ord]\<rparr>)"
  by (simp add: send_order_def wp_simps)

lemma wp_GetCertificate [wp_simps]:
  "wp (GetCertificate m) Q w =
     Q (case cert w of None \<Rightarrow> Inl (Err (''no TLS certificate available yet for '' @ domain m))
        | Some c \<Rightarrow> Inr c) w"
  by (simp add: GetCertificate_def wp_simps)

lemma wp_loadCached [wp_simps]:
  "wp (loadCached e m) Q w =
     (case read_fault e (tls_tick w) (certPath m) of
        Some err \<Rightarrow> Q (Inl err) (w\<lparr>tls_tick := Suc (tls_tick w)\<rparr>)
      | None \<Rightarrow>
         (case files w (certPath m) of
            None \<Rightarrow> Q (Inl (Err ''no such file or directory'')) (w\<lparr>tls_tick := Suc (tls_tick w)\<rparr>)
          | Some certPEM \<Rightarrow>
              Q (case read_fault e (Suc (tls_tick w)) (keyPath m) of
                   Some err \<Rightarrow> Inl err
                 | None \<Rightarrow>
                     (case files w (keyPath m) of
                        None \<Rightarrow> Inl (Err ''no such file or directory'')
                      | Some keyPEM \<Rightarrow> parse_pair e id id certPEM keyPEM))
                (w\<lparr>tls_tick := Suc (Suc (tls_tick w))\<rparr>)))"
  by (simp add: loadCached_def wp_simps split: option.splits)

text \<open>Updates of a world are written in the order of its fields.\<close>

lemma tls_update_order [simp]:
  "(w :: tls_world)\<lparr>files := f, tls_tick := t\<rparr> = w\<lparr>tls_tick := t, files := f\<rparr>"
  "w\<lparr>cert := c, tls_tick := t\<rparr> = w\<lparr>tls_tick := t, cert := c\<rparr>"
  "w\<lparr>orders := q, tls_tick := t\<rparr> = w\<lparr>tls_tick := t, orders := q\<rparr>"
  "w\<lparr>cert := c, files := f\<rparr> = w\<lparr>files := f, cert := c\<rparr>"
  "w\<lparr>orders := q, files := f\<rparr> = w\<lparr>files := f, orders := q\<rparr>"
  "w\<lparr>orders := q, cert := c\<rparr> = w\<lparr>cert := c, orders := q\<rparr>"
  by simp_all

lemma tls_same [simp]:
  "(w :: tls_world)\<lparr>tls_tick := t, files := files w\<rparr> = w\<lparr>tls_tick := t\<rparr>"
  by simp

lemma wp_loadOrCreateAccountKey:
  assumes "\<And>r n fs. (\<forall>p. p \<noteq> accountKeyPath m \<longrightarrow> fs p = files w p) \<Longrightarrow>
    Q r (w\<lparr>tls_tick := n, files := fs\<rparr>)"
  shows "wp (loadOrCreateAccountKey e m) Q w"
proof -
  have same: "Q r (w\<lparr>tls_tick := n\<rparr>)" for r n
    using assms[where fs = "files w"] by simp
  show ?thesis
    by (auto simp: loadOrCreateAccountKey_def create_account_key_def wp_simps
        split: option.splits sum.splits intro!: same assms)
qed

text \<open>The ACME server has issued this pair for the manager's domain, and it parses to \<open>c\<close>.\<close>

definition issued :: "tls_env \<Rightarrow> Manager \<Rightarrow> string \<Rightarrow> string \<Rightarrow> Certificate \<Rightarrow> bool" where
  "issued e m certPEM keyPEM c \<longleftrightarrow>
     (\<exists>t key. order_result e t (the_order m key) = Inr (certPEM, keyPEM)) \<and>
     parse_pair e id id certPEM keyPEM = Inr c"

lemma parse_pair_InrD: "parse_pair e f g a b = Inr c \<Longrightarrow> parse_pair e id id a b = Inr c"
  by (auto simp: parse_pair_def split: sum.splits)

lemma issuedI:
  "order_result e t (the_order m key) = Inr (a, b) \<Longrightarrow> parse_pair e f g a b = Inr c \<Longrightarrow> issued e m a b c"
  by (auto simp: issued_def dest: parse_pair_InrD)

lemma wp_obtain_cert:
  assumes fail: "\<And>err n fs os. Q (Inl err) (w\<lparr>tls_tick := n, files := fs, orders := os\<rparr>)"
    and ok: "\<And>c certPEM keyPEM n fs os. issued e m certPEM keyPEM c \<Longrightarrow>
      (certPath m \<noteq> keyPath m \<longrightarrow> fs (certPath m) = Some certPEM) \<Longrightarrow> fs (keyPath m) = Some keyPEM \<Longrightarrow>
      Q (Inr ()) (w\<lparr>tls_tick := n, files := fs, cert := Some c, orders := os\<rparr>)"
  shows "wp (obtain_cert e m) Q w"
  unfolding obtain_cert_def wp_on_err
proof (rule wp_loadOrCreateAccountKey, goal_cases)
  case (1 r n fs)
  have fail1: "Q (Inl err) (w\<lparr>tls_tick := n, files := fs\<rparr>)" for err n fs
    using fail[where os = "orders w"] by simp
  show ?case
    by (auto simp: wp_simps split: sum.splits option.splits intro!: fail fail1 ok intro: issuedI)
qed

end
