(* ===== verification/Server.thy ===== *)
theory Server
  imports WebSocket HandlerDevice HandlerSession TlsCert
begin

text \<open>
  \<^verbatim>\<open>cmd/main.go\<close>: the routes, the choice between the handlers and the proxy, and the start of the
  process. Matching a request against the routes is left to the router library.
\<close>

subsection \<open>Routes\<close>

datatype endpoint =
    Healthz | Readyz | CreateDeviceAuth | GetDeviceAuth | RefreshEndpoint | RevokeCurrent | GatewayRoot

record route =
  rt_path :: string
  rt_methods :: "string list"
  rt_endpoint :: endpoint

definition HandleFunc :: "string \<Rightarrow> endpoint \<Rightarrow> string list \<Rightarrow> route list \<Rightarrow> route list" where
  "HandleFunc path ep methods rs = rs @ [\<lparr>rt_path = path, rt_methods = methods, rt_endpoint = ep\<rparr>]"

definition RegisterRoutes :: "route list \<Rightarrow> route list" where
  "RegisterRoutes rs =
     (let rs = HandleFunc ''/healthz'' Healthz [''GET''] rs;
          rs = HandleFunc ''/readyz'' Readyz [''GET''] rs;
          rs = HandleFunc ''/v1/device-authorizations'' CreateDeviceAuth [''POST''] rs;
          rs = HandleFunc ''/v1/device-authorizations/{transaction_id}'' GetDeviceAuth [''GET''] rs;
          rs = HandleFunc ''/v1/sessions/refresh'' RefreshEndpoint [''POST''] rs
      in HandleFunc ''/v1/sessions/current'' RevokeCurrent [''DELETE''] rs)"

text \<open>The route of the Gateway comes last; it is for every method.\<close>

definition main_routes :: "route list" where
  "main_routes = HandleFunc ''/'' GatewayRoot [] (RegisterRoutes [])"

text \<open>
  What the router library makes of a request: a route with the variables of its path, its own answer
  (a wrong method, a redirection to a cleaned path), or nothing, for which there is \<^verbatim>\<open>NotFoundHandler\<close>.
\<close>

datatype mux_match = Matched route "(string, string) mapping" | Mux_answers response | Unmatched

type_synonym mux_lib = "route list \<Rightarrow> request \<Rightarrow> mux_match"

subsection \<open>Serving a request\<close>

definition isWebSocketUpgrade :: "env \<Rightarrow> request \<Rightarrow> bool" where
  "isWebSocketUpgrade e r =
     (if ToLower (uni_lower e) (Header_Get (rq_Header r) ''Upgrade'') \<noteq> ''websocket'' then False
      else if ToLower (uni_lower e) (Header_Get (rq_Header r) ''Connection'') \<noteq> ''upgrade'' then False
      else True)"

text \<open>What a request comes to: a response, a request handed to the reverse proxy, a WebSocket.\<close>

datatype served = Replied response | To_gateway request | To_websocket ws_outcome

definition reply :: "response io \<Rightarrow> served io" where
  "reply m = do { resp \<leftarrow> m; return (Replied resp) }"

definition proxy_request ::
    "env \<Rightarrow> websocket_lib \<Rightarrow> WebSocketProxy \<Rightarrow> header_map \<Rightarrow> request \<Rightarrow> served io" where
  "proxy_request e lib p w r =
     (if isWebSocketUpgrade e r then do {
        out \<leftarrow> open_session e lib p w r;
        return (To_websocket out) }
      else do {
        out \<leftarrow> HandleHTTP e (px_config p) w r;
        return (case out of Answered resp \<Rightarrow> Replied resp | Forwarded q \<Rightarrow> To_gateway q) })"

definition call_endpoint ::
    "env \<Rightarrow> websocket_lib \<Rightarrow> Handler \<Rightarrow> WebSocketProxy \<Rightarrow> endpoint \<Rightarrow> header_map \<Rightarrow> request \<Rightarrow> served io" where
  "call_endpoint e lib h p ep w r =
     (case ep of
        Healthz \<Rightarrow> reply (handleHealthz w r)
      | Readyz \<Rightarrow> reply (handleReadyz e h w r)
      | CreateDeviceAuth \<Rightarrow> reply (handleCreateDeviceAuthorization e h w r)
      | GetDeviceAuth \<Rightarrow> reply (handleGetDeviceAuthorization e h w r)
      | RefreshEndpoint \<Rightarrow> reply (handleRefreshSession e h w r)
      | RevokeCurrent \<Rightarrow> reply (handleRevokeCurrentSession e h w r)
      | GatewayRoot \<Rightarrow> proxy_request e lib p w r)"

definition ServeHTTP ::
    "env \<Rightarrow> websocket_lib \<Rightarrow> mux_lib \<Rightarrow> Handler \<Rightarrow> WebSocketProxy \<Rightarrow> request \<Rightarrow> served io" where
  "ServeHTTP e lib mux h p r =
     (case mux main_routes r of
        Matched rt vars \<Rightarrow> call_endpoint e lib h p (rt_endpoint rt) no_headers (r\<lparr>rq_Vars := vars\<rparr>)
      | Mux_answers resp \<Rightarrow> return (Replied resp)
      | Unmatched \<Rightarrow> proxy_request e lib p no_headers r)"

subsection \<open>Starting the process\<close>

text \<open>
  The process has the broker's world, the certificate manager's, and the ports whose listeners have been
  handed to \<^verbatim>\<open>srv.Serve\<close>, from when on requests on them are served. \<open>Fatal\<close> is \<^verbatim>\<open>log.Fatalf\<close>: it ends the
  process at once; \<open>ps_plain\<close> and \<open>ps_tls\<close> are then what it has been serving until that moment.
  \<open>listen_fault\<close> is what \<^verbatim>\<open>net.Listen\<close> on a port comes to at a tick.
\<close>

record process_state =
  ps_world :: world
  ps_certs :: tls_world
  ps_plain :: "int list"
  ps_tls :: "int list"

type_synonym 'a process = "(process_state, 'a) state"

definition on_world :: "'a io \<Rightarrow> 'a process" where
  "on_world m = State (\<lambda>ps. case run_state m (ps_world ps) of (a, w) \<Rightarrow> (a, ps\<lparr>ps_world := w\<rparr>))"

definition on_tls :: "'a tls_io \<Rightarrow> 'a process" where
  "on_tls m = State (\<lambda>ps. case run_state m (ps_certs ps) of (a, tw) \<Rightarrow> (a, ps\<lparr>ps_certs := tw\<rparr>))"

type_synonym net_lib = "nat \<Rightarrow> int \<Rightarrow> go_error option"

text \<open>Bind the ports one after the other; the first that fails is reported with its port.\<close>

fun listen_all :: "net_lib \<Rightarrow> int list \<Rightarrow> int list \<Rightarrow> ((int \<times> go_error) + int list) io" where
  "listen_all listen_fault [] listeners = return (Inr listeners)"
| "listen_all listen_fault (port # ports) listeners = do {
     t \<leftarrow> next_tick;
     case listen_fault t port of
       Some err \<Rightarrow> return (Inl (port, err))
     | None \<Rightarrow> listen_all listen_fault ports (listeners @ [port]) }"

text \<open>\<^verbatim>\<open>go srv.Serve(ln)\<close> for each listener, plain or TLS.\<close>

definition serve_plain :: "int list \<Rightarrow> unit process" where
  "serve_plain listeners = modify (\<lambda>ps. ps\<lparr>ps_plain := ps_plain ps @ listeners\<rparr>)"

definition serve_tls :: "int list \<Rightarrow> unit process" where
  "serve_tls tlsListeners = modify (\<lambda>ps. ps\<lparr>ps_tls := ps_tls ps @ tlsListeners\<rparr>)"

record server =
  sv_config :: Config
  sv_handler :: Handler
  sv_proxy :: WebSocketProxy

datatype startup = Fatal string go_error | Serving server

definition cannot_listen :: "int \<times> go_error \<Rightarrow> startup" where
  "cannot_listen = (\<lambda>(port, err). Fatal (''Failed to listen on :'' @ Itoa port) err)"

text \<open>The TLS listeners; the plain ones are being served by now.\<close>

definition start_tls :: "tls_env \<Rightarrow> net_lib \<Rightarrow> server \<Rightarrow> startup process" where
  "start_tls te listen_fault sv =
     (let cfg = sv_config sv in
      if TLSEnabled cfg then
        (let certManager = NewManager (TLSDomain cfg) (TLSEmail cfg) (TLSCloudflareToken cfg)
           (TLSCertCacheDir cfg) (TLSACMEStaging cfg) in
         on_err (on_tls (Start te certManager))
           (\<lambda>err. return (Fatal ''Failed to start TLS certificate manager'' err)) (\<lambda>_.
         on_err (on_world (listen_all listen_fault (TLSPorts cfg) []))
           (\<lambda>failed. return (cannot_listen failed)) (\<lambda>tlsListeners. do {
         serve_tls tlsListeners;
         return (Serving sv) })))
      else return (Serving sv))"

definition main_start :: "env \<Rightarrow> tls_env \<Rightarrow> net_lib \<Rightarrow> startup process" where
  "main_start e te listen_fault =
     (case LoadConfig e of
        Inl err \<Rightarrow> return (Fatal ''Failed to load config'' err)
      | Inr cfg \<Rightarrow>
          on_err (on_world (NewDB e))
            (\<lambda>err. return (Fatal ''Failed to initialize database'' err)) (\<lambda>_. do {
          on_world (CleanupExpired e);
          (case NewWebSocketProxy e cfg of
             Inl err \<Rightarrow> return (Fatal ''Invalid Gateway service URL'' err)
           | Inr p \<Rightarrow>
               on_err (on_world (listen_all listen_fault (ListenPorts cfg) []))
                 (\<lambda>failed. return (cannot_listen failed)) (\<lambda>listeners. do {
               serve_plain listeners;
               start_tls te listen_fault
                 \<lparr>sv_config = cfg, sv_handler = NewHandler cfg, sv_proxy = p\<rparr> })) }))"

text \<open>One tick of the goroutine that removes what has expired; its error is logged.\<close>

definition cleanup_tick :: "env \<Rightarrow> unit io" where
  "cleanup_tick e = do { CleanupExpired e; return () }"

subsection \<open>Relations kept\<close>

context core_contract
begin

lemma rel_open_session [io_rel]: "state_io_rel (lift_rel T) (open_session e lib p w r)"
  unfolding open_session_def by (intro io_rel)

lemma rel_close_session [io_rel]: "state_io_rel (lift_rel T) (close_session e dev sess)"
  unfolding close_session_def by (intro io_rel)

lemma rel_proxy_request [io_rel]: "state_io_rel (lift_rel T) (proxy_request e lib p w r)"
  unfolding proxy_request_def by (intro io_rel)

lemma rel_reply [io_rel]: "state_io_rel (lift_rel T) m \<Longrightarrow> state_io_rel (lift_rel T) (reply m)"
  unfolding reply_def by (intro io_rel)

lemma rel_handleHealthz [io_rel]: "state_io_rel (lift_rel T) (handleHealthz w r)"
  unfolding handleHealthz_def by (intro io_rel)

lemma rel_listen_all [io_rel]: "state_io_rel (lift_rel T) (listen_all net ports ls)"
  by (induction ports arbitrary: ls) (auto intro!: io_rel)

end

context cleanup_contract
begin

lemma rel_cleanup_tick [io_rel]: "state_io_rel (lift_rel T) (cleanup_tick e)"
  unfolding cleanup_tick_def by (intro io_rel)

end

text \<open>What the server relies on: pairing and the rotation of a refresh token keep the relation.\<close>

locale server_contract = pairing_contract + cleanup_contract +
  assumes T_handleRefreshSession: "state_io_rel (lift_rel T) (handleRefreshSession e h w r)"
begin

lemma rel_call_endpoint [io_rel]:
  "state_io_rel (lift_rel T) (call_endpoint e lib h p ep w r)"
  unfolding call_endpoint_def by (cases ep; simp; intro io_rel T_handleRefreshSession)

lemma rel_ServeHTTP [io_rel]: "state_io_rel (lift_rel T) (ServeHTTP e lib mux h p r)"
  unfolding ServeHTTP_def by (auto split: mux_match.split intro!: io_rel)

end

sublocale full_contract \<subseteq> server_contract
  by unfold_locales (simp add: rel_handleRefreshSession)

end
