(* ===== verification/Ownership.thy ===== *)
theory Ownership
  imports RefreshRotation DevicePairing Server
begin

text \<open>
  The foreign keys. The schema declares them, but SQLite enforces them only on demand, which the broker
  does not make: that no session is orphaned rests on the handlers. The contract \<open>commit_contract\<close>
  allows the insertion of a session only for a stored device, and the handlers are shown to keep it.
\<close>

subsection \<open>The contract\<close>

abbreviation device_ids :: "tables \<Rightarrow> string set" where
  "device_ids d \<equiv> md_id ` set (mobile_devices d)"

text \<open>A relation that is asked for only where device \<open>k\<close> is stored.\<close>

definition with_device :: "(tables \<Rightarrow> tables \<Rightarrow> bool) \<Rightarrow> string \<Rightarrow> tables \<Rightarrow> tables \<Rightarrow> bool" where
  "with_device T k d d' \<longleftrightarrow> (k \<in> device_ids d \<longrightarrow> T d d')"

lemma wp_rel:
  assumes "state_io_rel (lift_rel T) m" and "idle w"
    and "\<And>a w'. idle w' \<Longrightarrow> tick w \<le> tick w' \<Longrightarrow> T (db w) (db w') \<Longrightarrow> Q a w'"
  shows "wp m Q w"
  by (rule wpI) (use io_relD[OF assms(1,2)] assms(3) in blast)

locale commit_contract = transaction_contract T UNIV + cleanup_contract T for T +
  assumes T_owned_refresh: "rs_device_id refresh_row \<in> device_ids d \<Longrightarrow>
      rs_revoked_at refresh_row = None \<Longrightarrow> rs_rotated_at refresh_row = None \<Longrightarrow>
      insert_refresh_session refresh_row d = Inr d' \<Longrightarrow> T d d'"
    and T_owned_access: "as_device_id access_row \<in> device_ids d \<Longrightarrow> as_revoked_at access_row = None \<Longrightarrow>
      insert_access_session access_row d = Inr d' \<Longrightarrow> T d d'"
    and T_owned_rotation:
      "insert_successor newID oldHash newHash now expires (mark_rotated now oldID d) = Inr d' \<Longrightarrow> T d d'"

sublocale full_contract \<subseteq> commit_contract
  by unfold_locales (auto intro: T_insert_refresh_session T_insert_access_session T_rotation)

text \<open>With devices that are never removed, the handlers keep it.\<close>

locale foreign_key_contract = commit_contract +
  assumes T_devices: "T d d' \<Longrightarrow> device_ids d \<subseteq> device_ids d'"
begin

lemma with_device_insert: "insert_contract (with_device T k) UNIV {k}"
  by unfold_locales
    (auto simp: with_device_def T_refl intro: T_insert_mobile_device T_insert_audit_event T_last_seen
      T_revoke_refresh T_revoke_access T_revoke_sessions T_revoke_device T_insert_device_authorization
      T_status T_poll_interval T_consumed T_owned_refresh T_owned_access T_owned_rotation
      dest: T_devices intro: T_trans)

sublocale device: insert_contract "with_device T k" UNIV "{k}" for k
  by (rule with_device_insert)

lemma wp_with_device:
  assumes "state_io_rel (lift_rel (with_device T k)) m" and "idle w" and "k \<in> device_ids (db w)"
  shows "wp m (\<lambda>_ w'. idle w' \<and> tick w \<le> tick w' \<and> T (db w) (db w')) w"
  by (rule wp_rel[OF assms(1,2)]) (use assms(3) in \<open>simp add: with_device_def\<close>)

text \<open>The second half of a refresh inserts for the device that the first half has found.\<close>

lemma rel_handleRefreshSession: "state_io_rel (lift_rel T) (handleRefreshSession e h hw r)"
proof (rule io_relI)
  fix w :: world
  assume idle: "idle w"
  let ?Q = "\<lambda>_ w'. idle w' \<and> tick w \<le> tick w' \<and> T (db w) (db w')"
  show "wp (handleRefreshSession e h hw r) ?Q w"
    unfolding handleRefreshSession_def wp_on_err
  proof (rule wp_check_refresh[OF idle], goal_cases)
    case (1 resp n)
    then show ?case using idle by (simp add: wp_return T_refl)
  next
    case (2 token s sess m dev n)
    then have "dev_ID dev \<in> device_ids (db (w\<lparr>tick := n\<rparr>))"
      by (auto simp: refreshable_def dest!: scan_mobile_device_InrD)
    then have "wp (issue_refresh e h hw (HashSecret e (h_config h) token) sess dev)
        (\<lambda>_ w'. idle w' \<and> tick (w\<lparr>tick := n\<rparr>) \<le> tick w' \<and> T (db (w\<lparr>tick := n\<rparr>)) (db w')) (w\<lparr>tick := n\<rparr>)"
      by (rule wp_with_device[OF device.rel_issue_refresh, rotated 2]) (use idle in simp_all)
    then show ?case using 2 by (auto elim!: wp_mono)
  qed
qed

text \<open>Pairing inserts for the device it has just inserted.\<close>

lemma rel_pair_device: "state_io_rel (lift_rel T) (pair_device e h hw tid token email)"
proof (rule io_relI)
  fix w :: world
  assume idle: "idle w"
  have rest: "wp m (\<lambda>_ w'. idle w' \<and> tick w \<le> tick w' \<and> T (db w) (db w')) w1"
    if "state_io_rel (lift_rel (with_device T k)) m" "insert_mobile_device x (db w) = Inr (db w1)"
      "md_id x = k" "md_revoked_at x = None" "tick w \<le> tick w1" "idle w1" for m :: "response io" and w1 x k
  proof -
    have "k \<in> device_ids (db w1)" using that(2,3) by (auto dest!: insert_InrD)
    then show ?thesis
      using wp_with_device[OF that(1,6)] T_trans[OF T_insert_mobile_device[OF that(4,2)]] that(5)
      by (auto elim!: wp_mono)
  qed
  have failed: "wp (fail_pairing e h token hw msg)
      (\<lambda>_ w'. idle w' \<and> tick w \<le> tick w' \<and> T (db w) (db w')) (w\<lparr>tick := n\<rparr>)"
    if "tick w \<le> n" for msg n
    by (rule wp_fail_pairing) (use idle that in \<open>simp add: T_refl\<close>)
  show "wp (pair_device e h hw tid token email)
      (\<lambda>_ w'. idle w' \<and> tick w \<le> tick w' \<and> T (db w) (db w')) w"
    unfolding pair_device_def
  proof (rule wp_on_errI, rule wp_err_GenerateRandomString, goal_cases)
    case 1
    then show ?case by (simp add: failed)
  next
    case (2 k)
    show ?case
    proof (rule wp_on_errI, rule wp_err_CreateMobileDevice, goal_cases)
      case (3 m d n)
      then show ?case
        by (intro rest[of k _ m] io_rel) (use idle in simp_all)
    qed (use idle in \<open>simp_all add: failed\<close>)
  qed
qed

end

sublocale foreign_key_contract \<subseteq> server_contract
  by unfold_locales (rule rel_pair_device rel_handleRefreshSession)+

subsection \<open>No session is orphaned\<close>

definition sessions_owned :: "tables \<Rightarrow> bool" where
  "sessions_owned d \<longleftrightarrow>
     (\<forall>s \<in> set (access_sessions d). as_device_id s \<in> device_ids d) \<and>
     (\<forall>s \<in> set (refresh_sessions d). rs_device_id s \<in> device_ids d)"

definition keeps_owned :: "tables \<Rightarrow> tables \<Rightarrow> bool" where
  "keeps_owned d d' \<longleftrightarrow> device_ids d \<subseteq> device_ids d' \<and> (sessions_owned d \<longrightarrow> sessions_owned d')"

text \<open>Devices are only added, and sessions have come from the old ones or belong to the new devices.\<close>

lemma sessions_ownedI:
  assumes "sessions_owned d"
    and "device_ids d \<subseteq> device_ids d'"
    and "\<And>k. k \<in> as_device_id ` set (access_sessions d') \<Longrightarrow>
      k \<in> as_device_id ` set (access_sessions d) \<or> k \<in> device_ids d'"
    and "\<And>k. k \<in> rs_device_id ` set (refresh_sessions d') \<Longrightarrow>
      k \<in> rs_device_id ` set (refresh_sessions d) \<or> k \<in> device_ids d'"
  shows "sessions_owned d'"
proof -
  have "k \<in> device_ids d'"
    if "k \<in> as_device_id ` set (access_sessions d') \<or> k \<in> rs_device_id ` set (refresh_sessions d')" for k
  proof -
    have "k \<in> device_ids d"
      if "k \<in> as_device_id ` set (access_sessions d) \<or> k \<in> rs_device_id ` set (refresh_sessions d)"
      using that assms(1) by (auto simp: sessions_owned_def)
    then show ?thesis using that assms(2-4) by blast
  qed
  then show ?thesis
    unfolding sessions_owned_def by blast
qed

lemma device_ids_update:
  "(\<And>r. md_id (f r) = md_id r) \<Longrightarrow> device_ids (update_mobile_devices p f d) = device_ids d"
  by (simp add: update_mobile_devices_def image_sql_update)

lemma keeps_ownedI:
  assumes "device_ids d \<subseteq> device_ids d'"
    and "\<And>k. k \<in> as_device_id ` set (access_sessions d') \<Longrightarrow>
      k \<in> as_device_id ` set (access_sessions d) \<or> k \<in> device_ids d'"
    and "\<And>k. sessions_owned d \<Longrightarrow> k \<in> rs_device_id ` set (refresh_sessions d') \<Longrightarrow>
      k \<in> rs_device_id ` set (refresh_sessions d) \<or> k \<in> device_ids d'"
  shows "keeps_owned d d'"
  using assms sessions_ownedI[of d d'] by (auto simp: keeps_owned_def)

lemma owned_rotation:
  assumes "insert_successor newID oldHash newHash now expires (mark_rotated now oldID d) = Inr d'"
  shows "keeps_owned d d'"
proof -
  obtain old row where "sql_first (\<lambda>r. rs_token_hash r = oldHash) (refresh_sessions (mark_rotated now oldID d)) = Some old"
    "d' = (mark_rotated now oldID d)\<lparr>refresh_sessions := refresh_sessions (mark_rotated now oldID d) @ [row]\<rparr>"
    "rs_device_id row = rs_device_id old"
    using assms by (elim insert_successor_InrD)
  moreover have "rs_device_id ` set (refresh_sessions (mark_rotated now oldID d)) = rs_device_id ` set (refresh_sessions d)"
    by (simp add: mark_rotated_def table_defs image_sql_update)
  moreover have "mobile_devices (mark_rotated now oldID d) = mobile_devices d"
    "access_sessions (mark_rotated now oldID d) = access_sessions d"
    by (simp_all add: mark_rotated_def table_defs)
  ultimately show ?thesis
    by (intro keeps_ownedI) (auto dest!: sql_first_SomeD)
qed

lemmas owned_simps = table_defs image_sql_update revoke_device_row_def revoke_refresh_rows_def
  revoke_access_rows_def map_sum_def

interpretation owned: foreign_key_contract keeps_owned
proof (unfold_locales, goal_cases)
  case 1
  then show ?case by (simp add: keeps_owned_def)
next
  case 2
  then show ?case by (auto simp: keeps_owned_def)
next
  case (20 d d')
  then show ?case by (simp add: keeps_owned_def)
qed ((erule owned_rotation | rule keeps_ownedI, (auto simp: owned_simps split: sum.splits
    dest!: sql_insert_InrD image_sql_delete)+)+)

end
