(* ===== verification/ProxyAccess.thy ===== *)
theory ProxyAccess
  imports Samples
begin

text \<open>
  Who reaches the Gateway: soundness and completeness of \<open>authenticateDevice\<close> against what it means for
  a token to grant access, what happens to a device whose e-mail address has left the allow list, and
  what the plain HTTP path lets through.
\<close>

subsection \<open>What grants access\<close>

text \<open>
  A stored session with the token's hash, not revoked, not expired at \<open>now\<close>, and its device, not
  revoked and with an allowed e-mail address.
\<close>

definition access_granted ::
    "env \<Rightarrow> Config \<Rightarrow> tables \<Rightarrow> int \<Rightarrow> string \<Rightarrow> access_session_row \<Rightarrow> mobile_device_row \<Rightarrow> bool" where
  "access_granted e cfg d now token s m \<longleftrightarrow>
     s \<in> set (access_sessions d) \<and> as_token_hash s = HashSecret e cfg token \<and>
     as_revoked_at s = None \<and> now \<le> unix_time (as_expires_at s) \<and>
     m \<in> set (mobile_devices d) \<and> md_id m = as_device_id s \<and> md_revoked_at m = None \<and>
     IsEmailAllowed e cfg (md_email m)"

definition tailnet_peer :: "env \<Rightarrow> Config \<Rightarrow> nat \<Rightarrow> string \<Rightarrow> bool" where
  "tailnet_peer e cfg t ip \<longleftrightarrow>
     TailnetEnabled cfg \<and> TailnetSocket cfg \<noteq> [] \<and> ip \<noteq> [] \<and> whois_ok e t (TailnetSocket cfg) ip"

lemma access_granted_found:
  assumes "sql_first (\<lambda>r. as_token_hash r = HashSecret e cfg token) (access_sessions d) = Some s"
    and "sql_first (\<lambda>r. md_id r = as_device_id s) (mobile_devices d) = Some m"
    and "scan_mobile_device m = Inr dev"
    and "as_revoked_at s = None" "\<not> after_time (clock e t) (unix_time (as_expires_at s))"
    and "dev_RevokedAt dev = None" "IsEmailAllowed e cfg (dev_Email dev)"
    and "n \<le> t" "t < n'"
  shows "\<exists>s' m t. n \<le> t \<and> t < n' \<and> access_granted e cfg d (clock e t) token s' m \<and>
    scan_access_session s = scan_access_session s' \<and> scan_mobile_device m = Inr dev"
proof -
  have "access_granted e cfg d (clock e t) token s m"
    using assms by (auto simp: access_granted_def after_time_def
        dest!: sql_first_SomeD scan_mobile_device_InrD)
  then show ?thesis using assms by blast
qed

lemma scanned_InrD:
  "map_sum g id (map_sum id Some x) = Inr (Some a) \<Longrightarrow> x = Inr a"
  by (cases x) auto

lemma wp_check_token_sound:
  assumes "idle w"
  shows "wp (check_token e cfg hw token) (\<lambda>r w'. \<forall>dev sess. r = Inr (dev, sess) \<longrightarrow>
     (\<exists>s m t. tick w \<le> t \<and> t < tick w' \<and> access_granted e cfg (db w) (clock e t) token s m \<and>
        sess = scan_access_session s \<and> scan_mobile_device m = Inr dev)) w"
  unfolding check_token_def Let_def
  using assms
  by (auto simp: wp_simps first_row_def wp_any split: option.splits sum.splits dest!: scanned_InrD)
    (rule access_granted_found, assumption+, simp_all)+

lemma wp_check_header:
  "wp (check_header e cfg hw r) Q w =
     (if Header_Get (rq_Header r) ''Authorization'' = [] then
        Q (Inl (http_unauthorized hw ''Missing Authorization header'')) w
      else if \<exists>token. Split (Header_Get (rq_Header r) ''Authorization'') CHR '' '' = [''Bearer'', token]
      then wp (check_token e cfg hw (Split (Header_Get (rq_Header r) ''Authorization'') CHR '' '' ! 1)) Q w
      else Q (Inl (http_unauthorized hw ''Invalid Authorization header'')) w)"
proof -
  have two: "(length parts = 2 \<and> parts ! 0 = ''Bearer'') = (\<exists>token. parts = [''Bearer'', token])"
    for parts :: "string list"
    by (auto simp: length_Suc_conv numeral_2_eq_2)
  show ?thesis
    by (simp add: check_header_def Let_def wp_simps flip: two)
qed

text \<open>The header that carries a bearer token.\<close>

definition bears :: "request \<Rightarrow> string \<Rightarrow> bool" where
  "bears r token \<longleftrightarrow>
     Header_Get (rq_Header r) ''Authorization'' = ''Bearer '' @ token \<and> CHR '' '' \<notin> set token"

lemma bears_iff:
  "bears r token \<longleftrightarrow> Split (Header_Get (rq_Header r) ''Authorization'') CHR '' '' = [''Bearer'', token]"
  by (auto simp: bears_def Split_two)

lemma bears_nonempty: "bears r token \<Longrightarrow> Header_Get (rq_Header r) ''Authorization'' \<noteq> []"
  by (simp add: bears_def)

lemma wp_authenticateDevice:
  assumes "idle w"
    and "tailnet_peer e cfg (tick w) remote \<Longrightarrow>
      Q (Inr (tailnet_device (TailnetIdentity cfg), tailnet_session)) (step_tick w)"
    and "\<And>resp n. resp_Code resp = 401 \<Longrightarrow> tick w \<le> n \<Longrightarrow> Q (Inl resp) (w\<lparr>tick := n\<rparr>)"
    and "\<And>token n. tick w \<le> n \<Longrightarrow> \<not> tailnet_peer e cfg (tick w) remote \<Longrightarrow> bears r token \<Longrightarrow>
      wp (check_token e cfg hw token) Q (w\<lparr>tick := n\<rparr>)"
  shows "wp (authenticateDevice e cfg hw r remote) Q w"
proof -
  have "wp (check_header e cfg hw r) Q (w\<lparr>tick := n\<rparr>)"
    if "tick w \<le> n" "\<not> tailnet_peer e cfg (tick w) remote" for n
    using assms(3)[OF _ that(1)] assms(4)[OF that]
    by (auto simp: wp_check_header bears_iff http_unauthorized_def)
  from this[of "tick w"] this[of "Suc (tick w)"] assms(2) show ?thesis
    by (auto simp: authenticateDevice_def IsPeer_def tailnet_peer_def wp_simps)
qed

subsection \<open>Soundness and completeness\<close>

definition let_through ::
    "env \<Rightarrow> Config \<Rightarrow> request \<Rightarrow> string \<Rightarrow> world \<Rightarrow> world \<Rightarrow> MobileDevice \<times> AccessSession \<Rightarrow> bool" where
  "let_through e cfg r remote w w' = (\<lambda>(dev, sess).
     tailnet_peer e cfg (tick w) remote \<and> dev = tailnet_device (TailnetIdentity cfg) \<and>
       sess = tailnet_session \<or>
     (\<exists>token s m t. bears r token \<and> tick w \<le> t \<and> t < tick w' \<and>
       access_granted e cfg (db w) (clock e t) token s m \<and>
       sess = scan_access_session s \<and> scan_mobile_device m = Inr dev))"

lemma wp_authenticateDevice_sound:
  assumes "idle w"
  shows "wp (authenticateDevice e cfg hw r remote)
    (\<lambda>res w'. \<forall>a. res = Inr a \<longrightarrow> let_through e cfg r remote w w' a) w"
proof (rule wp_authenticateDevice[OF assms])
  fix token n
  assume n: "tick w \<le> n" and t: "bears r token"
  have "idle (w\<lparr>tick := n\<rparr>)" using assms by simp
  from wp_check_token_sound[OF this, of e cfg hw token] t n
  show "wp (check_token e cfg hw token)
      (\<lambda>res w'. \<forall>a. res = Inr a \<longrightarrow> let_through e cfg r remote w w' a) (w\<lparr>tick := n\<rparr>)"
    by (elim wp_mono) (fastforce simp: let_through_def intro: le_trans)
qed (simp_all add: let_through_def)

text \<open>
  C10. A request is let through only on behalf of a tailnet peer (under the configured identity), or
  when it carries a bearer token for which the database holds an unrevoked session that has not
  expired at a moment of this very check, of an unrevoked device whose e-mail address is allowed; the
  device and the session handed on are those rows.
\<close>

theorem authenticateDevice_sound:
  assumes "idle w"
    and "returns (authenticateDevice e cfg hw r remote) w = Inr (dev, sess)"
  shows "tailnet_peer e cfg (tick w) remote \<and> dev = tailnet_device (TailnetIdentity cfg) \<and>
      sess = tailnet_session \<or>
    (\<exists>token s m t. bears r token \<and> tick w \<le> t \<and>
      t < tick (leaves (authenticateDevice e cfg hw r remote) w) \<and>
      access_granted e cfg (db w) (clock e t) token s m \<and>
      sess = scan_access_session s \<and> scan_mobile_device m = Inr dev)"
  using wp_authenticateDevice_sound[OF assms(1), of e cfg hw r remote] assms(2)
  by (simp add: wp_result let_through_def)

theorem authenticateDevice_sound_witness:
  "\<exists>token s m. bears sample_request token \<and>
     access_granted sample_env sample_config (db sample_world) (unix_time 1000) token s m \<and>
     scan_access_session sample_access = scan_access_session s"
proof -
  have "returns (authenticateDevice sample_env sample_config no_headers sample_request ''x'')
      sample_world = Inr (projr (scan_mobile_device sample_device), scan_access_session sample_access)"
    by code_simp
  from authenticateDevice_sound[OF idle_sample this] show ?thesis
    by (simp add: tailnet_peer_def sample_config_def) (auto simp: sample_env_def)
qed

text \<open>A token's session and device as the checks of the proxy find them.\<close>

definition holds_session ::
    "env \<Rightarrow> Config \<Rightarrow> tables \<Rightarrow> string \<Rightarrow> access_session_row \<Rightarrow> mobile_device_row \<Rightarrow> bool" where
  "holds_session e cfg d token s m \<longleftrightarrow>
     s \<in> set (access_sessions d) \<and> as_token_hash s = HashSecret e cfg token \<and>
     (\<forall>s' \<in> set (access_sessions d). as_token_hash s' = as_token_hash s \<longrightarrow> s' = s) \<and>
     as_revoked_at s = None \<and> (\<forall>t. clock e t \<le> unix_time (as_expires_at s)) \<and>
     keys_distinct md_id (mobile_devices d) \<and>
     m \<in> set (mobile_devices d) \<and> md_id m = as_device_id s \<and> md_revoked_at m = None \<and>
     md_metadata m \<noteq> None"

lemma holds_session_found:
  assumes "holds_session e cfg d token s m"
  shows "sql_first (\<lambda>r. as_token_hash r = HashSecret e cfg token) (access_sessions d) = Some s"
    and "sql_first (\<lambda>r. md_id r = as_device_id s) (mobile_devices d) = Some m"
proof -
  have s: "s \<in> set (access_sessions d)" "as_token_hash s = HashSecret e cfg token"
    "\<And>s'. s' \<in> set (access_sessions d) \<Longrightarrow> as_token_hash s' = as_token_hash s \<Longrightarrow> s' = s"
    using assms by (auto simp: holds_session_def)
  show "sql_first (\<lambda>r. as_token_hash r = HashSecret e cfg token) (access_sessions d) = Some s"
  proof (cases "sql_first (\<lambda>r. as_token_hash r = HashSecret e cfg token) (access_sessions d)")
    case None
    then show ?thesis using s(1,2) sql_first_NoneD by fastforce
  next
    case (Some s')
    then show ?thesis using s(2) s(3)[of s'] sql_first_SomeD[OF Some] by simp
  qed
  show "sql_first (\<lambda>r. md_id r = as_device_id s) (mobile_devices d) = Some m"
    using assms sql_first_key[of md_id "mobile_devices d" m] by (simp add: holds_session_def)
qed

lemma wp_check_token_found:
  assumes "idle w" and "no_db_faults e" and "holds_session e cfg (db w) token s m"
    and "scan_mobile_device m = Inr dev"
    and "IsEmailAllowed e cfg (md_email m) \<Longrightarrow>
      Q (Inr (dev, scan_access_session s)) (w\<lparr>tick := tick w + 5,
        db := update_mobile_devices (\<lambda>r. md_id r = md_id m)
          (\<lambda>r. r\<lparr>md_last_seen_at := to_unix (clock e (tick w + 3))\<rparr>) (db w)\<rparr>)"
    and "\<not> IsEmailAllowed e cfg (md_email m) \<Longrightarrow>
      wp (do { RevokeAllSessionsForDevice e (md_id m);
               CreateAuditEvent e ''proxy_denied'' (md_id m) (as_id s) (md_email m)
                 ''email_not_allowed'' ''Email no longer in allow list'';
               return (Inl (http_unauthorized hw ''Email not authorized'')) }) Q
        (w\<lparr>tick := tick w + 3\<rparr>)"
  shows "wp (check_token e cfg hw token) Q w"
proof -
  have "as_revoked_at s = None" "md_id m = as_device_id s" "md_revoked_at m = None"
    "\<And>t. \<not> after_time (clock e t) (unix_time (as_expires_at s))"
    using assms(3) by (auto simp: holds_session_def after_time_def not_less)
  with assms holds_session_found[OF assms(3)] scan_mobile_device_InrD[OF assms(4)] show ?thesis
    by (simp add: check_token_def Let_def wp_simps first_row_def eval_nat_numeral)
qed

lemma wp_not_tailnet:
  assumes "\<not> tailnet_peer e cfg (tick w) remote"
    and "\<And>n. tick w \<le> n \<Longrightarrow> wp (check_header e cfg hw r) Q (w\<lparr>tick := n\<rparr>)"
  shows "wp (authenticateDevice e cfg hw r remote) Q w"
  using assms(1) assms(2)[of "tick w"] assms(2)[of "Suc (tick w)"]
  by (auto simp: authenticateDevice_def IsPeer_def tailnet_peer_def wp_simps)

text \<open>
  C21. Whoever presents such a token is let through when the database works, and the check changes
  nothing in it but the device's last-seen time.
\<close>

theorem authenticateDevice_complete:
  assumes "idle w" and "no_db_faults e" and "\<not> tailnet_peer e cfg (tick w) remote"
    and "bears r token" and "holds_session e cfg (db w) token s m"
    and "IsEmailAllowed e cfg (md_email m)"
  shows "wp (authenticateDevice e cfg hw r remote) (\<lambda>res w'. \<exists>dev now.
    scan_mobile_device m = Inr dev \<and> res = Inr (dev, scan_access_session s) \<and>
    db w' = update_mobile_devices (\<lambda>r. md_id r = md_id m) (\<lambda>r. r\<lparr>md_last_seen_at := now\<rparr>)
      (db w)) w"
proof -
  obtain dev where dev: "scan_mobile_device m = Inr dev"
    using assms(5) by (auto simp: holds_session_def scan_mobile_device_def scan_text_def)
  then show ?thesis
    using bears_nonempty[OF assms(4)] assms(1,2,4-6)
    by (intro wp_not_tailnet[OF assms(3)])
      (auto simp: wp_check_header bears_iff intro!: wp_check_token_found[OF _ _ _ dev])
qed

lemma holds_session_sample: "holds_session sample_env sample_config sample_tables ''tok'' sample_access sample_device"
  by (simp add: holds_session_def sample_tables_def sample_access_def sample_device_def
      keys_distinct_def sample_env_def unix_time_def Second_def)

lemma bears_sample: "bears sample_request ''tok''"
  unfolding bears_iff by code_simp

lemma sample_not_tailnet: "\<not> tailnet_peer e sample_config t ip"
  by (simp add: tailnet_peer_def sample_config_def)

lemma no_db_faults_sample [simp]: "no_db_faults sample_env"
  by (simp add: no_db_faults_def sample_env_def)

lemma db_sample_world [simp]: "db sample_world = sample_tables"
  by (simp add: sample_world_def)

theorem authenticateDevice_complete_witness:
  "\<exists>dev. returns (authenticateDevice sample_env sample_config no_headers sample_request ''x'')
     sample_world = Inr (dev, scan_access_session sample_access)"
proof -
  have "IsEmailAllowed sample_env sample_config (md_email sample_device)"
    by code_simp
  moreover have "holds_session sample_env sample_config (db sample_world) ''tok'' sample_access
      sample_device"
    using holds_session_sample by simp
  ultimately show ?thesis
    using authenticateDevice_complete[OF idle_sample no_db_faults_sample sample_not_tailnet
        bears_sample] by (fastforce simp: wp_result)
qed

lemma cut_off_no_grant:
  assumes "cut_off (db w) k" and "idle w" and "\<not> tailnet_peer e cfg (tick w) remote"
    and "returns (authenticateDevice e cfg hw r remote) w = Inr (dev, sess)"
  shows "dev_ID dev \<noteq> k"
  using wp_authenticateDevice_sound[OF assms(2), of e cfg hw r remote] assms
  by (auto simp: wp_result let_through_def access_granted_def cut_off_def
      dest!: scan_mobile_device_InrD)

lemma refusal_codes:
  assumes "idle w"
  shows "wp (authenticateDevice e cfg hw r remote) (\<lambda>res w'. \<forall>resp. res = Inl resp \<longrightarrow> resp_Code resp \<in> {401, 500}) w"
proof (rule wp_authenticateDevice[OF assms], goal_cases)
  case (3 token n)
  then show ?case
    using assms
    by (auto simp: check_token_def Let_def wp_simps http_unauthorized_def internal_error_def
        split: option.splits sum.splits intro!: wp_RevokeAllSessionsForDevice wp_CreateAuditEvent)
qed simp_all

lemma dropped_not_through:
  assumes "holds_session e cfg (db w) token s m" and "\<not> IsEmailAllowed e cfg (md_email m)"
    and "\<not> tailnet_peer e cfg (tick w) remote" and "bears r token"
  shows "\<not> let_through e cfg r remote w w' a"
proof
  assume "let_through e cfg r remote w w' a"
  then obtain token' s' m' t where got: "bears r token'" "access_granted e cfg (db w) (clock e t) token' s' m'"
    using assms(3) by (auto simp: let_through_def split: prod.splits)
  have "token' = token" using got(1) assms(4) by (simp add: bears_def)
  then have "s' = s" "m' = m"
    using got(2) assms(1) keys_distinct_eq[of md_id "mobile_devices (db w)" m' m]
    by (auto simp: access_granted_def holds_session_def)
  then show False using got(2) assms(2) by (simp add: access_granted_def)
qed

text \<open>
  C12. A device whose e-mail address has left the allow list is refused, with a stored access token that is
  neither revoked nor, whatever the clock says, expired, and whatever fails. When the database works the
  answer is 401 and every session of the device is revoked: whatever the allow list says later, the next
  request with any token of that device is refused too. When the database does not work the revocation may
  fail, which the code ignores.
\<close>

theorem dropped_email_cuts_off:
  assumes "idle w" and "\<not> tailnet_peer e cfg (tick w) remote"
    and "bears r token" and "holds_session e cfg (db w) token s m"
    and "\<not> IsEmailAllowed e cfg (md_email m)"
  shows "wp (authenticateDevice e cfg hw r remote) (\<lambda>res w'.
    (\<exists>resp. res = Inl resp \<and> resp_Code resp \<in> {401, 500} \<and> (no_db_faults e \<longrightarrow> resp_Code resp = 401)) \<and>
    (no_db_faults e \<longrightarrow> cut_off (db w') (md_id m) \<and>
      (\<forall>cfg' hw' r' remote' dev sess. \<not> tailnet_peer e cfg' (tick w') remote' \<longrightarrow>
         returns (authenticateDevice e cfg' hw' r' remote') w' = Inr (dev, sess) \<longrightarrow>
         dev_ID dev \<noteq> md_id m))) w"
proof -
  obtain dev where dev: "scan_mobile_device m = Inr dev"
    using assms(4) by (auto simp: holds_session_def scan_mobile_device_def scan_text_def)
  have refused: "\<exists>resp. returns (authenticateDevice e cfg hw r remote) w = Inl resp \<and> resp_Code resp \<in> {401, 500}"
    using wp_authenticateDevice_sound[OF assms(1), of e cfg hw r remote] refusal_codes[OF assms(1), of e cfg hw r remote]
      dropped_not_through[OF assms(4,5,2,3)]
    by (cases "returns (authenticateDevice e cfg hw r remote) w") (auto simp: wp_result)
  have "wp (authenticateDevice e cfg hw r remote) (\<lambda>res w'.
      (\<exists>resp. res = Inl resp \<and> resp_Code resp = 401) \<and> idle w' \<and> cut_off (db w') (md_id m)) w" if "no_db_faults e"
    using bears_nonempty[OF assms(3)] assms(1,3-5) that
    by (intro wp_not_tailnet[OF assms(2)])
      (auto simp: wp_check_header bears_iff wp_bind wp_return wp_RevokeAllSessionsForDevice_ok
        cut_off_revoked http_unauthorized_def
        intro!: wp_check_token_found[OF _ _ _ dev] wp_CreateAuditEvent)
  then show ?thesis
    using refused unfolding wp_result by (auto dest: cut_off_no_grant)
qed

theorem dropped_email_cuts_off_witness:
  "wp (authenticateDevice sample_env (sample_config\<lparr>AllowedEmails := [''other@b.org'']\<rparr>) no_headers
     sample_request ''x'') (\<lambda>res w'. isl res \<and> cut_off (db w') ''dev1'') sample_world"
proof -
  let ?cfg = "sample_config\<lparr>AllowedEmails := [''other@b.org'']\<rparr>"
  have dropped: "\<not> IsEmailAllowed sample_env ?cfg (md_email sample_device)"
    by code_simp
  have held: "holds_session sample_env ?cfg (db sample_world) ''tok'' sample_access sample_device"
    using holds_session_sample by (simp add: holds_session_def HashSecret_def)
  have no_peer: "\<not> tailnet_peer sample_env ?cfg (tick sample_world) ''x''"
    by (simp add: tailnet_peer_def sample_config_def)
  show ?thesis
    by (rule wp_mono[OF dropped_email_cuts_off[OF idle_sample no_peer bears_sample held dropped]])
      (auto simp: sample_device_def)
qed

subsection \<open>The plain HTTP path\<close>

lemma path_denied_iff:
  "path_denied ps path \<longleftrightarrow> (\<exists>p \<in> set ps. path = p \<or> prefix (p @ ''/'') path)"
  by (induction ps) (auto simp: HasPrefix_prefix)

text \<open>
  C17. The plain HTTP path forwards only a GET or HEAD for a path outside \<^verbatim>\<open>/api\<close>, \<^verbatim>\<open>/v1\<close>, \<^verbatim>\<open>/plugins\<close>
  and \<^verbatim>\<open>/mcp\<close>, for a device that was let through, with that device's e-mail address as the only
  \<^verbatim>\<open>X-Forwarded-Email\<close> whatever the client sent, and with no other header changed.
\<close>

theorem HandleHTTP_forwards:
  assumes "idle w" and "returns (HandleHTTP e cfg hw r) w = Forwarded q"
  shows "rq_Method r \<in> {''GET'', ''HEAD''} \<and>
    (\<forall>p \<in> {''/api'', ''/v1'', ''/plugins'', ''/mcp''}.
       rq_Path r \<noteq> p \<and> \<not> prefix (p @ ''/'') (rq_Path r)) \<and>
    (\<exists>dev sess. let_through e cfg r (clientIP r) w (leaves (HandleHTTP e cfg hw r) w) (dev, sess) \<and>
       Mapping.lookup (rq_Header q) ''X-Forwarded-Email'' = Some [dev_Email dev]) \<and>
    rq_Method q = rq_Method r \<and> rq_Path q = rq_Path r \<and> rq_Host q = Hostname cfg \<and>
    (\<forall>k. k \<noteq> ''X-Forwarded-Email'' \<longrightarrow>
       Mapping.lookup (rq_Header q) k = Mapping.lookup (rq_Header r) k)"
proof -
  have key: "CanonicalKey ''X-Forwarded-Email'' = ''X-Forwarded-Email''"
    by code_simp
  have ok: "rq_Method r \<in> {''GET'', ''HEAD''}"
    "\<not> path_denied httpProxyDeniedPathPrefixes (rq_Path r)"
    using assms(2) by (auto simp: HandleHTTP_def Let_def split: if_splits)
  have "wp (HandleHTTP e cfg hw r) (\<lambda>res w'. \<forall>q. res = Forwarded q \<longrightarrow>
      (\<exists>dev sess. let_through e cfg r (clientIP r) w w' (dev, sess) \<and>
        q = r\<lparr>rq_Header := Header_Set (rq_Header r) ''X-Forwarded-Email'' (dev_Email dev),
              rq_Host := Hostname cfg\<rparr>)) w"
    using ok wp_authenticateDevice_sound[OF assms(1), of e cfg hw r "clientIP r"]
    by (auto simp: HandleHTTP_def Let_def wp_on_err wp_return elim!: wp_mono split: sum.splits) blast+
  then show ?thesis
    using assms(2) ok
    by (auto simp: wp_result path_denied_iff httpProxyDeniedPathPrefixes_def Header_Set_def key
        lookup_update')
qed

text \<open>
  C38. With the tailnet bypass on, the address asked about is the one in the client's own
  \<^verbatim>\<open>X-Forwarded-For\<close>: whoever names a tailnet peer there, from whatever address and without a
  token, is forwarded to the Gateway under the tailnet identity.
\<close>

theorem tailnet_bypass_by_header:
  assumes "TailnetEnabled cfg" and "TailnetSocket cfg \<noteq> []"
    and "peer \<noteq> []" and "CHR '','' \<notin> set peer" and "TrimSpace peer = peer"
    and "whois_ok e (tick w) (TailnetSocket cfg) peer"
    and "rq_Method r = ''GET''" and "\<not> path_denied httpProxyDeniedPathPrefixes (rq_Path r)"
  shows "\<exists>q. returns (HandleHTTP e cfg hw
      (r\<lparr>rq_Header := Header_Set (rq_Header r) ''X-Forwarded-For'' peer, rq_RemoteAddr := anywhere\<rparr>)) w =
      Forwarded q \<and>
    Header_Get (rq_Header q) ''X-Forwarded-Email'' = TailnetIdentity cfg"
proof -
  let ?r = "r\<lparr>rq_Header := Header_Set (rq_Header r) ''X-Forwarded-For'' peer, rq_RemoteAddr := anywhere\<rparr>"
  have "clientIP ?r = peer"
    using assms(3-5) by (simp add: clientIP_def Let_def Split_no_sep)
  then have "wp (HandleHTTP e cfg hw ?r) (\<lambda>res w'. \<exists>q. res = Forwarded q \<and>
      Header_Get (rq_Header q) ''X-Forwarded-Email'' = TailnetIdentity cfg) w"
    using assms
    by (simp add: HandleHTTP_def authenticateDevice_def IsPeer_def tailnet_device_def Let_def wp_simps)
  then show ?thesis by (simp add: wp_result)
qed

theorem tailnet_bypass_by_header_witness:
  "\<exists>q. returns (HandleHTTP sample_env (sample_config\<lparr>TailnetEnabled := True\<rparr>) no_headers
      (sample_request\<lparr>rq_Header := Header_Set (rq_Header sample_request) ''X-Forwarded-For'' ''100.64.0.7'',
         rq_RemoteAddr := ''203.0.113.9:4711''\<rparr>)) sample_world = Forwarded q \<and>
    Header_Get (rq_Header q) ''X-Forwarded-Email'' = TailnetIdentity (sample_config\<lparr>TailnetEnabled := True\<rparr>)"
  by (rule tailnet_bypass_by_header) code_simp+

theorem HandleHTTP_forwards_witness:
  "\<exists>q. returns (HandleHTTP sample_env sample_config no_headers sample_request) sample_world = Forwarded q \<and>
    rq_Host q = Hostname sample_config \<and>
    (\<forall>k. k \<noteq> ''X-Forwarded-Email'' \<longrightarrow>
       Mapping.lookup (rq_Header q) k = Mapping.lookup (rq_Header sample_request) k)"
proof -
  let ?q = "sample_request\<lparr>rq_Header := Header_Set (rq_Header sample_request) ''X-Forwarded-Email'' ''A@b.org'',
    rq_Host := ''mobile.claw.example.org''\<rparr>"
  have "returns (HandleHTTP sample_env sample_config no_headers sample_request) sample_world = Forwarded ?q"
    by code_simp
  from HandleHTTP_forwards[OF idle_sample this] this show ?thesis by blast
qed

end
