(* ===== verification/Relaying.thy ===== *)
theory Relaying
  imports WebSocket ProxyAccess
begin

text \<open>
  The WebSocket path: who is connected to the Gateway and under which identity, and what the relay
  guarantees whatever the two peers do.
\<close>

subsection \<open>Who is connected\<close>

definition connected_as ::
    "env \<Rightarrow> WebSocketProxy \<Rightarrow> request \<Rightarrow> world \<Rightarrow> world \<Rightarrow> string \<Rightarrow> header_map \<Rightarrow> MobileDevice \<Rightarrow> AccessSession \<Rightarrow> bool" where
  "connected_as e p r w w' url hs dev sess \<longleftrightarrow>
     let_through e (px_config p) r (clientIP r) w w' (dev, sess) \<and>
     url = gateway_ws_url (GatewayServiceURL (px_config p)) \<and>
     hs = gateway_headers (px_config p) dev (clientIP r) r"

lemma let_through_later: "let_through e cfg r remote w w1 a \<Longrightarrow> tick w1 \<le> tick w2 \<Longrightarrow> let_through e cfg r remote w w2 a"
  by (fastforce simp: let_through_def)

lemma wp_open_session:
  assumes "idle w"
    and "\<And>resp w'. Q (Refused resp) w'" and "\<And>err w'. Q (Upgrade_failed err) w'"
    and "\<And>dev sess w1 n evs. let_through e (px_config p) r (clientIP r) w w1 (dev, sess) \<Longrightarrow> idle w1 \<Longrightarrow>
      tick w1 \<le> n \<Longrightarrow>
      Q (case dial_fault lib (Suc n) (gateway_ws_url (GatewayServiceURL (px_config p)))
            (gateway_headers (px_config p) dev (clientIP r) r) of
          Some err \<Rightarrow> Dial_failed (gateway_ws_url (GatewayServiceURL (px_config p)))
            (gateway_headers (px_config p) dev (clientIP r) r) err
        | None \<Rightarrow> Connected (gateway_ws_url (GatewayServiceURL (px_config p)))
            (gateway_headers (px_config p) dev (clientIP r) r) dev sess)
        (w1\<lparr>tick := Suc (Suc n), db := (db w1)\<lparr>audit_events := evs\<rparr>\<rparr>)"
  shows "wp (open_session e lib p hw r) Q w"
proof -
  let ?auth = "authenticateDevice e (px_config p) hw r (clientIP r)"
  have "idle (leaves ?auth w)"
    using io_relD[OF pool.rel_authenticateDevice assms(1) prod.collapse[symmetric]] by blast
  then have "wp ?auth (\<lambda>res w'. idle w' \<and>
      (\<forall>a. res = Inr a \<longrightarrow> let_through e (px_config p) r (clientIP r) w w' a)) w"
    using wp_authenticateDevice_sound[OF assms(1)] by (simp add: wp_result)
  then show ?thesis
    unfolding open_session_def Let_def wp_on_err
    by (rule wp_mono)
      (auto simp: wp_bind wp_return wp_next_tick assms(2,3) split: sum.splits option.splits
        intro!: wp_CreateAuditEvent, (frule (2) assms(4), simp)+)
qed

text \<open>
  The Gateway is dialled only on behalf of a request that was let through, at the configured
  service with its scheme turned into a WebSocket one, and with the headers that name the identity of
  that device.
\<close>

lemma websocket_authenticated:
  assumes "idle w"
  shows "wp (open_session e lib p hw r) (\<lambda>out w'. case out of
      Connected url hs dev sess \<Rightarrow> connected_as e p r w w' url hs dev sess
    | Dial_failed url hs err \<Rightarrow> \<exists>dev sess. connected_as e p r w w' url hs dev sess
    | _ \<Rightarrow> True) w"
proof (rule wp_open_session[OF assms], goal_cases)
  case (3 dev sess w1 n evs)
  then have "connected_as e p r w (w1\<lparr>tick := Suc (Suc n), db := (db w1)\<lparr>audit_events := evs\<rparr>\<rparr>)
      (gateway_ws_url (GatewayServiceURL (px_config p)))
      (gateway_headers (px_config p) dev (clientIP r) r) dev sess"
    by (auto simp: connected_as_def intro: let_through_later)
  then show ?case by (auto split: option.splits)
qed simp_all

definition sample_lib :: websocket_lib where
  "sample_lib = \<lparr>upgrade_fault = (\<lambda>t u r. None), dial_fault = (\<lambda>t url hs. None)\<rparr>"

definition sample_proxy :: WebSocketProxy where
  "sample_proxy = projr (NewWebSocketProxy sample_env sample_config)"

lemma forwarded_keys:
  "map CanonicalKey [''X-Forwarded-Email'', ''X-Forwarded-For'', ''X-Forwarded-Proto'',
     ''X-Forwarded-Host'', ''Host'', ''Origin'', ''User-Agent''] =
   [''X-Forwarded-Email'', ''X-Forwarded-For'', ''X-Forwarded-Proto'', ''X-Forwarded-Host'', ''Host'',
     ''Origin'', ''User-Agent'']"
  by code_simp

lemma Header_Get_copy:
  "Header_Get (copy_header src k dst) k' =
     (if CanonicalKey k = CanonicalKey k' \<and> Header_Get src k \<noteq> [] then Header_Get src k
      else Header_Get dst k')"
  by (auto simp: copy_header_def Let_def Header_Get_def Header_Set_def lookup_update')

lemma Header_Get_Set:
  "Header_Get (Header_Set h k v) k' = (if CanonicalKey k = CanonicalKey k' then v else Header_Get h k')"
  by (simp add: Header_Get_def Header_Set_def lookup_update')

lemma no_headers_simps [simp]: "Header_Get no_headers k = []" "Mapping.keys no_headers = {}"
  by (simp_all add: Header_Get_def no_headers_def)

lemma keys_Header_Set: "Mapping.keys (Header_Set h k v) = insert (CanonicalKey k) (Mapping.keys h)"
  by (simp add: Header_Set_def)

text \<open>
  The headers of the handshake: identity, protocol and host are the broker's, whatever the client has sent
  under these names; Origin and User-Agent are the client's. So is, in effect, \<open>remote\<close>: the handler passes
  \<open>clientIP r\<close>, which is the first entry of the client's own \<^verbatim>\<open>X-Forwarded-For\<close> when there is one.
\<close>

lemma gateway_handshake_headers:
  "let hs = gateway_headers cfg dev remote r in
    Header_Get hs ''X-Forwarded-Email'' = dev_Email dev \<and>
    Header_Get hs ''X-Forwarded-For'' = remote \<and> Header_Get hs ''X-Forwarded-Proto'' = ''https'' \<and>
    Header_Get hs ''X-Forwarded-Host'' = Hostname cfg \<and> Header_Get hs ''Host'' = Hostname cfg \<and>
    Header_Get hs ''Origin'' = Header_Get (rq_Header r) ''Origin'' \<and>
    Header_Get hs ''User-Agent'' = Header_Get (rq_Header r) ''User-Agent'' \<and>
    Mapping.keys hs \<subseteq> {''X-Forwarded-Email'', ''X-Forwarded-For'', ''X-Forwarded-Proto'',
      ''X-Forwarded-Host'', ''Host'', ''Origin'', ''User-Agent''}"
  using forwarded_keys
  by (auto simp: gateway_headers_def Let_def Header_Get_copy Header_Get_Set copy_header_def
      keys_Header_Set split: if_splits)

subsection \<open>What the relay guarantees\<close>

text \<open>
  C19. However the two goroutines interleave, each peer receives what the other sent, in order, without
  gaps and repetitions; at most one message is under way in each direction, and none exceeds the
  configured size.
\<close>

theorem relay_in_order:
  assumes "s \<in> relay_reachable limit"
  shows "prefix (put (gateway s)) (got (client s)) \<and> length (got (client s)) \<le> Suc (length (put (gateway s))) \<and>
    prefix (put (client s)) (got (gateway s)) \<and> length (got (gateway s)) \<le> Suc (length (put (client s))) \<and>
    (limit \<le> 0 \<or> (\<forall>m \<in> set (put (gateway s)) \<union> set (put (client s)). int (length (snd m)) \<le> limit))"
proof -
  have "direction_ok limit (upward s) (client s) (gateway s)"
    "direction_ok limit (downward s) (gateway s) (client s)"
    using relay_ok_reachable[OF assms] by (auto simp: relay_ok_def)
  from this[THEN direction_in_order] show ?thesis by auto
qed

text \<open>A session in which the client sends one message and goes away.\<close>

definition after_goodbye :: relay where
  "after_goodbye = relay_start
     \<lparr>client := dialled\<lparr>got := [(1, [72, 105])], errs := [CloseError 1001 ''going away''], conn_open := False\<rparr>,
      gateway := dialled\<lparr>put := [(1, [72, 105])], controls := [Close 1001 ''going away''], conn_open := False\<rparr>,
      upward := Gone, once := True, done_closes := 1, returned := True\<rparr>"

lemma after_goodbye_reachable: "after_goodbye \<in> relay_reachable 16777216"
proof -
  let ?R = "relay_reachable 16777216" and ?m = "(1, [72, 105]) :: ws_message"
  have up: "s\<lparr>upward := p, client := c, gateway := g\<rparr> \<in> ?R"
    if "s \<in> ?R" "pump_step 16777216 (upward s, client s, gateway s) (p, c, g)" for s p c g
    using that by (blast intro: relay_reachable.step relay_step.up)
  have 1: "relay_start\<lparr>upward := Writing ?m, client := dialled\<lparr>got := [?m]\<rparr>, gateway := dialled\<rparr> \<in> ?R"
    by (rule up[OF relay_reachable.start]) (simp add: relay_start_def dialled_def)
  have 2: "relay_start\<lparr>upward := Reading, client := dialled\<lparr>got := [?m]\<rparr>, gateway := dialled\<lparr>put := [?m]\<rparr>\<rparr> \<in> ?R"
    using up[OF 1, of Reading "dialled\<lparr>got := [?m]\<rparr>" "dialled\<lparr>put := [?m]\<rparr>"] by (simp add: dialled_def)
  have 3: "relay_start\<lparr>upward := Leaving,
      client := dialled\<lparr>got := [?m], errs := [CloseError 1001 ''going away'']\<rparr>,
      gateway := dialled\<lparr>put := [?m], controls := [Close 1001 ''going away'']\<rparr>\<rparr> \<in> ?R"
    using up[OF 2, of Leaving "dialled\<lparr>got := [?m], errs := [CloseError 1001 ''going away'']\<rparr>"
      "dialled\<lparr>put := [?m], controls := [Close 1001 ''going away'']\<rparr>"]
    by (fastforce simp: dialled_def forwardCloseCode_def)
  have 4: "closeDone (relay_start\<lparr>
      client := dialled\<lparr>got := [?m], errs := [CloseError 1001 ''going away'']\<rparr>,
      gateway := dialled\<lparr>put := [?m], controls := [Close 1001 ''going away'']\<rparr>, upward := Gone\<rparr>) \<in> ?R" (is "?s \<in> _")
    using relay_reachable.step[OF 3 relay_step.up_leaves] by simp
  have "relay_step 16777216 ?s after_goodbye"
    using relay_step.returns[of ?s 16777216]
    by (simp add: after_goodbye_def closeDone_def relay_start_def hang_up_def)
  with 4 show ?thesis by (rule relay_reachable.step)
qed

theorem relay_in_order_witness:
  "prefix (put (gateway after_goodbye)) (got (client after_goodbye)) \<and> put (gateway after_goodbye) \<noteq> []"
  using relay_in_order[OF after_goodbye_reachable] by (simp add: after_goodbye_def)

text \<open>
  C13. The relay implements two independent channels: every step of it is a step of one of them, or
  changes nothing that can be seen of them.
\<close>

theorem relay_refines_channels:
  assumes "s \<in> relay_reachable limit" and "relay_step limit s s'"
  shows "channels s' = channels s \<or> channels_step (channels s) (channels s')"
proof -
  have ok: "direction_ok limit (upward s) (client s) (gateway s)"
    "direction_ok limit (downward s) (gateway s) (client s)"
    using relay_ok_reachable[OF assms(1)] by (auto simp: relay_ok_def)
  from assms(2) show ?thesis
  proof (cases rule: relay_step.cases)
    case (up p c g)
    then show ?thesis
      using pump_step_channel[OF up(2) ok(1)] pump_step_channel_other[OF up(2)]
      by (auto simp: channels_def intro: channels_step.first)
  next
    case (down p g c)
    then show ?thesis
      using pump_step_channel[OF down(2) ok(2)] pump_step_channel_other[OF down(2)]
      by (auto simp: channels_def intro: channels_step.second)
  qed (simp_all add: channels_def channel_of_leaves)
qed

theorem relay_refines_channels_witness:
  "channels_step (channels relay_start)
     (channels (relay_start\<lparr>upward := Writing (1, [72]), client := dialled\<lparr>got := [(1, [72])]\<rparr>\<rparr>))"
proof -
  have "relay_step 16 relay_start
      (relay_start\<lparr>upward := Writing (1, [72]), client := dialled\<lparr>got := [(1, [72])]\<rparr>, gateway := gateway relay_start\<rparr>)"
    by (rule relay_step.up) (simp add: relay_start_def dialled_def)
  from relay_refines_channels[OF relay_reachable.start this] show ?thesis
    by (simp add: channels_def channel_of_def relay_start_def dialled_def)
qed

text \<open>
  C27. The channel \<open>done\<close> is closed at most once, although both goroutines ask for it, and it is closed
  exactly when one of them has gone; the handler returns only then.
\<close>

theorem done_closed_once:
  assumes "s \<in> relay_reachable limit"
  shows "done_closes s \<le> 1 \<and> (0 < done_closes s \<longleftrightarrow> upward s = Gone \<or> downward s = Gone) \<and>
    (upward s = Gone \<or> downward s = Gone \<or> \<not> returned s)"
  using relay_ok_reachable[OF assms] by (auto simp: relay_ok_def gone_def split: if_splits)

theorem done_closed_once_witness: "done_closes after_goodbye = 1"
  using done_closed_once[OF after_goodbye_reachable] by (simp add: after_goodbye_def)

text \<open>
  C26. The close codes asked for on one side are exactly those that reading the other side has
  returned, at most one: a read that fails otherwise has none made up for it.
\<close>

theorem close_codes_relayed:
  assumes "s \<in> relay_reachable limit"
  shows "closes_asked (gateway s) = closes_read (client s) \<and>
    closes_asked (client s) = closes_read (gateway s) \<and>
    length (closes_asked (gateway s)) \<le> 1 \<and> length (closes_asked (client s)) \<le> 1"
proof -
  have one: "length (concat (map close_of es)) \<le> 1" if "length es \<le> 1" for es
    using that by (cases es) (auto split: read_error.splits, case_tac a, auto)
  have "direction_ok limit (upward s) (client s) (gateway s)"
    "direction_ok limit (downward s) (gateway s) (client s)"
    using relay_ok_reachable[OF assms] by (auto simp: relay_ok_def)
  then show ?thesis
    using one by (auto simp: direction_ok_def closes_read_def split: if_splits)
qed

theorem close_codes_relayed_witness: "closes_asked (gateway after_goodbye) = [(1001, ''going away'')]"
  using close_codes_relayed[OF after_goodbye_reachable]
  by (simp add: after_goodbye_def closes_read_def)

text \<open>
  C28. Once the handler has returned, no run of the goroutines takes more than six further steps:
  neither outlives the connections it was started for.
\<close>

theorem relay_winds_down:
  assumes "s \<in> relay_reachable limit" and "returned s" and "(relay_step limit ^^ n) s s'"
  shows "n \<le> 6"
proof -
  have "pump_rank p \<le> 3" for p
    by (simp add: pump_rank_def split: pump.splits)
  then have "relay_rank s \<le> 6"
    unfolding relay_rank_def by (metis add_mono numeral_Bit0)
  then show ?thesis
    using relay_steps_rank[OF assms(3,2) relay_ok_reachable[OF assms(1)]] by linarith
qed

theorem relay_winds_down_witness: "\<not> (\<exists>s'. (relay_step 16777216 ^^ 7) after_goodbye s')"
proof
  assume "\<exists>s'. (relay_step 16777216 ^^ 7) after_goodbye s'"
  then obtain s' where "(relay_step 16777216 ^^ 7) after_goodbye s'" by blast
  from relay_winds_down[OF after_goodbye_reachable _ this] show False
    by (simp add: after_goodbye_def)
qed

text \<open>
  When either goroutine has ended its loop, whatever the peers do, two more steps of the broker's
  own let the handler return: it never waits for the other side.
\<close>

lemma relay_returns:
  assumes "s \<in> relay_reachable limit" and "\<not> returned s"
    and "upward s \<in> {Leaving, Gone} \<or> downward s \<in> {Leaving, Gone}"
  shows "\<exists>t s'. (relay_step limit)\<^sup>=\<^sup>= s t \<and> relay_step limit t s' \<and> returned s'"
proof -
  have ok: "relay_ok limit s" by (rule relay_ok_reachable[OF assms(1)])
  have exits: "\<exists>s'. relay_step limit t s' \<and> returned s'" if "0 < done_closes t" "\<not> returned t" for t
    using relay_step.returns[OF that] by (intro exI conjI) (assumption, simp)
  have closed: "0 < done_closes (closeDone (s\<lparr>upward := Gone\<rparr>))" "0 < done_closes (closeDone (s\<lparr>downward := Gone\<rparr>))"
    using ok by (auto simp: closeDone_def relay_ok_def)
  have same: "returned (closeDone t) = returned t" for t
    by (simp add: closeDone_def)
  consider "0 < done_closes s" | "upward s = Leaving" | "downward s = Leaving"
    using assms(3) ok by (auto simp: relay_ok_def gone_def)
  then show ?thesis
  proof cases
    case 1
    then show ?thesis using exits[OF 1 assms(2)] by blast
  next
    case 2
    then show ?thesis using exits[OF closed(1)] assms(2) relay_step.up_leaves[OF 2] by (auto simp: same)
  next
    case 3
    then show ?thesis using exits[OF closed(2)] assms(2) relay_step.down_leaves[OF 3] by (auto simp: same)
  qed
qed

definition client_lost :: relay where
  "client_lost = relay_start\<lparr>upward := Leaving, client := dialled\<lparr>errs := [OtherError (Err ''timeout'')]\<rparr>\<rparr>"

end
