(* ===== verification/Broker.thy ===== *)
theory Broker
  imports Ownership Relaying
begin

text \<open>
  The broker as a whole: a step relation over the requests it serves, the relays it has open and the
  periodic removal of expired rows, and the invariants of its reachable states. A request is one step;
  what may happen between the halves of a handler is looked at where it matters.
\<close>

subsection \<open>The broker's steps\<close>

record session =
  ss_device :: MobileDevice
  ss_session :: AccessSession
  ss_relay :: relay

record broker =
  bk_world :: world
  bk_sessions :: "session list"

text \<open>The fixed part: environment, libraries, and what \<open>main_start\<close> has made.\<close>

record deployment =
  dp_env :: env
  dp_ws :: websocket_lib
  dp_mux :: mux_lib
  dp_handler :: Handler
  dp_proxy :: WebSocketProxy

definition serve :: "deployment \<Rightarrow> request \<Rightarrow> served io" where
  "serve dp r = ServeHTTP (dp_env dp) (dp_ws dp) (dp_mux dp) (dp_handler dp) (dp_proxy dp) r"

definition message_limit :: "deployment \<Rightarrow> int" where
  "message_limit dp = MaxMessageSize (px_config (dp_proxy dp))"

definition is_connected :: "served \<Rightarrow> bool" where
  "is_connected out = (case out of To_websocket (Connected url hs dev sess) \<Rightarrow> True | _ \<Rightarrow> False)"

inductive broker_step :: "deployment \<Rightarrow> broker \<Rightarrow> broker \<Rightarrow> bool" for dp where
  answer: "run_state (serve dp r) (bk_world b) = (out, w') \<Longrightarrow> \<not> is_connected out \<Longrightarrow>
    broker_step dp b (b\<lparr>bk_world := w'\<rparr>)"
| connect: "run_state (serve dp r) (bk_world b) = (To_websocket (Connected url hs dev sess), w') \<Longrightarrow>
    broker_step dp b (b\<lparr>bk_world := w', bk_sessions := bk_sessions b @
      [\<lparr>ss_device = dev, ss_session = sess, ss_relay = relay_start\<rparr>]\<rparr>)"
| relay: "i < length (bk_sessions b) \<Longrightarrow>
    relay_step (message_limit dp) (ss_relay (bk_sessions b ! i)) st \<Longrightarrow>
    returned st = returned (ss_relay (bk_sessions b ! i)) \<Longrightarrow>
    broker_step dp b (b\<lparr>bk_sessions := (bk_sessions b)[i := (bk_sessions b ! i)\<lparr>ss_relay := st\<rparr>]\<rparr>)"
| disconnect: "i < length (bk_sessions b) \<Longrightarrow>
    relay_step (message_limit dp) (ss_relay (bk_sessions b ! i)) st \<Longrightarrow>
    returned st \<Longrightarrow> \<not> returned (ss_relay (bk_sessions b ! i)) \<Longrightarrow>
    run_state (close_session (dp_env dp) (ss_device (bk_sessions b ! i)) (ss_session (bk_sessions b ! i)))
      (bk_world b) = (res, w') \<Longrightarrow>
    broker_step dp b (b\<lparr>bk_world := w',
      bk_sessions := (bk_sessions b)[i := (bk_sessions b ! i)\<lparr>ss_relay := st\<rparr>]\<rparr>)"
| cleanup: "run_state (cleanup_tick (dp_env dp)) (bk_world b) = (u, w') \<Longrightarrow>
    broker_step dp b (b\<lparr>bk_world := w'\<rparr>)"

inductive_cases broker_stepE: "broker_step dp b b'"

inductive_set broker_reachable :: "deployment \<Rightarrow> world \<Rightarrow> broker set" for dp w0 where
  start: "\<lparr>bk_world = w0, bk_sessions = []\<rparr> \<in> broker_reachable dp w0"
| step: "b \<in> broker_reachable dp w0 \<Longrightarrow> broker_step dp b b' \<Longrightarrow> b' \<in> broker_reachable dp w0"

text \<open>
  The life of the process, the last part of \<^verbatim>\<open>main\<close>. After a signal \<^verbatim>\<open>srv.Shutdown\<close> lets the requests
  that are under way finish, for thirty seconds at most, while relays and the cleanup go on; it does not
  wait for connections that have become WebSockets. Then the ticker is stopped and \<^verbatim>\<open>main\<close> returns: what
  sessions are open then end with the process. An error of \<^verbatim>\<open>srv.Serve\<close> on one of the listeners, before the
  shutdown, is fatal: the process ends at once (\<open>breaks\<close>). (Requests that are under way then, or after the
  thirty seconds, are cut off between two of their statements: up to there they are commits as well, see
  Commits.)
\<close>

datatype life = Running broker | Draining broker | Stopped world

primrec life_world :: "life \<Rightarrow> world" where
  "life_world (Running b) = bk_world b"
| "life_world (Draining b) = bk_world b"
| "life_world (Stopped w) = w"

inductive life_step :: "deployment \<Rightarrow> life \<Rightarrow> life \<Rightarrow> bool" for dp where
  runs: "broker_step dp b b' \<Longrightarrow> life_step dp (Running b) (Running b')"
| breaks: "life_step dp (Running b) (Stopped (bk_world b))"
| signalled: "life_step dp (Running b) (Draining b)"
| drains: "broker_step dp b b' \<Longrightarrow> life_step dp (Draining b) (Draining b')"
| stops: "life_step dp (Draining b) (Stopped (bk_world b))"

inductive_simps life_step_simps [simp]:
  "life_step dp (Running b) l" "life_step dp (Draining b) l" "life_step dp (Stopped w) l"

text \<open>A relation that the contract of the server promises is kept by every step, and so by every run.\<close>

context server_contract
begin

lemma rel_serve [io_rel]: "state_io_rel (lift_rel T) (serve dp r)"
  unfolding serve_def by (rule rel_ServeHTTP)

lemma broker_step_rel:
  assumes "broker_step dp b b'"
  shows "lift_rel T (bk_world b) (bk_world b')"
proof -
  have run: "lift_rel T w w'" if "state_io_rel (lift_rel T) m" "run_state m w = (a, w')" for m :: "'x io" and w a w'
    using that by (rule state_io_relD)
  show ?thesis
    using assms
    by (elim broker_stepE) (auto simp: refl dest: state_io_relD[OF rel_serve] state_io_relD[OF rel_close_session]
        state_io_relD[OF rel_cleanup_tick])
qed

lemma broker_reachable_rel:
  assumes "b \<in> broker_reachable dp w0" and "idle w0"
  shows "idle (bk_world b) \<and> T (db w0) (db (bk_world b))"
  using assms(1)
proof (induction rule: broker_reachable.induct)
  case start
  then show ?case using assms(2) by (simp add: T_refl)
next
  case (step b b')
  then show ?case
    using broker_step_rel[OF step.hyps(2)] by (auto simp: lift_rel_def intro: T_trans)
qed

lemma life_steps_rel:
  assumes "(life_step dp)\<^sup>*\<^sup>* l l'"
  shows "lift_rel T (life_world l) (life_world l')"
  using assms
proof (induction rule: rtranclp_induct)
  case (step l1 l2)
  have "lift_rel T (life_world l1) (life_world l2)"
    using step.hyps(2) by (cases l1) (auto simp: refl intro: broker_step_rel)
  then show ?case using step.IH trans by blast
qed (rule refl)

end

end
