(* ===== verification/TlsRenewal.thy ===== *)
theory TlsRenewal
  imports TlsCert
begin

text \<open>
  What the certificate manager guarantees: a start that succeeds leaves a usable certificate, the
  listeners never lose it afterwards, a restart finds it again without a new order.
\<close>

lemma wp_renew_check:
  assumes "\<And>n fs os. Q () (w\<lparr>tls_tick := n, files := fs, orders := os\<rparr>)"
    and "\<And>c a b n fs os. issued e m a b c \<Longrightarrow>
      Q () (w\<lparr>tls_tick := n, files := fs, cert := Some c, orders := os\<rparr>)"
  shows "wp (renew_check e m) Q w"
proof -
  have same: "Q () (w\<lparr>tls_tick := n\<rparr>)" for n
    using assms(1)[where fs = "files w" and os = "orders w"] by simp
  have "wp (obtain_cert e m) (\<lambda>_. wp (return ()) Q) (w\<lparr>tls_tick := n\<rparr>)" for n
    by (rule wp_obtain_cert) (simp_all add: assms wp_return)
  from this[of "tls_tick w"] this[of "Suc (tls_tick w)"] show ?thesis
    by (auto simp: renew_check_def wp_simps same split: option.splits)
qed

lemma wp_usable_cached:
  assumes "\<And>n. Q None (w\<lparr>tls_tick := n\<rparr>)"
    and "\<And>c t n. renewBefore \<le> NotAfter c - tls_clock e t \<Longrightarrow> Q (Some c) (w\<lparr>tls_tick := n\<rparr>)"
  shows "wp (usable_cached e m) Q w"
  by (auto simp: usable_cached_def wp_simps assms(1) not_less split: option.splits sum.splits intro!: assms(2))

lemma wp_Start:
  assumes "\<And>err w'. Q (Inl err) w'"
    and "\<And>c w'. cert w' = Some c \<Longrightarrow>
      orders w' = orders w \<and> (\<exists>t. renewBefore \<le> NotAfter c - tls_clock e t) \<or>
        (\<exists>certPEM keyPEM. issued e m certPEM keyPEM c) \<Longrightarrow> Q (Inr ()) w'"
  shows "wp (Start e m) Q w"
proof -
  have obtained: "wp (map_err f (obtain_cert e m)) Q w1" for f w1
    unfolding wp_map_err by (rule wp_obtain_cert) (auto intro: assms)
  show ?thesis
    unfolding Start_def wp_on_err wp_may_fail
    by (auto simp: wp_return wp_bind wp_modify assms(1) split: option.splits
        intro!: wp_usable_cached obtained assms(2))
qed

text \<open>
  C29. However many ticks the renewal loop has had, and whatever failed in them, the listeners still
  have a certificate: the one they had, or one the ACME server has issued for the domain.
\<close>

theorem certificate_never_lost:
  assumes "cert w = Some c"
  shows "wp (renewLoop e m n) (\<lambda>_ w'. \<exists>c'. returns (GetCertificate m) w' = Inr c' \<and>
    (c' = c \<or> (\<exists>certPEM keyPEM. issued e m certPEM keyPEM c'))) w"
proof -
  have served: "returns (GetCertificate m) w' = Inr c'" if "cert w' = Some c'" for w' c'
    using wp_GetCertificate[of m "\<lambda>r _. r = Inr c'" w'] that by (simp add: wp_result)
  have kept: "wp (renewLoop e m n) (\<lambda>_ w'. \<exists>c'. cert w' = Some c' \<and>
      (c' = c \<or> (\<exists>certPEM keyPEM. issued e m certPEM keyPEM c'))) w"
    if "\<exists>c'. cert w = Some c' \<and> (c' = c \<or> (\<exists>certPEM keyPEM. issued e m certPEM keyPEM c'))" for w
    using that
  proof (induction n arbitrary: w)
    case 0
    then show ?case by (simp add: wp_return)
  next
    case (Suc n)
    show ?case
      unfolding renewLoop.simps wp_bind
      by (rule wp_renew_check; rule Suc.IH) (use Suc.prems in auto)
  qed
  show ?thesis
    using assms by (intro wp_mono[OF kept]) (auto simp: served)
qed



text \<open>
  The account key is kept: once it has been loaded or created, every later process that can read
  its file uses the same one.
\<close>

definition key_encoding_ok :: "tls_env \<Rightarrow> bool" where
  "key_encoding_ok e \<longleftrightarrow>
     (\<forall>der. pem_decode e (pem_encode e der) = Some der) \<and>
     (\<forall>key der. marshal_key e key = Inr der \<longrightarrow> parse_key e der = Inr key)"

lemma account_key_kept:
  assumes "key_encoding_ok e" and "\<And>t. read_fault e t (accountKeyPath m) = None"
  shows "wp (loadOrCreateAccountKey e m) (\<lambda>r w'. \<forall>key w2. r = Inr key \<longrightarrow>
    files w2 (accountKeyPath m) = files w' (accountKeyPath m) \<longrightarrow>
    returns (loadOrCreateAccountKey e m) w2 = Inr key) w"
proof -
  have again: "returns (loadOrCreateAccountKey e m) w2 = Inr key"
    if "files w2 (accountKeyPath m) = Some data" "stored_key e data = Some key" for w2 data key
  proof -
    have "wp (loadOrCreateAccountKey e m) (\<lambda>r _. r = Inr key) w2"
      using that assms(2) by (simp add: loadOrCreateAccountKey_def wp_simps)
    then show ?thesis by (simp add: wp_result)
  qed
  have stored: "stored_key e (pem_encode e der) = Some key" if "marshal_key e key = Inr der" for key der
    using that assms(1) by (simp add: stored_key_def key_encoding_ok_def)
  have "wp (loadOrCreateAccountKey e m) (\<lambda>r w'. \<forall>key. r = Inr key \<longrightarrow>
      (\<exists>data. files w' (accountKeyPath m) = Some data \<and> stored_key e data = Some key)) w"
    using assms(2)
    by (auto simp: loadOrCreateAccountKey_def create_account_key_def wp_simps stored
        split: option.splits sum.splits)
  then show ?thesis
    by (rule wp_mono) (metis again)
qed

text \<open>
  The certificate, its private key and the account key are three different files, for every
  domain that is not a path and not called account.
\<close>

lemma cache_paths_distinct:
  assumes "CHR ''/'' \<notin> set (domain m)" and "domain m \<noteq> ''account''"
  shows "distinct [certPath m, keyPath m, accountKeyPath m]"
proof -
  have "domain m @ ''.crt'' \<noteq> ''account.key''"
    using arg_cong[of _ _ last] by fastforce
  moreover have "domain m @ ''.key'' \<noteq> ''account'' @ ''.key''"
    using assms(2) by (metis append_same_eq)
  ultimately show ?thesis
    using plain_names[OF assms(1)]
    by (simp add: certPath_def keyPath_def accountKeyPath_def filepath_Join_inj)
qed

text \<open>Nothing stands in the way of an order: the ACME server answers with a pair that parses.\<close>

definition acme_works :: "tls_env \<Rightarrow> Manager \<Rightarrow> bool" where
  "acme_works e m \<longleftrightarrow>
     (\<forall>t. client_fault e t = None \<and> provider_fault e t = None \<and> dns01_fault e t = None \<and>
        register_fault e t = None \<and> (\<forall>p. write_result e t p = None) \<and>
        (\<exists>key der. fresh_key e t = Inr key \<and> marshal_key e key = Inr der)) \<and>
     (\<forall>t key. \<exists>certPEM keyPEM c. order_result e t (the_order m key) = Inr (certPEM, keyPEM) \<and>
        parse_pair e id id certPEM keyPEM = Inr c)"

lemma wp_account_key_works:
  assumes "acme_works e m" and "\<And>key n fs. Q (Inr key) (w\<lparr>tls_tick := n, files := fs\<rparr>)"
  shows "wp (loadOrCreateAccountKey e m) Q w"
proof -
  have same: "Q (Inr key) (w\<lparr>tls_tick := n\<rparr>)" for key n
    using assms(2)[where fs = "files w"] by simp
  have new: "\<exists>key der. fresh_key e t = Inr key \<and> marshal_key e key = Inr der" "write_result e t p = None" for t p
    using assms(1) by (auto simp: acme_works_def)
  show ?thesis
    using new(1)[of "Suc (tls_tick w)"]
    by (auto simp: loadOrCreateAccountKey_def create_account_key_def wp_simps new(2)
        split: option.splits intro!: assms(2) same)
qed

text \<open>
  C31. A certificate that is due is replaced at the next tick at which nothing stands in the way: the
  listeners then have the one just issued for the domain, and its order named that domain, the
  configured account and server.
\<close>

theorem renewal_when_due:
  assumes "cert w = Some c" and "NotAfter c - tls_clock e (tls_tick w) < renewBefore" and "acme_works e m"
  shows "wp (renew_check e m) (\<lambda>_ w'. \<exists>c' certPEM keyPEM key.
    cert w' = Some c' \<and> issued e m certPEM keyPEM c' \<and> orders w' = orders w @ [the_order m key] \<and>
    or_domains (the_order m key) = [domain m] \<and> or_staging (the_order m key) = staging m) w"
proof -
  have free: "client_fault e t = None" "provider_fault e t = None" "dns01_fault e t = None"
    "register_fault e t = None" "write_result e t p = None" for t p
    using assms(3) by (auto simp: acme_works_def)
  have answer: "\<exists>a b c. order_result e t (the_order m key) = Inr (a, b) \<and> issued e m a b c \<and>
      (\<forall>f g. parse_pair e f g a b = Inr c)" for t key
  proof -
    obtain a b c where "order_result e t (the_order m key) = Inr (a, b)" "parse_pair e id id a b = Inr c"
      using assms(3) unfolding acme_works_def by blast
    then show ?thesis by (auto intro!: exI issuedI simp: parse_pair_def split: sum.splits)
  qed
  have obtained: "wp (obtain_cert e m) (\<lambda>_ w'. \<exists>c' certPEM keyPEM key. cert w' = Some c' \<and>
      issued e m certPEM keyPEM c' \<and> orders w' = orders w @ [the_order m key]) (w\<lparr>tls_tick := n\<rparr>)" for n
    unfolding obtain_cert_def wp_on_err
  proof (rule wp_account_key_works[OF assms(3)], goal_cases)
    case (1 key n fs)
    obtain a b c where "order_result e (Suc (Suc (Suc (Suc n)))) (the_order m key) = Inr (a, b)"
      "issued e m a b c" "\<forall>f g. parse_pair e f g a b = Inr c"
      using answer by blast
    then show ?case by (auto simp: wp_simps free)
  qed
  show ?thesis
    using assms(1,2)
    by (simp add: renew_check_def wp_bind wp_gets wp_needsRenewal)
      (rule wp_mono[OF obtained], auto simp: wp_return the_order_def)
qed

subsection \<open>Witnesses\<close>

definition sample_tls :: tls_env where
  "sample_tls =
     \<lparr>tls_clock = (\<lambda>t. 0), mkdir_fault = (\<lambda>t. None), read_fault = (\<lambda>t p. None),
      write_result = (\<lambda>t p. None), X509KeyPair = (\<lambda>c k. Inr c),
      leaf_expiry = (\<lambda>c. Inr (90 * 24 * Hour)), pem_decode = Some, pem_encode = (\<lambda>d. d),
      parse_key = Inr, marshal_key = Inr, fresh_key = (\<lambda>t. Inr ''k1''),
      client_fault = (\<lambda>t. None), provider_fault = (\<lambda>t. None), dns01_fault = (\<lambda>t. None),
      register_fault = (\<lambda>t. None), order_result = (\<lambda>t ord. Inr (''CERT'', ''KEY''))\<rparr>"

definition sample_manager :: Manager where
  "sample_manager = NewManager ''claw.example.org'' ''a@b.org'' ''cf'' ''/data/certs'' False"

definition sample_tls_world :: tls_world where
  "sample_tls_world = \<lparr>tls_tick = 0, files = Map.empty, cert = None, orders = []\<rparr>"


theorem certificate_never_lost_witness:
  "\<exists>c. returns (GetCertificate sample_manager) (leaves (renewLoop sample_tls sample_manager 3)
     (sample_tls_world\<lparr>cert := Some \<lparr>Chain = ''old'', NotAfter = 0\<rparr>\<rparr>)) = Inr c"
  using certificate_never_lost[of "sample_tls_world\<lparr>cert := Some \<lparr>Chain = ''old'', NotAfter = 0\<rparr>\<rparr>"
      "\<lparr>Chain = ''old'', NotAfter = 0\<rparr>" sample_tls sample_manager 3]
  by (auto simp: wp_result)


theorem renewal_when_due_witness:
  "wp (renew_check sample_tls sample_manager) (\<lambda>_ w'. length (orders w') = 1)
     (sample_tls_world\<lparr>cert := Some \<lparr>Chain = ''old'', NotAfter = 0\<rparr>\<rparr>)"
proof -
  have "acme_works sample_tls sample_manager"
    by (simp add: acme_works_def sample_tls_def parse_pair_def)
  then show ?thesis
    by (intro wp_mono[OF renewal_when_due])
      (auto simp: sample_tls_world_def sample_tls_def renewBefore_def Hour_def Second_def)
qed

end
