(* ===== verification/BrokerSafety.thy ===== *)
theory BrokerSafety
  imports Broker TlsRenewal
begin

text \<open>
  The invariants of the broker's runs, the way to the Gateway, and what a successful start means.
\<close>

subsection \<open>A deployment to apply the properties to\<close>

definition sample_mux :: mux_lib where
  "sample_mux rs r = (case find (\<lambda>rt. rt_path rt = rq_Path r \<and>
       (rt_methods rt = [] \<or> rq_Method r \<in> set (rt_methods rt))) rs of
     Some rt \<Rightarrow> Matched rt (rq_Vars r) | None \<Rightarrow> Unmatched)"

definition sample_deployment :: deployment where
  "sample_deployment =
     \<lparr>dp_env = sample_env, dp_ws = sample_lib, dp_mux = sample_mux,
      dp_handler = NewHandler sample_config, dp_proxy = sample_proxy\<rparr>"

definition after_cleanup :: broker where
  "after_cleanup = \<lparr>bk_world = leaves (cleanup_tick sample_env) sample_world, bk_sessions = []\<rparr>"

lemma sample_step: "broker_step sample_deployment \<lparr>bk_world = sample_world, bk_sessions = []\<rparr> after_cleanup"
  using broker_step.cleanup[of sample_deployment "\<lparr>bk_world = sample_world, bk_sessions = []\<rparr>", OF prod.collapse[symmetric]]
  by (simp add: after_cleanup_def sample_deployment_def)

lemmas sample_start = broker_reachable.start[of sample_world sample_deployment]

lemma after_cleanup_reachable: "after_cleanup \<in> broker_reachable sample_deployment sample_world"
  by (rule broker_reachable.step[OF sample_start sample_step])

subsection \<open>Invariants\<close>

text \<open>
  C8. The pool has one connection. In every state the broker reaches it has been given back and nobody
  waits for it for ever: no path through a handler, a transaction or an error branch keeps it.
\<close>

theorem pool_never_stuck:
  assumes "b \<in> broker_reachable dp w0" and "idle w0"
  shows "\<not> conn_held (bk_world b) \<and> \<not> stuck (bk_world b)"
  using pool.broker_reachable_rel[OF assms] by (simp add: idle_def)

theorem pool_never_stuck_witness: "\<not> stuck (bk_world after_cleanup)"
  using pool_never_stuck[OF after_cleanup_reachable idle_sample] by simp

text \<open>
  The database stays consistent, over every run from tables in which it is: primary keys are unique
  in all five tables, and every access and every refresh session belongs to a stored device, although
  the database does not enforce the latter.
\<close>

lemma database_integrity:
  assumes "b \<in> broker_reachable dp w0" and "idle w0"
    and "tables_ok (db w0)" and "sessions_owned (db w0)"
  shows "tables_ok (db (bk_world b)) \<and> sessions_owned (db (bk_world b))"
  using keys.broker_reachable_rel[OF assms(1,2)] owned.broker_reachable_rel[OF assms(1,2)] assms(3,4)
  by (simp add: keeps_keys_def keeps_owned_def)

lemma sample_consistent: "tables_ok (db sample_world)" "sessions_owned (db sample_world)"
  by (simp_all add: tables_ok_def sessions_owned_def sample_world_def sample_tables_def keys_distinct_def
      sample_access_def sample_refresh_def sample_device_def)

text \<open>The audit log is only appended to: no step of the broker removes or changes an entry.\<close>

lemma audit_append_only:
  assumes "b \<in> broker_reachable dp w0" and "idle w0" and "broker_step dp b b'"
  shows "prefix (audit_events (db (bk_world b))) (audit_events (db (bk_world b')))"
  using audit.broker_step_rel[OF assms(3)] audit.broker_reachable_rel[OF assms(1,2)]
  by (simp add: lift_rel_def audit_grows_def)

subsection \<open>The way to the Gateway\<close>

text \<open>
  What lets a request pass to the Gateway: with the tailnet bypass on, an address \<open>clientIP r\<close> that names
  a tailnet peer; or a bearer token that is valid at a moment between \<open>w\<close> and \<open>w'\<close>. The address is the
  first entry of the request's \<^verbatim>\<open>X-Forwarded-For\<close>, which the client writes, or else that of the connection.
\<close>

definition vouched :: "env \<Rightarrow> Config \<Rightarrow> request \<Rightarrow> world \<Rightarrow> world \<Rightarrow> MobileDevice \<Rightarrow> bool" where
  "vouched e cfg r w w' dev \<longleftrightarrow>
     tailnet_peer e cfg (tick w) (clientIP r) \<and> dev = tailnet_device (TailnetIdentity cfg) \<or>
     (\<exists>token s m t. bears r token \<and> tick w \<le> t \<and> t < tick w' \<and>
        access_granted e cfg (db w) (clock e t) token s m \<and> scan_mobile_device m = Inr dev)"

lemma vouched_let_through: "let_through e cfg r (clientIP r) w w' (dev, sess) \<Longrightarrow> vouched e cfg r w w' dev"
  by (auto simp: let_through_def vouched_def)

lemma vouched_vars: "vouched e cfg (r\<lparr>rq_Vars := vars\<rparr>) w w' dev = vouched e cfg r w w' dev"
proof -
  have "clientIP (r\<lparr>rq_Vars := vars\<rparr>) = clientIP r"
    by (auto simp: clientIP_def Let_def split: option.splits list.splits)
  then show ?thesis by (simp add: vouched_def bears_def)
qed

text \<open>A handshake sent to the Gateway for a device: to the configured service, under its e-mail address.\<close>

definition handshake_for :: "deployment \<Rightarrow> MobileDevice \<Rightarrow> string \<Rightarrow> header_map \<Rightarrow> bool" where
  "handshake_for dp dev url hs \<longleftrightarrow>
     url = gateway_ws_url (GatewayServiceURL (px_config (dp_proxy dp))) \<and>
     Header_Get hs ''X-Forwarded-Email'' = dev_Email dev"

definition may_pass :: "deployment \<Rightarrow> request \<Rightarrow> world \<Rightarrow> served \<Rightarrow> world \<Rightarrow> bool" where
  "may_pass dp r w out w' =
     (case out of
        Replied resp \<Rightarrow> True
      | To_gateway q \<Rightarrow> rq_Method r \<in> {''GET'', ''HEAD''} \<and>
          \<not> path_denied httpProxyDeniedPathPrefixes (rq_Path r) \<and>
          (\<exists>dev. vouched (dp_env dp) (px_config (dp_proxy dp)) r w w' dev \<and>
            Header_Get (rq_Header q) ''X-Forwarded-Email'' = dev_Email dev)
      | To_websocket ws \<Rightarrow>
          (case ws of
             Connected url hs dev sess \<Rightarrow>
               vouched (dp_env dp) (px_config (dp_proxy dp)) r w w' dev \<and> handshake_for dp dev url hs
           | Dial_failed url hs err \<Rightarrow>
               \<exists>dev. vouched (dp_env dp) (px_config (dp_proxy dp)) r w w' dev \<and> handshake_for dp dev url hs
           | Refused resp \<Rightarrow> True
           | Upgrade_failed err \<Rightarrow> True))"

lemma gateway_headers_email: "Header_Get (gateway_headers cfg dev remote r) ''X-Forwarded-Email'' = dev_Email dev"
  using forwarded_keys by (simp add: gateway_headers_def Let_def Header_Get_copy Header_Get_Set)

lemma wp_proxy_request_may_pass:
  assumes "idle w"
  shows "wp (proxy_request (dp_env dp) (dp_ws dp) (dp_proxy dp) hw r)
    (\<lambda>out w'. may_pass dp (r\<lparr>rq_Vars := vars\<rparr>) w out w') w"
proof -
  have ws: "wp (open_session (dp_env dp) (dp_ws dp) (dp_proxy dp) hw r)
      (\<lambda>out w'. may_pass dp (r\<lparr>rq_Vars := vars\<rparr>) w (To_websocket out) w') w"
  proof (rule wp_open_session[OF assms], goal_cases)
    case (3 dev sess w1 n evs)
    let ?w2 = "w1\<lparr>tick := Suc (Suc n), db := (db w1)\<lparr>audit_events := evs\<rparr>\<rparr>"
    have "tick w1 \<le> tick ?w2" using 3(3) by simp
    then have "vouched (dp_env dp) (px_config (dp_proxy dp)) r w ?w2 dev"
      using vouched_let_through[OF let_through_later[OF 3(1)]] by blast
    then show ?case
      by (auto simp: may_pass_def handshake_for_def gateway_headers_email vouched_vars split: option.splits)
  qed (simp_all add: may_pass_def)
  have http: "wp (HandleHTTP (dp_env dp) (px_config (dp_proxy dp)) hw r)
      (\<lambda>out w'. may_pass dp (r\<lparr>rq_Vars := vars\<rparr>) w
        (case out of Answered resp \<Rightarrow> Replied resp | Forwarded q \<Rightarrow> To_gateway q) w') w"
    unfolding HandleHTTP_def Let_def
    by (auto simp: wp_return wp_on_err may_pass_def split: sum.splits
        intro!: wp_mono[OF wp_authenticateDevice_sound[OF assms]])
      (auto simp: vouched_vars dest!: vouched_let_through)
  show ?thesis
    using ws http by (simp add: proxy_request_def wp_bind wp_return_eta)
qed

lemma wp_reply_may_pass: "wp (reply m) (\<lambda>out w'. may_pass dp r w out w') w1"
  by (simp add: reply_def wp_bind wp_return may_pass_def wp_any)

lemma wp_serve_may_pass:
  assumes "idle w"
  shows "wp (serve dp r) (\<lambda>out w'. may_pass dp r w out w') w"
proof -
  have "wp (call_endpoint (dp_env dp) (dp_ws dp) (dp_handler dp) (dp_proxy dp) ep hw (r\<lparr>rq_Vars := vars\<rparr>))
      (\<lambda>out w'. may_pass dp r w out w') w" for ep hw vars
    using wp_proxy_request_may_pass[OF assms, of dp hw "r\<lparr>rq_Vars := vars\<rparr>" "rq_Vars r"]
    by (cases ep) (simp_all add: call_endpoint_def wp_reply_may_pass)
  moreover have "may_pass dp r w (Replied resp) w" for resp
    by (simp add: may_pass_def)
  moreover have "wp (proxy_request (dp_env dp) (dp_ws dp) (dp_proxy dp) hw r)
      (\<lambda>out w'. may_pass dp r w out w') w" for hw
    using wp_proxy_request_may_pass[OF assms, of dp hw r "rq_Vars r"] by simp
  ultimately show ?thesis
    by (auto simp: serve_def ServeHTTP_def wp_return split: mux_match.splits)
qed

text \<open>
  C1. Whatever the router makes of a request, it reaches the Gateway only when it is vouched for: with the
  tailnet bypass on and an address that names a tailnet peer (the address is what the client's own
  \<^verbatim>\<open>X-Forwarded-For\<close> says first, which proves nothing about the connection, see ProxyAccess), or with a bearer
  token that, by the tables the request finds, grants access to its device at a moment of this very request. It is then sent under the e-mail
  address of the tailnet identity or of that device: over plain HTTP only when it reads, outside the denied
  namespaces; as a WebSocket handshake, whether or not it succeeds, only to the configured service. Every other
  request is answered by the broker itself.
\<close>

theorem gateway_only_vouched:
  assumes "idle w"
  shows "wp (serve dp r) (\<lambda>out w'. case out of
      Replied resp \<Rightarrow> True
    | To_gateway q \<Rightarrow> rq_Method r \<in> {''GET'', ''HEAD''} \<and>
        \<not> path_denied httpProxyDeniedPathPrefixes (rq_Path r) \<and>
        (\<exists>dev. vouched (dp_env dp) (px_config (dp_proxy dp)) r w w' dev \<and>
          Header_Get (rq_Header q) ''X-Forwarded-Email'' = dev_Email dev)
    | To_websocket ws \<Rightarrow>
        (case ws of
           Connected url hs dev sess \<Rightarrow>
             vouched (dp_env dp) (px_config (dp_proxy dp)) r w w' dev \<and> handshake_for dp dev url hs
         | Dial_failed url hs err \<Rightarrow>
             \<exists>dev. vouched (dp_env dp) (px_config (dp_proxy dp)) r w w' dev \<and> handshake_for dp dev url hs
         | Refused resp \<Rightarrow> True
         | Upgrade_failed err \<Rightarrow> True)) w"
  using wp_serve_may_pass[OF assms, of dp r] by (simp add: may_pass_def)

theorem gateway_only_vouched_witness:
  "\<exists>q dev. returns (serve sample_deployment sample_request) sample_world = To_gateway q \<and>
     vouched sample_env sample_config sample_request sample_world
       (leaves (serve sample_deployment sample_request) sample_world) dev \<and>
     Header_Get (rq_Header q) ''X-Forwarded-Email'' = dev_Email dev"
proof -
  have "(case returns (serve sample_deployment sample_request) sample_world of To_gateway q \<Rightarrow> True | _ \<Rightarrow> False)"
    by code_simp
  then obtain q where q: "returns (serve sample_deployment sample_request) sample_world = To_gateway q"
    by (auto split: served.splits)
  moreover have "px_config (dp_proxy sample_deployment) = sample_config" "dp_env sample_deployment = sample_env"
    by (simp_all add: sample_deployment_def sample_proxy_def NewWebSocketProxy_def sample_env_def)
  ultimately show ?thesis
    using gateway_only_vouched[OF idle_sample, of sample_deployment sample_request]
    by (auto simp: wp_result)
qed

subsection \<open>Open sessions\<close>

definition session_ok :: "deployment \<Rightarrow> session \<Rightarrow> bool" where
  "session_ok dp s \<longleftrightarrow>
     ss_relay s \<in> relay_reachable (message_limit dp) \<and>
     (IsEmailAllowed (dp_env dp) (px_config (dp_proxy dp)) (dev_Email (ss_device s)) \<or>
      ss_device s = tailnet_device (TailnetIdentity (px_config (dp_proxy dp))))"

lemma vouched_allowed:
  "vouched e cfg r w w' dev \<Longrightarrow>
     IsEmailAllowed e cfg (dev_Email dev) \<or> dev = tailnet_device (TailnetIdentity cfg)"
  by (auto simp: vouched_def access_granted_def dest!: scan_mobile_device_InrD)

lemma connected_ok:
  assumes "idle w" and "run_state (serve dp r) w = (To_websocket (Connected url hs dev sess), w')"
  shows "session_ok dp \<lparr>ss_device = dev, ss_session = sess, ss_relay = relay_start\<rparr>"
  using wpD[OF wp_serve_may_pass[OF assms(1)] assms(2)]
  by (auto simp: session_ok_def may_pass_def relay_reachable.start dest: vouched_allowed)

lemma sessions_ok_reachable:
  assumes "b \<in> broker_reachable dp w0" and "idle w0"
  shows "\<forall>s \<in> set (bk_sessions b). session_ok dp s"
  using assms(1)
proof (induction rule: broker_reachable.induct)
  case (step b b')
  have moved: "session_ok dp (s\<lparr>ss_relay := st\<rparr>)"
    if "session_ok dp s" "relay_step (message_limit dp) (ss_relay s) st" for s st
    using that by (auto simp: session_ok_def intro: relay_reachable.step)
  have idle: "idle (bk_world b)"
    using pool.broker_reachable_rel[OF step.hyps(1) assms(2)] by simp
  from step.hyps(2) show ?case
  proof (cases rule: broker_step.cases)
    case (connect r url hs dev sess w')
    then show ?thesis using connected_ok[OF idle] step.IH by auto
  next
    case (relay i st)
    then show ?thesis using step.IH moved by (auto dest!: in_set_conv_nth[THEN iffD1] simp: nth_list_update split: if_splits)
  next
    case (disconnect i st res w')
    then show ?thesis using step.IH moved by (auto dest!: in_set_conv_nth[THEN iffD1] simp: nth_list_update split: if_splits)
  qed (use step.IH in auto)
qed simp

text \<open>
  C18. Every WebSocket session the broker has open belongs to a device whose e-mail address was allowed,
  or to the tailnet identity, and its relay is in a state that its two goroutines reach from the start:
  what holds of every relay holds of every open session.
\<close>

theorem open_sessions_allowed:
  assumes "b \<in> broker_reachable dp w0" and "idle w0" and "s \<in> set (bk_sessions b)"
  shows "ss_relay s \<in> relay_reachable (message_limit dp) \<and>
    (IsEmailAllowed (dp_env dp) (px_config (dp_proxy dp)) (dev_Email (ss_device s)) \<or>
     ss_device s = tailnet_device (TailnetIdentity (px_config (dp_proxy dp))))"
  using sessions_ok_reachable[OF assms(1,2)] assms(3) by (auto simp: session_ok_def)

definition upgrade_request :: request where
  "upgrade_request = sample_request\<lparr>rq_Header := Header_Set (Header_Set (rq_Header sample_request)
     ''Upgrade'' ''websocket'') ''Connection'' ''Upgrade''\<rparr>"

theorem open_sessions_allowed_witness:
  "\<exists>b s. b \<in> broker_reachable sample_deployment sample_world \<and> s \<in> set (bk_sessions b) \<and>
     ss_relay s \<in> relay_reachable (message_limit sample_deployment)"
proof -
  have "is_connected (returns (serve sample_deployment upgrade_request) sample_world)"
    by code_simp
  then obtain url hs dev sess where out: "returns (serve sample_deployment upgrade_request) sample_world =
      To_websocket (Connected url hs dev sess)"
    by (auto simp: is_connected_def split: served.splits ws_outcome.splits)
  define b where "b = \<lparr>bk_world = leaves (serve sample_deployment upgrade_request) sample_world,
    bk_sessions = [\<lparr>ss_device = dev, ss_session = sess, ss_relay = relay_start\<rparr>]\<rparr>"
  have "run_state (serve sample_deployment upgrade_request) sample_world =
      (To_websocket (Connected url hs dev sess), leaves (serve sample_deployment upgrade_request) sample_world)"
    using out by (simp add: prod_eq_iff)
  then have "b \<in> broker_reachable sample_deployment sample_world"
    using broker_reachable.step[OF sample_start] broker_step.connect[of sample_deployment upgrade_request
      "\<lparr>bk_world = sample_world, bk_sessions = []\<rparr>"]
    by (fastforce simp: b_def)
  moreover have "\<lparr>ss_device = dev, ss_session = sess, ss_relay = relay_start\<rparr> \<in> set (bk_sessions b)"
    by (simp add: b_def)
  ultimately show ?thesis
    using open_sessions_allowed[OF _ idle_sample] by blast
qed

subsection \<open>Starting\<close>

lemma wp_on_world [wp_simps]:
  "wp (on_world m) Q ps = wp m (\<lambda>a w. Q a (ps\<lparr>ps_world := w\<rparr>)) (ps_world ps)"
  by (simp add: wp_def on_world_def split: prod.splits)

lemma wp_on_tls [wp_simps]:
  "wp (on_tls m) Q ps = wp m (\<lambda>a tw. Q a (ps\<lparr>ps_certs := tw\<rparr>)) (ps_certs ps)"
  by (simp add: wp_def on_tls_def split: prod.splits)

lemma wp_serve_listeners [wp_simps]:
  "wp (serve_plain ls) Q ps = Q () (ps\<lparr>ps_plain := ps_plain ps @ ls\<rparr>)"
  "wp (serve_tls ls) Q ps = Q () (ps\<lparr>ps_tls := ps_tls ps @ ls\<rparr>)"
  by (simp_all add: serve_plain_def serve_tls_def wp_simps)









subsection \<open>A WebSocket upgrade that is not recognised\<close>

text \<open>
  An upgrade whose Connection header is a list, such as \<^verbatim>\<open>keep-alive, Upgrade\<close>, is not recognised as
  one: it is served on the plain HTTP path.
\<close>

lemma listed_upgrade_is_plain_http:
  assumes "CHR '','' \<in> set (Header_Get (rq_Header r) ''Connection'')"
    and "is_ascii (Header_Get (rq_Header r) ''Connection'')"
  shows "proxy_request e lib p hw r = do {
    out \<leftarrow> HandleHTTP e (px_config p) hw r;
    return (case out of Answered resp \<Rightarrow> Replied resp | Forwarded q \<Rightarrow> To_gateway q) }"
proof -
  have "lower_char CHR '','' = CHR '',''"
    by code_simp
  then have "CHR '','' \<in> set (ToLower (uni_lower e) (Header_Get (rq_Header r) ''Connection''))"
    using assms by (force simp: ToLower_def)
  then have "ToLower (uni_lower e) (Header_Get (rq_Header r) ''Connection'') \<noteq> ''upgrade''"
    by auto
  then show ?thesis
    by (simp add: proxy_request_def isWebSocketUpgrade_def)
qed

end
