(* ===== verification/Lifecycle.thy ===== *)
theory Lifecycle
  imports BrokerSafety
begin

text \<open>
  The life of a device-flow transaction, as a small specification; that every request respects it which no
  other overlaps; and how two overlapping polls do not. (What no interleaving breaks is in Commits.)
\<close>

subsection \<open>The specification\<close>

text \<open>
  A transaction is open until it is paired or closed without a pairing, and both are meant to be final. The
  order on the phases says just that.
\<close>

datatype phase = Open | Closed | Paired

instantiation phase :: order_bot
begin

definition bot_phase :: phase where
  "bot_phase = Open"

definition less_eq_phase :: "phase \<Rightarrow> phase \<Rightarrow> bool" where
  "p \<le> q \<longleftrightarrow> p = Open \<or> p = (q :: phase)"

definition less_phase :: "phase \<Rightarrow> phase \<Rightarrow> bool" where
  "p < q \<longleftrightarrow> p = Open \<and> q \<noteq> (Open :: phase)"

instance
  by standard (auto simp: bot_phase_def less_eq_phase_def less_phase_def)

end

lemma open_least [simp]: "Open \<le> p"
  by (simp add: less_eq_phase_def)

lemma final_phase: "p \<noteq> Open \<Longrightarrow> p \<le> q \<longleftrightarrow> q = p"
  by (auto simp: less_eq_phase_def)

definition phase_of :: "device_authorization_row \<Rightarrow> phase" where
  "phase_of x =
     (if da_consumed_at x \<noteq> None then Paired
      else if da_status x \<in> {''pending'', ''slow_down''} then Open else Closed)"

text \<open>No transaction that is still there has gone back.\<close>

definition phases_advance :: "tables \<Rightarrow> tables \<Rightarrow> bool" where
  "phases_advance d d' \<longleftrightarrow>
     (\<forall>x \<in> set (device_authorizations d). \<forall>y \<in> set (device_authorizations d').
        da_id y = da_id x \<longrightarrow> phase_of x \<le> phase_of y)"

subsection \<open>Requests leave the transactions of others alone\<close>

definition others_kept :: "string set \<Rightarrow> tables \<Rightarrow> tables \<Rightarrow> bool" where
  "others_kept K d d' \<longleftrightarrow>
     (\<forall>y \<in> set (device_authorizations d'). da_id y \<notin> K \<longrightarrow> y \<in> set (device_authorizations d))"

interpretation others: flow_contract "others_kept K" K for K
  by unfold_locales
    (auto simp: others_kept_def table_defs auth_row_defs revoke_device_row_def revoke_refresh_rows_def
      revoke_access_rows_def mark_rotated_def insert_successor_def map_sum_def
      set_sql_update split: sum.splits option.splits dest!: sql_insert_InrD)

interpretation others: cleanup_contract "others_kept K" for K
  by unfold_locales (auto simp: others_kept_def table_defs set_sql_delete)

lemma same_row:
  assumes "tables_ok d" and "x \<in> set (device_authorizations d)" and "y \<in> set (device_authorizations d)"
    and "da_id y = da_id x"
  shows "y = x"
  using assms keys_distinct_eq[of da_id] by (auto simp: tables_ok_def)

lemma others_kept_advance: "tables_ok d \<Longrightarrow> others_kept {} d d' \<Longrightarrow> phases_advance d d'"
  using same_row by (fastforce simp: phases_advance_def others_kept_def)

lemma rel_advance:
  assumes "state_io_rel (lift_rel (others_kept {})) m" and "idle w" and "tables_ok (db w)"
  shows "wp m (\<lambda>_ w'. phases_advance (db w) (db w')) w"
  by (rule wpI) (use io_relD[OF assms(1,2)] others_kept_advance[OF assms(3)] in blast)

subsection \<open>The device flow\<close>

text \<open>A poll of a transaction that is not open leaves it, or marks it as expired.\<close>

lemma wp_poll_final:
  assumes "idle w"
    and "sql_first (\<lambda>y. da_id y = mux_var r ''transaction_id'') (device_authorizations (db w)) = Some x"
    and "phase_of x \<noteq> Open"
  shows "wp (handleGetDeviceAuthorization e h hw r) (\<lambda>_ w'. db w' = db w \<or>
     da_consumed_at x = None \<and> db w' = update_device_authorizations
       (\<lambda>y. da_id y = mux_var r ''transaction_id'') (\<lambda>y. y\<lparr>da_status := ''expired''\<rparr>) (db w)) w"
  using assms
  by (auto simp: handleGetDeviceAuthorization_def Let_def wp_simps phase_of_def status_row_def[abs_def]
      split: option.splits if_splits)

lemma wp_poll_advance:
  assumes "idle w" and "tables_ok (db w)"
  shows "wp (handleGetDeviceAuthorization e h hw r) (\<lambda>_ w'. phases_advance (db w) (db w')) w"
proof (rule wpI)
  fix resp w'
  assume run: "run_state (handleGetDeviceAuthorization e h hw r) w = (resp, w')"
  let ?tid = "mux_var r ''transaction_id''"
  have kept: "others_kept {?tid} (db w) (db w')"
    using io_relD[OF others.rel_handleGetDeviceAuthorization assms(1) run] by blast
  have "phase_of x \<le> phase_of y"
    if x: "x \<in> set (device_authorizations (db w))" and y: "y \<in> set (device_authorizations (db w'))"
      and id: "da_id y = da_id x" for x y
  proof (cases "da_id x = ?tid \<and> phase_of x \<noteq> Open")
    case False
    then show ?thesis
      using kept x y id same_row[OF assms(2) x, of y] by (auto simp: others_kept_def)
  next
    case True
    then have first: "sql_first (\<lambda>y. da_id y = ?tid) (device_authorizations (db w)) = Some x"
      using assms(2) True sql_first_key[OF _ x, of da_id] by (simp add: tables_ok_def)
    have "db w' = db w \<or> da_consumed_at x = None \<and> db w' = update_device_authorizations
        (\<lambda>y. da_id y = ?tid) (\<lambda>y. y\<lparr>da_status := ''expired''\<rparr>) (db w)"
      using wpD[OF wp_poll_final[OF assms(1) first] run] True by blast
    then show ?thesis
      using y id True same_row[OF assms(2) x]
      by (auto simp: update_device_authorizations_def set_sql_update phase_of_def split: if_splits)
  qed
  then show "phases_advance (db w) (db w')"
    by (simp add: phases_advance_def)
qed

text \<open>A new transaction has an identifier of its own.\<close>

lemma insert_advance:
  "tables_ok d \<Longrightarrow> insert_device_authorization x d = Inr d' \<Longrightarrow> phases_advance d d'"
  by (auto simp: phases_advance_def insert_device_authorization_def map_sum_def split: sum.splits
      dest!: sql_insert_InrD dest: same_row)

lemma phases_advance_refl: "tables_ok d \<Longrightarrow> phases_advance d d"
  by (auto simp: phases_advance_def dest: same_row)

lemma wp_create_advance:
  assumes "idle w" and "tables_ok (db w)"
  shows "wp (handleCreateDeviceAuthorization e h hw r) (\<lambda>_ w'. phases_advance (db w) (db w')) w"
  unfolding handleCreateDeviceAuthorization_def checkRateLimit_def if_False simp_thms wp_on_err
  by (rule wp_RequestDeviceAuthorization)
    (use assms phases_advance_refl insert_advance in
      \<open>auto simp: Let_def wp_simps Encrypt_def sent_def split: option.splits sum.splits\<close>)

subsection \<open>A request alone\<close>

text \<open>
  A request that no other overlaps takes no stored transaction back, nor from one final phase to the other.
\<close>

lemma wp_reply: "wp m (\<lambda>_. Q) w \<Longrightarrow> wp (reply m) (\<lambda>_. Q) w"
  by (simp add: reply_def wp_bind wp_return_eta)

lemma wp_serve_advance:
  assumes "idle w" and "tables_ok (db w)"
  shows "wp (serve dp r) (\<lambda>_ w'. phases_advance (db w) (db w')) w"
proof -
  have "wp (call_endpoint (dp_env dp) (dp_ws dp) (dp_handler dp) (dp_proxy dp) ep hw r1)
      (\<lambda>_ w'. phases_advance (db w) (db w')) w" for ep hw r1
    by (cases ep; simp add: call_endpoint_def;
        intro wp_reply wp_create_advance wp_poll_advance rel_advance assms
          others.rel_handleHealthz others.rel_handleReadyz others.rel_handleRefreshSession[OF refl]
          others.rel_handleRevokeCurrentSession others.rel_proxy_request)
  moreover have "wp (proxy_request (dp_env dp) (dp_ws dp) (dp_proxy dp) hw r1)
      (\<lambda>_ w'. phases_advance (db w) (db w')) w" for hw r1
    by (intro rel_advance others.rel_proxy_request assms)
  ultimately show ?thesis
    using phases_advance_refl[OF assms(2)]
    by (auto simp: serve_def ServeHTTP_def wp_return split: mux_match.split)
qed

subsection \<open>Polls that overlap\<close>

definition slowed :: payload where
  "slowed = JsonValue (JObj [(''error'', JStr ''slow_down''), (''interval'', JNum ''10'')])"

text \<open>
  C25. Between polls that overlap, a closed transaction is not final. A poll that has read the transaction while
  it was open (\<open>x\<close>), and to which GitHub answers \<^verbatim>\<open>slow_down\<close> with a longer interval, stores the status
  \<^verbatim>\<open>slow_down\<close> whatever the status is by then: when another poll has stored a refusal (\<open>y\<close>) meanwhile, the
  transaction is open again.
\<close>

theorem overlapping_poll_reopens:
  assumes "idle w" and "nothing_fails e"
    and "phase_of x = Open"
    and "sql_first (\<lambda>r. da_id r = tid) (device_authorizations (db w)) = Some y" and "phase_of y = Closed"
    and "Decrypt e (da_github_device_code_encrypted x) (ServerSecret (h_config h)) = Inr code"
    and "poll_answered e (ghClient h) code (tick w) answer" and "pr_Error answer = ''slow_down''"
    and "0 < pr_Interval answer" and "da_poll_after_seconds x < pr_Interval answer"
  shows "wp (poll_github e h hw tid (scan_device_authorization x)) (\<lambda>resp w'. \<exists>z.
    sql_first (\<lambda>r. da_id r = tid) (device_authorizations (db w')) = Some z \<and> phase_of z = Open \<and>
    z = y\<lparr>da_status := ''slow_down'', da_poll_after_seconds := pr_Interval answer\<rparr>) w"
proof -
  obtain resp where resp: "http_reply e (tick w)
      (form_request (oauthBaseURL (ghClient h) @ ''/login/oauth/access_token'') (poll_form (ghClient h) code)) =
        Inr resp"
    "hr_status resp = 200" "unmarshal decode_poll_result (hr_body resp) = Some answer"
    using assms(7) by (auto simp: poll_answered_def)
  moreover have "hr_body resp \<noteq> Unreadable" using resp(3) by (auto simp: unmarshal_def)
  moreover have "da_consumed_at y = None" "da_id y = tid"
    using assms(4,5) by (auto simp: phase_of_def dest: sql_first_SomeD split: if_splits)
  ultimately show ?thesis
    using assms
    by (simp add: poll_github_def wp_on_err PollDeviceAuthorization_def postDeviceFlowForm_def wp_simps
        nothing_fails_def poll_outcome_def sql_first_update interval_row_def phase_of_def Let_def)
qed

definition refused_world :: world where
  "refused_world = sample_world\<lparr>db := sample_tables
     \<lparr>device_authorizations := [sample_auth\<lparr>da_status := ''forbidden''\<rparr>]\<rparr>\<rparr>"

theorem overlapping_poll_reopens_witness:
  "\<exists>z. sql_first (\<lambda>r. da_id r = ''tx1'') (device_authorizations (db (leaves (poll_github (flow_env slowed)
     (NewHandler sample_config) no_headers ''tx1'' (scan_device_authorization sample_auth)) refused_world))) = Some z \<and>
     phase_of z = Open"
proof -
  have answer: "unmarshal decode_poll_result slowed = Some ((sample_answer [] ''slow_down'')\<lparr>pr_Interval := 10\<rparr>)"
    by code_simp
  have "phase_of sample_auth = Open" "phase_of (sample_auth\<lparr>da_status := ''forbidden''\<rparr>) = Closed"
    by (simp_all add: phase_of_def sample_auth_def)
  moreover have "idle refused_world" "sql_first (\<lambda>r. da_id r = ''tx1'') (device_authorizations (db refused_world)) =
      Some (sample_auth\<lparr>da_status := ''forbidden''\<rparr>)"
    using idle_sample by (simp_all add: refused_world_def sql_first_def sample_auth_def)
  moreover have "da_poll_after_seconds sample_auth < 10" by (simp add: sample_auth_def)
  ultimately show ?thesis
    using overlapping_poll_reopens[of refused_world "flow_env slowed" sample_auth "''tx1''" _ "NewHandler sample_config",
        OF _ flow_env_works _ _ _ sample_decrypt sample_poll_answered[OF answer], where hw = no_headers]
    by (auto simp: wp_result sample_answer_def)
qed

end
