(* ===== verification/Commits.thy ===== *)
theory Commits
  imports Lifecycle
begin

text \<open>
  The store as a transition system of its own: what one statement, or one transaction, may do to the
  tables. Every run of the broker is a sequence of such commits, and what holds of all sequences of
  commits holds however the handlers of concurrent requests are interleaved, between any two of their
  statements.
\<close>

subsection \<open>The commits\<close>

inductive commit :: "tables \<Rightarrow> tables \<Rightarrow> bool" where
  new_transaction: "da_status auth = ''pending'' \<Longrightarrow> da_consumed_at auth = None \<Longrightarrow>
    insert_device_authorization auth d = Inr d' \<Longrightarrow> commit d d'"
| set_status: "commit d (update_device_authorizations (\<lambda>r. da_id r = k)
    (status_row st email now) d)"
| slow_down: "commit d (update_device_authorizations (\<lambda>r. da_id r = k)
    (interval_row n) d)"
| consume: "commit d (update_device_authorizations (\<lambda>r. da_id r = k)
    (consumed_row now) d)"
| new_device: "md_revoked_at device = None \<Longrightarrow> insert_mobile_device device d = Inr d' \<Longrightarrow> commit d d'"
| seen: "commit d (update_mobile_devices (\<lambda>r. md_id r = k) (\<lambda>r. r\<lparr>md_last_seen_at := now\<rparr>) d)"
| new_refresh: "rs_device_id s \<in> device_ids d \<Longrightarrow> rs_revoked_at s = None \<Longrightarrow> rs_rotated_at s = None \<Longrightarrow>
    insert_refresh_session s d = Inr d' \<Longrightarrow> commit d d'"
| new_access: "as_device_id a \<in> device_ids d \<Longrightarrow> as_revoked_at a = None \<Longrightarrow>
    insert_access_session a d = Inr d' \<Longrightarrow> commit d d'"
| rotate: "insert_successor newID oldHash newHash now expires (mark_rotated now oldID d) = Inr d' \<Longrightarrow>
    commit d d'"
| revoke_refresh: "commit d (update_refresh_sessions (\<lambda>r. rs_id r = k) (\<lambda>r. r\<lparr>rs_revoked_at := Some now\<rparr>) d)"
| revoke_access: "commit d (update_access_sessions (\<lambda>r. as_id r = k) (\<lambda>r. r\<lparr>as_revoked_at := Some now\<rparr>) d)"
| revoke_sessions: "commit d (revoke_access_rows now k (revoke_refresh_rows now k d))"
| revoke_device: "commit d (revoke_access_rows now k (revoke_refresh_rows now k (revoke_device_row now k d)))"
| note_event: "insert_audit_event ev d = Inr d' \<Longrightarrow> commit d d'"
| forget_transactions: "commit d (delete_device_authorizations p d)"
| forget_refresh: "commit d (delete_refresh_sessions q d)"
| forget_access: "commit d (delete_access_sessions r d)"

text \<open>They are what the contracts allow, and so every relation that keeps the contract holds along them.\<close>

context commit_contract
begin

lemma commit_T: "commit d d' \<Longrightarrow> T d d'"
proof (induction rule: commit.induct)
  case (new_transaction auth d d')
  then show ?case by (rule T_insert_device_authorization[OF UNIV_I])
next
  case (new_device device d d')
  then show ?case by (rule T_insert_mobile_device)
next
  case (new_refresh s d d')
  then show ?case by (rule T_owned_refresh)
next
  case (new_access a d d')
  then show ?case by (rule T_owned_access)
next
  case rotate
  then show ?case by (rule T_owned_rotation)
next
  case note_event
  then show ?case by (rule T_insert_audit_event)
qed (rule T_status T_poll_interval T_consumed T_last_seen T_revoke_refresh
    T_revoke_access T_revoke_sessions T_revoke_device
    T_delete_device_authorizations T_delete_refresh_sessions T_delete_access_sessions
    UNIV_I)+

lemma commits_T: "commit\<^sup>*\<^sup>* d d' \<Longrightarrow> T d d'"
  by (induction rule: rtranclp_induct) (auto intro: T_refl T_trans commit_T)

end

interpretation commits: foreign_key_contract "commit\<^sup>*\<^sup>*"
proof (unfold_locales, goal_cases)
  case (2 d1 d2 d3)
  then show ?case by (rule rtranclp_trans)
next
  case (20 d d')
  then show ?case using owned.commits_T by (auto simp: keeps_owned_def)
qed (auto intro: commit.intros)

subsection \<open>Runs are sequences of commits\<close>

text \<open>
  C4. The broker refines the store: whatever the process does to the tables from its start to its end, through
  requests, WebSocket sessions and cleanups, with failures anywhere, it does by a sequence of commits.
\<close>

theorem runs_are_commits:
  assumes "(life_step dp)\<^sup>*\<^sup>* (Running \<lparr>bk_world = w0, bk_sessions = []\<rparr>) l" and "idle w0"
  shows "commit\<^sup>*\<^sup>* (db w0) (db (life_world l))"
  using commits.life_steps_rel[OF assms(1)] assms(2) by (simp add: lift_rel_def)

lemma sample_life: "(life_step sample_deployment)\<^sup>*\<^sup>*
  (Running \<lparr>bk_world = sample_world, bk_sessions = []\<rparr>) (Stopped (bk_world after_cleanup))"
proof -
  have "life_step sample_deployment (Running \<lparr>bk_world = sample_world, bk_sessions = []\<rparr>) (Running after_cleanup)"
    "life_step sample_deployment (Running after_cleanup) (Draining after_cleanup)"
    "life_step sample_deployment (Draining after_cleanup) (Stopped (bk_world after_cleanup))"
    using sample_step by simp_all
  then show ?thesis by (meson rtranclp.intros)
qed

theorem runs_are_commits_witness: "commit\<^sup>*\<^sup>* sample_tables (db (bk_world after_cleanup))"
  using runs_are_commits[OF sample_life idle_sample] by simp

text \<open>
  C5. What concurrency cannot break: along every sequence of commits, of whatever handlers in whatever order,
  primary keys stay unique, no session is orphaned, no device is forgotten, and the audit log is only
  appended to.
\<close>

theorem commits_keep_integrity:
  assumes "commit\<^sup>*\<^sup>* d d'" and "tables_ok d" and "sessions_owned d"
  shows "tables_ok d' \<and> sessions_owned d' \<and> device_ids d \<subseteq> device_ids d' \<and>
    prefix (audit_events d) (audit_events d')"
  using keys.commits_T[OF assms(1)] owned.commits_T[OF assms(1)] audit.commits_T[OF assms(1)] assms(2,3)
  by (simp add: keeps_keys_def keeps_owned_def audit_grows_def)

text \<open>Two overlapping refreshes of one token, as commits: both insert, then both rotate.\<close>

definition sample_successor :: "string \<Rightarrow> string \<Rightarrow> tables \<Rightarrow> go_error + tables" where
  "sample_successor newID newHash d =
     insert_successor newID (rs_token_hash sample_refresh) newHash 1000 9000 (mark_rotated 1000 ''ref1'' d)"

definition raced_tables :: tables where
  "raced_tables = (case sample_successor ''ref2'' ''h2'' sample_tables of Inl err \<Rightarrow> sample_tables | Inr d \<Rightarrow>
     (case sample_successor ''ref3'' ''h3'' d of Inl err \<Rightarrow> d | Inr d2 \<Rightarrow> d2))"

lemma raced_commits: "commit\<^sup>*\<^sup>* sample_tables raced_tables"
  unfolding raced_tables_def sample_successor_def
  by (auto split: sum.split intro: commit.rotate rtranclp.intros)

theorem commits_keep_integrity_witness: "tables_ok raced_tables \<and> sessions_owned raced_tables"
  using commits_keep_integrity[OF raced_commits] sample_consistent by (simp add: sample_world_def)

lemma raced_twice: "length (refresh_sessions raced_tables) = 3"
  by (simp add: raced_tables_def sample_successor_def insert_successor_def mark_rotated_def table_defs
      sql_insert_def sql_update_def sql_first_def sample_tables_def sample_refresh_def)

subsection \<open>What a commit does to a stored session\<close>

text \<open>
  Devices and sessions that are stored before and after are the same but for the time last seen, and for
  revocations and rotations, which are never undone. What identifies them, whose they are, their hashes
  and when they expire does not change.
\<close>

definition tightens :: "tables \<Rightarrow> tables \<Rightarrow> bool" where
  "tightens d d' \<longleftrightarrow>
     (\<forall>x \<in> set (mobile_devices d). \<forall>y \<in> set (mobile_devices d'). md_id y = md_id x \<longrightarrow> device_le x y) \<and>
     (\<forall>x \<in> set (refresh_sessions d). \<forall>y \<in> set (refresh_sessions d'). rs_id y = rs_id x \<longrightarrow> refresh_le x y) \<and>
     (\<forall>x \<in> set (access_sessions d). \<forall>y \<in> set (access_sessions d'). as_id y = as_id x \<longrightarrow> access_le x y)"

lemma grows_same_key:
  assumes "grows le t t'" and "\<And>x y. le x y \<Longrightarrow> key y = key x" and "keys_distinct key t'"
    and "x \<in> set t" and "y \<in> set t'" and "key y = key x"
  shows "le x y"
proof -
  obtain z where "z \<in> set t'" "le x z" using assms(1,4) by (rule grows_in)
  then have "z = y" using assms(2,3,5,6) by (metis keys_distinct_eq)
  then show ?thesis using \<open>le x z\<close> by simp
qed

lemma grow_tightens:
  assumes "tables_grow d d'" and "tables_ok d'"
  shows "tightens d d'"
  unfolding tightens_def
proof (intro conjI ballI impI, goal_cases)
  case (1 x y)
  then show ?case
    using assms grows_same_key[of device_le _ _ md_id] by (auto simp: tables_grow_def tables_ok_def device_le_def)
next
  case (2 x y)
  then show ?case
    using assms grows_same_key[of refresh_le _ _ rs_id] by (auto simp: tables_grow_def tables_ok_def refresh_le_def)
next
  case (3 x y)
  then show ?case
    using assms grows_same_key[of access_le _ _ as_id] by (auto simp: tables_grow_def tables_ok_def access_le_def)
qed

lemma kept_same_key:
  "keys_distinct key t \<Longrightarrow> set t' \<subseteq> set t \<Longrightarrow> le y y \<Longrightarrow> x \<in> set t \<Longrightarrow> y \<in> set t' \<Longrightarrow> key y = key x \<Longrightarrow> le x y"
  by (metis keys_distinct_eq subsetD)

lemma same_tightens:
  assumes "tables_ok d" and "set (mobile_devices d') \<subseteq> set (mobile_devices d)"
    and "set (refresh_sessions d') \<subseteq> set (refresh_sessions d)"
    and "set (access_sessions d') \<subseteq> set (access_sessions d)"
  shows "tightens d d'"
  using assms(1) unfolding tightens_def tables_ok_def
  by (auto intro: kept_same_key[OF _ assms(2), where le = device_le] kept_same_key[OF _ assms(3), where le = refresh_le]
      kept_same_key[OF _ assms(4), where le = access_le])

lemma commit_grows:
  assumes "commit d d'"
  shows "tables_grow d d' \<or> set (mobile_devices d') \<subseteq> set (mobile_devices d) \<and>
    set (refresh_sessions d') \<subseteq> set (refresh_sessions d) \<and> set (access_sessions d') \<subseteq> set (access_sessions d) \<and>
    set (device_authorizations d') \<subseteq> set (device_authorizations d)"
  using assms
proof cases
  case new_transaction
  then show ?thesis using tables_grow_insert(1) by blast
next
  case new_device
  then show ?thesis using tables_grow_insert(2) by blast
next
  case new_refresh
  then show ?thesis using tables_grow_insert(3) by blast
next
  case new_access
  then show ?thesis using tables_grow_insert(4) by blast
next
  case note_event
  then show ?thesis using tables_grow_insert(5) by blast
next
  case rotate
  then show ?thesis using tables_grow_rotation by blast
qed (auto simp: growth.T_status growth.T_poll_interval growth.T_consumed growth.T_last_seen
    growth.T_revoke_refresh growth.T_revoke_access growth.T_revoke_sessions growth.T_revoke_device
    delete_device_authorizations_def delete_refresh_sessions_def delete_access_sessions_def set_sql_delete)

text \<open>
  C11. A revocation is final and a token is never extended: no commit, after any sequence of commits, revives,
  prolongs or reassigns a stored session or device.
\<close>

theorem sessions_only_tighten:
  assumes "commit\<^sup>*\<^sup>* d0 d" and "tables_ok d0" and "commit d d'"
  shows "tightens d d'"
proof -
  have "tables_ok d" "tables_ok d'"
    using keys.commits_T[OF assms(1)] keys.commit_T[OF assms(3)] assms(2) by (simp_all add: keeps_keys_def)
  then show ?thesis
    using commit_grows[OF assms(3)] grow_tightens same_tightens by blast
qed

theorem sessions_only_tighten_witness:
  "tightens raced_tables (revoke_access_rows 5 ''dev1'' (revoke_refresh_rows 5 ''dev1'' raced_tables))"
  using sessions_only_tighten[OF raced_commits _ commit.revoke_sessions] sample_consistent
  by (simp add: sample_world_def)

subsection \<open>What a commit does to a stored transaction\<close>

lemma commit_auth_le:
  assumes "commit d d'" and "tables_ok d" and "tables_ok d'"
    and "x \<in> set (device_authorizations d)" and "y \<in> set (device_authorizations d')" and "da_id y = da_id x"
  shows "auth_le x y"
proof -
  consider "grows auth_le (device_authorizations d) (device_authorizations d')"
    | "set (device_authorizations d') \<subseteq> set (device_authorizations d)"
    using commit_grows[OF assms(1)] by (auto simp: tables_grow_def)
  then show ?thesis
  proof cases
    case 1
    then show ?thesis
      using assms(3-6) grows_same_key[of auth_le _ _ da_id] by (auto simp: tables_ok_def auth_le_def)
  next
    case 2
    then show ?thesis
      using assms(2,4-6) kept_same_key[of da_id _ _ auth_le] by (auto simp: tables_ok_def)
  qed
qed

text \<open>Only the insertion of a transaction adds one, and it adds an open one.\<close>

lemma commit_new_open:
  assumes "commit d d'" and "y \<in> set (device_authorizations d')"
  shows "da_id y \<in> da_id ` set (device_authorizations d) \<or> phase_of y = Open"
  using assms
  by cases
    (auto simp: phase_of_def table_defs auth_row_defs mark_rotated_def insert_successor_def revoke_device_row_def
      revoke_refresh_rows_def revoke_access_rows_def map_sum_def set_sql_update set_sql_delete
      split: sum.splits option.splits dest!: sql_insert_InrD)

text \<open>
  C9. What concurrency cannot break in the device flow: in whatever state any sequence of commits has led to, the
  next commit, of whichever handler, adds a transaction only as an open one, and leaves one that is stored
  before and after the same transaction: with its sealed device code, its user code, its times of creation
  and expiry; and once it is paired, that is consumed, it stays so. (That a closed one stays closed is not
  claimed; overlapping polls break it, see Lifecycle.)
\<close>

theorem transaction_lifecycle:
  assumes "commit\<^sup>*\<^sup>* d0 d" and "tables_ok d0" and "commit d d'" and "y \<in> set (device_authorizations d')"
  shows "(da_id y \<notin> da_id ` set (device_authorizations d) \<longrightarrow> phase_of y = Open) \<and>
    (\<forall>x \<in> set (device_authorizations d). da_id y = da_id x \<longrightarrow>
       da_github_device_code_encrypted y = da_github_device_code_encrypted x \<and> da_user_code y = da_user_code x \<and>
       da_created_at y = da_created_at x \<and> da_expires_at y = da_expires_at x \<and>
       (phase_of x = Paired \<longrightarrow> phase_of y = Paired))"
proof -
  have ok: "tables_ok d" "tables_ok d'"
    using keys.commits_T[OF assms(1)] keys.commit_T[OF assms(3)] assms(2) by (simp_all add: keeps_keys_def)
  have "phase_of x = Paired \<longleftrightarrow> da_consumed_at x \<noteq> None" for x
    by (simp add: phase_of_def)
  then show ?thesis
    using commit_auth_le[OF assms(3) ok _ assms(4)] commit_new_open[OF assms(3,4)]
    by (auto simp: auth_le_def)
qed

text \<open>A transaction is paired, and an overlapping poll that has seen it open stores \<^verbatim>\<open>slow_down\<close>.\<close>

definition paired_auth :: device_authorization_row where
  "paired_auth = status_row ''approved'' ''a@b.org'' 1000 sample_auth"

lemma update_sample_auth:
  "update_device_authorizations (\<lambda>r. da_id r = ''tx1'') f (sample_tables\<lparr>device_authorizations := [sample_auth]\<rparr>) =
     sample_tables\<lparr>device_authorizations := [f sample_auth]\<rparr>"
  "update_device_authorizations (\<lambda>r. da_id r = ''tx1'') f (sample_tables\<lparr>device_authorizations := [paired_auth]\<rparr>) =
     sample_tables\<lparr>device_authorizations := [f paired_auth]\<rparr>"
  by (simp_all add: update_device_authorizations_def sql_update_def sample_auth_def paired_auth_def status_row_def)

theorem transaction_lifecycle_witness:
  "phase_of paired_auth = Paired \<and> phase_of (interval_row 10 paired_auth) = Paired \<and>
   da_status (interval_row 10 paired_auth) = ''slow_down''"
proof -
  let ?d = "sample_tables\<lparr>device_authorizations := [paired_auth]\<rparr>"
  have same: "sample_tables\<lparr>device_authorizations := [sample_auth]\<rparr> = sample_tables"
    by (simp add: sample_tables_def)
  have "commit sample_tables ?d"
    using commit.set_status[of sample_tables "''tx1''" "''approved''" "''a@b.org''" 1000]
    by (simp add: update_sample_auth(1)[unfolded same] paired_auth_def)
  then have paired: "commit\<^sup>*\<^sup>* sample_tables ?d" by blast
  have "commit ?d (sample_tables\<lparr>device_authorizations := [interval_row 10 paired_auth]\<rparr>)"
    using commit.slow_down[of ?d "''tx1''" 10] by (simp add: update_sample_auth)
  from transaction_lifecycle[OF paired _ this] have "phase_of paired_auth = Paired \<longrightarrow>
      phase_of (interval_row 10 paired_auth) = Paired"
    using sample_consistent by (simp add: sample_world_def interval_row_def)
  moreover have "phase_of paired_auth = Paired"
    by (simp add: phase_of_def paired_auth_def status_row_def)
  ultimately show ?thesis
    by (simp add: interval_row_def)
qed

end
