(* ===== verification/OneRefresh.thy ===== *)
theory OneRefresh
  imports Commits
begin

text \<open>
  At most one refresh token of a device is good at a time, as long as no two requests overlap. (Two
  overlapping refreshes break it, see RefreshRotation.)
\<close>

definition well_kept :: "tables \<Rightarrow> bool" where
  "well_kept d \<longleftrightarrow> tables_ok d \<and> sessions_owned d \<and> one_live d"

definition keeps_well :: "tables \<Rightarrow> tables \<Rightarrow> bool" where
  "keeps_well d d' \<longleftrightarrow> (well_kept d \<longrightarrow> well_kept d')"

subsection \<open>Most statements make no session live\<close>

definition no_more_live :: "tables \<Rightarrow> tables \<Rightarrow> bool" where
  "no_more_live d d' \<longleftrightarrow> (\<forall>s \<in> set (refresh_sessions d'). live_refresh s \<longrightarrow> s \<in> set (refresh_sessions d))"

interpretation fewer: transaction_contract no_more_live UNIV
  by unfold_locales
    (auto simp: no_more_live_def live_refresh_def table_defs revoke_device_row_def revoke_refresh_rows_def
      revoke_access_rows_def map_sum_def set_sql_update split: sum.splits if_splits)

interpretation fewer: cleanup_contract no_more_live
  by unfold_locales (auto simp: no_more_live_def table_defs set_sql_delete)

lemma keeps_wellI: "keeps_keys d d' \<Longrightarrow> keeps_owned d d' \<Longrightarrow> no_more_live d d' \<Longrightarrow> keeps_well d d'"
  by (auto simp: keeps_well_def keeps_keys_def keeps_owned_def no_more_live_def well_kept_def one_live_def)

lemma well_transactions: "transaction_contract keeps_well UNIV"
proof (unfold_locales, goal_cases)
  case 1
  then show ?case by (simp add: keeps_well_def)
next
  case 2
  then show ?case by (simp add: keeps_well_def)
qed (rule keeps_wellI;
     (rule keys.T_insert_mobile_device keys.T_insert_audit_event keys.T_insert_device_authorization
       owned.T_insert_mobile_device owned.T_insert_audit_event owned.T_insert_device_authorization
       fewer.T_insert_mobile_device fewer.T_insert_audit_event fewer.T_insert_device_authorization; assumption)?;
     (rule keys.T_last_seen owned.T_last_seen fewer.T_last_seen keys.T_status owned.T_status fewer.T_status
       keys.T_poll_interval owned.T_poll_interval fewer.T_poll_interval keys.T_consumed owned.T_consumed
       fewer.T_consumed keys.T_revoke_refresh owned.T_revoke_refresh fewer.T_revoke_refresh
       keys.T_revoke_access owned.T_revoke_access fewer.T_revoke_access keys.T_revoke_sessions
       owned.T_revoke_sessions fewer.T_revoke_sessions keys.T_revoke_device owned.T_revoke_device
       fewer.T_revoke_device UNIV_I)+)+

lemma well_cleanup: "cleanup_contract keeps_well"
proof -
  have core: "core_contract keeps_well"
    using well_transactions by (simp add: transaction_contract_def)
  show ?thesis
    unfolding cleanup_contract_def cleanup_contract_axioms_def
    using core
    by (auto intro!: keeps_wellI intro: keys.T_delete_device_authorizations keys.T_delete_refresh_sessions
      keys.T_delete_access_sessions owned.T_delete_device_authorizations owned.T_delete_refresh_sessions
      owned.T_delete_access_sessions fewer.T_delete_device_authorizations fewer.T_delete_refresh_sessions
      fewer.T_delete_access_sessions)
qed

subsection \<open>Pairing gives a new device its first\<close>

lemma one_live_first:
  assumes "well_kept d" and "one_live d \<Longrightarrow> mobile_devices d' = mobile_devices d @ [m]"
    and "refresh_sessions d' = refresh_sessions d @ [s]" and "rs_device_id s = md_id m" and "tables_ok d'"
  shows "one_live d'"
proof -
  have "md_id m \<notin> device_ids d"
    using assms(1,2,5) by (auto simp: well_kept_def tables_ok_def keys_distinct_def)
  then have "\<forall>x \<in> set (refresh_sessions d). rs_device_id x \<noteq> rs_device_id s"
    using assms(1,4) unfolding well_kept_def sessions_owned_def by metis
  then show ?thesis
    using assms(1,3) unfolding one_live_def well_kept_def by (simp add: ball_Un) metis
qed

lemma well_pair_device: "state_io_rel (lift_rel keeps_well) (pair_device e h hw tid token email)"
proof (rule io_relI, rule wpI)
  fix w resp w'
  assume idle: "idle w" and run: "run_state (pair_device e h hw tid token email) w = (resp, w')"
  have kept: "idle w'" "tick w \<le> tick w'" "keeps_keys (db w) (db w')" "keeps_owned (db w) (db w')"
    using io_relD[OF keys.T_pair_device[OF UNIV_I] idle run] io_relD[OF owned.T_pair_device[OF UNIV_I] idle run]
    by blast+
  have "wp (pair_device e h hw tid token email) (\<lambda>_ w'. refresh_sessions (db w') = refresh_sessions (db w) \<or>
      (\<exists>m s. mobile_devices (db w') = mobile_devices (db w) @ [m] \<and>
         refresh_sessions (db w') = refresh_sessions (db w) @ [s] \<and> rs_device_id s = md_id m)) w"
    by (rule wp_pair_device[OF idle]) (auto simp: same_flows_def paired_def)
  then consider "refresh_sessions (db w') = refresh_sessions (db w)"
    | m s where "mobile_devices (db w') = mobile_devices (db w) @ [m]"
        "refresh_sessions (db w') = refresh_sessions (db w) @ [s]" "rs_device_id s = md_id m"
    using wpD[OF _ run] by blast
  then have "one_live (db w')" if "well_kept (db w)"
  proof cases
    case 1
    then show ?thesis using that by (simp add: well_kept_def one_live_def)
  next
    case 2
    then show ?thesis
      using that kept(3) by (intro one_live_first[OF that]) (auto simp: keeps_keys_def well_kept_def)
  qed
  then show "idle w' \<and> tick w \<le> tick w' \<and> keeps_well (db w) (db w')"
    using kept by (simp add: keeps_well_def well_kept_def keeps_keys_def keeps_owned_def)
qed

subsection \<open>A refresh replaces it\<close>

lemma pair_issued_one_live:
  assumes "one_live d" and "old \<in> set (refresh_sessions d)" and "live_refresh old"
    and "pair_issued e cfg d d' old acc ref"
  shows "one_live d'"
proof -
  obtain t new where new: "rs_device_id new = rs_device_id old"
    "refresh_sessions d' = sql_update (\<lambda>r. rs_id r = rs_id old) (\<lambda>r. r\<lparr>rs_rotated_at := Some t\<rparr>)
       (refresh_sessions d) @ [new]"
    using assms(4) by (auto simp: pair_issued_def)
  have "x \<in> set (refresh_sessions d) \<and> rs_device_id x \<noteq> rs_device_id new"
    if "x \<in> set (sql_update (\<lambda>r. rs_id r = rs_id old) (\<lambda>r. r\<lparr>rs_rotated_at := Some t\<rparr>) (refresh_sessions d))"
      "live_refresh x" for x
    using that new(1) assms(1-3) by (fastforce simp: set_sql_update live_refresh_def one_live_def)
  then show ?thesis
    using assms(1) unfolding one_live_def new(2) by (auto simp: eq_commute)
qed

lemma wp_refresh_one_live:
  assumes "idle w" and "one_live (db w)"
  shows "wp (handleRefreshSession e h hw r) (\<lambda>_ w'. one_live (db w')) w"
proof (rule wp_handleRefreshSession[OF assms(1)], goal_cases)
  case (1 resp n d)
  then show ?case using assms(2) by (auto simp: one_live_def dest!: insert_access_InrD)
next
  case (2 token old m acc ref ax rx d n)
  then have "old \<in> set (refresh_sessions (db w))" "live_refresh old"
    by (auto simp: refreshable_def live_refresh_def dest: sql_first_SomeD)
  then show ?case using 2 pair_issued_one_live[OF assms(2)] by simp
qed

lemma well_refresh: "state_io_rel (lift_rel keeps_well) (handleRefreshSession e h hw r)"
proof (rule io_relI, rule wpI)
  fix w resp w'
  assume idle: "idle w" and run: "run_state (handleRefreshSession e h hw r) w = (resp, w')"
  have "idle w'" "tick w \<le> tick w'" "keeps_keys (db w) (db w')" "keeps_owned (db w) (db w')"
    using io_relD[OF keys.T_handleRefreshSession idle run] io_relD[OF owned.T_handleRefreshSession idle run]
    by blast+
  moreover have "one_live (db w')" if "one_live (db w)"
    using wpD[OF wp_refresh_one_live[OF idle that] run] .
  ultimately show "idle w' \<and> tick w \<le> tick w' \<and> keeps_well (db w) (db w')"
    by (simp add: keeps_well_def well_kept_def keeps_keys_def keeps_owned_def)
qed

interpretation live: server_contract keeps_well
  by (intro server_contract.intro pairing_contract.intro polling_contract.intro polling_contract_axioms.intro
      server_contract_axioms.intro well_transactions well_cleanup well_pair_device well_refresh)

subsection \<open>At most one\<close>

text \<open>
  The writes of a refresh hand over correctly whatever has happened since its checks, as long as the session
  that was checked is still the live one that its token names; the code does not look again.
\<close>

lemma wp_issue_one_live:
  assumes "idle w" and "one_live (db w)"
    and "sql_first (\<lambda>r. rs_token_hash r = hash) (refresh_sessions (db w)) = Some old" and "live_refresh old"
    and "ref_ID sess = rs_id old" and "dev_ID dev = rs_device_id old"
  shows "wp (issue_refresh e h hw hash sess dev) (\<lambda>_ w'. one_live (db w')) w"
proof (rule wp_issue_refresh[OF assms(1)], goal_cases)
  case (1 resp n d)
  then show ?case using assms(2) by (auto simp: one_live_def dest!: insert_access_InrD)
next
  case (2 acc ref row d1 d2 newID t ex ax rx evs n)
  then have "pair_issued e (h_config h) (db w) (d2\<lparr>audit_events := evs\<rparr>) old acc ref"
    using assms(3,5,6) by (intro pair_issuedI) simp_all
  then show ?case
    using pair_issued_one_live[OF assms(2) _ assms(4)] sql_first_SomeD[OF assms(3)] by simp
qed

text \<open>
  C6. A request that no other request overlaps leaves the tables well kept when they were: primary keys
  unique, no session orphaned, and of each device at most one refresh session live, neither rotated nor
  revoked. A refresh replaces the live session of its device, a pairing gives a new device its first. Requests
  that do overlap can break this (RefreshRotation).
\<close>

theorem one_live_refresh_token:
  assumes "idle w" and "well_kept (db w)"
  shows "wp (serve dp r) (\<lambda>_ w'. well_kept (db w')) w"
  by (rule wpI) (use io_relD[OF live.rel_serve assms(1)] assms(2) in \<open>auto simp: keeps_well_def\<close>)

definition refresh_request :: request where
  "refresh_request = sample_request\<lparr>rq_Method := ''POST'', rq_Path := ''/v1/sessions/refresh''\<rparr>"

theorem one_live_refresh_token_witness:
  "well_kept (db (leaves (serve sample_deployment refresh_request) sample_world)) \<and>
   length (refresh_sessions (db (leaves (serve sample_deployment refresh_request) sample_world))) = 2"
proof
  have "well_kept (db sample_world)"
    using sample_consistent by (simp add: well_kept_def one_live_def sample_world_def sample_tables_def)
  then show "well_kept (db (leaves (serve sample_deployment refresh_request) sample_world))"
    using one_live_refresh_token[OF idle_sample, of sample_deployment refresh_request] by (simp add: wp_result)
  show "length (refresh_sessions (db (leaves (serve sample_deployment refresh_request) sample_world))) = 2"
    by code_simp
qed

end
