(* ===== verification/EndToEnd.thy ===== *)
theory EndToEnd
  imports OneRefresh
begin

text \<open>
  The components together: the access token that a poll hands out opens the Gateway to its bearer, and the
  cleanup takes nothing away that is still good.
\<close>

subsection \<open>From the poll to the proxy\<close>

text \<open>The clock stays, over the run, within the lifetime of a token that is issued in it.\<close>

definition lifetime_covers :: "env \<Rightarrow> int \<Rightarrow> bool" where
  "lifetime_covers e ttl \<longleftrightarrow> (\<forall>t t'. clock e t' \<le> unix_time (to_unix (clock e t + ttl)))"

lemma paired_holds_session:
  assumes "paired e cfg email acc ref d d'" and "tables_ok d'" and "lifetime_covers e (AccessTokenTTL cfg)"
    and "HashSecret e cfg acc \<notin> as_token_hash ` set (access_sessions d)"
  obtains a m where "holds_session e cfg d' acc a m" and "md_email m = email"
proof -
  obtain m a where m: "mobile_devices d' = mobile_devices d @ [m]" "md_email m = email" "md_revoked_at m = None"
      "md_metadata m = Some []"
    and a: "access_sessions d' = access_sessions d @ [a]" "as_device_id a = md_id m"
      "as_token_hash a = HashSecret e cfg acc" "as_revoked_at a = None"
      "\<exists>t. as_expires_at a = to_unix (clock e t + AccessTokenTTL cfg)"
    using assms(1) by (auto simp: paired_def)
  have "as_token_hash s' \<noteq> HashSecret e cfg acc" if "s' \<in> set (access_sessions d)" for s'
    using assms(4) that by force
  then have "holds_session e cfg d' acc a m"
    using assms(2,3) m a by (auto simp: holds_session_def lifetime_covers_def tables_ok_def)
  then show thesis using m(2) that by blast
qed

text \<open>
  C7. The two components meet: when a poll has handed out an access token, the bearer of that token is let through by
  the proxy, as a device with the e-mail address that GitHub has confirmed for the very transaction that was
  polled. Assumed are a database that works; that nobody has changed the tables since the poll; that the hash of
  the new token is not that of a stored session already; a clock that stays, at every tick, within the lifetime of the
  token; and that the request is not let in as a tailnet peer before its token is looked at.
\<close>

theorem paired_device_gets_in:
  assumes "idle w" and "tables_ok (db w)" and "no_db_faults e"
    and "lifetime_covers e (AccessTokenTTL (h_config h))"
    and "json_member (returns (handleGetDeviceAuthorization e h hw r) w) ''access_token'' = Some (JStr acc)"
    and "HashSecret e (h_config h) acc \<notin> as_token_hash ` set (access_sessions (db w))"
    and "idle w2" and "db w2 = db (leaves (handleGetDeviceAuthorization e h hw r) w)"
    and "bears r2 acc" and "\<not> tailnet_peer e (h_config h) (tick w2) remote"
  shows "wp (authenticateDevice e (h_config h) hw2 r2 remote) (\<lambda>res w'. \<exists>dev sess x.
    res = Inr (dev, sess) \<and>
    pollable (db w) (clock e (Suc (tick w))) (mux_var r ''transaction_id'') x \<and>
    confirmed_by_github e h x (dev_Email dev)) w2"
proof -
  let ?w' = "leaves (handleGetDeviceAuthorization e h hw r) w"
  have "wp (handleGetDeviceAuthorization e h hw r) (\<lambda>resp w'. json_member resp ''access_token'' = Some (JStr acc) \<longrightarrow>
      (\<exists>x email ref. pollable (db w) (clock e (Suc (tick w))) (mux_var r ''transaction_id'') x \<and>
         confirmed_by_github e h x email \<and> IsEmailAllowed e (h_config h) email \<and>
         paired e (h_config h) email acc ref (db w) (db w'))) w"
    by (rule wp_handleGetDeviceAuthorization[OF assms(1)]) auto
  then obtain x email ref where poll: "pollable (db w) (clock e (Suc (tick w))) (mux_var r ''transaction_id'') x"
    and x: "confirmed_by_github e h x email" "IsEmailAllowed e (h_config h) email"
    "paired e (h_config h) email acc ref (db w) (db ?w')"
    using assms(5) by (auto simp: wp_result)
  have "tables_ok (db ?w')"
    using io_relD[OF keys.rel_handleGetDeviceAuthorization[OF UNIV_I] assms(1) prod.collapse[symmetric]] assms(2)
    by (auto simp: keeps_keys_def)
  then obtain a m where m: "holds_session e (h_config h) (db w2) acc a m" "md_email m = email"
    using paired_holds_session[OF x(3) _ assms(4,6)] assms(8) by metis
  then obtain dev where dev: "scan_mobile_device m = Inr dev"
    by (auto simp: holds_session_def scan_mobile_device_def scan_text_def)
  then have "confirmed_by_github e h x (dev_Email dev)"
    using x(1) m(2) scan_mobile_device_InrD by simp
  then show ?thesis
    using bears_nonempty[OF assms(9)] assms(3,7,9) m x(2) poll
    by (intro wp_not_tailnet[OF assms(10)])
      (auto simp: wp_check_header bears_iff intro!: wp_check_token_found[OF _ _ _ dev])
qed

lemma sample_lifetime: "lifetime_covers (flow_env granted) (AccessTokenTTL sample_config)"
  by (simp add: lifetime_covers_def flow_env_clock sample_config_def to_unix_def unix_time_def Hour_def
      Second_def)

theorem paired_device_gets_in_witness:
  "\<exists>r2 dev sess. returns (authenticateDevice (flow_env granted) sample_config no_headers r2 ''x'')
     (leaves (handleGetDeviceAuthorization (flow_env granted) (NewHandler sample_config) no_headers
       sample_request) sample_world) = Inr (dev, sess)"
proof -
  let ?poll = "handleGetDeviceAuthorization (flow_env granted) (NewHandler sample_config) no_headers sample_request"
  let ?w' = "leaves ?poll sample_world"
  have cfg: "h_config (NewHandler sample_config) = sample_config" by (simp add: NewHandler_def)
  obtain acc where acc: "json_member (returns ?poll sample_world) ''access_token'' = Some (JStr acc)"
    by (rule sample_pairing_token)
  have "wp ?poll (\<lambda>resp w'. json_member resp ''access_token'' = Some (JStr acc) \<longrightarrow> set acc \<subseteq> set charset) sample_world"
    by (rule wp_handleGetDeviceAuthorization[OF idle_sample]) (auto simp: paired_def)
  then have chars: "set acc \<subseteq> set charset" using acc by (simp add: wp_result)
  have "CHR '' '' \<notin> set charset" by code_simp
  then have bears: "bears (sample_request\<lparr>rq_Header := Header_Set no_headers ''Authorization'' (''Bearer '' @ acc)\<rparr>) acc"
    using chars by (auto simp: bears_def Header_Get_Set)
  have "length (HashSecret (flow_env granted) sample_config acc) = 64"
    by (simp add: HashSecret_def flow_env_def)
  moreover have "length (HashSecret sample_env sample_config ''tok'') = 8"
    by code_simp
  ultimately have fresh: "HashSecret (flow_env granted) sample_config acc \<notin> as_token_hash ` set (access_sessions (db sample_world))"
    by (auto simp: sample_tables_def sample_access_def)
  have "idle ?w'"
    using io_relD[OF pool.rel_handleGetDeviceAuthorization[OF UNIV_I] idle_sample prod.collapse[symmetric]] by blast
  then show ?thesis
    using paired_device_gets_in[OF idle_sample sample_consistent(1) _ _ acc _ _ refl, unfolded cfg, OF _ sample_lifetime fresh _ bears sample_not_tailnet]
      flow_env_works[of granted]
    by (fastforce simp: wp_result nothing_fails_def)
qed

subsection \<open>The cleanup is harmless\<close>

lemma sql_first_delete: "sql_first p t = Some r \<Longrightarrow> \<not> q r \<Longrightarrow> sql_first p (sql_delete q t) = Some r"
  by (induction t) (auto simp: sql_first_def sql_delete_def split: if_splits)

lemma expired_before: "r < to_unix t \<Longrightarrow> t \<le> now \<Longrightarrow> \<not> now \<le> unix_time r"
  using unix_time_to_unix_le[of t] by (simp add: unix_time_def Second_def)

lemma removal_harmless:
  assumes old: "\<And>r. r < n \<Longrightarrow> \<not> now \<le> unix_time r" and "mobile_devices d' = mobile_devices d"
    and "device_authorizations d' \<in> {device_authorizations d,
      sql_delete (\<lambda>r. da_expires_at r < n \<and> da_status r \<noteq> ''approved'') (device_authorizations d)}"
    and "refresh_sessions d' \<in> {refresh_sessions d, sql_delete (\<lambda>r. rs_expires_at r < n) (refresh_sessions d)}"
    and "access_sessions d' \<in> {access_sessions d, sql_delete (\<lambda>r. as_expires_at r < n) (access_sessions d)}"
  shows "access_granted e cfg d' now = access_granted e cfg d now"
    and "refreshable e cfg d now \<le> refreshable e cfg d' now" and "pollable d now \<le> pollable d' now"
proof -
  have "s \<in> set (access_sessions d') \<longleftrightarrow> s \<in> set (access_sessions d)" if "now \<le> unix_time (as_expires_at s)" for s
    using assms(5) that old by (auto simp: set_sql_delete)
  then show "access_granted e cfg d' now = access_granted e cfg d now"
    using assms(2) by (auto simp: access_granted_def fun_eq_iff)
  have "sql_first p (refresh_sessions d') = Some s"
    if "sql_first p (refresh_sessions d) = Some s" "now \<le> unix_time (rs_expires_at s)" for p s
    using assms(4) that old[of "rs_expires_at s"] by (auto intro!: sql_first_delete)
  then show "refreshable e cfg d now \<le> refreshable e cfg d' now"
    using assms(2) by (auto simp: refreshable_def le_fun_def)
  have "sql_first p (device_authorizations d') = Some x"
    if "sql_first p (device_authorizations d) = Some x" "now \<le> unix_time (da_expires_at x)" for p x
    using assms(3) that old[of "da_expires_at x"] by (auto intro!: sql_first_delete)
  then show "pollable d now \<le> pollable d' now"
    by (auto simp: pollable_def le_fun_def)
qed

text \<open>
  C33. The removal of what has expired goes unnoticed: from its moment on, exactly the same access tokens are
  good as without it, a refresh token that can be exchanged still can, and a transaction that can be
  polled still can; whether it is carried out in full or stops at a failure.
\<close>

theorem cleanup_harmless:
  assumes "idle w" and "clock e (tick w) \<le> now"
  shows "wp (CleanupExpired e) (\<lambda>r w'.
    access_granted e cfg (db w') now = access_granted e cfg (db w) now \<and>
    refreshable e cfg (db w) now \<le> refreshable e cfg (db w') now \<and>
    pollable (db w) now \<le> pollable (db w') now) w"
proof -
  let ?n = "to_unix (clock e (tick w))"
  have "wp (CleanupExpired e) (\<lambda>_ w'. mobile_devices (db w') = mobile_devices (db w) \<and>
      device_authorizations (db w') \<in> {device_authorizations (db w),
        sql_delete (\<lambda>r. da_expires_at r < ?n \<and> da_status r \<noteq> ''approved'') (device_authorizations (db w))} \<and>
      refresh_sessions (db w') \<in> {refresh_sessions (db w), sql_delete (\<lambda>r. rs_expires_at r < ?n) (refresh_sessions (db w))} \<and>
      access_sessions (db w') \<in> {access_sessions (db w), sql_delete (\<lambda>r. as_expires_at r < ?n) (access_sessions (db w))}) w"
    using assms(1) by (simp add: CleanupExpired_def wp_simps Let_def table_defs split: option.splits)
  then show ?thesis
    by (rule wp_mono) (use removal_harmless[OF expired_before[OF _ assms(2)]] in blast)
qed

theorem cleanup_harmless_witness:
  "wp (CleanupExpired sample_env) (\<lambda>r w'. access_granted sample_env sample_config (db w') (unix_time 2000) ''tok''
     sample_access sample_device) sample_world"
proof -
  have "IsEmailAllowed sample_env sample_config ''A@b.org''"
    by code_simp
  then have "access_granted sample_env sample_config (db sample_world) (unix_time 2000) ''tok'' sample_access sample_device"
    by (simp add: access_granted_def sample_tables_def sample_access_def sample_device_def unix_time_def Second_def)
  moreover have "clock sample_env (tick sample_world) \<le> unix_time 2000"
    by (simp add: sample_env_def unix_time_def Second_def)
  ultimately show ?thesis
    by (intro wp_mono[OF cleanup_harmless[OF idle_sample, where cfg = sample_config]]) auto
qed

end
