(* ===== verification/Foundations.thy ===== *)
theory Foundations
  imports Samples
begin

text \<open>
  What the handlers build on: sealing and opening, the distribution of the random characters, the
  validated configuration with its allow list, and two operations of the store.
\<close>

subsection \<open>Sealing\<close>

text \<open>
  C36. What \<open>Encrypt\<close> returns, \<open>Decrypt\<close> opens under the same secret to the same plaintext, by the law
  of the primitive that opening undoes sealing; sealing fails only when there are no random bytes.
\<close>

theorem secret_box_roundtrip:
  assumes "crypto_laws e"
  shows "wp (Encrypt e p key) (\<lambda>r w'. case r of
      Inl err \<Rightarrow> rand_fault e (tick w) = Some err
    | Inr sealed \<Rightarrow> Decrypt e sealed key = Inr p) w"
  using assms by (simp add: wp_Encrypt Decrypt_sealed Let_def split: option.splits)

definition sealing_env :: env where
  "sealing_env = flow_env granted"

lemma sealing_laws: "crypto_laws sealing_env"
  by (auto simp: crypto_laws_def sealing_env_def flow_env_def sample_env_def min_def)

theorem secret_box_roundtrip_witness:
  "wp (Encrypt sealing_env ''code'' ''s3cret'') (\<lambda>r w'. \<exists>sealed. r = Inr sealed \<and>
     Decrypt sealing_env sealed ''s3cret'' = Inr ''code'') sample_world"
proof -
  have "rand_fault sealing_env t = None" for t
    by (simp add: sealing_env_def flow_env_def sample_env_def)
  then show ?thesis
    by (intro wp_mono[OF secret_box_roundtrip[OF sealing_laws]]) (auto split: sum.splits)
qed

subsection \<open>Random characters\<close>

lemma charset_at_nat: "n < 256 \<Longrightarrow> charset_at (word_of_nat n) = charset ! (n mod 62)"
  by (simp add: charset_at_def length_charset unat_mod unat_of_nat)

lemma distinct_charset: "distinct charset"
  unfolding charset_def by code_simp

lemma residues:
  fixes i :: nat
  assumes "i < 62"
  shows "{n. n < 256 \<and> n mod 62 = i} = (\<lambda>k. i + 62 * k) ` {..<(if i < 8 then 5 else 4)}"
proof (intro equalityI subsetI)
  fix n
  assume "n \<in> {n. n < 256 \<and> n mod 62 = i}"
  then have n: "n < 256" "n mod 62 = i" by simp_all
  define k where "k = n div 62"
  have k: "n = i + 62 * k"
    using n(2) mod_mult_div_eq[of n 62] by (simp add: k_def)
  then have "k < (if i < 8 then 5 else 4)"
    using n(1) by (cases "i < 8") simp_all
  then show "n \<in> (\<lambda>k. i + 62 * k) ` {..<(if i < 8 then 5 else 4)}"
    using k by blast
next
  fix n
  assume "n \<in> (\<lambda>k. i + 62 * k) ` {..<(if i < 8 then 5 else 4)}"
  then obtain k where k: "n = i + 62 * k" "k < (if i < 8 then 5 else 4)" by blast
  then have "n < 256" using assms by (cases "i < 8") simp_all
  then show "n \<in> {n. n < 256 \<and> n mod 62 = i}" using k(1) assms by simp
qed

lemma bytes_of_char:
  assumes "i < 62"
  shows "card {b. charset_at b = charset ! i} = (if i < 8 then 5 else 4)"
proof -
  have "{b :: byte. charset_at b = charset ! i} = word_of_nat ` {n. n < 256 \<and> n mod 62 = i}"
  proof (intro equalityI subsetI)
    fix b :: byte
    assume "b \<in> {b. charset_at b = charset ! i}"
    moreover have b: "b = word_of_nat (unat b)" "unat b < 256"
      using unsigned_less[of b] by simp_all
    ultimately have "charset ! (unat b mod 62) = charset ! i"
      using charset_at_nat by fastforce
    then have "unat b mod 62 = i"
      using assms distinct_charset by (simp add: nth_eq_iff_index_eq length_charset)
    then show "b \<in> word_of_nat ` {n. n < 256 \<and> n mod 62 = i}"
      using b by (intro image_eqI[of _ _ "unat b"]) auto
  qed (auto simp: charset_at_nat)
  moreover have "inj_on (word_of_nat :: nat \<Rightarrow> byte) {n. n < 256 \<and> n mod 62 = i}"
  proof (rule inj_onI)
    fix n m
    assume "n \<in> {n. n < 256 \<and> n mod 62 = i}" "m \<in> {n. n < 256 \<and> n mod 62 = i}"
      "(word_of_nat n :: byte) = word_of_nat m"
    then have "unat (word_of_nat n :: byte) = unat (word_of_nat m :: byte)" "n < 256" "m < 256" by simp_all
    then show "n = m" by (simp add: unat_of_nat)
  qed
  ultimately have "card {b. charset_at b = charset ! i} = card {n. n < 256 \<and> n mod 62 = i}"
    by (simp add: card_image)
  also have "\<dots> = (if i < 8 then 5 else 4)"
    unfolding residues[OF assms] by (subst card_image) (auto simp: inj_on_def)
  finally show ?thesis .
qed

text \<open>
  C37. The random characters are nearly uniform: of the 256 values of a random byte, each of the 62
  characters is chosen by four or five, the first eight of the alphabet by five.
\<close>

theorem charset_nearly_uniform:
  "map (\<lambda>c. card {b. charset_at b = c}) charset = replicate 8 5 @ replicate 54 4"
proof (rule nth_equalityI)
  fix i
  assume "i < length (map (\<lambda>c. card {b. charset_at b = c}) charset)"
  then show "map (\<lambda>c. card {b. charset_at b = c}) charset ! i = (replicate 8 5 @ replicate 54 4) ! i"
    by (simp add: length_charset bytes_of_char nth_append)
qed (simp add: length_charset)

subsection \<open>The configuration\<close>

text \<open>
  C35. A configuration that loads is complete: a client id, a secret of at least 32 bytes, an address to
  allow, a port to listen on for each kind of listener, an identity for the tailnet when it is trusted,
  and what the certificate manager needs when TLS is enabled.
\<close>

theorem loaded_config_valid:
  assumes "LoadConfig e = Inr cfg"
  shows "GitHubClientID cfg \<noteq> [] \<and> 32 \<le> length (ServerSecret cfg) \<and> AllowedEmails cfg \<noteq> [] \<and>
    [] \<notin> (if TailnetEnabled cfg then {TailnetIdentity cfg} else {}) \<union>
      (if TLSEnabled cfg then {TLSDomain cfg, TLSEmail cfg, TLSCloudflareToken cfg} else {}) \<and>
    ListenPorts cfg \<noteq> [] \<and> TLSPorts cfg \<noteq> []"
proof -
  have "parseListenPorts s a \<noteq> []" for s a
    by (simp add: parseListenPorts_def Let_def addr_port_nonempty)
  then have "ListenPorts (read_config e) \<noteq> []" "TLSPorts (read_config e) \<noteq> []"
    by (simp_all add: read_config_def Let_def)
  then show ?thesis
    using assms by (auto simp: LoadConfig_def Let_def split: if_splits)
qed

definition loading_env :: env where
  "loading_env = sample_env\<lparr>LookupEnv := map_of
     [(''GITHUB_CLIENT_ID'', ''client''), (''SERVER_SECRET'', replicate 32 CHR ''s''),
      (''ALLOWED_EMAILS'', '' A@b.org,, c@d.org ''), (''LISTEN_PORTS'', ''80, 8080'')]\<rparr>"

lemma loading_lookup:
  "getEnv loading_env ''GITHUB_CLIENT_ID'' [] = ''client''"
  "getEnv loading_env ''SERVER_SECRET'' [] = replicate 32 CHR ''s''"
  "getEnv loading_env ''ALLOWED_EMAILS'' [] = '' A@b.org,, c@d.org ''"
  "getEnv loading_env ''TAILNET_ENABLED'' d = d" "getEnv loading_env ''TLS_ENABLED'' d = d"
  "getEnv loading_env ''LISTEN_PORTS'' [] = ''80, 8080''"
  by (simp_all add: getEnv_def loading_env_def sample_env_def)

lemma loading_config:
  "LoadConfig loading_env = Inr (read_config loading_env)" "\<not> TLSEnabled (read_config loading_env)"
proof -
  have "parseEmails loading_env '' A@b.org,, c@d.org '' = [''a@b.org'', ''c@d.org'']"
    by code_simp
  then show "LoadConfig loading_env = Inr (read_config loading_env)" "\<not> TLSEnabled (read_config loading_env)"
    by (simp_all add: LoadConfig_def read_config_def Let_def loading_lookup)
qed

theorem loaded_config_valid_witness: "ListenPorts (read_config loading_env) \<noteq> []"
  using loaded_config_valid[OF loading_config(1)] by blast

text \<open>
  C34. With a configuration that loads, an address is allowed exactly when, but for case, it is one of
  the addresses written in ALLOWED_EMAILS, spaces around them and empty ones left aside.
\<close>

theorem allow_list_as_written:
  assumes "LoadConfig e = Inr cfg"
  shows "IsEmailAllowed e cfg email \<longleftrightarrow>
    ToLower (uni_lower e) email \<in> ToLower (uni_lower e) `
      (TrimSpace ` set (Split (getEnv e ''ALLOWED_EMAILS'' []) CHR '','') - {[]})"
proof -
  have "AllowedEmails cfg = parseEmails e (getEnv e ''ALLOWED_EMAILS'' [])"
    using assms by (auto simp: LoadConfig_def read_config_def Let_def split: if_splits)
  then show ?thesis
    by (auto simp: IsEmailAllowed_iff parseEmails_def keep_emails_eq)
qed

theorem allow_list_as_written_witness: "IsEmailAllowed loading_env (read_config loading_env) ''C@D.ORG''"
proof -
  have "ToLower (uni_lower loading_env) ''C@D.ORG'' = ToLower (uni_lower loading_env) ''c@d.org''"
    "''c@d.org'' \<in> TrimSpace ` set (Split '' A@b.org,, c@d.org '' CHR '','') - {[]}"
    by code_simp+
  then show ?thesis
    using allow_list_as_written[OF loading_config(1)] by (simp add: loading_lookup)
qed

subsection \<open>Two operations of the store\<close>

lemma device_revoked: "\<forall>m \<in> set (mobile_devices (revoke_access_rows t k (revoke_refresh_rows t k (revoke_device_row t k d)))).
    md_id m = k \<longrightarrow> md_revoked_at m \<noteq> None"
  by (simp add: revoke_access_rows_def revoke_refresh_rows_def revoke_device_row_def table_defs sql_update_def ball_Un)

text \<open>
  Revoking a device is all or nothing, wherever the transaction fails: either nothing has changed,
  or the device and every session of it are revoked; and the connection is given back.
\<close>

lemma revoke_device_all_or_nothing:
  assumes "idle w"
  shows "wp (RevokeMobileDevice e k) (\<lambda>r w'. idle w' \<and> (case r of
      Inl err \<Rightarrow> db w' = db w
    | Inr _ \<Rightarrow> cut_off (db w') k \<and>
        (\<forall>m \<in> set (mobile_devices (db w')). md_id m = k \<longrightarrow> md_revoked_at m \<noteq> None))) w"
  by (rule wp_RevokeMobileDevice[OF assms]) (use assms in \<open>auto simp: cut_off_revoked device_revoked\<close>)

text \<open>
  The cleanup removes exactly what has expired: a session that has not, and a transaction that has
  been approved, stay.
\<close>

lemma cleanup_exact:
  assumes "idle w" and "no_db_faults e"
  shows "wp (CleanupExpired e) (\<lambda>r w'. r = Inr () \<and> db w' = (db w)
    \<lparr>device_authorizations := filter (\<lambda>x. to_unix (clock e (tick w)) \<le> da_expires_at x \<or> da_status x = ''approved'')
       (device_authorizations (db w)),
     refresh_sessions := filter (\<lambda>x. to_unix (clock e (tick w)) \<le> rs_expires_at x) (refresh_sessions (db w)),
     access_sessions := filter (\<lambda>x. to_unix (clock e (tick w)) \<le> as_expires_at x) (access_sessions (db w))\<rparr>) w"
  using assms
  by (simp add: CleanupExpired_def wp_simps Let_def table_defs sql_delete_def not_less)

end
