(* ===== verification/Spec2Isabelle.thy ===== *)
theory Spec2Isabelle
  imports EndToEnd Foundations
begin

text \<open>
  A verification development for the mobile authentication broker of this repository, the Go program
  under \<^verbatim>\<open>src/mobile-auth-broker\<close>.

  \<^bold>\<open>The program.\<close> The broker stands in front of a Gateway. A mobile client starts a GitHub device flow
  with it, polls it, and gets an access and a refresh token when GitHub has confirmed an e-mail address
  that is on the allow list. With the access token the client reaches the Gateway, by plain reads or by a
  WebSocket that the broker relays; the refresh token is exchanged for a new pair, once. Peers of a
  tailnet may pass without a token. State: five SQLite tables (transactions, devices, refresh sessions,
  access sessions, audit events), reached over one database connection; the certificate manager's
  certificate and its files; the open WebSocket sessions.

  \<^bold>\<open>The theories, bottom up.\<close>

  \<^item> Prelude: effects as the state monad of the library with Go's early return (\<open>on_err\<close>), weakest
    preconditions (\<open>wp\<close>; the collections \<open>wp_simps\<close> and \<open>wp_err\<close>), the locale \<open>history\<close> of relations
    between the states before and after an effect (the collection \<open>io_rel\<close>), lists that only grow.
  \<^item> GoStd, Json, Http: what the code uses of Go's standard library: errors, 64-bit integers, times, byte
    strings, \<^verbatim>\<open>strings\<close>, \<^verbatim>\<open>strconv\<close>, \<^verbatim>\<open>net.SplitHostPort\<close>, \<^verbatim>\<open>encoding/hex\<close>, JSON values, requests,
    header maps, responses.
  \<^item> Sql, World, DbTables: tables as lists of rows, statements, the locale \<open>primary_key_table\<close> with an
    interpretation for each of the five tables; the world (tables, connection, tick, requests sent) and
    the environment \<open>env\<close>; transactions with \<^verbatim>\<open>Begin\<close>, \<^verbatim>\<open>Commit\<close> and the deferred \<^verbatim>\<open>Rollback\<close>.
  \<^item> Models: \<^verbatim>\<open>internal/models/models.go\<close>. Crypto: \<^verbatim>\<open>internal/utils\<close> (\<^verbatim>\<open>Encrypt\<close>, \<^verbatim>\<open>Decrypt\<close>,
    \<^verbatim>\<open>GenerateRandomString\<close>, \<^verbatim>\<open>GenerateTokenPair\<close>). Config: \<^verbatim>\<open>internal/config/config.go\<close> with
    \<^verbatim>\<open>time.ParseDuration\<close>.
  \<^item> DbDeviceAuth, DbSessions, DbAudit, Database: the operations of \<^verbatim>\<open>internal/db\<close>, one definition per
    method, each with its weakest precondition.
  \<^item> Store: the contract between the store and its clients. A relation on the tables that every statement
    moves along is one that every handler and every step of the broker moves along. The locales are the
    parts of it that different relations need: \<open>core_contract\<close>, \<open>transaction_contract\<close> (for the
    transactions in a set), \<open>session_contract\<close> (for the devices in a set), \<open>cleanup_contract\<close>, and
    their combinations \<open>insert_contract\<close>, \<open>flow_contract\<close>, \<open>statement_contract\<close>, \<open>table_contract\<close>,
    \<open>full_contract\<close>; upwards \<open>polling_contract\<close> and \<open>pairing_contract\<close> (HandlerDevice),
    \<open>server_contract\<close> (Server), \<open>commit_contract\<close> and \<open>foreign_key_contract\<close> (Ownership). The
    interpretations: \<open>pool\<close> (the connection is given back), \<open>keys\<close> (primary keys stay unique),
    \<open>growth\<close> (rows evolve, nothing is un-revoked), \<open>audit\<close> (the log is appended to), \<open>owned\<close> (no session
    is orphaned, in Ownership), \<open>others\<close> (the transactions of others are left alone, in Lifecycle),
    \<open>commits\<close> (everything is a sequence of commits, in Commits), \<open>fewer\<close> and \<open>live\<close> (a request alone leaves at
    most one live refresh session of a device, in OneRefresh).
  \<^item> GitHub: \<^verbatim>\<open>internal/github/github.go\<close>. HandlerBase, HandlerDevice, HandlerSession:
    \<^verbatim>\<open>internal/handler\<close> (health checks and middleware; the two endpoints of the device flow; the two
    of the sessions). A long handler is cut into named parts in the order of the code, for example
    \<open>handleGetDeviceAuthorization\<close>, \<open>poll_github\<close>, \<open>complete_flow\<close>, \<open>pair_device\<close>, \<open>finish_pairing\<close>.
  \<^item> Proxy, WebSocket: \<^verbatim>\<open>internal/proxy/proxy.go\<close> and \<^verbatim>\<open>internal/tailnet/tailnet.go\<close>. The two
    goroutines of a WebSocket session and the handler that waits for them are the step relations
    \<open>pump_step\<close> and \<open>relay_step\<close>.
  \<^item> TlsCert: \<^verbatim>\<open>internal/tlscert/tlscert.go\<close>, with a world of its own (files and the certificate).
  \<^item> Server: \<^verbatim>\<open>cmd/main.go\<close> (routes, dispatch, the start: \<open>process_state\<close> holds the ports that are being served, the
    plain ones from before TLS is set up, and \<open>Fatal\<close> ends a process that may have been serving them). Broker: the step relation of the whole, over
    the world and the open sessions, and the life of the process (\<open>life_step\<close>).

  \<^bold>\<open>What is shown.\<close> Commits: the store as a transition system, which every run of the broker refines, and what
  no interleaving of commits breaks: integrity, that sessions and devices only tighten, that a transaction
  starts open, stays the same and stays paired. BrokerSafety: the invariants of all runs (the connection is given
  back, open WebSocket sessions belong to allowed addresses), that nothing reaches the Gateway unvouched, which
  ports are served during and after a start. DevicePairing: what a poll may hand out, what it stores, that
  GitHub's token is given back on every path, what later polls see. RefreshRotation: a success, a failure, a
  replay, and two overlapping refreshes, which both succeed. OneRefresh: a request alone leaves a device at most one live
  refresh session. Lifecycle: the phases of a transaction as a specification, which a request alone respects, and
  overlapping polls that do not. ProxyAccess: soundness and completeness of the authentication, the plain HTTP
  path, the tailnet bypass by header. EndToEnd: the token a poll hands out opens the proxy; the cleanup takes
  nothing away that is good. Relaying: order, limits and close codes of the relay, that it refines a pair of
  channels, that it ends. TlsRenewal: the listeners never lose their certificate, restarts, renewals.
  Foundations: sealing, random characters, the configuration, two operations of the store. Samples holds the
  concrete inputs the properties are applied to.

  \<^bold>\<open>Time and faults.\<close> Every interaction with the outside takes the next number of \<open>tick\<close>, and the
  environment answers as a function of it. Nothing else is assumed: the clock may go back, and any
  statement, request or call may fail at any point. Where a property needs a working database or the
  laws of the primitives (\<open>no_db_faults\<close>, \<open>nothing_fails\<close>, \<open>crypto_laws\<close>), its statement says so.

  \<^bold>\<open>Bounds.\<close> Integers that Go holds in 64 bits wrap (\<open>wrap64\<close>) where a product or a sum may leave the
  range. \<open>duration_groups\<close> has fuel: the length of the string, which is enough because every group
  consumes a character. \<open>renewLoop\<close> is the first \<open>n\<close> ticks of a loop that never ends. All other
  recursion is structural or has a measure.

  \<^bold>\<open>Parameters.\<close> \<open>env\<close>: clock, random bytes, faults of database and system calls, replies of GitHub and the
  Gateway, \<^verbatim>\<open>tailscale whois\<close>, SHA-256 and AES-GCM, \<^verbatim>\<open>strings.ToLower\<close> beyond ASCII, time formats, the
  process environment, floating point. \<open>websocket_lib\<close>: the upgrade and the dialling of gorilla/websocket.
  \<open>mux_lib\<close>: which route gorilla/mux picks. \<open>tls_env\<close>: files, keys, PEM and the ACME client. \<open>net_lib\<close>: what
  \<^verbatim>\<open>net.Listen\<close> comes to.

  \<^bold>\<open>Concurrency.\<close> \<^verbatim>\<open>net/http\<close> serves every request in a goroutine of its own; the single connection of the pool
  makes each statement, or each transaction, atomic, and nothing else. In \<open>broker_step\<close> a request is one
  step, and the steps of the relays and the cleanup come in between in any order: its runs are those in which no
  two requests overlap, and what a property says of a single request (\<open>wp\<close>, \<open>returns\<close>) it says of one during
  which nobody else writes to the tables. (That the connection is given back does not hang on this: every
  operation of the store gives it back itself.) For the tables, Commits covers the interleavings within all handlers: a handler changes them only by commits, single
  statements or whole transactions; the guard of an inserted session (its device is stored) is never undone by
  others; and the properties of commit sequences do not ask who commits when. What does hang on a request being
  alone is said to (OneRefresh, the phases of Lifecycle), and the interleavings that break it are properties of
  their own: two refreshes with one token that both succeed, an overlapping poll that reopens a closed
  transaction.

  \<^bold>\<open>Not modelled.\<close> Logging. \<^verbatim>\<open>DB.Close\<close>: no state is left after it. Timeouts of servers and clients: a timeout is one of the failures. What
  \<^verbatim>\<open>httputil.ReverseProxy\<close> does with a request it is given. The accessors of \<^verbatim>\<open>acmeUser\<close>, which only the
  ACME library calls. The texts of response bodies inside error messages. The tests, the Helm chart,
  the images and the scripts.
\<close>

end
